(* ===== verification/Prelude.thy ===== *)
theory Prelude
  imports Complex_Main "HOL-Library.Word" "HOL-Library.Multiset"
begin

text \<open>
  Shared vocabulary of the development.

  \<^item> \<open>error\<close> is Go's \<open>error\<close> value as the program distinguishes it: the sentinel errors it
    compares with \<open>errors.Is\<close>, an error built with \<open>fmt.Errorf\<close>, an error handed back by a
    third-party call, and the two ways a goroutine ends without returning (\<open>log.Fatalf\<close> and a
    run-time panic).
  \<^item> \<open>('l, 'a) logged\<close> is the result of a Go function that may write audit records and may fail:
    the records written, in order, and either the error or the value.  \<open>andThen\<close> is the
    \<open>if err != nil { return err }\<close> sequencing, \<open>forM\<close> a \<open>for\<close> loop over a slice that threads a
    state and stops at the first error.
  \<^item> \<open>update_where\<close>, \<open>distinct_on\<close> and \<open>max_key\<close> are the fragments of SQL the storage layer uses
    (\<open>UPDATE ... WHERE\<close>, \<open>SELECT DISTINCT ON\<close>, \<open>MAX\<close>), over tables kept as lists of rows.
\<close>

section \<open>Names and collections\<close>

named_theorems logged_simps \<open>rewrites for results with an audit trail\<close>
named_theorems table_simps \<open>rewrites for tables kept as lists of rows\<close>
named_theorems inv_intros \<open>preservation of the storage invariants\<close>

type_synonym byte = "8 word"
type_synonym u32 = "32 word"
type_synonym u64 = "64 word"

section \<open>Errors\<close>

datatype error =
    ErrNotFound
  | ErrTimeoutExceeded
  | MismatchHead
  | ErrNoRows
  | UniqueViolation string
  | Errorf string
  | LibError string
  | Fatalf string
  | Panicf string

section \<open>Results with an audit trail\<close>

type_synonym ('l, 'a) logged = "'l list \<times> (error + 'a)"

definition ok :: "'a \<Rightarrow> ('l, 'a) logged" where
  "ok x = ([], Inr x)"

definition fail :: "error \<Rightarrow> ('l, 'a) logged" where
  "fail e = ([], Inl e)"

definition noting :: "'l \<Rightarrow> ('l, 'a) logged \<Rightarrow> ('l, 'a) logged" where
  "noting l m = (l # fst m, snd m)"

definition lift_res :: "error + 'a \<Rightarrow> ('l, 'a) logged" where
  "lift_res r = ([], r)"

definition andThen :: "('l, 'a) logged \<Rightarrow> ('a \<Rightarrow> ('l, 'b) logged) \<Rightarrow> ('l, 'b) logged" where
  "andThen m f =
     (case snd m of
        Inl e \<Rightarrow> (fst m, Inl e)
      | Inr x \<Rightarrow> (fst m @ fst (f x), snd (f x)))"

definition andThenR :: "error + 'a \<Rightarrow> ('a \<Rightarrow> error + 'b) \<Rightarrow> error + 'b" where
  "andThenR m f = (case m of Inl e \<Rightarrow> Inl e | Inr x \<Rightarrow> f x)"

text \<open>\<open>if err != nil { log.Fatalf(...) }\<close>: the process ends, whatever the error was.\<close>

definition orFatal :: "string \<Rightarrow> error + 'a \<Rightarrow> error + 'a" where
  "orFatal msg m = (case m of Inl e \<Rightarrow> Inl (Fatalf msg) | Inr x \<Rightarrow> Inr x)"

primrec forM :: "('x \<Rightarrow> 's \<Rightarrow> ('l, 's) logged) \<Rightarrow> 'x list \<Rightarrow> 's \<Rightarrow> ('l, 's) logged" where
  "forM f [] s = ok s"
| "forM f (x # xs) s = andThen (f x s) (forM f xs)"

lemma ok_simps [simp, logged_simps]: "fst (ok x) = []" "snd (ok x) = Inr x"
  by (simp_all add: ok_def)

lemma fail_simps [simp, logged_simps]: "fst (fail e) = []" "snd (fail e) = Inl e"
  by (simp_all add: fail_def)

lemma noting_simps [simp, logged_simps]: "fst (noting l m) = l # fst m" "snd (noting l m) = snd m"
  by (simp_all add: noting_def)

lemma lift_res_simps [simp, logged_simps]: "fst (lift_res r) = []" "snd (lift_res r) = r"
  by (simp_all add: lift_res_def)

lemma andThen_Inl [simp]: "snd m = Inl e \<Longrightarrow> andThen m f = (fst m, Inl e)"
  by (simp add: andThen_def)

lemma andThen_Inr [simp]: "snd m = Inr x \<Longrightarrow> andThen m f = (fst m @ fst (f x), snd (f x))"
  by (simp add: andThen_def)

lemma andThen_ok [simp]: "andThen (ok x) f = f x"
  by (simp add: andThen_def ok_def)

lemma andThen_fail [simp]: "andThen (fail e) f = fail e"
  by (simp add: andThen_def fail_def)

lemma andThen_right_ok [simp]: "andThen m ok = m"
  by (cases m; cases "snd m") (auto simp: andThen_def ok_def)

lemma andThen_assoc: "andThen (andThen m f) g = andThen m (\<lambda>x. andThen (f x) g)"
  by (auto simp: andThen_def split: sum.splits)

lemma andThen_success:
  "snd (andThen m f) = Inr y \<longleftrightarrow> (\<exists>x. snd m = Inr x \<and> snd (f x) = Inr y)"
  by (auto simp: andThen_def split: sum.splits)

lemma andThen_failure:
  "snd (andThen m f) = Inl e \<longleftrightarrow> snd m = Inl e \<or> (\<exists>x. snd m = Inr x \<and> snd (f x) = Inl e)"
  by (auto simp: andThen_def split: sum.splits)

lemma andThenR_success: "andThenR m f = Inr y \<longleftrightarrow> (\<exists>x. m = Inr x \<and> f x = Inr y)"
  by (auto simp: andThenR_def split: sum.splits)

lemma andThenR_simps [simp]: "andThenR (Inl e) f = Inl e" "andThenR (Inr x) f = f x"
  by (simp_all add: andThenR_def)

lemma orFatal_simps [simp]: "orFatal msg (Inl e) = Inl (Fatalf msg)" "orFatal msg (Inr x) = Inr x"
  by (simp_all add: orFatal_def)

lemma orFatal_success: "orFatal msg m = Inr x \<longleftrightarrow> m = Inr x"
  by (cases m) simp_all

lemma forM_append: "forM f (xs @ ys) = (\<lambda>s. andThen (forM f xs s) (forM f ys))"
proof (induction xs)
  case Nil
  show ?case by (rule ext) simp
next
  case (Cons x xs)
  show ?case by (rule ext) (simp add: Cons andThen_assoc)
qed

lemma forM_Cons_success:
  "snd (forM f (x # xs) s) = Inr t \<longleftrightarrow> (\<exists>u. snd (f x s) = Inr u \<and> snd (forM f xs u) = Inr t)"
  by (simp add: andThen_success)

text \<open>The loop rule: what every successful round keeps, a successful loop keeps.\<close>

lemma forM_invariant:
  assumes "snd (forM f xs s) = Inr t" and "P s"
    and "\<And>x u v. x \<in> set xs \<Longrightarrow> P u \<Longrightarrow> snd (f x u) = Inr v \<Longrightarrow> P v"
  shows "P t"
  using assms
proof (induction xs arbitrary: s)
  case Nil
  then show ?case by simp
next
  case (Cons x xs)
  from Cons.prems(1) obtain u where u: "snd (f x s) = Inr u" and rest: "snd (forM f xs u) = Inr t"
    unfolding forM_Cons_success by blast
  have "P u" using Cons.prems(3)[OF _ Cons.prems(2) u] by simp
  with rest show ?case using Cons.prems(3) by (intro Cons.IH) auto
qed

text \<open>What no successful round changes, a successful loop does not change.\<close>

lemma forM_same:
  assumes "snd (forM f xs s) = Inr t" and "\<And>x u v. snd (f x u) = Inr v \<Longrightarrow> g v = g u"
  shows "g t = g s"
  using assms(1) by (rule forM_invariant[where P = "\<lambda>u. g u = g s"]) (simp_all add: assms(2))

text \<open>A round that fails in every state the loop can bring it makes the loop fail.\<close>

lemma forM_fails:
  assumes "x \<in> set xs" "P s"
    and "\<And>u. P u \<Longrightarrow> \<exists>e. snd (f x u) = Inl e"
    and "\<And>y u v. P u \<Longrightarrow> snd (f y u) = Inr v \<Longrightarrow> P v"
  shows "\<exists>e. snd (forM f xs s) = Inl e"
  using assms(1,2)
proof (induction xs arbitrary: s)
  case Nil
  then show ?case by simp
next
  case (Cons y ys)
  show ?case
  proof (cases "snd (f y s)")
    case (Inl e)
    then show ?thesis by simp
  next
    case (Inr u)
    then have "P u" using assms(4)[OF Cons.prems(2)] by blast
    moreover have "x \<noteq> y" using assms(3)[OF Cons.prems(2)] Inr by auto
    ultimately show ?thesis using Cons Inr by simp
  qed
qed

text \<open>A loop whose rounds all succeed is a \<open>fold\<close>.\<close>

lemma forM_fold:
  assumes "\<And>x s. x \<in> set xs \<Longrightarrow> f x s = ok (g x s)"
  shows "forM f xs s = ok (fold g xs s)"
  using assms by (induction xs arbitrary: s) simp_all

text \<open>
  The contract of a step that runs inside a transaction: a successful step keeps the invariant and
  relates the states before and after it.  A loop over the step then does the same.
\<close>

locale tx_step =
  fixes step :: "'x \<Rightarrow> 's \<Rightarrow> ('l, 's) logged"
    and inv :: "'s \<Rightarrow> bool"
    and rel :: "'s \<Rightarrow> 's \<Rightarrow> bool"
  assumes rel_refl: "rel s s"
    and rel_trans: "rel s t \<Longrightarrow> rel t u \<Longrightarrow> rel s u"
    and step_inv: "inv s \<Longrightarrow> snd (step x s) = Inr t \<Longrightarrow> inv t"
    and step_rel: "inv s \<Longrightarrow> snd (step x s) = Inr t \<Longrightarrow> rel s t"
begin

lemma loop_ok: "inv s \<Longrightarrow> snd (forM step xs s) = Inr t \<Longrightarrow> inv t \<and> rel s t"
  by (rule forM_invariant[where P = "\<lambda>u. inv u \<and> rel s u"])
    (auto intro: rel_refl rel_trans step_inv step_rel)

lemmas loop_inv = loop_ok [THEN conjunct1]
lemmas loop_rel = loop_ok [THEN conjunct2]

end

section \<open>Actions on a state\<close>

text \<open>
  A Go function that changes a state with every call it makes, writes audit records and may fail:
  the state it reached is kept when it fails, as there is no transaction around it.
\<close>

type_synonym ('s, 'l, 'a) action = "'s \<Rightarrow> 's \<times> ('l, 'a) logged"

definition retA :: "'a \<Rightarrow> ('s, 'l, 'a) action" where
  "retA x s = (s, ok x)"

definition failA :: "error \<Rightarrow> ('s, 'l, 'a) action" where
  "failA e s = (s, fail e)"

definition liftA :: "('l, 'a) logged \<Rightarrow> ('s, 'l, 'a) action" where
  "liftA m s = (s, m)"

definition getA :: "('s, 'l, 's) action" where
  "getA s = (s, ok s)"

definition putA :: "'s \<Rightarrow> ('s, 'l, unit) action" where
  "putA s' s = (s', ok ())"

definition bindA :: "('s, 'l, 'a) action \<Rightarrow> ('a \<Rightarrow> ('s, 'l, 'b) action) \<Rightarrow> ('s, 'l, 'b) action" where
  "bindA m f s =
     (case m s of
        (s1, logs, Inl e) \<Rightarrow> (s1, logs, Inl e)
      | (s1, logs, Inr x) \<Rightarrow> (case f x s1 of (s2, logs2, r) \<Rightarrow> (s2, logs @ logs2, r)))"

primrec forA :: "('x \<Rightarrow> 'b \<Rightarrow> ('s, 'l, 'b) action) \<Rightarrow> 'x list \<Rightarrow> 'b \<Rightarrow> ('s, 'l, 'b) action" where
  "forA f [] b = retA b"
| "forA f (x # xs) b = bindA (f x b) (forA f xs)"

definition runs :: "('s, 'l, 'a) action \<Rightarrow> 's \<Rightarrow> 's \<Rightarrow> 'a \<Rightarrow> bool" where
  "runs m s s' x \<longleftrightarrow> fst (m s) = s' \<and> snd (snd (m s)) = Inr x"

lemma runs_simps [simp]:
  "runs (retA x) s s' y \<longleftrightarrow> s' = s \<and> y = x"
  "\<not> runs (failA e) s s' y"
  "runs (liftA m) s s' y \<longleftrightarrow> s' = s \<and> snd m = Inr y"
  "runs getA s s' t \<longleftrightarrow> s' = s \<and> t = s"
  "runs (putA u) s s' z \<longleftrightarrow> s' = u"
  by (auto simp: runs_def retA_def failA_def liftA_def getA_def putA_def)

lemma runs_bindA: "runs (bindA m f) s s' y \<longleftrightarrow> (\<exists>s1 x. runs m s s1 x \<and> runs (f x) s1 s' y)"
  by (auto simp: runs_def bindA_def split: prod.splits sum.splits)

lemma runs_forA_Cons: "runs (forA f (x # xs) b) s s' c \<longleftrightarrow> (\<exists>s1 b1. runs (f x b) s s1 b1 \<and> runs (forA f xs b1) s1 s' c)"
  by (simp add: runs_bindA)

text \<open>The loop rule for actions.\<close>

lemma forA_invariant:
  assumes "runs (forA f xs b) s s' c" "P s b"
    and "\<And>x s b s1 b1. x \<in> set xs \<Longrightarrow> P s b \<Longrightarrow> runs (f x b) s s1 b1 \<Longrightarrow> P s1 b1"
  shows "P s' c"
  using assms
proof (induction xs arbitrary: s b)
  case Nil
  then show ?case by simp
next
  case (Cons x xs)
  from Cons.prems(1) obtain s1 b1 where r: "runs (f x b) s s1 b1" "runs (forA f xs b1) s1 s' c"
    unfolding runs_forA_Cons by blast
  have "P s1 b1" using Cons.prems(3)[OF _ Cons.prems(2) r(1)] by simp
  from r(2) this show ?case
    by (rule Cons.IH) (rule Cons.prems(3), simp_all)
qed

text \<open>
  The contract of an action: whatever it answers, the state it leaves is related to the state it
  found.  For a reflexive and transitive relation the contract is closed under sequencing,
  branching and loops; a sequence may use what a successful first part returned.
\<close>

definition preserves :: "('s \<Rightarrow> 's \<Rightarrow> bool) \<Rightarrow> ('s, 'l, 'a) action \<Rightarrow> bool" where
  "preserves R m \<longleftrightarrow> (\<forall>s. R s (fst (m s)))"

lemma preservesD: "preserves R m \<Longrightarrow> R s (fst (m s))"
  by (simp add: preserves_def)

lemma preserves_runs: "preserves R m \<Longrightarrow> runs m s s' x \<Longrightarrow> R s s'"
  by (auto simp: preserves_def runs_def)

lemma preserves_if: "(b \<Longrightarrow> preserves R m) \<Longrightarrow> (\<not> b \<Longrightarrow> preserves R m') \<Longrightarrow> preserves R (if b then m else m')"
  by simp

lemma preserves_case_prod: "(\<And>a b. preserves R (f a b)) \<Longrightarrow> preserves R (case x of (a, b) \<Rightarrow> f a b)"
  by (cases x) simp

lemma preserves_case_option:
  "preserves R m \<Longrightarrow> (\<And>y. preserves R (f y)) \<Longrightarrow> preserves R (case x of None \<Rightarrow> m | Some y \<Rightarrow> f y)"
  by (cases x) simp_all

locale run_relation =
  fixes R :: "'s \<Rightarrow> 's \<Rightarrow> bool"
  assumes R_refl: "R s s"
    and R_trans: "R s t \<Longrightarrow> R t u \<Longrightarrow> R s u"
begin

lemma pure: "preserves R (retA x)" "preserves R (failA e)" "preserves R (liftA m)" "preserves R getA"
  by (simp_all add: preserves_def retA_def failA_def liftA_def getA_def R_refl)

lemma bind_runs:
  assumes "preserves R m" "\<And>s s' x. runs m s s' x \<Longrightarrow> R s' (fst (f x s'))"
  shows "preserves R (bindA m f)"
proof -
  have "R s (fst (bindA m f s))" for s
  proof (cases "snd (snd (m s))")
    case (Inl e)
    then have "fst (bindA m f s) = fst (m s)" by (auto simp: bindA_def split: prod.splits sum.splits)
    then show ?thesis using preservesD[OF assms(1)] by metis
  next
    case (Inr x)
    then have "fst (bindA m f s) = fst (f x (fst (m s)))" "runs m s (fst (m s)) x"
      by (auto simp: bindA_def runs_def split: prod.splits sum.splits)
    then show ?thesis using R_trans[OF preservesD[OF assms(1)] assms(2)] by metis
  qed
  then show ?thesis by (simp add: preserves_def)
qed

lemma bind: "preserves R m \<Longrightarrow> (\<And>x. preserves R (f x)) \<Longrightarrow> preserves R (bindA m f)"
  by (rule bind_runs) (auto dest: preservesD)

lemma loop: "(\<And>x b. x \<in> set xs \<Longrightarrow> preserves R (f x b)) \<Longrightarrow> preserves R (forA f xs b)"
  by (induction xs arbitrary: b) (auto intro: pure bind)

lemmas rules = pure bind preserves_if preserves_case_prod preserves_case_option

end

section \<open>Tables as lists of rows\<close>

definition update_where :: "('r \<Rightarrow> bool) \<Rightarrow> ('r \<Rightarrow> 'r) \<Rightarrow> 'r list \<Rightarrow> 'r list" where
  "update_where P f rows = map (\<lambda>r. if P r then f r else r) rows"

lemma update_where_Nil [simp]: "update_where P f [] = []"
  by (simp add: update_where_def)

lemma update_where_Cons [simp]:
  "update_where P f (r # rs) = (if P r then f r else r) # update_where P f rs"
  by (simp add: update_where_def)

lemma length_update_where [simp]: "length (update_where P f rows) = length rows"
  by (simp add: update_where_def)

lemma set_update_where:
  "set (update_where P f rows) = f ` {r \<in> set rows. P r} \<union> {r \<in> set rows. \<not> P r}"
  by (auto simp: update_where_def)

lemma map_update_where [table_simps]:
  "(\<And>r. P r \<Longrightarrow> k (f r) = k r) \<Longrightarrow> map k (update_where P f rows) = map k rows"
  by (induction rows) auto

lemma update_where_none: "(\<And>r. r \<in> set rows \<Longrightarrow> \<not> P r) \<Longrightarrow> update_where P f rows = rows"
  by (induction rows) auto

lemma update_where_idem:
  "(\<And>r. P r \<Longrightarrow> f (f r) = f r) \<Longrightarrow> (\<And>r. P r \<Longrightarrow> P (f r) \<or> f r = r)
    \<Longrightarrow> update_where P f (update_where P f rows) = update_where P f rows"
  by (induction rows) auto

lemma in_update_whereE:
  assumes "r \<in> set (update_where P f rows)"
  obtains r0 where "r0 \<in> set rows" "P r0" "r = f r0" | "r \<in> set rows" "\<not> P r"
  using assms by (auto simp: set_update_where)

lemma in_update_whereI:
  "r \<in> set rows \<Longrightarrow> (if P r then f r else r) \<in> set (update_where P f rows)"
  by (auto simp: update_where_def)

text \<open>\<open>SELECT DISTINCT ON (k)\<close>: the first row of each key.\<close>

fun distinct_on :: "('r \<Rightarrow> 'k) \<Rightarrow> 'r list \<Rightarrow> 'r list" where
  "distinct_on k [] = []"
| "distinct_on k (r # rs) = r # distinct_on k (filter (\<lambda>x. k x \<noteq> k r) rs)"

lemma set_distinct_on: "set (distinct_on k rs) \<subseteq> set rs"
  by (induction k rs rule: distinct_on.induct) auto

lemma distinct_on_distinct: "distinct (map k (distinct_on k rs))"
proof (induction k rs rule: distinct_on.induct)
  case (1 k)
  then show ?case by simp
next
  case (2 k r rs)
  then show ?case using set_distinct_on[of k "filter (\<lambda>x. k x \<noteq> k r) rs"] by auto
qed

lemma distinct_on_keys: "k ` set (distinct_on k rs) = k ` set rs"
proof (induction k rs rule: distinct_on.induct)
  case (1 k)
  then show ?case by simp
next
  case (2 k r rs)
  have "k ` set (r # rs) = insert (k r) (k ` {x \<in> set rs. k x \<noteq> k r})"
    by auto
  with 2 show ?case by simp
qed

text \<open>The row kept for a key is the first one with that key.\<close>

lemma distinct_on_first: "x \<in> set (distinct_on k rs) \<Longrightarrow> \<exists>ys. filter (\<lambda>y. k y = k x) rs = x # ys"
proof (induction k rs rule: distinct_on.induct)
  case (1 k)
  then show ?case by simp
next
  case (2 k r rs)
  show ?case
  proof (cases "x = r")
    case True
    then show ?thesis by simp
  next
    case False
    then have x: "x \<in> set (distinct_on k (filter (\<lambda>x. k x \<noteq> k r) rs))" using "2.prems" by simp
    then have "k x \<noteq> k r" using set_distinct_on by fastforce
    moreover from this have "filter (\<lambda>y. k y \<noteq> k r \<and> k y = k x) rs = filter (\<lambda>y. k y = k x) rs"
      by (intro filter_cong) auto
    ultimately show ?thesis using "2.IH"[OF x] by simp
  qed
qed

lemma distinct_map_take: "distinct (map k xs) \<Longrightarrow> distinct (map k (take n xs))"
  by (simp add: take_map [symmetric])

text \<open>A key that is unique in a table picks one row.\<close>

lemma distinct_map_unique:
  "distinct (map k xs) \<Longrightarrow> x \<in> set xs \<Longrightarrow> y \<in> set xs \<Longrightarrow> k x = k y \<Longrightarrow> x = y"
  by (metis distinct_map inj_onD)

lemma find_SomeD: "find P xs = Some x \<Longrightarrow> x \<in> set xs \<and> P x"
  by (auto simp: find_Some_iff)

lemma find_None_all: "find P xs = None \<longleftrightarrow> (\<forall>x\<in>set xs. \<not> P x)"
  by (auto simp: find_None_iff)

lemma find_unique:
  assumes "distinct (map k xs)" "x \<in> set xs"
  shows "find (\<lambda>y. k y = k x) xs = Some x"
proof (cases "find (\<lambda>y. k y = k x) xs")
  case None
  with assms(2) show ?thesis by (auto simp: find_None_iff)
next
  case (Some y)
  then have "y \<in> set xs" "k y = k x" by (auto dest: find_SomeD)
  with assms have "y = x" by (metis distinct_map_unique)
  with Some show ?thesis by simp
qed

text \<open>\<open>MAX(k)\<close> over a group of rows.\<close>

definition max_key :: "('r \<Rightarrow> 'k::linorder) \<Rightarrow> 'r list \<Rightarrow> 'k option" where
  "max_key k rs = (if rs = [] then None else Some (Max (k ` set rs)))"

lemma max_key_ge: "r \<in> set rs \<Longrightarrow> \<exists>m. max_key k rs = Some m \<and> k r \<le> m"
  by (auto simp: max_key_def)

lemma max_key_in: "max_key k rs = Some m \<Longrightarrow> \<exists>r\<in>set rs. k r = m"
  by (metis (no_types, lifting) Max_in finite_imageI finite_set image_iff image_is_empty
      max_key_def option.distinct(1) option.sel set_empty)

text \<open>\<open>a LEFT JOIN b ON c\<close>: every row of the left table, with each match or with no match.\<close>

definition left_join :: "('a \<Rightarrow> 'b \<Rightarrow> bool) \<Rightarrow> 'a list \<Rightarrow> 'b list \<Rightarrow> ('a \<times> 'b option) list" where
  "left_join c as bs =
     concat (map (\<lambda>a. case filter (c a) bs of
                      [] \<Rightarrow> [(a, None)]
                    | ms \<Rightarrow> map (\<lambda>b. (a, Some b)) ms) as)"

definition inner_join :: "('a \<Rightarrow> 'b \<Rightarrow> bool) \<Rightarrow> 'a list \<Rightarrow> 'b list \<Rightarrow> ('a \<times> 'b) list" where
  "inner_join c as bs = concat (map (\<lambda>a. map (Pair a) (filter (c a) bs)) as)"

lemma in_left_join_Some: "(a, Some b) \<in> set (left_join c as bs) \<longleftrightarrow> a \<in> set as \<and> b \<in> set bs \<and> c a b"
proof -
  have "(a, Some b) \<in> set (case filter (c x) bs of [] \<Rightarrow> [(x, None)] | m # ms \<Rightarrow> map (\<lambda>b. (x, Some b)) (m # ms))
          \<longleftrightarrow> x = a \<and> b \<in> set (filter (c x) bs)" for x
    by (cases "filter (c x) bs") auto
  then show ?thesis by (auto simp: left_join_def)
qed

lemma in_left_join_None: "(a, None) \<in> set (left_join c as bs) \<longleftrightarrow> a \<in> set as \<and> (\<forall>b\<in>set bs. \<not> c a b)"
proof -
  have "(a, None) \<in> set (case filter (c x) bs of [] \<Rightarrow> [(x, None)] | m # ms \<Rightarrow> map (\<lambda>b. (x, Some b)) (m # ms))
          \<longleftrightarrow> x = a \<and> filter (c x) bs = []" for x
    by (cases "filter (c x) bs") auto
  then show ?thesis by (auto simp: left_join_def filter_empty_conv)
qed

lemma in_inner_join: "(a, b) \<in> set (inner_join c as bs) \<longleftrightarrow> a \<in> set as \<and> b \<in> set bs \<and> c a b"
  by (auto simp: inner_join_def)

section \<open>Prefixes\<close>

lemma takeWhile_upt_ge: "m \<le> n \<Longrightarrow> m \<le> length (takeWhile P [0..<n]) \<longleftrightarrow> (\<forall>i<m. P i)"
proof
  assume m: "m \<le> n" and le: "m \<le> length (takeWhile P [0..<n])"
  show "\<forall>i<m. P i"
  proof (intro allI impI)
    fix i assume "i < m"
    then have i: "i < length (takeWhile P [0..<n])" using le by simp
    then have "takeWhile P [0..<n] ! i \<in> set (takeWhile P [0..<n])" by simp
    then have "P (takeWhile P [0..<n] ! i)" by (auto dest: set_takeWhileD)
    moreover have "takeWhile P [0..<n] ! i = i" using i takeWhile_nth[OF i] \<open>i < m\<close> m by simp
    ultimately show "P i" by simp
  qed
next
  assume m: "m \<le> n" and all: "\<forall>i<m. P i"
  then have "takeWhile P ([0..<m] @ [m..<n]) = [0..<m] @ takeWhile P [m..<n]"
    by (intro takeWhile_append2) auto
  moreover have "[0..<n] = [0..<m] @ [m..<n]" using m upt_add_eq_append[of 0 m "n - m"] by simp
  ultimately have "takeWhile P [0..<n] = [0..<m] @ takeWhile P [m..<n]" by metis
  then show "m \<le> length (takeWhile P [0..<n])" by simp
qed

section \<open>Sums\<close>

lemma sum_list_map_nonneg: "(\<And>x. x \<in> set xs \<Longrightarrow> 0 \<le> f x) \<Longrightarrow> 0 \<le> (\<Sum>x\<leftarrow>xs. (f x :: 'b::ordered_comm_monoid_add))"
  by (induction xs) auto

end
