(* ===== verification/Ton_Lib.thy ===== *)
theory Ton_Lib
  imports Prelude
begin

text \<open>
  The third-party packages the program calls (\<open>tonutils-go\<close>, \<open>tongo\<close>, \<open>gofrs/uuid\<close>,
  \<open>shopspring/decimal\<close>) are not part of the repository.  Their objects appear here only through
  what the program reads from them, and their functions are the fields of the record \<open>tonlib\<close>,
  an argument of every definition that calls one.  Opaque objects (cells, slices, dictionaries,
  transaction descriptions) are handles of type \<open>nat\<close> whose meaning only those functions know.
  What a theorem relies on is a named hypothesis on these fields; nothing here fixes how they
  behave.

  Amounts of type \<open>decimal.Decimal\<close> are rational numbers; the conversion to \<open>big.Int\<close> is a field
  of the library.
\<close>

section \<open>Objects of the libraries, as the program reads them\<close>

type_synonym cell = nat
type_synonym slice = nat
type_synonym dictionary = nat
type_synonym description = nat
type_synonym uuid = "128 word"
type_synonym Coins = rat

datatype AddrType = NoneAddress | ExtAddress | StdAddress | VarAddress

text \<open>\<open>address.Address\<close>: what \<open>Type()\<close>, \<open>Workchain()\<close>, \<open>Data()\<close>, \<open>IsBounceable()\<close> and
  \<open>IsTestnetOnly()\<close> return, and what \<open>SetBounce\<close> and \<open>SetTestnetOnly\<close> write.\<close>

record taddress =
  ta_Type :: AddrType
  ta_Workchain :: int
  ta_Data :: "byte list"
  ta_Bounceable :: bool
  ta_TestnetOnly :: bool

text \<open>\<open>tlb.InternalMessage\<close>, \<open>tlb.ExternalMessage\<close>, \<open>tlb.Message\<close>, \<open>tlb.Transaction\<close>.  A nil
  pointer is \<open>None\<close>.  \<open>im_Payload\<close> is \<open>Payload()\<close>, \<open>im_Comment\<close> is \<open>Comment()\<close>.\<close>

record InternalMessage =
  im_SrcAddr :: "taddress option"
  im_DstAddr :: "taddress option"
  im_Amount :: int
  im_CreatedAt :: u32
  im_CreatedLT :: u64
  im_Payload :: "cell option"
  im_Comment :: string

record ExternalMessage =
  em_DstAddr :: "taddress option"
  em_Payload :: "cell option"

datatype Message =
    MsgInternal InternalMessage
  | MsgExternalIn ExternalMessage
  | MsgExternalOut

record Transaction =
  tx_Hash :: "byte list"
  tx_Now :: u32
  tx_LT :: u64
  tx_OutMsgCount :: nat
  tx_In :: "Message option"
  tx_OutToSlice :: "error + Message list"
  tx_Description :: description

record TransactionShortInfo =
  tsi_Account :: "byte list"
  tsi_LT :: u64

record BlockIDExt =
  bid_Workchain :: int
  bid_Shard :: u64
  bid_SeqNo :: u32
  bid_RootHash :: "byte list"
  bid_FileHash :: "byte list"

text \<open>The structures the program asks \<open>tlb.LoadFromCell\<close> to fill: \<open>transfer_notification\<close>,
  \<open>transfer\<close>, \<open>excesses\<close> and the body of a highload wallet message.\<close>

record notification_body =
  nb_QueryID :: u64
  nb_Amount :: int
  nb_Sender :: "taddress option"
  nb_ForwardPayload :: "cell option"

record transfer_body =
  tb_QueryID :: u64
  tb_Amount :: int
  tb_Destination :: "taddress option"
  tb_ForwardTonAmount :: int
  tb_ForwardPayload :: "cell option"

record highload_body =
  hb_SubwalletID :: u32
  hb_BoundedID :: u64
  hb_Messages :: dictionary

datatype AccountStatus = AccountStatusActive | AccountStatusUninit | AccountStatusFrozen | AccountStatusNonExist

section \<open>Functions of the libraries\<close>

record tonlib =
  lib_BeginParse :: "cell \<Rightarrow> error + slice"
  lib_LoadNotification :: "slice \<Rightarrow> error + notification_body"
  lib_LoadTransfer :: "slice \<Rightarrow> error + transfer_body"
  lib_LoadExcesses :: "slice \<Rightarrow> error + u64"
  lib_LoadHighload :: "slice \<Rightarrow> error + highload_body"
  lib_LoadInternalMessage :: "slice \<Rightarrow> error + InternalMessage"
  lib_LoadUInt32 :: "slice \<Rightarrow> error + (u64 \<times> slice)"
  lib_LoadStringSnake :: "slice \<Rightarrow> error + string"
  lib_LoadRef :: "slice \<Rightarrow> error + slice"
  lib_Hash :: "cell \<Rightarrow> byte list"
  lib_DictLoadAll :: "dictionary \<Rightarrow> error + slice list"
  lib_DescrToCell :: "description \<Rightarrow> error + cell"
  lib_DeserializeBoc :: "cell \<Rightarrow> error + cell list"
  lib_UnmarshalDescr :: "cell \<Rightarrow> error + description"
  lib_IsSuccess :: "description \<Rightarrow> bool"
  lib_UuidFromBytes :: "byte list \<Rightarrow> error + uuid"
  lib_UuidFromString :: "string \<Rightarrow> error + uuid"
  lib_UuidString :: "uuid \<Rightarrow> string"
  lib_BigInt :: "Coins \<Rightarrow> int"
  lib_CoinsString :: "Coins \<Rightarrow> string"
  lib_NewFromString :: "string \<Rightarrow> error + Coins"
  lib_ParseAddr :: "string \<Rightarrow> error + taddress"
  lib_NewAddress :: "byte \<Rightarrow> byte \<Rightarrow> byte list \<Rightarrow> taddress"
  lib_DefaultSubwallet :: u32
  lib_AddrString :: "taddress \<Rightarrow> string"

section \<open>Documented behaviour used as hypotheses\<close>

text \<open>\<open>decimal.Decimal.BigInt\<close> returns the integer part; on an integral amount that is the amount.\<close>

definition BigInt_integral :: "tonlib \<Rightarrow> bool" where
  "BigInt_integral lib \<longleftrightarrow> (\<forall>n. lib_BigInt lib (of_int n) = n)"

text \<open>\<open>address.NewAddress\<close> builds a standard address that holds the workchain (the byte read as
  signed) and the bytes it was given.\<close>

definition NewAddress_std :: "tonlib \<Rightarrow> bool" where
  "NewAddress_std lib \<longleftrightarrow>
     (\<forall>fl wc bs. ta_Type (lib_NewAddress lib fl wc bs) = StdAddress
        \<and> ta_Data (lib_NewAddress lib fl wc bs) = bs
        \<and> ta_Workchain (lib_NewAddress lib fl wc bs) = sint wc)"

text \<open>A UUID printed and read back is the same UUID.\<close>

definition Uuid_roundtrip :: "tonlib \<Rightarrow> bool" where
  "Uuid_roundtrip lib \<longleftrightarrow> (\<forall>u. lib_UuidFromString lib (lib_UuidString lib u) = Inr u)"

end
