(* ===== verification/Config.thy ===== *)
theory Config
  imports Ton_Lib
begin

text \<open>
  \<open>src/config/config.go\<close>: the configuration record, the two cutoff parsers and the checks
  \<open>GetConfig\<close> makes on what the environment supplied.  The environment reader itself
  (\<open>caarlos0/env\<close>) is third-party: its result, an error or a filled record, is the argument of
  \<open>GetConfig\<close>.  The two package variables \<open>GetConfig\<close> assigns (\<open>JettonForwardAmount\<close> and
  \<open>AllowableBlockchainLagging\<close>) are fields of the record.  Times are nanoseconds.
\<close>

section \<open>Constants\<close>

definition MaxJettonForwardTonAmount :: int where
  "MaxJettonForwardTonAmount = 20000000"

definition JettonTransferTonAmount :: int where
  "JettonTransferTonAmount = 100000000"

definition JettonInternalForwardAmount :: int where
  "JettonInternalForwardAmount = 1"

definition DefaultHotWalletHysteresis :: Coins where
  "DefaultHotWalletHysteresis = 95 / 100"

definition Second :: int where
  "Second = 1000000000"

definition ExternalMessageLifetime :: int where
  "ExternalMessageLifetime = 50 * Second"

definition MaxCommentLength :: nat where
  "MaxCommentLength = 1000"

section \<open>Data\<close>

record Jetton =
  j_Master :: taddress
  j_WithdrawalCutoff :: int
  j_HotWalletMaxCutoff :: int
  j_HotWalletResidual :: int

record Cutoffs =
  c_HotWalletMin :: int
  c_HotWalletMax :: int
  c_Withdrawal :: int
  c_HotWalletResidual :: int

record config =
  cfg_Seed :: string
  cfg_APIToken :: string
  cfg_Testnet :: bool
  cfg_ColdWalletString :: string
  cfg_JettonString :: string
  cfg_TonString :: string
  cfg_IsDepositSideCalculation :: bool
  cfg_LiteServerMaxRetries :: nat
  cfg_AllowableLaggingSec :: int
  cfg_ForwardTonAmount :: int
  cfg_Jettons :: "string \<rightharpoonup> Jetton"
  cfg_Ton :: Cutoffs
  cfg_ColdWallet :: "taddress option"
  cfg_JettonForwardAmount :: int
  cfg_AllowableBlockchainLagging :: int

section \<open>Parsers\<close>

text \<open>\<open>strings.Split(s, sep)\<close> for a one-character separator: always at least one field.\<close>

fun strings_Split :: "string \<Rightarrow> char \<Rightarrow> string list" where
  "strings_Split [] sep = [[]]"
| "strings_Split (c # cs) sep =
     (if c = sep then [] # strings_Split cs sep
      else (case strings_Split cs sep of
              [] \<Rightarrow> [[c]]
            | f # fs \<Rightarrow> (c # f) # fs))"

definition parseJetton :: "tonlib \<Rightarrow> string \<Rightarrow> error + (string \<times> Jetton)" where
  "parseJetton lib j =
     (let fields = strings_Split j (CHR '':'') in
      if length fields \<noteq> 4 \<and> length fields \<noteq> 5 then Inl (Fatalf ''invalid jetton data'')
      else andThenR (orFatal ''invalid jetton address'' (lib_ParseAddr lib (fields ! 1))) (\<lambda>addr.
           andThenR (orFatal ''invalid jetton max cutoff'' (lib_NewFromString lib (fields ! 2))) (\<lambda>maxCutoff.
           andThenR (orFatal ''invalid jetton withdrawal cutoff'' (lib_NewFromString lib (fields ! 3))) (\<lambda>withdrawalCutoff.
           andThenR (if length fields = 5 then orFatal ''invalid hot_wallet_residual_balance parameter'' (lib_NewFromString lib (fields ! 4))
                     else Inr (maxCutoff * DefaultHotWalletHysteresis)) (\<lambda>residual.
           Inr (fields ! 0,
                \<lparr>j_Master = addr,
                 j_WithdrawalCutoff = lib_BigInt lib withdrawalCutoff,
                 j_HotWalletMaxCutoff = lib_BigInt lib maxCutoff,
                 j_HotWalletResidual = lib_BigInt lib residual\<rparr>))))))"

primrec parseJettons :: "tonlib \<Rightarrow> string list \<Rightarrow> (string \<rightharpoonup> Jetton) \<Rightarrow> error + (string \<rightharpoonup> Jetton)" where
  "parseJettons lib [] res = Inr res"
| "parseJettons lib (j # js) res =
     andThenR (parseJetton lib j) (\<lambda>(cur, jt). parseJettons lib js (res(cur \<mapsto> jt)))"

definition parseJettonString :: "tonlib \<Rightarrow> string \<Rightarrow> error + (string \<rightharpoonup> Jetton)" where
  "parseJettonString lib s =
     (if s = [] then Inr Map.empty
      else parseJettons lib (strings_Split s (CHR '','')) Map.empty)"

definition parseTonString :: "tonlib \<Rightarrow> string \<Rightarrow> error + Cutoffs" where
  "parseTonString lib s =
     (let fields = strings_Split s (CHR '':'') in
      if length fields \<noteq> 3 \<and> length fields \<noteq> 4 then Inl (Fatalf ''invalid TON cuttofs'')
      else andThenR (orFatal ''invalid TON hot wallet min cutoff'' (lib_NewFromString lib (fields ! 0))) (\<lambda>hotWalletMin.
           andThenR (orFatal ''invalid TON hot wallet max cutoff'' (lib_NewFromString lib (fields ! 1))) (\<lambda>hotWalletMax.
           andThenR (orFatal ''invalid TON withdrawal cutoff'' (lib_NewFromString lib (fields ! 2))) (\<lambda>withdrawal.
           if hotWalletMax < hotWalletMin
           then Inl (Fatalf ''TON hot wallet max cutoff must be greater than TON hot wallet min cutoff'')
           else andThenR (if length fields = 4 then orFatal ''invalid hot_wallet_residual_balance parameter'' (lib_NewFromString lib (fields ! 3))
                          else Inr (hotWalletMax * DefaultHotWalletHysteresis)) (\<lambda>residual.
           Inr \<lparr>c_HotWalletMin = lib_BigInt lib hotWalletMin,
                c_HotWalletMax = lib_BigInt lib hotWalletMax,
                c_Withdrawal = lib_BigInt lib withdrawal,
                c_HotWalletResidual = lib_BigInt lib residual\<rparr>)))))"

definition GetConfig :: "tonlib \<Rightarrow> error + config \<Rightarrow> error + config" where
  "GetConfig lib env =
     (case env of
        Inl e \<Rightarrow> Inl (Fatalf ''Can not load config'')
      | Inr c0 \<Rightarrow>
        andThenR (parseJettonString lib (cfg_JettonString c0)) (\<lambda>js.
        andThenR (parseTonString lib (cfg_TonString c0)) (\<lambda>ton.
        let c1 = c0\<lparr>cfg_Jettons := js, cfg_Ton := ton\<rparr> in
        if cfg_ForwardTonAmount c1 < 0 \<or> cfg_ForwardTonAmount c1 > MaxJettonForwardTonAmount
        then Inl (Fatalf ''Forward TON amount for jetton transfer must be positive'')
        else
        let c2 = c1\<lparr>cfg_JettonForwardAmount := cfg_ForwardTonAmount c1\<rparr> in
        andThenR
          (if cfg_ColdWalletString c2 = [] then Inr c2
           else case lib_ParseAddr lib (cfg_ColdWalletString c2) of
                  Inl e \<Rightarrow> Inl (Fatalf ''Can not parse cold wallet address'')
                | Inr coldAddr \<Rightarrow>
                    if ta_Type coldAddr \<noteq> StdAddress
                    then Inl (Fatalf ''Only std cold wallet address supported'')
                    else if ta_TestnetOnly coldAddr \<and> \<not> cfg_Testnet c2
                    then Inl (Fatalf ''Can not use testnet cold wallet address for mainnet'')
                    else Inr (c2\<lparr>cfg_ColdWallet := Some coldAddr\<rparr>)) (\<lambda>c3.
        if cfg_AllowableLaggingSec c3 \<noteq> 0
        then Inr (c3\<lparr>cfg_AllowableBlockchainLagging := Second * cfg_AllowableLaggingSec c3\<rparr>)
        else Inr c3))))"

section \<open>Lemmas\<close>

lemma strings_Split_not_Nil [simp]: "strings_Split s sep \<noteq> []"
  by (induction s) (auto split: list.splits)

text \<open>Joining the fields with the separator gives the text back, and no field contains it.\<close>

lemma strings_Split_fields: "f \<in> set (strings_Split s sep) \<Longrightarrow> sep \<notin> set f"
  by (induction s arbitrary: f) (auto split: list.splits if_splits)

lemma length_strings_Split: "length (strings_Split s sep) = Suc (count_list s sep)"
  by (induction s) (auto split: list.splits)

fun strings_Join :: "string list \<Rightarrow> char \<Rightarrow> string" where
  "strings_Join [] sep = []"
| "strings_Join [f] sep = f"
| "strings_Join (f # g # fs) sep = f @ [sep] @ strings_Join (g # fs) sep"

lemma strings_Join_Cons: "fs \<noteq> [] \<Longrightarrow> strings_Join (f # fs) sep = f @ [sep] @ strings_Join fs sep"
  by (cases fs) auto

lemma strings_Join_prefix: "strings_Join ((c # f) # fs) sep = c # strings_Join (f # fs) sep"
  by (cases fs) auto

lemma strings_Join_Split: "strings_Join (strings_Split s sep) sep = s"
proof (induction s)
  case Nil
  then show ?case by simp
next
  case (Cons c cs)
  show ?case
  proof (cases "c = sep")
    case True
    with Cons show ?thesis by (simp add: strings_Join_Cons)
  next
    case False
    obtain f fs where "strings_Split cs sep = f # fs"
      by (cases "strings_Split cs sep") auto
    with Cons False show ?thesis by (simp add: strings_Join_prefix)
  qed
qed

lemma parseJettons_dom:
  "parseJettons lib js res = Inr m \<Longrightarrow>
     dom m = dom res \<union> (\<lambda>j. strings_Split j (CHR '':'') ! 0) ` set js"
proof (induction js arbitrary: res)
  case Nil
  then show ?case by simp
next
  case (Cons j js)
  then obtain cur jt where p: "parseJetton lib j = Inr (cur, jt)"
    and r: "parseJettons lib js (res(cur \<mapsto> jt)) = Inr m"
    by (auto simp: andThenR_success)
  from p have "cur = strings_Split j (CHR '':'') ! 0"
    by (auto simp: parseJetton_def Let_def andThenR_success split: if_splits)
  with Cons.IH[OF r] show ?case by auto
qed

end
