(* ===== verification/Models.thy ===== *)
theory Models
  imports Config
begin

text \<open>
  \<open>src/core/models.go\<close>: wallet types, withdrawal states, the 32-byte account address, the events a
  scanned block yields and the tasks the processors work on.

  \<open>Address\<close> is Go's \<open>[32]byte\<close>, read as one 256-bit big-endian number: index 0 is the most
  significant byte, equality is equality of the arrays, and PostgreSQL's order on \<open>bytea\<close> of equal
  length is the order of the numbers.  \<open>Address_bytes\<close> and \<open>AddressFromBytes\<close> convert.
\<close>

unbundle bit_operations_syntax

section \<open>Enumerations\<close>

definition TonSymbol :: string where
  "TonSymbol = ''TON''"

definition DefaultWorkchain :: int where
  "DefaultWorkchain = 0"

datatype WalletType =
    TonHotWallet
  | JettonHotWallet
  | TonDepositWallet
  | JettonDepositWallet
  | JettonOwner

fun WalletType_string :: "WalletType \<Rightarrow> string" where
  "WalletType_string TonHotWallet = ''ton_hot''"
| "WalletType_string JettonHotWallet = ''jetton_hot''"
| "WalletType_string TonDepositWallet = ''ton_deposit''"
| "WalletType_string JettonDepositWallet = ''jetton_deposit''"
| "WalletType_string JettonOwner = ''owner''"

datatype EventName =
    ServiceWithdrawalEvent
  | InternalWithdrawalEvent
  | ExternalWithdrawalEvent
  | InitEvent

fun EventName_string :: "EventName \<Rightarrow> string" where
  "EventName_string ServiceWithdrawalEvent = ''service withdrawal''"
| "EventName_string InternalWithdrawalEvent = ''internal withdrawal''"
| "EventName_string ExternalWithdrawalEvent = ''external withdrawal''"
| "EventName_string InitEvent = ''initialization''"

datatype WithdrawalStatus = PendingStatus | ProcessingStatus | ProcessedStatus | FailedStatus

section \<open>Addresses\<close>

type_synonym Address = "256 word"

definition Address_bytes :: "Address \<Rightarrow> byte list" where
  "Address_bytes a = map (\<lambda>i. ucast (drop_bit (8 * (31 - i)) a)) [0..<32]"

definition Address_Scan :: "byte list option \<Rightarrow> error + Address" where
  "Address_Scan src =
     (case src of
        None \<Rightarrow> Inl (Errorf ''can't scan into Address'')
      | Some bs \<Rightarrow>
          if length bs \<noteq> 32 then Inl (Errorf ''can't scan []byte into Address'')
          else Inr (word_rcat bs))"

definition Address_ToTonutilsAddressStd :: "tonlib \<Rightarrow> Address \<Rightarrow> byte \<Rightarrow> taddress" where
  "Address_ToTonutilsAddressStd lib a flags =
     lib_NewAddress lib flags (word_of_int DefaultWorkchain) (Address_bytes a)"

definition TonutilsAddressToUserFormat :: "tonlib \<Rightarrow> config \<Rightarrow> taddress \<Rightarrow> string" where
  "TonutilsAddressToUserFormat lib cfg addr =
     lib_AddrString lib (addr\<lparr>ta_TestnetOnly := cfg_Testnet cfg, ta_Bounceable := False\<rparr>)"

definition Address_ToUserFormat :: "tonlib \<Rightarrow> config \<Rightarrow> Address \<Rightarrow> string" where
  "Address_ToUserFormat lib cfg a =
     (let addr = Address_ToTonutilsAddressStd lib a 0 in
      lib_AddrString lib (addr\<lparr>ta_TestnetOnly := cfg_Testnet cfg, ta_Bounceable := False\<rparr>))"

definition AddressFromBytes :: "byte list \<Rightarrow> error + Address" where
  "AddressFromBytes bs =
     (if length bs \<noteq> 32 then Inl (Errorf ''invalid address len. Std addr len must be 32 bytes'')
      else Inr (word_rcat bs))"

definition AddressFromTonutilsAddress :: "taddress option \<Rightarrow> error + Address" where
  "AddressFromTonutilsAddress addr =
     (case addr of
        None \<Rightarrow> Inl (Errorf ''nil tonutils address'')
      | Some a \<Rightarrow>
          if ta_Type a \<noteq> StdAddress then Inl (Errorf ''only std address supported'')
          else AddressFromBytes (ta_Data a))"

definition AddressMustFromTonutilsAddress :: "taddress option \<Rightarrow> error + Address" where
  "AddressMustFromTonutilsAddress addr =
     (case AddressFromTonutilsAddress addr of
        Inl e \<Rightarrow> Inl (Panicf ''AddressMustFromTonutilsAddress'')
      | Inr a \<Rightarrow> Inr a)"

section \<open>Data of the service\<close>

record AddressInfo =
  ai_Type :: WalletType
  ai_Owner :: "Address option"
  ai_UserID :: string

record JettonWallet =
  jwl_Address :: taddress
  jwl_Currency :: string

record OwnerWallet =
  ow_Address :: Address
  ow_Currency :: string

record WalletData =
  wd_SubwalletID :: u32
  wd_UserID :: string
  wd_Currency :: string
  wd_Type :: WalletType
  wd_Address :: Address

record WithdrawalRequest =
  wr_QueryID :: string
  wr_UserID :: string
  wr_Currency :: string
  wr_Amount :: Coins
  wr_Bounceable :: bool
  wr_IsInternal :: bool
  wr_Destination :: Address
  wr_Comment :: string
  wr_BinaryComment :: string

record WithdrawalData =
  wdt_QueryID :: string
  wdt_UserID :: string
  wdt_Status :: WithdrawalStatus
  wdt_TxHash :: "byte list option"

record ServiceWithdrawalRequest =
  swr_From :: Address
  swr_JettonMaster :: "Address option"

record ServiceWithdrawalTask = ServiceWithdrawalRequest +
  swt_JettonAmount :: Coins
  swt_Memo :: uuid
  swt_SubwalletID :: u32

record ExternalWithdrawalTask =
  ewt_QueryID :: int
  ewt_Currency :: string
  ewt_Amount :: Coins
  ewt_Destination :: Address
  ewt_Bounceable :: bool
  ewt_Comment :: string
  ewt_BinaryComment :: string

record InternalWithdrawal =
  iw_Utime :: u32
  iw_Lt :: u64
  iw_From :: Address
  iw_Amount :: Coins
  iw_Memo :: string
  iw_IsFailed :: bool

record SendingConfirmation =
  sc_Lt :: u64
  sc_From :: Address
  sc_Memo :: string

record ExternalWithdrawal =
  ew_ExtMsgUuid :: uuid
  ew_Utime :: u32
  ew_Lt :: u64
  ew_To :: Address
  ew_Amount :: Coins
  ew_Comment :: string
  ew_IsFailed :: bool
  ew_TxHash :: "byte list"

record JettonWithdrawalConfirmation =
  jwc_QueryId :: int

record InternalIncome =
  ii_Utime :: u32
  ii_Lt :: u64
  ii_From :: Address
  ii_To :: Address
  ii_Amount :: Coins
  ii_Memo :: string
  ii_IsFailed :: bool
  ii_TxHash :: "byte list"

record ExternalIncome =
  ei_Utime :: u32
  ei_Lt :: u64
  ei_From :: "byte list option"
  ei_FromWorkchain :: "int option"
  ei_To :: Address
  ei_Amount :: Coins
  ei_Comment :: string
  ei_TxHash :: "byte list"

record Events =
  ExternalIncomes :: "ExternalIncome list"
  InternalIncomes :: "InternalIncome list"
  SendingConfirmations :: "SendingConfirmation list"
  InternalWithdrawals :: "InternalWithdrawal list"
  ExternalWithdrawals :: "ExternalWithdrawal list"
  WithdrawalConfirmations :: "JettonWithdrawalConfirmation list"

definition no_events :: Events where
  "no_events =
     \<lparr>ExternalIncomes = [], InternalIncomes = [], SendingConfirmations = [],
      InternalWithdrawals = [], ExternalWithdrawals = [], WithdrawalConfirmations = []\<rparr>"

definition Events_Append :: "Events \<Rightarrow> Events \<Rightarrow> Events" where
  "Events_Append e ae =
     e\<lparr>ExternalIncomes := ExternalIncomes e @ ExternalIncomes ae,
       InternalIncomes := InternalIncomes e @ InternalIncomes ae,
       SendingConfirmations := SendingConfirmations e @ SendingConfirmations ae,
       InternalWithdrawals := InternalWithdrawals e @ InternalWithdrawals ae,
       ExternalWithdrawals := ExternalWithdrawals e @ ExternalWithdrawals ae,
       WithdrawalConfirmations := WithdrawalConfirmations e @ WithdrawalConfirmations ae\<rparr>"

text \<open>\<open>ShardBlockHeader\<close>: a block of the tracked shard with its one parent on that shard.\<close>

record ShardBlockHeader =
  sbh_BlockIDExt :: BlockIDExt
  sbh_NotMaster :: bool
  sbh_GenUtime :: u32
  sbh_StartLt :: u64
  sbh_EndLt :: u64
  sbh_Parent :: BlockIDExt

record BlockEvents =
  be_Events :: Events
  be_Block :: ShardBlockHeader

record InternalWithdrawalTask =
  iwt_From :: Address
  iwt_SubwalletID :: u32
  iwt_Lt :: int
  iwt_Currency :: string

record TotalIncome =
  ti_Deposit :: Address
  ti_Amount :: Coins
  ti_Currency :: string

record TotalWithdrawalsAmount =
  twa_Pending :: Coins
  twa_Processing :: Coins

definition NewCoins :: "int \<Rightarrow> Coins" where
  "NewCoins n = of_int n"

definition ZeroCoins :: Coins where
  "ZeroCoins = 0"

section \<open>Lemmas\<close>

lemma length_Address_bytes [simp]: "length (Address_bytes a) = 32"
  by (simp add: Address_bytes_def)

lemma nth_Address_bytes: "i < 32 \<Longrightarrow> Address_bytes a ! i = ucast (drop_bit (8 * (31 - i)) a)"
  by (simp add: Address_bytes_def)

lemma bit_word_rcat_bytes:
  fixes bs :: "byte list"
  shows "bit (word_rcat bs :: 256 word) n \<longleftrightarrow>
           n < 256 \<and> n div 8 < length bs \<and> bit (rev bs ! (n div 8)) (n mod 8)"
  using bit_horner_sum_uint_exp_iff[of "rev bs" n]
  by (simp add: word_rcat_def bit_word_of_int_iff)

lemma bit_byte_of_address: "k < 8 \<Longrightarrow> bit (ucast (x :: Address) :: byte) k \<longleftrightarrow> bit x k"
  by (simp add: bit_ucast_iff)

lemma word_rcat_Address_bytes: "(word_rcat (Address_bytes a) :: Address) = a"
proof (rule bit_word_eqI)
  fix n assume "n < LENGTH(256)"
  then have n: "n < 256" by simp
  then have d: "n div 8 < 32" by linarith
  have "rev (Address_bytes a) ! (n div 8) = ucast (drop_bit (8 * (n div 8)) a)"
    using d by (simp add: rev_nth nth_Address_bytes)
  with n d show "bit (word_rcat (Address_bytes a) :: Address) n = bit a n"
    by (simp add: bit_word_rcat_bytes bit_byte_of_address bit_drop_bit_eq add.commute)
qed

lemma Address_bytes_word_rcat:
  assumes "length bs = 32"
  shows "Address_bytes (word_rcat bs) = bs"
proof (rule nth_equalityI)
  show "length (Address_bytes (word_rcat bs)) = length bs" using assms by simp
  fix i assume "i < length (Address_bytes (word_rcat bs))"
  then have i: "i < 32" by simp
  show "Address_bytes (word_rcat bs) ! i = bs ! i"
  proof (rule bit_word_eqI)
    fix m assume "m < LENGTH(8)"
    then have m: "m < 8" by simp
    have k: "8 * (31 - i) + m < 256" "(8 * (31 - i) + m) div 8 = 31 - i"
      "(8 * (31 - i) + m) mod 8 = m"
      using i m by (auto simp: div_mult_self1)
    have "rev bs ! (31 - i) = bs ! i" using i assms by (simp add: rev_nth)
    then show "bit (Address_bytes (word_rcat bs) ! i) m = bit (bs ! i) m"
      using i m k assms
      by (simp add: nth_Address_bytes bit_ucast_iff bit_drop_bit_eq bit_word_rcat_bytes)
  qed
qed

lemma AddressFromBytes_success: "AddressFromBytes bs = Inr a \<longleftrightarrow> bs = Address_bytes a"
  by (auto simp: AddressFromBytes_def word_rcat_Address_bytes Address_bytes_word_rcat split: if_splits)

lemma AddressFromTonutilsAddress_success:
  "AddressFromTonutilsAddress ta = Inr a \<longleftrightarrow>
     (\<exists>t. ta = Some t \<and> ta_Type t = StdAddress \<and> ta_Data t = Address_bytes a)"
  by (auto simp: AddressFromTonutilsAddress_def AddressFromBytes_success split: option.splits)

lemma Address_bytes_inject [simp]: "Address_bytes a = Address_bytes b \<longleftrightarrow> a = b"
  by (metis word_rcat_Address_bytes)

lemma Events_Append_fields [simp]:
  "ExternalIncomes (Events_Append e f) = ExternalIncomes e @ ExternalIncomes f"
  "InternalIncomes (Events_Append e f) = InternalIncomes e @ InternalIncomes f"
  "SendingConfirmations (Events_Append e f) = SendingConfirmations e @ SendingConfirmations f"
  "InternalWithdrawals (Events_Append e f) = InternalWithdrawals e @ InternalWithdrawals f"
  "ExternalWithdrawals (Events_Append e f) = ExternalWithdrawals e @ ExternalWithdrawals f"
  "WithdrawalConfirmations (Events_Append e f) = WithdrawalConfirmations e @ WithdrawalConfirmations f"
  by (simp_all add: Events_Append_def)

lemma no_events_fields [simp]:
  "ExternalIncomes no_events = []" "InternalIncomes no_events = []"
  "SendingConfirmations no_events = []" "InternalWithdrawals no_events = []"
  "ExternalWithdrawals no_events = []" "WithdrawalConfirmations no_events = []"
  by (simp_all add: no_events_def)

lemma Events_Append_assoc: "Events_Append (Events_Append e f) g = Events_Append e (Events_Append f g)"
  by (simp add: Events_Append_def)

lemma Events_Append_neutral [simp]: "Events_Append no_events e = e" "Events_Append e no_events = e"
  by (simp_all add: Events_Append_def no_events_def)

end
