(* ===== verification/Audit_Log.thy ===== *)
theory Audit_Log
  imports Models
begin

text \<open>
  \<open>src/audit/log.go\<close> and \<open>src/metrics/metrics.go\<close>: audit records by severity and the three
  64-bit counters the records increment.  A function of the model that may write audit records
  returns the records it wrote (\<open>'a audited\<close>); \<open>push_all\<close> is what they do to the counters.  The
  line printed to the process log is output only and is not modelled beyond its text.
\<close>

section \<open>Metrics\<close>

record counter =
  ctr_name :: string
  ctr_description :: string
  ctr_counter :: u64

definition counter_Add :: "counter \<Rightarrow> u64 \<Rightarrow> counter" where
  "counter_Add c n = c\<lparr>ctr_counter := ctr_counter c + n\<rparr>"

definition counter_Inc :: "counter \<Rightarrow> counter" where
  "counter_Inc c = c\<lparr>ctr_counter := ctr_counter c + 1\<rparr>"

fun show_nat :: "nat \<Rightarrow> string" where
  "show_nat n =
     (if n < 10 then [char_of (48 + n)] else show_nat (n div 10) @ [char_of (48 + n mod 10)])"

declare show_nat.simps [simp del]

definition newline :: string where
  "newline = [char_of (10 :: nat)]"

definition counter_Print :: "counter \<Rightarrow> string" where
  "counter_Print c =
     (if ctr_description c \<noteq> [] then ''# HELP '' @ ctr_name c @ '' '' @ ctr_description c @ newline else [])
     @ ''# TYPE '' @ ctr_name c @ '' counter'' @ newline
     @ ctr_name c @ ''{} '' @ show_nat (unat (ctr_counter c)) @ newline"

record metrics =
  m_Errors :: counter
  m_Warnings :: counter
  m_Info :: counter

definition AllMetrics :: "metrics \<Rightarrow> counter list" where
  "AllMetrics m = [m_Errors m, m_Warnings m, m_Info m]"

definition metrics_init :: metrics where
  "metrics_init =
     \<lparr>m_Errors = \<lparr>ctr_name = ''errors'', ctr_description = ''number of errors since the service was launched. see logs for details'', ctr_counter = 0\<rparr>,
      m_Warnings = \<lparr>ctr_name = ''warnings'', ctr_description = ''number of warnings since the service was launched. see logs for details'', ctr_counter = 0\<rparr>,
      m_Info = \<lparr>ctr_name = ''info'', ctr_description = ''number of infos since the service was launched. see logs for details'', ctr_counter = 0\<rparr>\<rparr>"

section \<open>Audit records\<close>

datatype Severity = Error | Warning | Info

record message =
  msg_Severity :: Severity
  msg_Text :: string

type_synonym 'a audited = "(message, 'a) logged"

text \<open>\<open>fmt.Sprintf("%x", b)\<close> for a byte slice.\<close>

definition hex_digit :: "nat \<Rightarrow> char" where
  "hex_digit n = (if n < 10 then char_of (48 + n) else char_of (87 + n))"

definition hex :: "byte list \<Rightarrow> string" where
  "hex bs = concat (map (\<lambda>b. [hex_digit (unat b div 16), hex_digit (unat b mod 16)]) bs)"

definition pushLog :: "message \<Rightarrow> metrics \<Rightarrow> metrics" where
  "pushLog m st =
     (case msg_Severity m of
        Error \<Rightarrow> st\<lparr>m_Errors := counter_Inc (m_Errors st)\<rparr>
      | Warning \<Rightarrow> st\<lparr>m_Warnings := counter_Inc (m_Warnings st)\<rparr>
      | Info \<Rightarrow> st\<lparr>m_Info := counter_Inc (m_Info st)\<rparr>)"

definition LogTX :: "Severity \<Rightarrow> string \<Rightarrow> byte list \<Rightarrow> string \<Rightarrow> message" where
  "LogTX sev loc hash txt = \<lparr>msg_Severity = sev, msg_Text = loc @ ''|TX:'' @ hex hash @ ''|'' @ txt\<rparr>"

definition Log :: "Severity \<Rightarrow> string \<Rightarrow> string \<Rightarrow> string \<Rightarrow> message" where
  "Log sev loc event txt = \<lparr>msg_Severity = sev, msg_Text = loc @ ''|'' @ event @ ''|'' @ txt\<rparr>"

definition push_all :: "message list \<Rightarrow> metrics \<Rightarrow> metrics" where
  "push_all ms st = fold pushLog ms st"

section \<open>Lemmas\<close>

definition sev_count :: "Severity \<Rightarrow> message list \<Rightarrow> nat" where
  "sev_count s ms = length (filter (\<lambda>m. msg_Severity m = s) ms)"

lemma sev_count_simps [simp]:
  "sev_count s [] = 0"
  "sev_count s (m # ms) = (if msg_Severity m = s then 1 else 0) + sev_count s ms"
  "sev_count s (ms @ ns) = sev_count s ms + sev_count s ns"
  by (simp_all add: sev_count_def)

lemma push_all_append: "push_all (ms @ ns) st = push_all ns (push_all ms st)"
  by (simp add: push_all_def)

lemma push_all_counters:
  "ctr_counter (m_Errors (push_all ms st)) = ctr_counter (m_Errors st) + of_nat (sev_count Error ms)"
  "ctr_counter (m_Warnings (push_all ms st)) = ctr_counter (m_Warnings st) + of_nat (sev_count Warning ms)"
  "ctr_counter (m_Info (push_all ms st)) = ctr_counter (m_Info st) + of_nat (sev_count Info ms)"
  unfolding push_all_def
  by (induction ms arbitrary: st) (auto simp: pushLog_def counter_Inc_def split: Severity.splits)

lemma LogTX_Severity [simp]: "msg_Severity (LogTX s l h t) = s"
  by (simp add: LogTX_def)

lemma Log_Severity [simp]: "msg_Severity (Log s l e t) = s"
  by (simp add: Log_def)

end
