(* ===== verification/Address_Book.thy ===== *)
theory Address_Book
  imports Audit_Log
begin

text \<open>
  The address book of \<open>src/db/db.go\<close>: the in-memory map from account address to wallet type,
  owner and user that the scanner, the processors and the API consult.  It starts as a nil map
  (\<open>None\<close>): reading a nil map finds nothing, writing to one panics.  The mutex makes \<open>get\<close> and
  \<open>put\<close> atomic, so each is one step.
\<close>

type_synonym addressBook = "(Address \<rightharpoonup> AddressInfo) option"

definition addressBook_get :: "addressBook \<Rightarrow> Address \<Rightarrow> AddressInfo option" where
  "addressBook_get ab a = (case ab of None \<Rightarrow> None | Some m \<Rightarrow> m a)"

definition addressBook_put :: "addressBook \<Rightarrow> Address \<Rightarrow> AddressInfo \<Rightarrow> error + addressBook" where
  "addressBook_put ab a t =
     (case ab of
        None \<Rightarrow> Inl (Panicf ''assignment to entry in nil map'')
      | Some m \<Rightarrow> Inr (Some (m(a \<mapsto> t))))"

definition GetWalletType :: "addressBook \<Rightarrow> Address \<Rightarrow> WalletType option" where
  "GetWalletType ab a = map_option ai_Type (addressBook_get ab a)"

definition GetUserID :: "addressBook \<Rightarrow> Address \<Rightarrow> string option" where
  "GetUserID ab a = map_option ai_UserID (addressBook_get ab a)"

definition GetOwner :: "addressBook \<Rightarrow> Address \<Rightarrow> error + Address option" where
  "GetOwner ab a =
     (case addressBook_get ab a of
        None \<Rightarrow> Inr None
      | Some info \<Rightarrow>
          if ai_Type info = JettonDepositWallet \<and> ai_Owner info = None
          then Inl (Fatalf ''must be owner address in address book for jetton deposit'')
          else Inr (ai_Owner info))"

definition GetWalletTypeByTonutilsAddress :: "addressBook \<Rightarrow> taddress option \<Rightarrow> WalletType option" where
  "GetWalletTypeByTonutilsAddress ab ta =
     (case AddressFromTonutilsAddress ta of
        Inl e \<Rightarrow> None
      | Inr a \<Rightarrow> GetWalletType ab a)"

section \<open>The lookup interface\<close>

text \<open>
  What the clients of the book rely on: a registration answers for its own address and leaves the
  answers for every other address alone.  The lemmas about sequences of registrations are proved
  once from these laws.
\<close>

locale registry =
  fixes look :: "'b \<Rightarrow> 'k \<Rightarrow> 'v option"
    and reg :: "'k \<Rightarrow> 'v \<Rightarrow> 'b \<Rightarrow> 'b"
    and ready :: "'b \<Rightarrow> bool"
  assumes reg_ready: "ready b \<Longrightarrow> ready (reg k v b)"
    and look_same: "ready b \<Longrightarrow> look (reg k v b) k = Some v"
    and look_other: "ready b \<Longrightarrow> k' \<noteq> k \<Longrightarrow> look (reg k v b) k' = look b k'"
begin

lemma look_reg: "ready b \<Longrightarrow> look (reg k v b) k' = (if k' = k then Some v else look b k')"
  by (simp add: look_same look_other)

lemma ready_fold: "ready b \<Longrightarrow> ready (fold (\<lambda>(k, v). reg k v) kvs b)"
  by (induction kvs arbitrary: b) (auto simp: reg_ready)

lemma look_fold_other:
  "ready b \<Longrightarrow> k \<notin> fst ` set kvs \<Longrightarrow> look (fold (\<lambda>(k, v). reg k v) kvs b) k = look b k"
  by (induction kvs arbitrary: b) (auto simp: reg_ready look_other split: prod.splits)

lemma look_fold_in:
  "ready b \<Longrightarrow> distinct (map fst kvs) \<Longrightarrow> (k, v) \<in> set kvs
    \<Longrightarrow> look (fold (\<lambda>(k, v). reg k v) kvs b) k = Some v"
proof (induction kvs arbitrary: b)
  case Nil
  then show ?case by simp
next
  case (Cons kv kvs)
  obtain k0 v0 where kv: "kv = (k0, v0)" by (cases kv)
  show ?case
  proof (cases "(k, v) = kv")
    case True
    with Cons.prems kv have "k \<notin> fst ` set kvs" by auto
    with True kv Cons.prems(1) show ?thesis
      by (simp add: look_fold_other reg_ready look_same)
  next
    case False
    with Cons.prems have "(k, v) \<in> set kvs" "distinct (map fst kvs)" by auto
    with kv Cons.prems(1) show ?thesis by (simp add: Cons.IH reg_ready)
  qed
qed

end

definition book_reg :: "Address \<Rightarrow> AddressInfo \<Rightarrow> addressBook \<Rightarrow> addressBook" where
  "book_reg a i ab = (case addressBook_put ab a i of Inl e \<Rightarrow> ab | Inr ab' \<Rightarrow> ab')"

interpretation book: registry addressBook_get book_reg "\<lambda>ab. ab \<noteq> None"
  by unfold_locales (auto simp: book_reg_def addressBook_put_def addressBook_get_def split: option.splits)

lemma addressBook_put_ready: "ab \<noteq> None \<Longrightarrow> addressBook_put ab a i = Inr (book_reg a i ab)"
  by (auto simp: book_reg_def addressBook_put_def split: option.splits)

lemma GetWalletTypeByTonutilsAddress_Some:
  "GetWalletTypeByTonutilsAddress ab ta = Some t \<longleftrightarrow>
     (\<exists>a. AddressFromTonutilsAddress ta = Inr a \<and> GetWalletType ab a = Some t)"
  by (auto simp: GetWalletTypeByTonutilsAddress_def split: sum.splits)

lemma GetWalletTypeByTonutilsAddress_Inr [simp]:
  "AddressFromTonutilsAddress ta = Inr a \<Longrightarrow> GetWalletTypeByTonutilsAddress ab ta = GetWalletType ab a"
  by (simp add: GetWalletTypeByTonutilsAddress_def)

end
