(* ===== verification/Storage.thy ===== *)
theory Storage
  imports Address_Book
begin

text \<open>
  \<open>src/db/db.go\<close> and \<open>src/db/proofs.go\<close> over the schema of \<open>src/deploy/db/01_init.up.sql\<close>: each
  table is the list of its rows, each SQL statement of the source is a function on these lists, and
  a UNIQUE constraint of the schema is a check that fails the INSERT.  A function that runs inside a
  transaction maps tables to tables and may fail; the function that owns the transaction keeps the
  old tables when it fails (\<open>tx.Rollback\<close>) and installs the new ones when it commits.

  Where PostgreSQL leaves the order of rows open (no ORDER BY, ties of an ORDER BY) the model takes
  the order of the list, which is arbitrary in every theorem.  Times are nanoseconds; the clock
  readings a function makes are arguments.  Loss of the database connection is not modelled.
\<close>

section \<open>Tables\<close>

type_synonym Time = int

definition time_Unix :: "u32 \<Rightarrow> Time" where
  "time_Unix s = uint s * Second"

record ton_wallets_row =
  tw_subwallet_id :: u32
  tw_user_id :: string
  tw_type :: WalletType
  tw_address :: Address

record jetton_wallets_row =
  jw_subwallet_id :: u32
  jw_user_id :: string
  jw_currency :: string
  jw_type :: WalletType
  jw_address :: Address

record internal_incomes_row =
  nin_lt :: int
  nin_utime :: Time
  nin_deposit_address :: Address
  nin_amount :: Coins
  nin_memo :: uuid

record external_withdrawals_row =
  xw_msg_uuid :: uuid
  xw_query_id :: int
  xw_expired_at :: "Time option"
  xw_processed_at :: "Time option"
  xw_processed_lt :: "int option"
  xw_confirmed :: bool
  xw_failed :: bool
  xw_address :: Address
  xw_tx_hash :: "byte list option"

record withdrawal_requests_row =
  rq_query_id :: int
  rq_bounceable :: bool
  rq_processing :: bool
  rq_processed :: bool
  rq_is_internal :: bool
  rq_amount :: Coins
  rq_user_id :: string
  rq_user_query_id :: string
  rq_currency :: string
  rq_dest_address :: Address
  rq_comment :: string
  rq_binary_comment :: string

record external_incomes_row =
  xin_lt :: int
  xin_utime :: Time
  xin_payer_workchain :: "int option"
  xin_deposit_address :: Address
  xin_payer_address :: "byte list option"
  xin_amount :: Coins
  xin_comment :: string
  xin_tx_hash :: "byte list"

record block_data_row =
  bd_shard :: u64
  bd_seqno :: u32
  bd_gen_utime :: Time
  bd_root_hash :: "byte list"
  bd_file_hash :: "byte list"

record internal_withdrawals_row =
  nw_failed :: bool
  nw_since_lt :: int
  nw_sending_lt :: "int option"
  nw_finish_lt :: "int option"
  nw_finished_at :: "Time option"
  nw_expired_at :: "Time option"
  nw_amount :: Coins
  nw_from_address :: Address
  nw_memo :: uuid

record service_withdrawal_requests_row =
  sr_memo :: uuid
  sr_expired_at :: "Time option"
  sr_filled :: bool
  sr_processed :: bool
  sr_ton_amount :: Coins
  sr_jetton_amount :: Coins
  sr_from_address :: Address
  sr_jetton_master :: "Address option"

record tables =
  ton_wallets :: "ton_wallets_row list"
  jetton_wallets :: "jetton_wallets_row list"
  internal_incomes :: "internal_incomes_row list"
  external_withdrawals :: "external_withdrawals_row list"
  withdrawal_requests :: "withdrawal_requests_row list"
  query_id_seq :: int
  external_incomes :: "external_incomes_row list"
  block_data :: "block_data_row list"
  internal_withdrawals :: "internal_withdrawals_row list"
  service_withdrawal_requests :: "service_withdrawal_requests_row list"
  last_proven_block :: "BlockIDExt option"

definition empty_tables :: tables where
  "empty_tables =
     \<lparr>ton_wallets = [], jetton_wallets = [], internal_incomes = [], external_withdrawals = [],
      withdrawal_requests = [], query_id_seq = 1, external_incomes = [], block_data = [],
      internal_withdrawals = [], service_withdrawal_requests = [], last_proven_block = None\<rparr>"

record Connection =
  conn_db :: tables
  conn_addressBook :: addressBook

definition NewConnection :: "tables \<Rightarrow> Connection" where
  "NewConnection t = \<lparr>conn_db = t, conn_addressBook = None\<rparr>"

section \<open>Wallets and the address book\<close>

definition GetLastSubwalletID :: "tonlib \<Rightarrow> tables \<Rightarrow> u32" where
  "GetLastSubwalletID lib t =
     (case max_key tw_subwallet_id (ton_wallets t) of
        None \<Rightarrow> lib_DefaultSubwallet lib
      | Some i \<Rightarrow> i)"

definition insert_ton_wallet :: "u32 \<Rightarrow> string \<Rightarrow> WalletType \<Rightarrow> Address \<Rightarrow> tables \<Rightarrow> error + tables" where
  "insert_ton_wallet sub user ty a t =
     (if sub \<in> tw_subwallet_id ` set (ton_wallets t)
      then Inl (UniqueViolation ''ton_wallets.subwallet_id'')
      else Inr (t\<lparr>ton_wallets := ton_wallets t @
        [\<lparr>tw_subwallet_id = sub, tw_user_id = user, tw_type = ty, tw_address = a\<rparr>]\<rparr>))"

definition insert_jetton_wallet :: "WalletData \<Rightarrow> tables \<Rightarrow> error + tables" where
  "insert_jetton_wallet wd t =
     (if wd_Address wd \<in> jw_address ` set (jetton_wallets t)
      then Inl (UniqueViolation ''jetton_wallets.address'')
      else Inr (t\<lparr>jetton_wallets := jetton_wallets t @
        [\<lparr>jw_subwallet_id = wd_SubwalletID wd, jw_user_id = wd_UserID wd,
          jw_currency = wd_Currency wd, jw_type = wd_Type wd, jw_address = wd_Address wd\<rparr>]\<rparr>))"

definition put_info :: "Address \<Rightarrow> AddressInfo \<Rightarrow> Connection \<Rightarrow> Connection \<times> (error + unit)" where
  "put_info a info c =
     (case addressBook_put (conn_addressBook c) a info of
        Inl e \<Rightarrow> (c, Inl e)
      | Inr ab \<Rightarrow> (c\<lparr>conn_addressBook := ab\<rparr>, Inr ()))"

definition SaveTonWallet :: "WalletData \<Rightarrow> Connection \<Rightarrow> Connection \<times> (error + unit)" where
  "SaveTonWallet wd c =
     (case insert_ton_wallet (wd_SubwalletID wd) (wd_UserID wd) (wd_Type wd) (wd_Address wd) (conn_db c) of
        Inl e \<Rightarrow> (c, Inl e)
      | Inr t \<Rightarrow>
          put_info (wd_Address wd) \<lparr>ai_Type = wd_Type wd, ai_Owner = None, ai_UserID = wd_UserID wd\<rparr>
            (c\<lparr>conn_db := t\<rparr>))"

definition GetJettonWallet :: "Address \<Rightarrow> tables \<Rightarrow> WalletData option" where
  "GetJettonWallet a t =
     map_option (\<lambda>r. \<lparr>wd_SubwalletID = jw_subwallet_id r, wd_UserID = jw_user_id r,
                      wd_Currency = jw_currency r, wd_Type = jw_type r, wd_Address = a\<rparr>)
       (find (\<lambda>r. jw_address r = a) (jetton_wallets t))"

definition SaveJettonWallet ::
  "Address \<Rightarrow> WalletData \<Rightarrow> bool \<Rightarrow> Connection \<Rightarrow> Connection \<times> (error + unit)" where
  "SaveJettonWallet ownerAddress wd notSaveOwner c =
     (case andThenR (if notSaveOwner then Inr (conn_db c)
                     else insert_ton_wallet (wd_SubwalletID wd) (wd_UserID wd) JettonOwner ownerAddress (conn_db c))
                    (insert_jetton_wallet wd) of
        Inl e \<Rightarrow> (c, Inl e)
      | Inr t \<Rightarrow>
          (let c1 = c\<lparr>conn_db := t\<rparr>;
               (c2, r) = (if wd_Type wd = JettonDepositWallet
                          then put_info ownerAddress \<lparr>ai_Type = JettonOwner, ai_Owner = None, ai_UserID = wd_UserID wd\<rparr> c1
                          else (c1, Inr ()))
           in case r of
                Inl e \<Rightarrow> (c2, Inl e)
              | Inr _ \<Rightarrow> put_info (wd_Address wd)
                  \<lparr>ai_Type = wd_Type wd, ai_Owner = Some ownerAddress, ai_UserID = wd_UserID wd\<rparr> c2))"

definition GetTonWalletsAddresses :: "string \<Rightarrow> WalletType list \<Rightarrow> tables \<Rightarrow> Address list" where
  "GetTonWalletsAddresses userID types t =
     map tw_address (filter (\<lambda>r. tw_user_id r = userID \<and> tw_type r \<in> set types) (ton_wallets t))"

primrec scan_owners :: "(jetton_wallets_row \<times> ton_wallets_row option) list \<Rightarrow> error + OwnerWallet list" where
  "scan_owners [] = Inr []"
| "scan_owners (x # xs) =
     andThenR (Address_Scan (map_option (\<lambda>w. Address_bytes (tw_address w)) (snd x))) (\<lambda>a.
     andThenR (scan_owners xs) (\<lambda>ows.
     Inr (\<lparr>ow_Address = a, ow_Currency = jw_currency (fst x)\<rparr> # ows)))"

definition GetJettonOwnersAddresses :: "string \<Rightarrow> WalletType list \<Rightarrow> tables \<Rightarrow> error + OwnerWallet list" where
  "GetJettonOwnersAddresses userID types t =
     scan_owners (filter (\<lambda>(jw, _). jw_user_id jw = userID \<and> jw_type jw \<in> set types)
       (left_join (\<lambda>jw tw. jw_subwallet_id jw = tw_subwallet_id tw) (jetton_wallets t) (ton_wallets t)))"

primrec load_ton_rows :: "ton_wallets_row list \<Rightarrow> (Address \<rightharpoonup> AddressInfo) \<Rightarrow> (Address \<rightharpoonup> AddressInfo)" where
  "load_ton_rows [] res = res"
| "load_ton_rows (r # rs) res =
     load_ton_rows rs (res(tw_address r \<mapsto> \<lparr>ai_Type = tw_type r, ai_Owner = None, ai_UserID = tw_user_id r\<rparr>))"

primrec load_jetton_rows ::
  "(jetton_wallets_row \<times> ton_wallets_row option) list \<Rightarrow> (Address \<rightharpoonup> AddressInfo) \<Rightarrow> error + (Address \<rightharpoonup> AddressInfo)" where
  "load_jetton_rows [] res = Inr res"
| "load_jetton_rows (x # xs) res =
     andThenR (Address_Scan (map_option (\<lambda>w. Address_bytes (tw_address w)) (snd x))) (\<lambda>owner.
     load_jetton_rows xs (res(jw_address (fst x) \<mapsto>
       \<lparr>ai_Type = jw_type (fst x), ai_Owner = Some owner, ai_UserID = jw_user_id (fst x)\<rparr>)))"

definition LoadAddressBook :: "Connection \<Rightarrow> Connection \<times> (error + unit)" where
  "LoadAddressBook c =
     (let t = conn_db c;
          res = load_ton_rows (ton_wallets t) Map.empty
      in case load_jetton_rows
                (left_join (\<lambda>jw tw. jw_subwallet_id jw = tw_subwallet_id tw) (jetton_wallets t) (ton_wallets t)) res of
           Inl e \<Rightarrow> (c, Inl e)
         | Inr m \<Rightarrow> (c\<lparr>conn_addressBook := Some m\<rparr>, Inr ()))"

definition GetTonHotWalletAddress :: "tables \<Rightarrow> error + Address" where
  "GetTonHotWalletAddress t =
     (case find (\<lambda>r. tw_type r = TonHotWallet) (ton_wallets t) of
        None \<Rightarrow> Inl ErrNotFound
      | Some r \<Rightarrow> Inr (tw_address r))"

section \<open>Text sanitising\<close>

text \<open>\<open>utf8.DecodeRune\<close>: the code point and the width of the first character, or
  \<open>(RuneError, 1)\<close> when the bytes do not start a well-formed character.\<close>

definition RuneError :: nat where
  "RuneError = 0xFFFD"

definition cont :: "nat \<Rightarrow> bool" where
  "cont b \<longleftrightarrow> 0x80 \<le> b \<and> b \<le> 0xBF"

fun decode2 :: "nat \<Rightarrow> nat list \<Rightarrow> nat \<times> nat" where
  "decode2 b0 (b1 # bs) = (if cont b1 then ((b0 - 0xC0) * 64 + (b1 - 0x80), 2) else (RuneError, 1))"
| "decode2 b0 [] = (RuneError, 1)"

fun decode3 :: "nat \<Rightarrow> nat list \<Rightarrow> nat \<times> nat" where
  "decode3 b0 (b1 # b2 # bs) =
     (if (if b0 = 0xE0 then 0xA0 else 0x80) \<le> b1 \<and> b1 \<le> (if b0 = 0xED then 0x9F else 0xBF) \<and> cont b2
      then ((b0 - 0xE0) * 4096 + (b1 - 0x80) * 64 + (b2 - 0x80), 3)
      else (RuneError, 1))"
| "decode3 b0 bs = (RuneError, 1)"

fun decode4 :: "nat \<Rightarrow> nat list \<Rightarrow> nat \<times> nat" where
  "decode4 b0 (b1 # b2 # b3 # bs) =
     (if (if b0 = 0xF0 then 0x90 else 0x80) \<le> b1 \<and> b1 \<le> (if b0 = 0xF4 then 0x8F else 0xBF)
         \<and> cont b2 \<and> cont b3
      then ((b0 - 0xF0) * 262144 + (b1 - 0x80) * 4096 + (b2 - 0x80) * 64 + (b3 - 0x80), 4)
      else (RuneError, 1))"
| "decode4 b0 bs = (RuneError, 1)"

definition decode_first :: "nat \<Rightarrow> nat list \<Rightarrow> nat \<times> nat" where
  "decode_first b0 bs =
     (if b0 < 0x80 then (b0, 1)
      else if 0xC2 \<le> b0 \<and> b0 \<le> 0xDF then decode2 b0 bs
      else if 0xE0 \<le> b0 \<and> b0 \<le> 0xEF then decode3 b0 bs
      else if 0xF0 \<le> b0 \<and> b0 \<le> 0xF4 then decode4 b0 bs
      else (RuneError, 1))"

fun DecodeRune :: "string \<Rightarrow> nat \<times> nat" where
  "DecodeRune [] = (RuneError, 0)"
| "DecodeRune (c # cs) = decode_first (of_char c) (map of_char cs)"

lemma decode_first_size: "0 < snd (decode_first b0 bs) \<and> snd (decode_first b0 bs) \<le> Suc (length bs)"
proof -
  have "0 < snd (decode2 b0 bs) \<and> snd (decode2 b0 bs) \<le> Suc (length bs)"
    by (cases "(b0, bs)" rule: decode2.cases) simp_all
  moreover have "0 < snd (decode3 b0 bs) \<and> snd (decode3 b0 bs) \<le> Suc (length bs)"
    by (cases "(b0, bs)" rule: decode3.cases) simp_all
  moreover have "0 < snd (decode4 b0 bs) \<and> snd (decode4 b0 bs) \<le> Suc (length bs)"
    by (cases "(b0, bs)" rule: decode4.cases) simp_all
  ultimately show ?thesis by (simp add: decode_first_def)
qed

lemma DecodeRune_size: "s \<noteq> [] \<Longrightarrow> 0 < snd (DecodeRune s) \<and> snd (DecodeRune s) \<le> length s"
  using decode_first_size by (cases s) (auto, metis length_map)

function strip_loop :: "string \<Rightarrow> string" where
  "strip_loop b =
     (if b = [] then []
      else (let (r, size) = DecodeRune b in
            (if r \<noteq> RuneError \<or> size > 1 then take size b else []) @ strip_loop (drop size b)))"
  by pat_completeness auto
termination
proof (relation "measure length")
  fix b r size and x :: "nat \<times> nat"
  assume a: "b \<noteq> []" "x = DecodeRune b" "(r, size) = x"
  then have "size = snd (DecodeRune b)" by (metis snd_conv)
  with DecodeRune_size[OF a(1)] a(1) show "(drop size b, b) \<in> measure length" by simp
qed simp

declare strip_loop.simps [simp del]

definition stripInvalidUTF8 :: "string \<Rightarrow> string" where
  "stripInvalidUTF8 s = filter (\<lambda>c. of_char c \<noteq> (0 :: nat)) (strip_loop s)"

end
