(* ===== verification/Storage_Events.thy ===== *)
theory Storage_Events
  imports Storage
begin

text \<open>
  The writing half of \<open>src/db/db.go\<close>: withdrawal requests, the life of external, internal and
  service withdrawals, what a scanned block does to the tables, and expiration.  Every step of
  \<open>SaveParsedBlockData\<close> is a function from tables to tables that may fail; the transaction runs
  them in the order of the source and installs the result only when all succeed.
\<close>

section \<open>Incomes\<close>

definition saveExternalIncome :: "ExternalIncome \<Rightarrow> tables \<Rightarrow> tables audited" where
  "saveExternalIncome inc t =
     ok (t\<lparr>external_incomes := external_incomes t @
       [\<lparr>xin_lt = uint (ei_Lt inc), xin_utime = time_Unix (ei_Utime inc),
         xin_payer_workchain = ei_FromWorkchain inc, xin_deposit_address = ei_To inc,
         xin_payer_address = ei_From inc, xin_amount = ei_Amount inc,
         xin_comment = stripInvalidUTF8 (ei_Comment inc), xin_tx_hash = ei_TxHash inc\<rparr>]\<rparr>)"

text \<open>The jetton wallet of a proxy: the first row of the join, whose address may be NULL.\<close>

definition jetton_wallet_of_owner :: "Address \<Rightarrow> tables \<Rightarrow> error + Address" where
  "jetton_wallet_of_owner a t =
     (case left_join (\<lambda>tw jw. tw_subwallet_id tw = jw_subwallet_id jw)
             (filter (\<lambda>tw. tw_address tw = a) (ton_wallets t)) (jetton_wallets t) of
        [] \<Rightarrow> Inl ErrNoRows
      | (_, jw) # _ \<Rightarrow> Address_Scan (map_option (\<lambda>w. Address_bytes (jw_address w)) jw))"

definition saveInternalIncome :: "tonlib \<Rightarrow> addressBook \<Rightarrow> InternalIncome \<Rightarrow> tables \<Rightarrow> tables audited" where
  "saveInternalIncome lib ab inc t =
     andThen (lift_res (lib_UuidFromString lib (ii_Memo inc))) (\<lambda>memo.
     andThen (lift_res (if GetWalletType ab (ii_From inc) = Some JettonOwner
                        then jetton_wallet_of_owner (ii_From inc) t
                        else Inr (ii_From inc))) (\<lambda>a.
     if \<exists>r\<in>set (internal_incomes t). nin_memo r = memo \<and> nin_lt r = uint (ii_Lt inc)
     then fail (UniqueViolation ''internal_incomes (memo, lt)'')
     else ok (t\<lparr>internal_incomes := internal_incomes t @
       [\<lparr>nin_lt = uint (ii_Lt inc), nin_utime = time_Unix (ii_Utime inc), nin_deposit_address = a,
         nin_amount = ii_Amount inc, nin_memo = memo\<rparr>]\<rparr>)))"

section \<open>Withdrawal requests\<close>

text \<open>\<open>query_id\<close> is a \<open>bigserial\<close>: the sequence advances even when the INSERT is refused.\<close>

definition SaveWithdrawalRequest :: "WithdrawalRequest \<Rightarrow> tables \<Rightarrow> tables \<times> (error + int)" where
  "SaveWithdrawalRequest w t =
     (let t1 = t\<lparr>query_id_seq := query_id_seq t + 1\<rparr> in
      if \<exists>r\<in>set (withdrawal_requests t). rq_user_id r = wr_UserID w
           \<and> rq_user_query_id r = wr_QueryID w \<and> rq_is_internal r = wr_IsInternal w
      then (t1, Inl (UniqueViolation ''withdrawal_requests (user_id, user_query_id, is_internal)''))
      else (t1\<lparr>withdrawal_requests := withdrawal_requests t @
              [\<lparr>rq_query_id = query_id_seq t, rq_bounceable = wr_Bounceable w,
                rq_processing = False, rq_processed = False, rq_is_internal = wr_IsInternal w,
                rq_amount = wr_Amount w, rq_user_id = wr_UserID w, rq_user_query_id = wr_QueryID w,
                rq_currency = wr_Currency w, rq_dest_address = wr_Destination w,
                rq_comment = wr_Comment w, rq_binary_comment = wr_BinaryComment w\<rparr>]\<rparr>,
            Inr (query_id_seq t)))"

text \<open>The memo of a service withdrawal is the value of \<open>gen_random_uuid()\<close>, an argument.\<close>

definition SaveServiceWithdrawalRequest ::
  "uuid \<Rightarrow> ServiceWithdrawalRequest \<Rightarrow> tables \<Rightarrow> error + (tables \<times> uuid)" where
  "SaveServiceWithdrawalRequest memo w t =
     (if memo \<in> sr_memo ` set (service_withdrawal_requests t)
      then Inl (UniqueViolation ''service_withdrawal_requests.memo'')
      else Inr (t\<lparr>service_withdrawal_requests := service_withdrawal_requests t @
        [\<lparr>sr_memo = memo, sr_expired_at = None, sr_filled = False, sr_processed = False,
          sr_ton_amount = 0, sr_jetton_amount = 0, sr_from_address = swr_From w,
          sr_jetton_master = swr_JettonMaster w\<rparr>]\<rparr>, memo))"

definition UpdateServiceWithdrawalRequest ::
  "ServiceWithdrawalTask \<Rightarrow> Coins \<Rightarrow> Time \<Rightarrow> bool \<Rightarrow> tables \<Rightarrow> tables" where
  "UpdateServiceWithdrawalRequest task tonAmount expiredAt filled t =
     t\<lparr>service_withdrawal_requests :=
        update_where (\<lambda>r. sr_memo r = swt_Memo task)
          (\<lambda>r. r\<lparr>sr_ton_amount := tonAmount, sr_jetton_amount := swt_JettonAmount task,
                 sr_processed := \<not> filled, sr_expired_at := Some expiredAt, sr_filled := filled\<rparr>)
          (service_withdrawal_requests t)\<rparr>"

definition IsWithdrawalRequestUnique :: "WithdrawalRequest \<Rightarrow> tables \<Rightarrow> bool" where
  "IsWithdrawalRequestUnique w t =
     (\<not> (\<exists>r\<in>set (withdrawal_requests t). rq_user_id r = wr_UserID w
           \<and> rq_user_query_id r = wr_QueryID w \<and> \<not> rq_is_internal r))"

section \<open>Blocks and withdrawals found in them\<close>

definition saveBlock :: "ShardBlockHeader \<Rightarrow> tables \<Rightarrow> tables audited" where
  "saveBlock h t =
     (let b = sbh_BlockIDExt h in
      if \<exists>r\<in>set (block_data t). bd_shard r = bid_Shard b \<and> bd_seqno r = bid_SeqNo b
      then fail (UniqueViolation ''block_data (shard, seqno)'')
      else ok (t\<lparr>block_data := block_data t @
        [\<lparr>bd_shard = bid_Shard b, bd_seqno = bid_SeqNo b, bd_gen_utime = time_Unix (sbh_GenUtime h),
          bd_root_hash = bid_RootHash b, bd_file_hash = bid_FileHash b\<rparr>]\<rparr>))"

definition updateInternalWithdrawal :: "tonlib \<Rightarrow> InternalWithdrawal \<Rightarrow> tables \<Rightarrow> tables audited" where
  "updateInternalWithdrawal lib w t =
     andThen (lift_res (lib_UuidFromString lib (iw_Memo w))) (\<lambda>memo.
     let row = find (\<lambda>r. nw_memo r = memo) (internal_withdrawals t);
         alreadyFailed = (case row of None \<Rightarrow> False | Some r \<Rightarrow> nw_failed r);
         sendingLt = (case row of None \<Rightarrow> None | Some r \<Rightarrow> nw_sending_lt r)
     in if alreadyFailed then
          noting (Log Error ''internal withdrawal message'' (EventName_string InternalWithdrawalEvent)
                    (''successful withdrawal for expired internal withdrawal message. memo: '' @ iw_Memo w))
            (fail (Errorf ''invalid behavior of the expiration processor''))
        else if sendingLt = None then
          noting (Log Error ''internal withdrawal message'' (EventName_string InternalWithdrawalEvent)
                    (''successful withdrawal without sending confirmation. memo: '' @ iw_Memo w))
            (fail (Errorf ''invalid event order''))
        else if iw_IsFailed w then
          ok (t\<lparr>internal_withdrawals :=
                update_where (\<lambda>r. nw_memo r = memo) (\<lambda>r. r\<lparr>nw_failed := True\<rparr>) (internal_withdrawals t)\<rparr>)
        else
          ok (t\<lparr>internal_withdrawals :=
                update_where (\<lambda>r. nw_memo r = memo)
                  (\<lambda>r. r\<lparr>nw_finish_lt := Some (uint (iw_Lt w)),
                         nw_finished_at := Some (time_Unix (iw_Utime w)),
                         nw_amount := nw_amount r + iw_Amount w\<rparr>)
                  (internal_withdrawals t)\<rparr>))"

definition SaveInternalWithdrawalTask ::
  "InternalWithdrawalTask \<Rightarrow> Time \<Rightarrow> uuid \<Rightarrow> tables \<Rightarrow> error + tables" where
  "SaveInternalWithdrawalTask task expiredAt memo t =
     (if memo \<in> nw_memo ` set (internal_withdrawals t)
      then Inl (UniqueViolation ''internal_withdrawals.memo'')
      else Inr (t\<lparr>internal_withdrawals := internal_withdrawals t @
        [\<lparr>nw_failed = False, nw_since_lt = iwt_Lt task, nw_sending_lt = None, nw_finish_lt = None,
          nw_finished_at = None, nw_expired_at = Some expiredAt, nw_amount = 0,
          nw_from_address = iwt_From task, nw_memo = memo\<rparr>]\<rparr>))"

definition applyJettonWithdrawalConfirmation :: "JettonWithdrawalConfirmation \<Rightarrow> tables \<Rightarrow> tables audited" where
  "applyJettonWithdrawalConfirmation confirm t =
     ok (t\<lparr>external_withdrawals :=
        update_where (\<lambda>r. xw_query_id r = jwc_QueryId confirm \<and> xw_processed_lt r \<noteq> None)
          (\<lambda>r. r\<lparr>xw_confirmed := True\<rparr>) (external_withdrawals t)\<rparr>)"

definition mark_processed :: "int \<Rightarrow> tables \<Rightarrow> tables" where
  "mark_processed q t =
     t\<lparr>withdrawal_requests :=
        update_where (\<lambda>r. rq_query_id r = q) (\<lambda>r. r\<lparr>rq_processed := True\<rparr>) (withdrawal_requests t)\<rparr>"

definition updateExternalWithdrawal :: "tonlib \<Rightarrow> ExternalWithdrawal \<Rightarrow> tables \<Rightarrow> tables audited" where
  "updateExternalWithdrawal lib w t =
     (let hit = (\<lambda>r. xw_msg_uuid r = ew_ExtMsgUuid w \<and> xw_address r = ew_To w);
          row = find hit (external_withdrawals t);
          alreadyFailed = (case row of None \<Rightarrow> False | Some r \<Rightarrow> xw_failed r)
      in if alreadyFailed then
           noting (Log Error ''external withdrawal message'' (EventName_string ExternalWithdrawalEvent)
                     (''successful withdrawal for expired external withdrawal message. msg uuid: ''
                      @ lib_UuidString lib (ew_ExtMsgUuid w)))
             (fail (Errorf ''invalid behavior of the expiration processor''))
         else if ew_IsFailed w then
           (case row of
              None \<Rightarrow> fail ErrNoRows
            | Some r \<Rightarrow>
                ok (mark_processed (xw_query_id r)
                     (t\<lparr>external_withdrawals :=
                        update_where hit (\<lambda>x. x\<lparr>xw_failed := True, xw_tx_hash := Some (ew_TxHash w)\<rparr>)
                          (external_withdrawals t)\<rparr>)))
         else
           (case row of
              None \<Rightarrow>
                noting (Log Error ''external withdrawal message'' (EventName_string ExternalWithdrawalEvent)
                          (''successful withdrawal not linked to any known withdrawal request; possibly a manual hot wallet withdrawal. tx hash: ''
                           @ hex (ew_TxHash w)))
                  (fail (Errorf ''anomalous behavior of the TON hot wallet''))
            | Some r \<Rightarrow>
                ok (mark_processed (xw_query_id r)
                     (t\<lparr>external_withdrawals :=
                        update_where hit
                          (\<lambda>x. x\<lparr>xw_processed_lt := Some (uint (ew_Lt w)),
                                 xw_processed_at := Some (time_Unix (ew_Utime w)),
                                 xw_tx_hash := Some (ew_TxHash w)\<rparr>)
                          (external_withdrawals t)\<rparr>))))"

text \<open>The UPDATE of the source runs before the check of \<open>failed\<close>; when the check fails the error
  rolls the transaction back, so the tables of that branch are never seen.\<close>

definition applySendingConfirmations :: "tonlib \<Rightarrow> SendingConfirmation \<Rightarrow> tables \<Rightarrow> tables audited" where
  "applySendingConfirmations lib w t =
     andThen (lift_res (lib_UuidFromString lib (sc_Memo w))) (\<lambda>memo.
     case find (\<lambda>r. nw_memo r = memo) (internal_withdrawals t) of
       None \<Rightarrow> fail ErrNoRows
     | Some r \<Rightarrow>
         if nw_failed r then
           noting (Log Error ''internal withdrawal message'' (EventName_string InternalWithdrawalEvent)
                     (''successful sending for expired internal withdrawal message. memo: '' @ sc_Memo w))
             (fail (Errorf ''invalid behavior of the expiration processor''))
         else
           ok (t\<lparr>internal_withdrawals :=
                update_where (\<lambda>r. nw_memo r = memo) (\<lambda>r. r\<lparr>nw_sending_lt := Some (uint (sc_Lt w))\<rparr>)
                  (internal_withdrawals t)\<rparr>))"

text \<open>The body of the transaction, in the order of the source, and the transaction itself.\<close>

definition parsed_block_tx :: "tonlib \<Rightarrow> addressBook \<Rightarrow> BlockEvents \<Rightarrow> tables \<Rightarrow> tables audited" where
  "parsed_block_tx lib ab events t =
     (let e = be_Events events in
      andThen (forM saveExternalIncome (ExternalIncomes e) t) (\<lambda>t1.
      andThen (forM (saveInternalIncome lib ab) (InternalIncomes e) t1) (\<lambda>t2.
      andThen (forM (applySendingConfirmations lib) (SendingConfirmations e) t2) (\<lambda>t3.
      andThen (forM (updateInternalWithdrawal lib) (InternalWithdrawals e) t3) (\<lambda>t4.
      andThen (forM (updateExternalWithdrawal lib) (ExternalWithdrawals e) t4) (\<lambda>t5.
      andThen (forM applyJettonWithdrawalConfirmation (WithdrawalConfirmations e) t5) (\<lambda>t6.
      saveBlock (be_Block events) t6)))))))"

definition SaveParsedBlockData :: "tonlib \<Rightarrow> BlockEvents \<Rightarrow> Connection \<Rightarrow> Connection \<times> unit audited" where
  "SaveParsedBlockData lib events c =
     (case parsed_block_tx lib (conn_addressBook c) events (conn_db c) of
        (logs, Inl e) \<Rightarrow> (c, (logs, Inl e))
      | (logs, Inr t) \<Rightarrow> (c\<lparr>conn_db := t\<rparr>, (logs, Inr ())))"

section \<open>Sending and expiration\<close>

definition create_external_withdrawal ::
  "uuid \<Rightarrow> Time \<Rightarrow> ExternalWithdrawalTask \<Rightarrow> tables \<Rightarrow> tables audited" where
  "create_external_withdrawal u expiredAt task t =
     (if \<exists>r\<in>set (external_withdrawals t). xw_msg_uuid r = u \<and> xw_address r = ewt_Destination task
      then fail (UniqueViolation ''external_withdrawals (msg_uuid, address)'')
      else ok (t\<lparr>external_withdrawals := external_withdrawals t @
          [\<lparr>xw_msg_uuid = u, xw_query_id = ewt_QueryID task, xw_expired_at = Some expiredAt,
            xw_processed_at = None, xw_processed_lt = None, xw_confirmed = False, xw_failed = False,
            xw_address = ewt_Destination task, xw_tx_hash = None\<rparr>],
        withdrawal_requests :=
          update_where (\<lambda>r. rq_query_id r = ewt_QueryID task) (\<lambda>r. r\<lparr>rq_processing := True\<rparr>)
            (withdrawal_requests t)\<rparr>))"

definition CreateExternalWithdrawals ::
  "ExternalWithdrawalTask list \<Rightarrow> uuid \<Rightarrow> Time \<Rightarrow> tables \<Rightarrow> tables \<times> (error + unit)" where
  "CreateExternalWithdrawals tasks u expiredAt t =
     (case snd (forM (create_external_withdrawal u expiredAt) tasks t) of
        Inl e \<Rightarrow> (t, Inl e)
      | Inr t' \<Rightarrow> (t', Inr ()))"

definition xw_expired :: "Time \<Rightarrow> external_withdrawals_row \<Rightarrow> bool" where
  "xw_expired cutoff r \<longleftrightarrow>
     (case xw_expired_at r of None \<Rightarrow> False | Some e \<Rightarrow> e < cutoff)
     \<and> xw_processed_lt r = None \<and> \<not> xw_failed r"

definition nw_expired :: "Time \<Rightarrow> internal_withdrawals_row \<Rightarrow> bool" where
  "nw_expired cutoff r \<longleftrightarrow>
     (case nw_expired_at r of None \<Rightarrow> False | Some e \<Rightarrow> e < cutoff)
     \<and> nw_sending_lt r = None \<and> \<not> nw_failed r"

definition reset_processing :: "int \<Rightarrow> tables \<Rightarrow> tables" where
  "reset_processing q t =
     t\<lparr>withdrawal_requests :=
        update_where (\<lambda>r. rq_query_id r = q) (\<lambda>r. r\<lparr>rq_processing := False\<rparr>) (withdrawal_requests t)\<rparr>"

text \<open>The clock is read twice, once for each UPDATE.\<close>

definition SetExpired :: "config \<Rightarrow> Time \<Rightarrow> Time \<Rightarrow> tables \<Rightarrow> tables" where
  "SetExpired cfg now1 now2 t =
     (let cut1 = now1 - cfg_AllowableBlockchainLagging cfg;
          cut2 = now2 - cfg_AllowableBlockchainLagging cfg;
          t1 = t\<lparr>internal_withdrawals :=
                 update_where (nw_expired cut1) (\<lambda>r. r\<lparr>nw_failed := True\<rparr>) (internal_withdrawals t)\<rparr>;
          ids = map xw_query_id (filter (xw_expired cut2) (external_withdrawals t1));
          t2 = t1\<lparr>external_withdrawals :=
                 update_where (xw_expired cut2) (\<lambda>r. r\<lparr>xw_failed := True\<rparr>) (external_withdrawals t1)\<rparr>
      in fold reset_processing ids t2)"

definition SaveLastMasterchainProvenBlock :: "BlockIDExt \<Rightarrow> tables \<Rightarrow> tables" where
  "SaveLastMasterchainProvenBlock b t = t\<lparr>last_proven_block := Some b\<rparr>"

definition GetLastMasterchainProvenBlock :: "tables \<Rightarrow> error + BlockIDExt" where
  "GetLastMasterchainProvenBlock t =
     (case last_proven_block t of None \<Rightarrow> Inl ErrNoRows | Some b \<Rightarrow> Inr b)"

end
