(* ===== verification/Storage_Queries.thy ===== *)
theory Storage_Queries
  imports Storage_Events
begin

text \<open>
  The reading half of \<open>src/db/db.go\<close>: the selection of withdrawal tasks, block and request state,
  and the income reports.  \<open>ORDER BY\<close> is a stable sort, \<open>LIMIT\<close> a \<open>take\<close>, \<open>GROUP BY\<close> one result
  row per key of the joined rows.
\<close>

section \<open>Task selection\<close>

definition task_of_request :: "withdrawal_requests_row \<Rightarrow> ExternalWithdrawalTask" where
  "task_of_request r =
     \<lparr>ewt_QueryID = rq_query_id r, ewt_Currency = rq_currency r, ewt_Amount = rq_amount r,
      ewt_Destination = rq_dest_address r, ewt_Bounceable = rq_bounceable r,
      ewt_Comment = rq_comment r, ewt_BinaryComment = rq_binary_comment r\<rparr>"

definition GetExternalWithdrawalTasks :: "nat \<Rightarrow> tables \<Rightarrow> ExternalWithdrawalTask list" where
  "GetExternalWithdrawalTasks limit t =
     map task_of_request (take limit
       (distinct_on rq_dest_address
         (sort_key rq_dest_address (sort_key rq_query_id
           (filter (\<lambda>r. \<not> rq_processing r) (withdrawal_requests t))))))"

definition service_rows :: "tables \<Rightarrow> (service_withdrawal_requests_row \<times> ton_wallets_row option) list" where
  "service_rows t =
     left_join (\<lambda>swr tw. sr_from_address swr = tw_address tw) (service_withdrawal_requests t) (ton_wallets t)"

definition service_task ::
  "(service_withdrawal_requests_row \<times> ton_wallets_row option) \<Rightarrow> Coins \<Rightarrow> ServiceWithdrawalTask" where
  "service_task x amount =
     \<lparr>swr_From = sr_from_address (fst x), swr_JettonMaster = sr_jetton_master (fst x),
      swt_JettonAmount = amount, swt_Memo = sr_memo (fst x),
      swt_SubwalletID = (case snd x of None \<Rightarrow> 0 | Some tw \<Rightarrow> tw_subwallet_id tw)\<rparr>"

definition GetServiceHotWithdrawalTasks :: "nat \<Rightarrow> tables \<Rightarrow> ServiceWithdrawalTask list" where
  "GetServiceHotWithdrawalTasks limit t =
     map (\<lambda>x. service_task x 0) (take limit
       (distinct_on (\<lambda>x. sr_from_address (fst x))
         (sort_key (\<lambda>x. sr_from_address (fst x))
           (filter (\<lambda>(swr, tw). \<not> sr_processed swr
                      \<and> (case tw of None \<Rightarrow> False | Some w \<Rightarrow> tw_type w \<in> {JettonOwner, TonDepositWallet})
                      \<and> \<not> sr_filled swr)
             (service_rows t)))))"

definition GetServiceDepositWithdrawalTasks :: "nat \<Rightarrow> tables \<Rightarrow> ServiceWithdrawalTask list" where
  "GetServiceDepositWithdrawalTasks limit t =
     map (\<lambda>x. service_task x (sr_jetton_amount (fst x))) (take limit
       (distinct_on (\<lambda>x. sr_from_address (fst x))
         (sort_key (\<lambda>x. sr_from_address (fst x))
           (filter (\<lambda>(swr, tw). \<not> sr_processed swr \<and> sr_filled swr
                      \<and> (case tw of None \<Rightarrow> False | Some w \<Rightarrow> tw_type w = TonDepositWallet))
             (service_rows t)))))"

text \<open>The latest withdrawals of each deposit that have not failed (the subquery \<open>iw3\<close>).\<close>

definition latest_withdrawals :: "tables \<Rightarrow> internal_withdrawals_row list" where
  "latest_withdrawals t =
     (let live = filter (\<lambda>r. \<not> nw_failed r) (internal_withdrawals t) in
      filter (\<lambda>r. max_key nw_since_lt (filter (\<lambda>x. nw_from_address x = nw_from_address r) live)
                    = Some (nw_since_lt r)) live)"

definition incomes_with_latest :: "tables \<Rightarrow> (external_incomes_row \<times> internal_withdrawals_row option) list" where
  "incomes_with_latest t =
     left_join (\<lambda>di iw. nw_from_address iw = xin_deposit_address di) (external_incomes t) (latest_withdrawals t)"

definition max_or_zero :: "('r \<Rightarrow> 'k::{linorder,zero}) \<Rightarrow> 'r list \<Rightarrow> 'k" where
  "max_or_zero k rs = (case max_key k rs of None \<Rightarrow> 0 | Some m \<Rightarrow> m)"

definition ton_task_rows ::
  "tables \<Rightarrow> (external_incomes_row \<times> ton_wallets_row) list" where
  "ton_task_rows t =
     map (\<lambda>((di, iw), tw). (di, tw))
       (filter (\<lambda>((di, iw), tw).
          (case iw of None \<Rightarrow> True
           | Some w \<Rightarrow> (case nw_finish_lt w of None \<Rightarrow> False | Some f \<Rightarrow> f < xin_lt di))
          \<and> tw_type tw = TonDepositWallet)
         (inner_join (\<lambda>x tw. xin_deposit_address (fst x) = tw_address tw) (incomes_with_latest t) (ton_wallets t)))"

definition GetTonInternalWithdrawalTasks :: "nat \<Rightarrow> tables \<Rightarrow> InternalWithdrawalTask list" where
  "GetTonInternalWithdrawalTasks limit t =
     (let rows = ton_task_rows t;
          key = (\<lambda>(di, tw). (xin_deposit_address di, tw_subwallet_id tw));
          grp = (\<lambda>x. filter (\<lambda>y. key y = key x) rows)
      in map (\<lambda>x. \<lparr>iwt_From = xin_deposit_address (fst x), iwt_SubwalletID = tw_subwallet_id (snd x),
                   iwt_Lt = max_or_zero (\<lambda>y. xin_lt (fst y)) (grp x), iwt_Currency = TonSymbol\<rparr>)
           (take limit
             (sort_key (\<lambda>x. - max_or_zero (\<lambda>y. xin_amount (fst y)) (grp x)) (distinct_on key rows))))"

definition jetton_task_rows ::
  "Address list \<Rightarrow> tables \<Rightarrow> (external_incomes_row \<times> jetton_wallets_row) list" where
  "jetton_task_rows forbidden t =
     map (\<lambda>(((di, iw), jw), tw). (di, jw))
       (filter (\<lambda>(((di, iw), jw), tw).
          (case iw of None \<Rightarrow> True | Some w \<Rightarrow> nw_since_lt w < xin_lt di \<and> nw_finish_lt w \<noteq> None)
          \<and> jw_type jw = JettonDepositWallet
          \<and> (case tw of None \<Rightarrow> False | Some w \<Rightarrow> tw_address w \<notin> set forbidden))
         (left_join (\<lambda>x tw. jw_subwallet_id (snd x) = tw_subwallet_id tw)
           (inner_join (\<lambda>x jw. xin_deposit_address (fst x) = jw_address jw) (incomes_with_latest t) (jetton_wallets t))
           (ton_wallets t)))"

definition GetJettonInternalWithdrawalTasks :: "Address list \<Rightarrow> nat \<Rightarrow> tables \<Rightarrow> InternalWithdrawalTask list" where
  "GetJettonInternalWithdrawalTasks forbidden limit t =
     (let rows = jetton_task_rows forbidden t;
          key = (\<lambda>(di, jw). (xin_deposit_address di, jw_subwallet_id jw, jw_currency jw));
          grp = (\<lambda>x. filter (\<lambda>y. key y = key x) rows)
      in map (\<lambda>x. \<lparr>iwt_From = xin_deposit_address (fst x), iwt_SubwalletID = jw_subwallet_id (snd x),
                   iwt_Lt = max_or_zero (\<lambda>y. xin_lt (fst y)) (grp x), iwt_Currency = jw_currency (snd x)\<rparr>)
           (take limit
             (sort_key (\<lambda>x. - max_or_zero (\<lambda>y. xin_amount (fst y)) (grp x)) (distinct_on key rows))))"

section \<open>Blocks and request state\<close>

definition last_block_row :: "tables \<Rightarrow> block_data_row option" where
  "last_block_row t =
     (case sort_key (\<lambda>r. - uint (bd_seqno r)) (block_data t) of [] \<Rightarrow> None | r # _ \<Rightarrow> Some r)"

definition GetLastSavedBlockID :: "tables \<Rightarrow> error + BlockIDExt" where
  "GetLastSavedBlockID t =
     (case last_block_row t of
        None \<Rightarrow> Inl ErrNotFound
      | Some r \<Rightarrow> Inr \<lparr>bid_Workchain = DefaultWorkchain, bid_Shard = bd_shard r, bid_SeqNo = bd_seqno r,
                       bid_RootHash = bd_root_hash r, bid_FileHash = bd_file_hash r\<rparr>)"

definition IsActualBlockData :: "config \<Rightarrow> Time \<Rightarrow> tables \<Rightarrow> bool \<times> int" where
  "IsActualBlockData cfg now t =
     (case last_block_row t of
        None \<Rightarrow> (False, 0)
      | Some r \<Rightarrow> (now - bd_gen_utime r < cfg_AllowableBlockchainLagging cfg, bd_gen_utime r div Second))"

definition IsInProgressInternalWithdrawalRequest :: "Address \<Rightarrow> string \<Rightarrow> tables \<Rightarrow> bool" where
  "IsInProgressInternalWithdrawalRequest dest currency t =
     (\<exists>r\<in>set (withdrawal_requests t). rq_dest_address r = dest \<and> rq_currency r = currency
        \<and> rq_is_internal r \<and> \<not> rq_processed r)"

definition GetExternalWithdrawalStatus :: "int \<Rightarrow> tables \<Rightarrow> error + WithdrawalData" where
  "GetExternalWithdrawalStatus q t =
     (case find (\<lambda>r. rq_query_id r = q \<and> \<not> rq_is_internal r) (withdrawal_requests t) of
        None \<Rightarrow> Inl ErrNotFound
      | Some r \<Rightarrow>
          let result = (\<lambda>status hash. Inr \<lparr>wdt_QueryID = rq_user_query_id r, wdt_UserID = rq_user_id r,
                                    wdt_Status = status, wdt_TxHash = hash\<rparr>)
          in if rq_processing r \<and> rq_processed r then
               (case find (\<lambda>x. xw_query_id x = q \<and> (xw_tx_hash x \<noteq> None \<or> xw_processed_lt x \<noteq> None))
                       (external_withdrawals t) of
                  None \<Rightarrow> Inl ErrNoRows
                | Some x \<Rightarrow> if xw_failed x then result FailedStatus (xw_tx_hash x)
                            else result ProcessedStatus (xw_tx_hash x))
             else if rq_processing r \<and> \<not> rq_processed r then result ProcessingStatus None
             else if \<not> rq_processing r \<and> \<not> rq_processed r then result PendingStatus None
             else Inl (Errorf ''bad status''))"

section \<open>Reports\<close>

text \<open>\<open>GetIncome\<close>: wallets of the user joined with their jetton wallet and with the incomes of the
  counting side; an income is the pair of its deposit address and its amount.\<close>

definition wallet_deposit :: "(ton_wallets_row \<times> jetton_wallets_row option) \<Rightarrow> Address" where
  "wallet_deposit x = (case snd x of None \<Rightarrow> tw_address (fst x) | Some jw \<Rightarrow> jw_address jw)"

definition wallet_currency :: "(ton_wallets_row \<times> jetton_wallets_row option) \<Rightarrow> string" where
  "wallet_currency x = (case snd x of None \<Rightarrow> TonSymbol | Some jw \<Rightarrow> jw_currency jw)"

definition user_wallets :: "string \<Rightarrow> tables \<Rightarrow> (ton_wallets_row \<times> jetton_wallets_row option) list" where
  "user_wallets userID t =
     left_join (\<lambda>tw jw. jw_subwallet_id jw = tw_subwallet_id tw)
       (filter (\<lambda>tw. tw_user_id tw = userID \<and> tw_type tw \<in> {TonDepositWallet, JettonOwner}) (ton_wallets t))
       (jetton_wallets t)"

definition side_incomes :: "bool \<Rightarrow> tables \<Rightarrow> (Address \<times> Coins) list" where
  "side_incomes isDepositSide t =
     (if isDepositSide then map (\<lambda>i. (xin_deposit_address i, xin_amount i)) (external_incomes t)
      else map (\<lambda>i. (nin_deposit_address i, nin_amount i)) (internal_incomes t))"

definition GetIncome :: "string \<Rightarrow> bool \<Rightarrow> tables \<Rightarrow> TotalIncome list" where
  "GetIncome userID isDepositSide t =
     (let rows = left_join (\<lambda>x i. fst i = wallet_deposit x) (user_wallets userID t) (side_incomes isDepositSide t);
          key = (\<lambda>(x, i). (wallet_deposit x, tw_address (fst x), map_option jw_currency (snd x)))
      in map (\<lambda>y. \<lparr>ti_Deposit = wallet_deposit (fst y),
                   ti_Amount = (\<Sum>z\<leftarrow>filter (\<lambda>z. key z = key y) rows. case snd z of None \<Rightarrow> 0 | Some i \<Rightarrow> snd i),
                   ti_Currency = wallet_currency (fst y)\<rparr>)
           (distinct_on key rows))"

definition income_of_row :: "external_incomes_row \<Rightarrow> ExternalIncome" where
  "income_of_row r =
     \<lparr>ei_Utime = word_of_int (xin_utime r div Second), ei_Lt = word_of_int (xin_lt r),
      ei_From = xin_payer_address r, ei_FromWorkchain = xin_payer_workchain r,
      ei_To = xin_deposit_address r, ei_Amount = xin_amount r, ei_Comment = xin_comment r,
      ei_TxHash = xin_tx_hash r\<rparr>"

definition GetIncomeHistory ::
  "string \<Rightarrow> string \<Rightarrow> int \<Rightarrow> int \<Rightarrow> bool \<Rightarrow> tables \<Rightarrow> error + ExternalIncome list" where
  "GetIncomeHistory userID currency limit offset ascOrder t =
     (let rows =
            (if currency = TonSymbol
             then map fst (filter (\<lambda>(i, tw). case tw of None \<Rightarrow> False
                             | Some w \<Rightarrow> tw_type w = TonDepositWallet \<and> tw_user_id w = userID)
                    (left_join (\<lambda>i tw. xin_deposit_address i = tw_address tw) (external_incomes t) (ton_wallets t)))
             else map fst (filter (\<lambda>(i, jw). case jw of None \<Rightarrow> False
                             | Some w \<Rightarrow> jw_type w = JettonDepositWallet \<and> jw_user_id w = userID \<and> jw_currency w = currency)
                    (left_join (\<lambda>i jw. xin_deposit_address i = jw_address jw) (external_incomes t) (jetton_wallets t))));
          sorted_rows = (if ascOrder then sort_key xin_lt rows else sort_key (\<lambda>r. - xin_lt r) rows)
      in if limit < 0 then Inl (LibError ''LIMIT must not be negative'')
         else if offset < 0 then Inl (LibError ''OFFSET must not be negative'')
         else Inr (map income_of_row (take (nat limit) (drop (nat offset) sorted_rows))))"

definition GetIncomeByTx :: "byte list \<Rightarrow> tables \<Rightarrow> error + (ExternalIncome \<times> string)" where
  "GetIncomeByTx txHash t =
     (case filter (\<lambda>(i, tw). (case tw of None \<Rightarrow> False | Some w \<Rightarrow> tw_type w = TonDepositWallet) \<and> xin_tx_hash i = txHash)
             (left_join (\<lambda>i tw. xin_deposit_address i = tw_address tw) (external_incomes t) (ton_wallets t)) of
        (i, _) # _ \<Rightarrow> Inr (income_of_row i, TonSymbol)
      | [] \<Rightarrow>
         (case filter (\<lambda>(i, jw). (case jw of None \<Rightarrow> False | Some w \<Rightarrow> jw_type w = JettonDepositWallet)
                          \<and> xin_tx_hash i = txHash \<and> xin_amount i > 0)
                 (left_join (\<lambda>i jw. xin_deposit_address i = jw_address jw) (external_incomes t) (jetton_wallets t)) of
            (i, Some jw) # _ \<Rightarrow> Inr (income_of_row i, jw_currency jw)
          | _ \<Rightarrow> Inl ErrNotFound))"

definition GetTotalWithdrawalAmounts :: "string \<Rightarrow> tables \<Rightarrow> TotalWithdrawalsAmount" where
  "GetTotalWithdrawalAmounts currency t =
     \<lparr>twa_Pending = (\<Sum>r\<leftarrow>filter (\<lambda>r. rq_currency r = currency \<and> \<not> rq_processed r \<and> \<not> rq_processing r)
                       (withdrawal_requests t). rq_amount r),
      twa_Processing = (\<Sum>r\<leftarrow>filter (\<lambda>r. rq_currency r = currency \<and> \<not> rq_processed r \<and> rq_processing r)
                       (withdrawal_requests t). rq_amount r)\<rparr>"

end
