(* ===== verification/Samples.thy ===== *)
theory Samples
  imports Storage_Queries
begin

text \<open>
  Concrete values the witnesses of the theorems evaluate on: a library whose functions compute, a
  configuration, and a few rows and requests.
\<close>

definition sample_internal :: InternalMessage where
  "sample_internal = \<lparr>im_SrcAddr = None, im_DstAddr = None, im_Amount = 0, im_CreatedAt = 0,
     im_CreatedLT = 0, im_Payload = None, im_Comment = []\<rparr>"

definition sample_taddress :: "Address \<Rightarrow> taddress" where
  "sample_taddress a = \<lparr>ta_Type = StdAddress, ta_Workchain = 0, ta_Data = Address_bytes a,
     ta_Bounceable = False, ta_TestnetOnly = False\<rparr>"

definition sample_lib :: tonlib where
  "sample_lib =
     \<lparr>lib_BeginParse = Inr,
      lib_LoadNotification = (\<lambda>s. Inl (LibError ''notification'')),
      lib_LoadTransfer = (\<lambda>s. Inl (LibError ''transfer'')),
      lib_LoadExcesses = (\<lambda>s. Inl (LibError ''excesses'')),
      lib_LoadHighload = (\<lambda>s. Inl (LibError ''highload'')),
      lib_LoadInternalMessage = (\<lambda>s. Inr sample_internal),
      lib_LoadUInt32 = (\<lambda>s. Inr (0, s)),
      lib_LoadStringSnake = (\<lambda>s. Inr []),
      lib_LoadRef = Inr,
      lib_Hash = (\<lambda>c. [of_nat c]),
      lib_DictLoadAll = (\<lambda>d. Inr []),
      lib_DescrToCell = Inr,
      lib_DeserializeBoc = (\<lambda>c. Inr [c]),
      lib_UnmarshalDescr = Inr,
      lib_IsSuccess = (\<lambda>d. d = 0),
      lib_UuidFromBytes = (\<lambda>bs. Inr (word_rcat bs)),
      lib_UuidFromString = (\<lambda>s. Inr (of_nat (length s))),
      lib_UuidString = (\<lambda>u. replicate (unat u) (CHR ''x'')),
      lib_BigInt = (\<lambda>c. if 0 \<le> c then \<lfloor>c\<rfloor> else - \<lfloor>- c\<rfloor>),
      lib_CoinsString = (\<lambda>c. []),
      lib_NewFromString = (\<lambda>s. Inr (of_nat (length s))),
      lib_ParseAddr = (\<lambda>s. Inr (sample_taddress (of_nat (length s)))),
      lib_NewAddress = (\<lambda>fl wc bs. \<lparr>ta_Type = StdAddress, ta_Workchain = sint wc, ta_Data = bs,
                                   ta_Bounceable = False, ta_TestnetOnly = False\<rparr>),
      lib_DefaultSubwallet = 698983191,
      lib_AddrString = (\<lambda>a. [])\<rparr>"

lemma sample_lib_documented: "BigInt_integral sample_lib" "NewAddress_std sample_lib" "Uuid_roundtrip sample_lib"
  by (simp_all add: BigInt_integral_def NewAddress_std_def Uuid_roundtrip_def sample_lib_def)

lemma sample_uuid [simp]: "lib_UuidFromString sample_lib s = Inr (of_nat (length s))"
  by (simp add: sample_lib_def)

definition sample_config :: config where
  "sample_config =
     \<lparr>cfg_Seed = [], cfg_APIToken = ''token'', cfg_Testnet = False, cfg_ColdWalletString = [],
      cfg_JettonString = [], cfg_TonString = [], cfg_IsDepositSideCalculation = True,
      cfg_LiteServerMaxRetries = 1, cfg_AllowableLaggingSec = 0, cfg_ForwardTonAmount = 1,
      cfg_Jettons = Map.empty,
      cfg_Ton = \<lparr>c_HotWalletMin = 1, c_HotWalletMax = 100, c_Withdrawal = 2, c_HotWalletResidual = 95\<rparr>,
      cfg_ColdWallet = None, cfg_JettonForwardAmount = 1, cfg_AllowableBlockchainLagging = 40\<rparr>"

definition sample_request :: WithdrawalRequest where
  "sample_request =
     \<lparr>wr_QueryID = ''q'', wr_UserID = ''u'', wr_Currency = TonSymbol, wr_Amount = 5,
      wr_Bounceable = False, wr_IsInternal = False, wr_Destination = 7, wr_Comment = [],
      wr_BinaryComment = []\<rparr>"

definition sample_block_id :: "u32 \<Rightarrow> BlockIDExt" where
  "sample_block_id n =
     \<lparr>bid_Workchain = 0, bid_Shard = 0x8000000000000000, bid_SeqNo = n, bid_RootHash = [1], bid_FileHash = [2]\<rparr>"

definition sample_header :: "u32 \<Rightarrow> ShardBlockHeader" where
  "sample_header n =
     \<lparr>sbh_BlockIDExt = sample_block_id n, sbh_NotMaster = True, sbh_GenUtime = 10, sbh_StartLt = 1,
      sbh_EndLt = 2, sbh_Parent = sample_block_id (n - 1)\<rparr>"

definition sample_withdrawal :: ExternalWithdrawal where
  "sample_withdrawal =
     \<lparr>ew_ExtMsgUuid = 3, ew_Utime = 9, ew_Lt = 8, ew_To = 7, ew_Amount = 5, ew_Comment = [],
      ew_IsFailed = False, ew_TxHash = [1]\<rparr>"

definition sample_block :: BlockEvents where
  "sample_block = \<lparr>be_Events = no_events\<lparr>ExternalWithdrawals := [sample_withdrawal]\<rparr>, be_Block = sample_header 5\<rparr>"

end
