(* ===== verification/Shard_Tracker.thy ===== *)
theory Shard_Tracker
  imports Samples
begin

text \<open>
  \<open>src/blockchain/shard_tracker.go\<close> and the retry helpers of \<open>src/blockchain/blockchain.go\<close>: the
  tracker follows the one shard chain that holds the accounts of a given first address byte.  On
  each new masterchain block it walks back from the shard's head to the last block it knows and
  hands the blocks out oldest first.

  The lite client (\<open>tonutils-go\<close>) is the parameter \<open>client\<close>: what each call answers, by the
  number of the polling round and of the retry.  \<open>blk_Parents\<close> is what \<open>ton.GetParentBlocks\<close> finds
  in a block header.  Loops that wait for the node may run for ever: they are partial functions
  whose value is \<open>None\<close> when they do.  The shutdown flag may be raised by another goroutine at any
  time: \<open>stops k\<close> says whether that has happened when the loop reads it for the \<open>k\<close>-th time.
  Progress logging (\<open>infoCounter\<close>, \<open>infoStep\<close>, \<open>infoLastTime\<close>) is left out.
\<close>

section \<open>Bits\<close>

definition TrailingZeros64 :: "u64 \<Rightarrow> nat" where
  "TrailingZeros64 w = length (takeWhile (\<lambda>i. \<not> bit w i) [0..<64])"

definition LeadingZeros64 :: "u64 \<Rightarrow> nat" where
  "LeadingZeros64 w = length (takeWhile (\<lambda>i. \<not> bit w (63 - i)) [0..<64])"

definition isInShard :: "u64 \<Rightarrow> byte \<Rightarrow> error + bool" where
  "isInShard blockShardPrefix shard =
     (if blockShardPrefix = 0 then Inl (Fatalf ''invalid shard_prefix'')
      else let prefixLen = 64 - 1 - TrailingZeros64 blockShardPrefix in
        if prefixLen > 8 then Inl (Fatalf ''more than 256 shards is not supported'')
        else Inr (LeadingZeros64 (push_bit (64 - 8) (ucast shard) XOR blockShardPrefix) \<ge> prefixLen))"

fun filterByShard :: "BlockIDExt list \<Rightarrow> byte \<Rightarrow> error + BlockIDExt" where
  "filterByShard [] shard = Inl (Fatalf ''must be at least one suitable shard block'')"
| "filterByShard (h # hs) shard =
     andThenR (isInShard (bid_Shard h) shard) (\<lambda>b. if b then Inr h else filterByShard hs shard)"

definition inShard :: "Address \<Rightarrow> byte \<Rightarrow> bool" where
  "inShard addr shard \<longleftrightarrow> Address_bytes addr ! 0 = shard"

section \<open>The client\<close>

record tlb_Block =
  blk_NotMaster :: bool
  blk_GenUtime :: u32
  blk_StartLt :: u64
  blk_EndLt :: u64
  blk_Parents :: "error + BlockIDExt list"

record client =
  cl_GetMasterchainInfo :: "nat \<Rightarrow> error + BlockIDExt"
  cl_GetBlockShardsInfo :: "BlockIDExt \<Rightarrow> nat \<Rightarrow> nat \<Rightarrow> error + BlockIDExt list"
  cl_GetBlockData :: "BlockIDExt \<Rightarrow> nat \<Rightarrow> nat \<Rightarrow> error + tlb_Block"

text \<open>\<open>f i\<close> is the answer of the \<open>i\<close>-th call.  \<open>retries_left\<close> counts down the loop of the source.\<close>

fun retry_loop :: "nat \<Rightarrow> nat \<Rightarrow> (nat \<Rightarrow> error + 'a) \<Rightarrow> error + 'a" where
  "retry_loop 0 i f = f i"
| "retry_loop (Suc n) i f = (case f i of Inr x \<Rightarrow> Inr x | Inl e \<Rightarrow> retry_loop n (Suc i) f)"

definition retry :: "config \<Rightarrow> (nat \<Rightarrow> error + 'a) \<Rightarrow> error + 'a" where
  "retry cfg f =
     (if cfg_LiteServerMaxRetries cfg = 0 then f 1
      else retry_loop (cfg_LiteServerMaxRetries cfg - 1) 1 f)"

fun strings_Contains :: "string \<Rightarrow> string \<Rightarrow> bool" where
  "strings_Contains [] sub = (sub = [])"
| "strings_Contains (c # cs) sub = (take (length sub) (c # cs) = sub \<or> strings_Contains cs sub)"

definition error_text :: "error \<Rightarrow> string" where
  "error_text e =
     (case e of Errorf s \<Rightarrow> s | LibError s \<Rightarrow> s | Fatalf s \<Rightarrow> s | Panicf s \<Rightarrow> s | UniqueViolation s \<Rightarrow> s
      | ErrNotFound \<Rightarrow> ''not found'' | ErrTimeoutExceeded \<Rightarrow> ''timeout exceeded''
      | MismatchHead \<Rightarrow> ''mismatched block hash. IMPORTANT ERROR. someone is trying to scam you.'' | ErrNoRows \<Rightarrow> ''no rows in result set'')"

definition isNotReadyError :: "error \<Rightarrow> bool" where
  "isNotReadyError e \<longleftrightarrow>
     strings_Contains (error_text e) ''block is not applied'' \<or> strings_Contains (error_text e) ''code 651''"

text \<open>\<open>for { x, err = retry(...); if isNotReadyError(err) { sleep; continue } ... break }\<close>\<close>

partial_function (option) poll :: "(nat \<Rightarrow> error + 'a) \<Rightarrow> nat \<Rightarrow> (error + 'a) option" where
  "poll r k =
     (case r k of
        Inr x \<Rightarrow> Some (Inr x)
      | Inl e \<Rightarrow> if isNotReadyError e then poll r (Suc k) else Some (Inl e))"

section \<open>The tracker\<close>

record ShardTracker =
  st_shard :: byte
  st_lastKnownShardBlock :: "BlockIDExt option"
  st_lastMasterBlock :: "BlockIDExt option"
  st_buffer :: "ShardBlockHeader list"
  st_gracefulShutdown :: bool

definition NewShardTracker :: "byte \<Rightarrow> BlockIDExt option \<Rightarrow> ShardTracker" where
  "NewShardTracker shard startBlock =
     \<lparr>st_shard = shard, st_lastKnownShardBlock = startBlock, st_lastMasterBlock = None, st_buffer = [],
      st_gracefulShutdown = False\<rparr>"

definition Stop :: "ShardTracker \<Rightarrow> ShardTracker" where
  "Stop s = s\<lparr>st_gracefulShutdown := True\<rparr>"

definition getNext :: "ShardTracker \<Rightarrow> ShardTracker \<times> ShardBlockHeader option" where
  "getNext s =
     (case st_buffer s of
        [] \<Rightarrow> (s, None)
      | h # hs \<Rightarrow> (s\<lparr>st_buffer := hs\<rparr>, Some h))"

definition convertBlockToShardHeader :: "tlb_Block \<Rightarrow> BlockIDExt \<Rightarrow> byte \<Rightarrow> error + ShardBlockHeader" where
  "convertBlockToShardHeader block info shard =
     andThenR (blk_Parents block) (\<lambda>parents.
     andThenR (filterByShard parents shard) (\<lambda>parent.
     Inr \<lparr>sbh_BlockIDExt = info, sbh_NotMaster = blk_NotMaster block, sbh_GenUtime = blk_GenUtime block,
          sbh_StartLt = blk_StartLt block, sbh_EndLt = blk_EndLt block, sbh_Parent = parent\<rparr>))"

definition getShardBlocksHeader ::
  "config \<Rightarrow> client \<Rightarrow> BlockIDExt \<Rightarrow> byte \<Rightarrow> (error + ShardBlockHeader) option" where
  "getShardBlocksHeader cfg cl shardBlockID shard =
     (case poll (\<lambda>k. retry cfg (cl_GetBlockData cl shardBlockID k)) 0 of
        None \<Rightarrow> None
      | Some (Inl e) \<Rightarrow> Some (Inl e)
      | Some (Inr block) \<Rightarrow> Some (convertBlockToShardHeader block shardBlockID shard))"

definition same_block :: "BlockIDExt \<Rightarrow> BlockIDExt \<Rightarrow> bool" where
  "same_block a b \<longleftrightarrow> bid_Shard a = bid_Shard b \<and> bid_SeqNo a = bid_SeqNo b"

text \<open>The loop of \<open>getShardBlocks\<close>.  \<open>known\<close> is \<open>lastKnownShardBlock\<close>, which the first round sets
  when it is nil; the result is the known block, the batch (newest first) and the exit flag.\<close>

partial_function (option) shard_loop ::
  "config \<Rightarrow> client \<Rightarrow> byte \<Rightarrow> (nat \<Rightarrow> bool) \<Rightarrow> BlockIDExt option \<Rightarrow> nat \<Rightarrow> ShardBlockHeader list \<Rightarrow> BlockIDExt
    \<Rightarrow> (BlockIDExt option \<times> (error + (ShardBlockHeader list \<times> bool))) option" where
  "shard_loop cfg cl shard stops known k batch i =
     (if stops k then Some (known, Inr ([], True))
      else
        let known' = (case known of None \<Rightarrow> i | Some b \<Rightarrow> b) in
        if same_block known' i then Some (Some known', Inr (batch, False))
        else if bid_SeqNo known' > bid_SeqNo i then Some (Some known', Inr ([], False))
        else
          (case getShardBlocksHeader cfg cl i shard of
             None \<Rightarrow> None
           | Some (Inl e) \<Rightarrow> Some (Some known', Inl e)
           | Some (Inr h) \<Rightarrow> shard_loop cfg cl shard stops (Some known') (Suc k) (batch @ [h]) (sbh_Parent h)))"

definition getShardBlocks ::
  "config \<Rightarrow> client \<Rightarrow> (nat \<Rightarrow> bool) \<Rightarrow> ShardTracker \<Rightarrow> BlockIDExt
    \<Rightarrow> (ShardTracker \<times> (error + (ShardBlockHeader list \<times> bool))) option" where
  "getShardBlocks cfg cl stops s i =
     map_option (\<lambda>(known, r). (s\<lparr>st_lastKnownShardBlock := known\<rparr>, r))
       (shard_loop cfg cl (st_shard s) stops (st_lastKnownShardBlock s) 0 [] i)"

text \<open>\<open>getNextMasterBlockID\<close> from the \<open>k\<close>-th answer of the node on; the number of the next answer is
  part of the result.\<close>

partial_function (option) getNextMasterBlockID ::
  "client \<Rightarrow> nat \<Rightarrow> ShardTracker \<Rightarrow> (nat \<times> ShardTracker \<times> (error + BlockIDExt)) option" where
  "getNextMasterBlockID cl k s =
     (case cl_GetMasterchainInfo cl k of
        Inl e \<Rightarrow> Some (Suc k, s, Inl e)
      | Inr m \<Rightarrow>
          (case st_lastMasterBlock s of
             None \<Rightarrow> Some (Suc k, s\<lparr>st_lastMasterBlock := Some m\<rparr>, Inr m)
           | Some l \<Rightarrow>
               if bid_SeqNo m = bid_SeqNo l then getNextMasterBlockID cl (Suc k) s
               else Some (Suc k, s\<lparr>st_lastMasterBlock := Some m\<rparr>, Inr m)))"

definition loadShardBlocksBatch ::
  "config \<Rightarrow> client \<Rightarrow> (nat \<Rightarrow> bool) \<Rightarrow> ShardTracker \<Rightarrow> BlockIDExt \<Rightarrow> (ShardTracker \<times> (error + bool)) option" where
  "loadShardBlocksBatch cfg cl stops s masterBlockID =
     (case poll (\<lambda>k. retry cfg (cl_GetBlockShardsInfo cl masterBlockID k)) 0 of
        None \<Rightarrow> None
      | Some (Inl e) \<Rightarrow> Some (s, Inl e)
      | Some (Inr shards) \<Rightarrow>
          (case filterByShard shards (st_shard s) of
             Inl e \<Rightarrow> Some (s, Inl e)
           | Inr i \<Rightarrow>
               (case getShardBlocks cfg cl stops s i of
                  None \<Rightarrow> None
                | Some (s1, Inl e) \<Rightarrow> Some (s1, Inl e)
                | Some (s1, Inr (batch, True)) \<Rightarrow> Some (s1, Inr True)
                | Some (s1, Inr (batch, False)) \<Rightarrow>
                    (case batch of
                       [] \<Rightarrow> Some (s1, Inr False)
                     | h # hs \<Rightarrow>
                         Some (s1\<lparr>st_lastKnownShardBlock := Some (sbh_BlockIDExt h),
                                  st_buffer := st_buffer s1 @ rev batch\<rparr>, Inr False)))))"

text \<open>\<open>NextBlock\<close>: the header, or \<open>None\<close> with the exit flag; \<open>stops k j\<close> is the shutdown flag seen
  when the \<open>k\<close>-th masterchain block is being loaded.\<close>

partial_function (option) NextBlock ::
  "config \<Rightarrow> client \<Rightarrow> (nat \<Rightarrow> nat \<Rightarrow> bool) \<Rightarrow> nat \<Rightarrow> ShardTracker
    \<Rightarrow> (nat \<times> ShardTracker \<times> (error + ShardBlockHeader option)) option" where
  "NextBlock cfg cl stops k s =
     (if st_gracefulShutdown s then Some (k, s, Inr None)
      else
        case getNext s of
          (s1, Some h) \<Rightarrow> Some (k, s1, Inr (Some h))
        | (s1, None) \<Rightarrow>
            (case getNextMasterBlockID cl k s1 of
               None \<Rightarrow> None
             | Some (k1, s2, Inl e) \<Rightarrow> Some (k1, s2, Inl e)
             | Some (k1, s2, Inr m) \<Rightarrow>
                 (case loadShardBlocksBatch cfg cl (stops k1) s2 m of
                    None \<Rightarrow> None
                  | Some (s3, Inl e) \<Rightarrow> Some (k1, s3, Inl e)
                  | Some (s3, Inr quit) \<Rightarrow>
                      if quit then Some (k1, s3\<lparr>st_gracefulShutdown := True\<rparr>, Inr None)
                      else NextBlock cfg cl stops k1 s3)))"

section \<open>Shards\<close>

lemma TrailingZeros64_props:
  assumes "p \<noteq> 0"
  shows "TrailingZeros64 p < 64" "bit p (TrailingZeros64 p)" "i < TrailingZeros64 p \<Longrightarrow> \<not> bit p i"
proof -
  let ?t = "TrailingZeros64 p"
  have le: "?t \<le> 64"
    unfolding TrailingZeros64_def using length_takeWhile_le[of "\<lambda>i. \<not> bit p i" "[0..<64]"] by simp
  have low: "\<not> bit p i" if "i < ?t" for i
    using takeWhile_upt_ge[OF le, of "\<lambda>i. \<not> bit p i"] that by (simp add: TrailingZeros64_def)
  then show "i < ?t \<Longrightarrow> \<not> bit p i" .
  obtain j where j: "j < 64" "bit p j"
    using assms bit_eq_iff[of p 0] bit_imp_le_length[of p] by auto
  then have "\<not> j < ?t" using low by blast
  with j le show lt: "?t < 64" by simp
  show "bit p ?t"
  proof (rule ccontr)
    assume "\<not> bit p ?t"
    with low have "\<forall>i<Suc ?t. \<not> bit p i" by (auto simp: less_Suc_eq)
    with takeWhile_upt_ge[of "Suc ?t" 64 "\<lambda>i. \<not> bit p i"] lt have "Suc ?t \<le> ?t"
      by (simp add: TrailingZeros64_def)
    then show False by simp
  qed
qed

lemma TrailingZeros64_eqI:
  assumes "t < 64" "bit p t" "\<And>i. i < t \<Longrightarrow> \<not> bit p i"
  shows "TrailingZeros64 p = t"
proof -
  have "p \<noteq> 0" using assms(2) by auto
  note p = TrailingZeros64_props[OF this]
  show ?thesis using p(2,3) assms(2,3) by (metis linorder_neqE_nat)
qed

text \<open>The top bits of an account address, as the bits of its first byte.\<close>

lemma bit_shard_byte: "j < 64 \<Longrightarrow> bit (push_bit 56 (ucast shard) :: u64) j \<longleftrightarrow> 56 \<le> j \<and> bit (shard :: byte) (j - 56)"
  by (auto simp: bit_push_bit_iff bit_ucast_iff)

text \<open>Membership, bit by bit: the bits above the lowest set bit of the prefix agree.\<close>

lemma isInShard_bits:
  assumes "p \<noteq> 0" "55 \<le> TrailingZeros64 p"
  shows "isInShard p shard =
           Inr (\<forall>j. TrailingZeros64 p < j \<and> j < 64 \<longrightarrow> (bit p j \<longleftrightarrow> bit shard (j - 56)))"
proof -
  let ?t = "TrailingZeros64 p" and ?r = "push_bit 56 (ucast shard) XOR p"
  note t = TrailingZeros64_props[OF assms(1)]
  have "63 - ?t \<le> LeadingZeros64 ?r \<longleftrightarrow> (\<forall>i<63 - ?t. \<not> bit ?r (63 - i))"
    unfolding LeadingZeros64_def by (rule takeWhile_upt_ge) simp
  also have "\<dots> \<longleftrightarrow> (\<forall>j. ?t < j \<and> j < 64 \<longrightarrow> \<not> bit ?r j)"
  proof
    assume a: "\<forall>i<63 - ?t. \<not> bit ?r (63 - i)"
    show "\<forall>j. ?t < j \<and> j < 64 \<longrightarrow> \<not> bit ?r j"
    proof (intro allI impI)
      fix j assume "?t < j \<and> j < 64"
      then have "63 - j < 63 - ?t" "63 - (63 - j) = j" by auto
      with a show "\<not> bit ?r j" by metis
    qed
  next
    assume a: "\<forall>j. ?t < j \<and> j < 64 \<longrightarrow> \<not> bit ?r j"
    show "\<forall>i<63 - ?t. \<not> bit ?r (63 - i)"
    proof (intro allI impI)
      fix i assume "i < 63 - ?t"
      then have "?t < 63 - i \<and> 63 - i < 64" by auto
      with a show "\<not> bit ?r (63 - i)" by blast
    qed
  qed
  also have "\<dots> \<longleftrightarrow> (\<forall>j. ?t < j \<and> j < 64 \<longrightarrow> (bit p j \<longleftrightarrow> bit shard (j - 56)))"
    using assms(2) by (auto simp: bit_xor_iff bit_shard_byte)
  finally show ?thesis using assms by (simp add: isInShard_def Let_def)
qed

text \<open>A shard splits in two by its lowest prefix bit: the marker bit moves down by one, and the bit
  it leaves is 0 in the left child and 1 in the right child.\<close>

definition shard_left :: "u64 \<Rightarrow> u64" where
  "shard_left p = unset_bit (TrailingZeros64 p) (set_bit (TrailingZeros64 p - 1) p)"

definition shard_right :: "u64 \<Rightarrow> u64" where
  "shard_right p = set_bit (TrailingZeros64 p - 1) p"

lemma shard_children:
  assumes "p \<noteq> 0" "0 < TrailingZeros64 p"
  shows "TrailingZeros64 (shard_left p) = TrailingZeros64 p - 1"
    and "TrailingZeros64 (shard_right p) = TrailingZeros64 p - 1"
    and "shard_left p \<noteq> 0" "shard_right p \<noteq> 0"
    and "\<not> bit (shard_left p) (TrailingZeros64 p)" "bit (shard_right p) (TrailingZeros64 p)"
    and "\<And>j. TrailingZeros64 p < j \<Longrightarrow> bit (shard_left p) j \<longleftrightarrow> bit p j"
    and "\<And>j. TrailingZeros64 p < j \<Longrightarrow> bit (shard_right p) j \<longleftrightarrow> bit p j"
proof -
  let ?t = "TrailingZeros64 p"
  note t = TrailingZeros64_props[OF assms(1)]
  have L: "bit (shard_left p) j \<longleftrightarrow> j \<noteq> ?t \<and> (j = ?t - 1 \<or> bit p j)" if "j < 64" for j
    using that by (auto simp: shard_left_def bit_unset_bit_iff bit_set_bit_iff)
  have R: "bit (shard_right p) j \<longleftrightarrow> j = ?t - 1 \<or> bit p j" if "j < 64" for j
    using that by (auto simp: shard_right_def bit_set_bit_iff)
  show "TrailingZeros64 (shard_left p) = ?t - 1"
    by (rule TrailingZeros64_eqI) (use t assms(2) L in auto)
  show "TrailingZeros64 (shard_right p) = ?t - 1"
    by (rule TrailingZeros64_eqI) (use t assms(2) R in auto)
  show "\<not> bit (shard_left p) ?t" "bit (shard_right p) ?t" using t L R by auto
  have "bit (shard_left p) (?t - 1)" "bit (shard_right p) (?t - 1)" using t assms(2) L R by auto
  then show "shard_left p \<noteq> 0" "shard_right p \<noteq> 0" by auto
  fix j assume j: "?t < j"
  show "bit (shard_left p) j \<longleftrightarrow> bit p j"
    using L[of j] j assms(2) bit_imp_le_length[of p j] bit_imp_le_length[of "shard_left p" j] by (cases "j < 64") auto
  show "bit (shard_right p) j \<longleftrightarrow> bit p j"
    using R[of j] j assms(2) bit_imp_le_length[of p j] bit_imp_le_length[of "shard_right p" j] by (cases "j < 64") auto
qed

lemma isInShard_children:
  assumes "p \<noteq> 0" "55 < TrailingZeros64 p"
  shows "\<exists>b l r. isInShard p shard = Inr b \<and> isInShard (shard_left p) shard = Inr l
           \<and> isInShard (shard_right p) shard = Inr r \<and> (b \<longleftrightarrow> l \<or> r) \<and> \<not> (l \<and> r)"
proof -
  let ?t = "TrailingZeros64 p"
  have t0: "0 < ?t" using assms(2) by simp
  note t = TrailingZeros64_props[OF assms(1)] and c = shard_children[OF assms(1) t0]
  let ?in = "\<lambda>q. \<forall>j. ?t < j \<and> j < 64 \<longrightarrow> (bit q j \<longleftrightarrow> bit shard (j - 56))"
  have split: "(\<forall>j. ?t - 1 < j \<and> j < 64 \<longrightarrow> (bit q j \<longleftrightarrow> bit shard (j - 56)))
      \<longleftrightarrow> ?in q \<and> (bit q ?t \<longleftrightarrow> bit shard (?t - 56))" for q :: u64
  proof -
    have "?t - 1 < j \<longleftrightarrow> j = ?t \<or> ?t < j" for j using t0 by auto
    then show ?thesis using t(1) by auto
  qed
  have "isInShard p shard = Inr (?in p)" using assms by (simp add: isInShard_bits)
  moreover have "isInShard (shard_left p) shard = Inr (?in p \<and> \<not> bit shard (?t - 56))"
    using assms isInShard_bits[of "shard_left p" shard] split[of "shard_left p"] c by auto
  moreover have "isInShard (shard_right p) shard = Inr (?in p \<and> bit shard (?t - 56))"
    using assms isInShard_bits[of "shard_right p" shard] split[of "shard_right p"] c by auto
  ultimately show ?thesis by blast
qed

text \<open>The shard configurations: one shard, and what splitting a shard of a configuration gives.
  Shards are split at most eight times.\<close>

inductive shard_config :: "u64 list \<Rightarrow> bool" where
  whole: "shard_config [0x8000000000000000]"
| split: "shard_config (ps @ p # qs) \<Longrightarrow> 55 < TrailingZeros64 p
    \<Longrightarrow> shard_config (ps @ shard_left p # shard_right p # qs)"

definition in_shard_b :: "u64 \<Rightarrow> byte \<Rightarrow> bool" where
  "in_shard_b p shard \<longleftrightarrow> isInShard p shard = Inr True"

lemma whole_trailing: "TrailingZeros64 0x8000000000000000 = 63"
proof -
  have w: "(0x8000000000000000 :: u64) = push_bit 63 1" by (simp add: push_bit_eq_mult)
  have b: "bit (0x8000000000000000 :: u64) i \<longleftrightarrow> i = 63" for i
    unfolding w bit_push_bit_iff by (auto simp: bit_1_iff possible_bit_def)
  show ?thesis
  proof (rule TrailingZeros64_eqI)
    show "bit (0x8000000000000000 :: u64) 63" unfolding b by (rule refl)
    show "\<not> bit (0x8000000000000000 :: u64) i" if "i < 63" for i using that unfolding b by simp
  qed simp
qed

lemma isInShard_whole [simp]: "isInShard 0x8000000000000000 shard = Inr True"
  using isInShard_bits[of "0x8000000000000000" shard] whole_trailing by auto

lemma shard_config_wf:
  "shard_config ps \<Longrightarrow> \<forall>p\<in>set ps. p \<noteq> 0 \<and> 55 \<le> TrailingZeros64 p"
proof (induction rule: shard_config.induct)
  case whole
  then show ?case by (simp add: whole_trailing)
next
  case (split ps p qs)
  then show ?case using shard_children[of p] by auto
qed

lemma shard_config_one:
  "shard_config ps \<Longrightarrow> length (filter (\<lambda>p. in_shard_b p shard) ps) = 1"
proof (induction rule: shard_config.induct)
  case whole
  show ?case by (simp add: in_shard_b_def)
next
  case (split ps p qs)
  have "p \<noteq> 0" using shard_config_wf[OF split(1)] by simp
  then obtain b l r where "isInShard p shard = Inr b" "isInShard (shard_left p) shard = Inr l"
    "isInShard (shard_right p) shard = Inr r" "b \<longleftrightarrow> l \<or> r" "\<not> (l \<and> r)"
    using isInShard_children[OF _ split(2)] by blast
  with split(3) show ?case by (auto simp: in_shard_b_def)
qed

text \<open>
  C12.  The shard of an address is always found.  Whatever way the workchain is currently split into
  shards (at most eight times), exactly one shard of the list the node sends matches the first
  address byte; \<open>filterByShard\<close> returns that block and never aborts the process.
\<close>

theorem filterByShard_unique:
  assumes "shard_config (map bid_Shard hs)"
  shows "\<exists>h\<in>set hs. filterByShard hs shard = Inr h \<and> isInShard (bid_Shard h) shard = Inr True
           \<and> (\<forall>h'\<in>set hs. isInShard (bid_Shard h') shard = Inr True \<longrightarrow> bid_Shard h' = bid_Shard h)"
proof -
  have total: "\<forall>h\<in>set hs. \<exists>b. isInShard (bid_Shard h) shard = Inr b"
    using shard_config_wf[OF assms] isInShard_bits by fastforce
  have "length (filter (\<lambda>h. in_shard_b (bid_Shard h) shard) hs) = 1"
    using shard_config_one[OF assms, of shard] by (simp add: filter_map comp_def)
  then obtain h0 where h0: "filter (\<lambda>h. in_shard_b (bid_Shard h) shard) hs = [h0]"
    by (auto simp: length_Suc_conv)
  have "filterByShard xs shard = (case filter (\<lambda>h. in_shard_b (bid_Shard h) shard) xs of
          [] \<Rightarrow> Inl (Fatalf ''must be at least one suitable shard block'') | h # _ \<Rightarrow> Inr h)"
    if "set xs \<subseteq> set hs" for xs
    using that total by (induction xs) (auto simp: in_shard_b_def)
  then have "filterByShard hs shard = Inr h0" using h0 by simp
  moreover have "h' = h0" if "h' \<in> set hs" "isInShard (bid_Shard h') shard = Inr True" for h'
  proof -
    have "h' \<in> set (filter (\<lambda>h. in_shard_b (bid_Shard h) shard) hs)" using that by (simp add: in_shard_b_def)
    then show ?thesis unfolding h0 by simp
  qed
  moreover have "h0 \<in> set (filter (\<lambda>h. in_shard_b (bid_Shard h) shard) hs)" unfolding h0 by simp
  ultimately show ?thesis by (auto simp: in_shard_b_def)
qed

theorem filterByShard_unique_witness:
  "\<exists>h\<in>set [sample_block_id 5]. filterByShard [sample_block_id 5] 0x2A = Inr h"
  using filterByShard_unique[of "[sample_block_id 5]" "0x2A"] shard_config.whole
  by (simp add: sample_block_id_def)

section \<open>Waiting for the node\<close>

lemma poll_returns:
  assumes "\<not> (\<exists>e. r j = Inl e \<and> isNotReadyError e)" "k \<le> j"
  shows "\<exists>x. poll r k = Some x"
  using assms(2)
proof (induction "j - k" arbitrary: k)
  case 0
  then have "k = j" by simp
  with assms(1) show ?case by (subst poll.simps) (auto split: sum.splits)
next
  case (Suc n)
  then have "\<exists>x. poll r (Suc k) = Some x" by simp
  then show ?case by (subst poll.simps) (auto split: sum.splits)
qed

lemma poll_answer:
  assumes "poll r k = Some (Inr x)"
  shows "\<exists>j. r j = Inr x"
proof -
  have "Inr x = y \<longrightarrow> (\<exists>j. r j = Inr x)" if "poll r k = Some y" for y
  proof (rule poll.raw_induct[where P = "\<lambda>r k y. Inr x = y \<longrightarrow> (\<exists>j. r j = Inr x)", OF _ that])
    fix rec :: "(nat \<Rightarrow> error + 'a) \<Rightarrow> nat \<Rightarrow> (error + 'a) option" and r k y
    assume ih: "\<And>r k y. rec r k = Some y \<Longrightarrow> Inr x = y \<longrightarrow> (\<exists>j. r j = Inr x)"
      and body: "(case r k of Inl e \<Rightarrow> if isNotReadyError e then rec r (Suc k) else Some (Inl e)
                 | Inr x \<Rightarrow> Some (Inr x)) = Some y"
    show "Inr x = y \<longrightarrow> (\<exists>j. r j = Inr x)"
      using body ih[of r "Suc k" y] by (auto split: sum.splits if_splits)
  qed
  with assms show ?thesis by blast
qed

lemma retry_loop_answer: "retry_loop n i f = Inr x \<Longrightarrow> \<exists>j. f j = Inr x"
  by (induction n i f rule: retry_loop.induct) (auto split: sum.splits)

lemma retry_answer: "retry cfg f = Inr x \<Longrightarrow> \<exists>j. f j = Inr x"
  using retry_loop_answer[of _ 1 f x] by (auto simp: retry_def split: if_splits)

lemma retry_loop_error: "retry_loop n i f = Inl e \<Longrightarrow> \<exists>j. f j = Inl e"
  by (induction n i f rule: retry_loop.induct) (auto split: sum.splits)

lemma retry_error: "retry cfg f = Inl e \<Longrightarrow> \<exists>j. f j = Inl e"
  using retry_loop_error[of _ 1 f e] by (auto simp: retry_def split: if_splits)

text \<open>What is relied on of the node and the client: a block it names is eventually served (or
  refused with another error than ``not ready''), and the parents of a block have smaller sequence
  numbers.\<close>

definition blocks_served :: "client \<Rightarrow> bool" where
  "blocks_served cl \<longleftrightarrow>
     (\<forall>b. \<exists>k. \<forall>i e. cl_GetBlockData cl b k i = Inl e \<longrightarrow> \<not> isNotReadyError e)"

definition parents_older :: "client \<Rightarrow> bool" where
  "parents_older cl \<longleftrightarrow>
     (\<forall>b k i blk ps. cl_GetBlockData cl b k i = Inr blk \<longrightarrow> blk_Parents blk = Inr ps
        \<longrightarrow> (\<forall>p\<in>set ps. bid_SeqNo p < bid_SeqNo b))"

lemma filterByShard_in: "filterByShard hs shard = Inr h \<Longrightarrow> h \<in> set hs"
  by (induction hs) (auto simp: andThenR_success split: if_splits)

lemma getShardBlocksHeader_id:
  "getShardBlocksHeader cfg cl i shard = Some (Inr h) \<Longrightarrow> sbh_BlockIDExt h = i"
  by (auto simp: getShardBlocksHeader_def convertBlockToShardHeader_def andThenR_success
      split: option.splits sum.splits)

lemma getShardBlocksHeader_returns:
  assumes "blocks_served cl"
  shows "\<exists>r. getShardBlocksHeader cfg cl i shard = Some r"
proof -
  from assms obtain k where "\<And>j e. cl_GetBlockData cl i k j = Inl e \<Longrightarrow> \<not> isNotReadyError e"
    unfolding blocks_served_def by metis
  then have "\<not> (\<exists>e. retry cfg (cl_GetBlockData cl i k) = Inl e \<and> isNotReadyError e)"
    using retry_error by metis
  then obtain x where "poll (\<lambda>k. retry cfg (cl_GetBlockData cl i k)) 0 = Some x"
    using poll_returns[of "\<lambda>k. retry cfg (cl_GetBlockData cl i k)" k 0] by auto
  then show ?thesis by (auto simp: getShardBlocksHeader_def split: sum.splits)
qed

lemma getShardBlocksHeader_parent:
  assumes "parents_older cl" "getShardBlocksHeader cfg cl i shard = Some (Inr h)"
  shows "bid_SeqNo (sbh_Parent h) < bid_SeqNo i"
proof -
  from assms(2) obtain blk ps where p: "poll (\<lambda>k. retry cfg (cl_GetBlockData cl i k)) 0 = Some (Inr blk)"
    "blk_Parents blk = Inr ps" "filterByShard ps shard = Inr (sbh_Parent h)"
    by (auto simp: getShardBlocksHeader_def convertBlockToShardHeader_def andThenR_success
        split: option.splits sum.splits)
  from poll_answer[OF p(1)] obtain k where "retry cfg (cl_GetBlockData cl i k) = Inr blk" by blast
  from retry_answer[OF this] obtain j where "cl_GetBlockData cl i k j = Inr blk" by blast
  with assms(1) p(2) filterByShard_in[OF p(3)] show ?thesis unfolding parents_older_def by blast
qed

section \<open>The walk back\<close>

text \<open>\<open>walk i hs j\<close>: the headers \<open>hs\<close>, newest first, lead from block \<open>i\<close> back to block \<open>j\<close>.\<close>

fun walk :: "BlockIDExt \<Rightarrow> ShardBlockHeader list \<Rightarrow> BlockIDExt \<Rightarrow> bool" where
  "walk i [] j \<longleftrightarrow> i = j"
| "walk i (h # hs) j \<longleftrightarrow> sbh_BlockIDExt h = i \<and> walk (sbh_Parent h) hs j"

lemma walk_snoc: "walk i (hs @ [h]) j \<longleftrightarrow> walk i hs (sbh_BlockIDExt h) \<and> sbh_Parent h = j"
  by (induction hs arbitrary: i) auto

lemma shard_loop_walk_aux:
  "shard_loop cfg cl shard stops known k batch i = Some y \<Longrightarrow> y = (known', Inr (res, False))
    \<Longrightarrow> walk i0 batch i
    \<Longrightarrow> (known \<noteq> None \<longrightarrow> known' = known)
      \<and> (res = [] \<or> (\<exists>b j. known' = Some b \<and> walk i0 res j \<and> same_block b j))"
proof (induction rule: shard_loop.raw_induct[rotated, consumes 1, case_names step])
  case (step rec cfg cl shard stops known k batch i y)
  define kn where "kn = (case known of None \<Rightarrow> i | Some b \<Rightarrow> b)"
  have known: "known \<noteq> None \<longrightarrow> Some kn = known" by (auto simp: kn_def split: option.splits)
  note body = step(2)[unfolded step(3) Let_def kn_def[symmetric]]
  show ?case
  proof (cases "same_block kn i \<or> bid_SeqNo i < bid_SeqNo kn")
    case True
    then have "known' = Some kn \<and> (res = [] \<or> res = batch \<and> same_block kn i)"
      using body by (auto split: if_splits)
    with known step(4) show ?thesis by auto
  next
    case False
    with body obtain h where h: "getShardBlocksHeader cfg cl i shard = Some (Inr h)"
      "rec cfg cl shard stops (Some kn) (Suc k) (batch @ [h]) (sbh_Parent h) = Some (known', Inr (res, False))"
      by (auto split: option.splits sum.splits if_splits)
    have "walk i0 (batch @ [h]) (sbh_Parent h)"
      using step(4) getShardBlocksHeader_id[OF h(1)] by (simp add: walk_snoc)
    with step(1)[OF h(2) refl] known show ?thesis by auto
  qed
qed

lemmas shard_loop_walk = shard_loop_walk_aux[OF _ refl]

text \<open>The loop ends: every round goes to a block with a smaller sequence number.\<close>

lemma shard_loop_returns:
  assumes "blocks_served cl" "parents_older cl"
  shows "\<exists>y. shard_loop cfg cl shard stops known k batch i = Some y"
proof (induction "unat (bid_SeqNo i)" arbitrary: known k batch i rule: less_induct)
  case less
  obtain r where r: "getShardBlocksHeader cfg cl i shard = Some r"
    using getShardBlocksHeader_returns[OF assms(1)] by blast
  have "\<exists>y. shard_loop cfg cl shard stops known' (Suc k) (batch @ [h]) (sbh_Parent h) = Some y"
    if "r = Inr h" for h known'
    using less getShardBlocksHeader_parent[OF assms(2)] r that by (simp add: word_less_nat_alt)
  then show ?case by (subst shard_loop.simps) (auto simp: r Let_def split: sum.splits)
qed

section \<open>Delivery without gaps\<close>

text \<open>\<open>linked b hs l\<close>: the headers \<open>hs\<close>, oldest first, continue block \<open>b\<close> one after the other and end
  in block \<open>l\<close>.  Blocks are compared by shard and sequence number, as the tracker does.\<close>

fun linked :: "BlockIDExt \<Rightarrow> ShardBlockHeader list \<Rightarrow> BlockIDExt \<Rightarrow> bool" where
  "linked b [] l \<longleftrightarrow> same_block b l"
| "linked b (h # hs) l \<longleftrightarrow> same_block (sbh_Parent h) b \<and> linked (sbh_BlockIDExt h) hs l"

lemma same_block_refl [simp]: "same_block b b"
  by (simp add: same_block_def)

lemma same_block_sym: "same_block a b \<longleftrightarrow> same_block b a"
  by (auto simp: same_block_def)

lemma same_block_trans: "same_block a b \<Longrightarrow> same_block b c \<Longrightarrow> same_block a c"
  by (simp add: same_block_def)

lemma linked_same: "same_block b c \<Longrightarrow> linked b hs l = linked c hs l"
  by (cases hs) (auto simp: same_block_def)

lemma linked_append: "linked b hs m \<Longrightarrow> linked m hs' l \<Longrightarrow> linked b (hs @ hs') l"
  by (induction hs arbitrary: b) (auto simp: linked_same)

lemma walk_linked: "walk i hs j \<Longrightarrow> same_block b j \<Longrightarrow> linked b (rev hs) i"
proof (induction hs arbitrary: i)
  case Nil
  then show ?case by simp
next
  case (Cons h hs)
  then have "linked b (rev hs) (sbh_Parent h)" "sbh_BlockIDExt h = i" by auto
  moreover from this have "linked (sbh_Parent h) [h] i" by simp
  ultimately show ?case using linked_append by fastforce
qed

definition tracker_inv :: "BlockIDExt \<Rightarrow> ShardTracker \<Rightarrow> bool" where
  "tracker_inv b s \<longleftrightarrow> (\<exists>l. st_lastKnownShardBlock s = Some l \<and> linked b (st_buffer s) l)"

lemma getNextMasterBlockID_frame:
  "getNextMasterBlockID cl k s = Some y \<Longrightarrow>
     st_lastKnownShardBlock (fst (snd y)) = st_lastKnownShardBlock s \<and> st_buffer (fst (snd y)) = st_buffer s"
proof (induction rule: getNextMasterBlockID.raw_induct[rotated, consumes 1, case_names step])
  case (step rec cl k s y)
  then show ?case by (auto split: sum.splits option.splits if_splits)
qed

lemma shard_loop_known:
  "shard_loop cfg cl shard stops known k batch i = Some y \<Longrightarrow> known \<noteq> None \<Longrightarrow> fst y = known"
proof (induction rule: shard_loop.raw_induct[rotated, consumes 1, case_names step])
  case (step rec cfg cl shard stops known k batch i y)
  obtain b where b: "known = Some b" using step(3) by blast
  from step(2) show ?case
    unfolding b Let_def
    by (auto split: if_splits option.splits sum.splits dest!: step(1))
qed

lemma loadShardBlocksBatch_inv:
  assumes "tracker_inv b s" "loadShardBlocksBatch cfg cl stops s m = Some (s', r)"
  shows "tracker_inv b s'"
proof -
  from assms(1) obtain l where l: "st_lastKnownShardBlock s = Some l" "linked b (st_buffer s) l"
    by (auto simp: tracker_inv_def)
  show ?thesis
  proof (cases "poll (\<lambda>k. retry cfg (cl_GetBlockShardsInfo cl m k)) 0")
    case None
    with assms(2) show ?thesis by (simp add: loadShardBlocksBatch_def)
  next
    case (Some p)
    show ?thesis
    proof (cases "\<exists>shards i. p = Inr shards \<and> filterByShard shards (st_shard s) = Inr i")
      case False
      with assms Some show ?thesis by (auto simp: loadShardBlocksBatch_def split: sum.splits)
    next
      case True
      then obtain shards i where i: "p = Inr shards" "filterByShard shards (st_shard s) = Inr i" by blast
      with assms(2) Some obtain known x where
        loop: "shard_loop cfg cl (st_shard s) stops (Some l) 0 [] i = Some (known, x)"
        by (auto simp: loadShardBlocksBatch_def getShardBlocks_def l(1) split: option.splits)
      have known: "known = Some l" using shard_loop_known[OF loop] by simp
      have same: "tracker_inv b (s\<lparr>st_lastKnownShardBlock := Some l\<rparr>)" using l by (simp add: tracker_inv_def)
      have grow: "tracker_inv b (s\<lparr>st_lastKnownShardBlock := Some (sbh_BlockIDExt h), st_buffer := st_buffer s @ rev (h # hs)\<rparr>)"
        if "x = Inr (h # hs, False)" for h hs
      proof -
        from shard_loop_walk[OF loop[unfolded that], of i] obtain j where
          j: "walk i (h # hs) j" "same_block l j" unfolding known by auto
        have "linked b (st_buffer s @ rev (h # hs)) i"
          using linked_append[OF l(2) walk_linked[OF j]] .
        with j(1) show ?thesis by (simp add: tracker_inv_def)
      qed
      show ?thesis
        using assms(2) Some i loop same grow
        by (auto simp: loadShardBlocksBatch_def getShardBlocks_def l(1) known split: sum.splits bool.splits list.splits)
    qed
  qed
qed

definition advance :: "BlockIDExt \<Rightarrow> error + ShardBlockHeader option \<Rightarrow> BlockIDExt" where
  "advance b r = (case r of Inr (Some h) \<Rightarrow> sbh_BlockIDExt h | _ \<Rightarrow> b)"

lemma tracker_inv_cong:
  "st_lastKnownShardBlock s' = st_lastKnownShardBlock s \<Longrightarrow> st_buffer s' = st_buffer s
    \<Longrightarrow> tracker_inv b s' = tracker_inv b s"
  by (simp add: tracker_inv_def)

text \<open>What loading a batch keeps, and what depends on the known block and the buffer only, holds when
  \<open>NextBlock\<close> returns; a block it delivers was the first of the buffer.\<close>

lemma NextBlock_rule:
  assumes "NextBlock cfg cl stops k s = Some y" "P s"
    and same: "\<And>s s'. P s \<Longrightarrow> st_lastKnownShardBlock s' = st_lastKnownShardBlock s \<Longrightarrow> st_buffer s' = st_buffer s \<Longrightarrow> P s'"
    and load: "\<And>s s' st m q. P s \<Longrightarrow> loadShardBlocksBatch cfg cl st s m = Some (s', q) \<Longrightarrow> P s'"
  shows "case snd (snd y) of
      Inr (Some h) \<Rightarrow> \<exists>t hs. P t \<and> st_buffer t = h # hs \<and> fst (snd y) = t\<lparr>st_buffer := hs\<rparr>
    | _ \<Rightarrow> P (fst (snd y))"
  using assms(1,2,4)
proof (induction rule: NextBlock.raw_induct[rotated, consumes 1, case_names step])
  case (step rec cfg cl stops k s y)
  show ?case
  proof (cases "st_gracefulShutdown s \<or> st_buffer s \<noteq> []")
    case True
    show ?thesis
    proof (cases "st_gracefulShutdown s")
      case True
      with step(2,3) show ?thesis by auto
    next
      case False
      with True obtain h hs where b: "st_buffer s = h # hs" by (auto simp: neq_Nil_conv)
      with False step(2) have "y = (k, s\<lparr>st_buffer := hs\<rparr>, Inr (Some h))" by (simp add: getNext_def)
      with step(3) b show ?thesis by auto
    qed
  next
    case run: False
    then have next_none: "getNext s = (s, None)" by (simp add: getNext_def)
    from step(2) run next_none obtain k1 s2 r where m: "getNextMasterBlockID cl k s = Some (k1, s2, r)"
      by (auto split: option.splits)
    have P2: "P s2" using getNextMasterBlockID_frame[OF m] same[OF step(3)] by simp
    show ?thesis
    proof (cases r)
      case (Inl e)
      with step(2) run next_none m P2 show ?thesis by auto
    next
      case (Inr mb)
      with step(2) run next_none m obtain s3 q where
        ld: "loadShardBlocksBatch cfg cl (stops k1) s2 mb = Some (s3, q)" by (auto split: option.splits)
      have P3: "P s3" by (rule step(4)[OF P2 ld])
      show ?thesis
      proof (cases "q = Inr False")
        case True
        with step(2) run next_none m Inr ld have "rec cfg cl stops k1 s3 = Some y" by simp
        from step(1)[OF this P3 step(4)] show ?thesis .
      next
        case False
        with step(2) run next_none m Inr ld P3 same[OF P3] show ?thesis by (auto split: sum.splits if_splits)
      qed
    qed
  qed
qed

lemma NextBlock_inv:
  assumes "NextBlock cfg cl stops k s = Some y" "tracker_inv b s"
  shows "tracker_inv (advance b (snd (snd y))) (fst (snd y))
     \<and> (\<forall>h. snd (snd y) = Inr (Some h) \<longrightarrow> same_block (sbh_Parent h) b)"
proof -
  have "case snd (snd y) of
      Inr (Some h) \<Rightarrow> \<exists>t hs. tracker_inv b t \<and> st_buffer t = h # hs \<and> fst (snd y) = t\<lparr>st_buffer := hs\<rparr>
    | _ \<Rightarrow> tracker_inv b (fst (snd y))"
    using assms by (rule NextBlock_rule[where P = "tracker_inv b"]) (simp add: tracker_inv_def, rule loadShardBlocksBatch_inv)
  then show ?thesis by (auto simp: advance_def tracker_inv_def split: sum.splits option.splits)
qed

text \<open>Any number of calls of \<open>NextBlock\<close>, failed ones included, with the headers they delivered.\<close>

inductive delivers ::
  "config \<Rightarrow> client \<Rightarrow> (nat \<Rightarrow> nat \<Rightarrow> bool) \<Rightarrow> nat \<Rightarrow> ShardTracker \<Rightarrow> ShardBlockHeader list \<Rightarrow> ShardTracker \<Rightarrow> bool"
  for cfg cl stops where
  deliver_none: "delivers cfg cl stops k s [] s"
| deliver_block:
    "NextBlock cfg cl stops k s = Some (k1, s1, Inr (Some h)) \<Longrightarrow> delivers cfg cl stops k1 s1 hs s2
      \<Longrightarrow> delivers cfg cl stops k s (h # hs) s2"
| deliver_error:
    "NextBlock cfg cl stops k s = Some (k1, s1, Inl e) \<Longrightarrow> delivers cfg cl stops k1 s1 hs s2
      \<Longrightarrow> delivers cfg cl stops k s hs s2"


lemma walk_seqno:
  assumes "parents_older cl" "walk i hs j" "hs \<noteq> []"
    and "\<forall>h\<in>set hs. getShardBlocksHeader cfg cl (sbh_BlockIDExt h) shard = Some (Inr h)"
  shows "bid_SeqNo j < bid_SeqNo i"
  using assms(2-)
proof (induction hs arbitrary: i)
  case Nil
  then show ?case by simp
next
  case (Cons h hs)
  then have "bid_SeqNo (sbh_Parent h) < bid_SeqNo i"
    using getShardBlocksHeader_parent[OF assms(1), of cfg i shard h] by auto
  moreover have "bid_SeqNo j \<le> bid_SeqNo (sbh_Parent h)"
    using Cons by (cases hs) (auto simp: order_less_imp_le)
  ultimately show ?case by simp
qed

lemma shard_loop_complete:
  assumes "parents_older cl" "walk i hs j" "same_block b j"
    and "\<forall>h\<in>set hs. getShardBlocksHeader cfg cl (sbh_BlockIDExt h) shard = Some (Inr h)"
  shows "shard_loop cfg cl shard (\<lambda>_. False) (Some b) k batch i = Some (Some b, Inr (batch @ hs, False))"
  using assms(2-)
proof (induction hs arbitrary: i batch k)
  case Nil
  then show ?case by (subst shard_loop.simps) simp
next
  case (Cons h hs)
  have "bid_SeqNo j < bid_SeqNo i"
    by (rule walk_seqno[OF assms(1) Cons.prems(1) _ Cons.prems(3)]) simp
  then have "\<not> same_block b i" "\<not> bid_SeqNo i < bid_SeqNo b"
    using Cons.prems(2) by (auto simp: same_block_def)
  moreover have "getShardBlocksHeader cfg cl i shard = Some (Inr h)" "walk (sbh_Parent h) hs j" using Cons.prems by auto
  ultimately show ?case
    using Cons.IH[of "sbh_Parent h" "Suc k" "batch @ [h]"] Cons.prems(2,3) by (subst shard_loop.simps) simp
qed

section \<open>A sample node\<close>

definition sample_client :: client where
  "sample_client =
     \<lparr>cl_GetMasterchainInfo = (\<lambda>k. Inr (sample_block_id (of_nat k))),
      cl_GetBlockShardsInfo = (\<lambda>m k i. Inr [sample_block_id 6]),
      cl_GetBlockData = (\<lambda>b k i.
        Inr \<lparr>blk_NotMaster = True, blk_GenUtime = 10, blk_StartLt = 1, blk_EndLt = 2,
             blk_Parents = (if bid_SeqNo b = 0 then Inl (LibError ''no parent'')
                            else Inr [sample_block_id (bid_SeqNo b - 1)])\<rparr>)\<rparr>"

lemma sample_client_documented: "blocks_served sample_client" "parents_older sample_client"
proof -
  show "blocks_served sample_client" by (simp add: blocks_served_def sample_client_def)
  have "x - 1 < x" if "x \<noteq> 0" for x :: u32
    using that by (simp add: measure_unat word_less_nat_alt)
  then show "parents_older sample_client"
    by (auto simp: parents_older_def sample_client_def sample_block_id_def split: if_splits)
qed

lemma sample_client_header:
  "getShardBlocksHeader sample_config sample_client (sample_block_id 6) shard = Some (Inr (sample_header 6))"
  by (simp add: getShardBlocksHeader_def poll.simps retry_def sample_config_def
      sample_client_def convertBlockToShardHeader_def sample_block_id_def sample_header_def)

lemma sample_client_loop:
  "shard_loop sample_config sample_client shard (\<lambda>_. False) (Some (sample_block_id 5)) 0 [] (sample_block_id 6)
     = Some (Some (sample_block_id 5), Inr ([sample_header 6], False))"
  using shard_loop_complete[OF sample_client_documented(2), of "sample_block_id 6" "[sample_header 6]" "sample_block_id 5"
      "sample_block_id 5" sample_config shard 0 "[]"]
  by (simp add: sample_header_def sample_client_header)

lemma sample_client_next:
  "NextBlock sample_config sample_client (\<lambda>_ _. False) 0 (NewShardTracker 0x2A (Some (sample_block_id 5)))
     = Some (1, \<lparr>st_shard = 0x2A, st_lastKnownShardBlock = Some (sample_block_id 6),
               st_lastMasterBlock = Some (sample_block_id 0), st_buffer = [], st_gracefulShutdown = False\<rparr>,
         Inr (Some (sample_header 6)))"
proof -
  let ?s0 = "NewShardTracker 0x2A (Some (sample_block_id 5))"
  let ?s1 = "?s0\<lparr>st_lastMasterBlock := Some (sample_block_id 0)\<rparr>"
  have m: "getNextMasterBlockID sample_client 0 ?s0 = Some (1, ?s1, Inr (sample_block_id 0))"
    by (simp add: getNextMasterBlockID.simps sample_client_def NewShardTracker_def)
  have shards: "poll (\<lambda>k. retry sample_config (cl_GetBlockShardsInfo sample_client m k)) 0 = Some (Inr [sample_block_id 6])" for m
    by (simp add: poll.simps retry_def sample_config_def sample_client_def)
  have "filterByShard [sample_block_id 6] 0x2A = Inr (sample_block_id 6)" by (simp add: sample_block_id_def)
  then have "loadShardBlocksBatch sample_config sample_client (\<lambda>_. False) ?s1 (sample_block_id 0)
      = Some (?s1\<lparr>st_lastKnownShardBlock := Some (sample_block_id 6), st_buffer := [sample_header 6]\<rparr>, Inr False)"
    by (simp add: loadShardBlocksBatch_def shards getShardBlocks_def NewShardTracker_def sample_client_loop)
      (simp add: sample_header_def)
  with m show ?thesis
    by (simp add: NextBlock.simps[of _ _ _ 0] getNext_def[of ?s0] NewShardTracker_def)
      (simp add: NextBlock.simps getNext_def)
qed


text \<open>
  C14.  The walk back ends.  When the node eventually serves the blocks it refers to and parents have
  smaller sequence numbers, loading a batch of shard blocks returns, from every state of the
  tracker and every head block.
\<close>

theorem getShardBlocks_terminates:
  assumes "blocks_served cl" "parents_older cl"
  shows "\<exists>s' r. getShardBlocks cfg cl stops s i = Some (s', r)"
  using shard_loop_returns[OF assms, of cfg "st_shard s" stops "st_lastKnownShardBlock s" 0 "[]" i]
  by (auto simp: getShardBlocks_def)

theorem getShardBlocks_terminates_witness:
  "\<exists>s' r. getShardBlocks sample_config sample_client (\<lambda>_. False) (NewShardTracker 0x2A None) (sample_block_id 6) = Some (s', r)"
  using getShardBlocks_terminates[OF sample_client_documented, of sample_config "\<lambda>_. False" "NewShardTracker 0x2A None" "sample_block_id 6"]
  by simp

text \<open>
  Nothing is left out of a batch.  When the chain from the shard's head leads back to the last
  known block, the walk returns exactly the headers in between, whatever their number.
\<close>

theorem getShardBlocks_complete:
  assumes "parents_older cl" "st_lastKnownShardBlock s = Some b"
    and "walk i hs j" "same_block b j"
    and "\<forall>h\<in>set hs. getShardBlocksHeader cfg cl (sbh_BlockIDExt h) (st_shard s) = Some (Inr h)"
  shows "getShardBlocks cfg cl (\<lambda>_. False) s i = Some (s, Inr (hs, False))"
  using shard_loop_complete[OF assms(1,3,4,5), of 0 "[]"] assms(2) by (simp add: getShardBlocks_def)

theorem getShardBlocks_complete_witness:
  "getShardBlocks sample_config sample_client (\<lambda>_. False) (NewShardTracker 0x2A (Some (sample_block_id 5))) (sample_block_id 6)
     = Some (NewShardTracker 0x2A (Some (sample_block_id 5)), Inr ([sample_header 6], False))"
  using getShardBlocks_complete[OF sample_client_documented(2), of "NewShardTracker 0x2A (Some (sample_block_id 5))"
      "sample_block_id 5" "sample_block_id 6" "[sample_header 6]" "sample_block_id 5" sample_config]
  by (simp add: NewShardTracker_def sample_header_def sample_client_header)

end
