(* ===== verification/Block_Scanner.thy ===== *)
theory Block_Scanner
  imports Shard_Tracker
begin

text \<open>
  \<open>src/core/block_scanner.go\<close>: from a shard block to the events saved in the database and the
  notifications published.  Functions that write audit records return them with their result.

  The environment of the scanner (\<open>scanner\<close>) holds the third-party library, the configuration, the
  address book, the three calls of the blockchain interface it makes, and its notificators.  Go
  visits the keys of a map in an order it does not specify: maps are lists of distinct keys, and
  \<open>bs_range\<close> is the order in which a \<open>range\<close> loop visits them.
\<close>

section \<open>Data\<close>

record transactions =
  t_Address :: Address
  t_WalletType :: WalletType
  t_Transactions :: "Transaction list"

record jettonTransferNotificationMsg =
  jtn_Amount :: Coins
  jtn_Sender :: "taddress option"
  jtn_Comment :: string

record JettonTransferMsg =
  jt_Amount :: Coins
  jt_Destination :: "taddress option"
  jt_Comment :: string

record HighLoadWalletExtMsgInfo =
  hl_UUID :: uuid
  hl_TTL :: Time
  hl_Messages :: dictionary

record incomeNotification =
  ntf_Deposit :: string
  ntf_Timestamp :: int
  ntf_Amount :: string
  ntf_Source :: string
  ntf_Comment :: string
  ntf_UserID :: string
  ntf_TxHash :: string

record scanner =
  bs_lib :: tonlib
  bs_cfg :: config
  bs_db :: addressBook
  bs_range :: "Address list \<Rightarrow> Address list"
  bs_GetTransactionIDsFromBlock :: "BlockIDExt \<Rightarrow> error + TransactionShortInfo list"
  bs_GetTransactionFromBlock :: "BlockIDExt \<Rightarrow> TransactionShortInfo \<Rightarrow> error + Transaction"
  bs_GetJettonBalance :: "Address \<Rightarrow> BlockIDExt \<Rightarrow> error + int"
  bs_notificators :: "(incomeNotification \<Rightarrow> error + unit) list"

definition map_range :: "(Address list \<Rightarrow> Address list) \<Rightarrow> bool" where
  "map_range f \<longleftrightarrow> (\<forall>ks. mset (f ks) = mset ks)"

text \<open>\<open>fmt.Errorf("...: %v", err)\<close>; the end of the process is not an error value.\<close>

definition wrap_err :: "string \<Rightarrow> ('l, 'a) logged \<Rightarrow> ('l, 'a) logged" where
  "wrap_err msg m =
     (case snd m of
        Inl (Fatalf s) \<Rightarrow> m
      | Inl (Panicf s) \<Rightarrow> m
      | Inl e \<Rightarrow> (fst m, Inl (Errorf msg))
      | Inr x \<Rightarrow> m)"

lemma wrap_err_success [simp]: "snd (wrap_err msg m) = Inr x \<longleftrightarrow> snd m = Inr x"
  by (auto simp: wrap_err_def split: sum.splits error.splits)

definition nil_pointer :: error where
  "nil_pointer = Panicf ''invalid memory address or nil pointer dereference''"

section \<open>Decoding of messages\<close>

definition LoadComment :: "tonlib \<Rightarrow> cell option \<Rightarrow> string" where
  "LoadComment lib c =
     (case c of
        None \<Rightarrow> []
      | Some c \<Rightarrow>
          (case lib_BeginParse lib c of
             Inl e \<Rightarrow> []
           | Inr l \<Rightarrow>
               (case lib_LoadUInt32 lib l of
                  Inl e \<Rightarrow> []
                | Inr (val, l') \<Rightarrow>
                    if val = 0
                    then (case lib_LoadStringSnake lib l' of Inl e \<Rightarrow> [] | Inr str \<Rightarrow> str)
                    else [])))"

definition decodeJettonTransferNotification :: "tonlib \<Rightarrow> InternalMessage \<Rightarrow> error + jettonTransferNotificationMsg" where
  "decodeJettonTransferNotification lib msg =
     (case im_Payload msg of
        None \<Rightarrow> Inl (Errorf ''empty payload'')
      | Some payload \<Rightarrow>
          andThenR (lib_BeginParse lib payload) (\<lambda>sl.
          andThenR (lib_LoadNotification lib sl) (\<lambda>n.
          Inr \<lparr>jtn_Amount = NewCoins (nb_Amount n), jtn_Sender = nb_Sender n,
               jtn_Comment = LoadComment lib (nb_ForwardPayload n)\<rparr>)))"

definition DecodeJettonTransfer :: "tonlib \<Rightarrow> InternalMessage \<Rightarrow> error + JettonTransferMsg" where
  "DecodeJettonTransfer lib msg =
     (case im_Payload msg of
        None \<Rightarrow> Inl (Errorf ''empty payload'')
      | Some payload \<Rightarrow>
          andThenR (lib_BeginParse lib payload) (\<lambda>sl.
          andThenR (lib_LoadTransfer lib sl) (\<lambda>tr.
          Inr \<lparr>jt_Amount = NewCoins (tb_Amount tr), jt_Destination = tb_Destination tr,
               jt_Comment = LoadComment lib (tb_ForwardPayload tr)\<rparr>)))"

definition decodeJettonExcesses :: "tonlib \<Rightarrow> InternalMessage \<Rightarrow> error + int" where
  "decodeJettonExcesses lib msg =
     (case im_Payload msg of
        None \<Rightarrow> Inl (Errorf ''empty payload'')
      | Some payload \<Rightarrow>
          andThenR (lib_BeginParse lib payload) (\<lambda>sl.
          andThenR (lib_LoadExcesses lib sl) (\<lambda>q. Inr (sint q))))"

definition getHighLoadWalletExtMsgInfo :: "tonlib \<Rightarrow> ExternalMessage \<Rightarrow> error + HighLoadWalletExtMsgInfo" where
  "getHighLoadWalletExtMsgInfo lib extMsg =
     (case em_Payload extMsg of
        None \<Rightarrow> Inl (Errorf ''nil body for external message'')
      | Some body \<Rightarrow>
          andThenR (lib_UuidFromBytes lib (take 16 (lib_Hash lib body))) (\<lambda>u.
          andThenR (lib_BeginParse lib body) (\<lambda>sl.
          andThenR (lib_LoadHighload lib sl) (\<lambda>d.
          Inr \<lparr>hl_UUID = u,
               hl_TTL = uint (drop_bit 32 (hb_BoundedID d) AND 0xFFFFFFFF) * Second,
               hl_Messages = hb_Messages d\<rparr>))))"

text \<open>The loop of \<open>parseExternalMessage\<close>; \<open>None\<close> is the result ``not a valid withdrawal''.\<close>

fun ext_msg_addrs :: "tonlib \<Rightarrow> slice list \<Rightarrow> Address list \<Rightarrow> error + Address list option" where
  "ext_msg_addrs lib [] addrMap = Inr (Some addrMap)"
| "ext_msg_addrs lib (m # ms) addrMap =
     andThenR (lib_LoadRef lib m) (\<lambda>msgCell.
     andThenR (lib_LoadInternalMessage lib msgCell) (\<lambda>intMsg.
     case (case DecodeJettonTransfer lib intMsg of
             Inr jettonTransfer \<Rightarrow> AddressFromTonutilsAddress (jt_Destination jettonTransfer)
           | Inl e \<Rightarrow> AddressFromTonutilsAddress (im_DstAddr intMsg)) of
       Inl e \<Rightarrow> Inr None
     | Inr addr \<Rightarrow>
         if addr \<in> set addrMap then Inr None
         else ext_msg_addrs lib ms (addrMap @ [addr])))"

definition parseExternalMessage :: "tonlib \<Rightarrow> ExternalMessage \<Rightarrow> error + (uuid \<times> Address list) option" where
  "parseExternalMessage lib msg =
     andThenR (getHighLoadWalletExtMsgInfo lib msg) (\<lambda>info.
     andThenR (lib_DictLoadAll lib (hl_Messages info)) (\<lambda>messages.
     andThenR (ext_msg_addrs lib messages []) (\<lambda>r.
     Inr (map_option (\<lambda>addrMap. (hl_UUID info, addrMap)) r))))"

definition checkTxForSuccess :: "tonlib \<Rightarrow> Transaction \<Rightarrow> error + bool" where
  "checkTxForSuccess lib tx =
     andThenR (lib_DescrToCell lib (tx_Description tx)) (\<lambda>cell1.
     andThenR (lib_DeserializeBoc lib cell1) (\<lambda>c.
     case c of
       [] \<Rightarrow> Inl (Panicf ''index out of range'')
     | c0 # _ \<Rightarrow>
         andThenR (lib_UnmarshalDescr lib c0) (\<lambda>desc. Inr (lib_IsSuccess lib desc))))"

text \<open>\<open>if tx.OutMsgCount > 0 { outList, err = tx.IO.Out.ToSlice() }\<close>\<close>

definition out_messages :: "Transaction \<Rightarrow> error + Message list" where
  "out_messages tx = (if tx_OutMsgCount tx > 0 then tx_OutToSlice tx else Inr [])"

section \<open>TON hot wallet\<close>

text \<open>\<open>failedWithdrawals\<close>, over the keys of \<open>inMap\<close> in the order they are visited.\<close>

fun failed_loop :: "scanner \<Rightarrow> Address list \<Rightarrow> uuid \<Rightarrow> byte list \<Rightarrow> Address list \<Rightarrow> ExternalWithdrawal list audited" where
  "failed_loop s outMap u txHash [] = ok []"
| "failed_loop s outMap u txHash (i # is) =
     (let dstOk = (GetWalletType (bs_db s) i \<noteq> None);
          isOut = (i \<in> set outMap) in
      if \<not> isOut \<and> \<not> dstOk then
        noting (LogTX Error (WalletType_string TonHotWallet) txHash
                  (''Failed external withdrawal to '' @ Address_ToUserFormat (bs_lib s) (bs_cfg s) i))
          (andThen (failed_loop s outMap u txHash is) (\<lambda>w.
           ok (\<lparr>ew_ExtMsgUuid = u, ew_Utime = 0, ew_Lt = 0, ew_To = i, ew_Amount = 0, ew_Comment = [],
                ew_IsFailed = True, ew_TxHash = txHash\<rparr> # w)))
      else if \<not> isOut \<and> dstOk then
        noting (LogTX Error (WalletType_string TonHotWallet) txHash
                  (''Failed internal withdrawal to '' @ Address_ToUserFormat (bs_lib s) (bs_cfg s) i))
          (failed_loop s outMap u txHash is)
      else failed_loop s outMap u txHash is)"

definition failedWithdrawals ::
  "scanner \<Rightarrow> Address list \<Rightarrow> Address list \<Rightarrow> uuid \<Rightarrow> byte list \<Rightarrow> ExternalWithdrawal list audited" where
  "failedWithdrawals s inMap outMap u txHash = failed_loop s outMap u txHash (bs_range s inMap)"

definition processTonHotWalletProxyMsg :: "scanner \<Rightarrow> InternalMessage \<Rightarrow> Events audited" where
  "processTonHotWalletProxyMsg s msg =
     (let lib = bs_lib s in
      andThen (lift_res (case im_Payload msg of None \<Rightarrow> Inl nil_pointer | Some body \<Rightarrow> lib_BeginParse lib body)) (\<lambda>sl.
      andThen (wrap_err ''no internal payload to proxy contract'' (lift_res (lib_LoadRef lib sl))) (\<lambda>internalPayload.
      andThen (wrap_err ''can not decode payload message for proxy contract''
                 (lift_res (lib_LoadInternalMessage lib internalPayload))) (\<lambda>intMsg.
      if GetWalletTypeByTonutilsAddress (bs_db s) (im_DstAddr intMsg) = Some JettonDepositWallet then
        andThen (wrap_err ''invalid jetton transfer message to deposit jetton wallet''
                   (lift_res (DecodeJettonTransfer lib intMsg))) (\<lambda>jettonTransfer.
        andThen (wrap_err ''invalid address in withdrawal message''
                   (lift_res (AddressFromTonutilsAddress (jt_Destination jettonTransfer)))) (\<lambda>a.
        ok (no_events\<lparr>SendingConfirmations :=
              [\<lparr>sc_Lt = im_CreatedLT msg, sc_From = a, sc_Memo = jt_Comment jettonTransfer\<rparr>]\<rparr>)))
      else ok no_events))))"

text \<open>One outgoing message of the hot wallet: the events so far and the keys of \<open>addrMapOut\<close>.\<close>

definition hot_wallet_out_msg ::
  "scanner \<Rightarrow> uuid \<Rightarrow> Transaction \<Rightarrow> Message \<Rightarrow> Events \<times> Address list \<Rightarrow> (Events \<times> Address list) audited" where
  "hot_wallet_out_msg s u tx m st =
     (let lib = bs_lib s; events = fst st; addrMapOut = snd st in
      case m of
        MsgInternal msg \<Rightarrow>
          andThen (wrap_err ''invalid address in withdrawal message''
                     (lift_res (AddressFromTonutilsAddress (im_DstAddr msg)))) (\<lambda>addr.
          let dst = GetWalletTypeByTonutilsAddress (bs_db s) (im_DstAddr msg) in
          if dst = Some JettonHotWallet then
            (case DecodeJettonTransfer lib msg of
               Inl e \<Rightarrow>
                 noting (LogTX Error (WalletType_string TonHotWallet) (tx_Hash tx)
                           ''invalid jetton transfer message to hot jetton wallet'')
                   (fail (Errorf ''invalid jetton transfer message to hot jetton wallet''))
             | Inr jettonTransfer \<Rightarrow>
                 andThen (wrap_err ''invalid address in withdrawal message''
                            (lift_res (AddressFromTonutilsAddress (jt_Destination jettonTransfer)))) (\<lambda>a.
                 ok (events\<lparr>ExternalWithdrawals := ExternalWithdrawals events @
                       [\<lparr>ew_ExtMsgUuid = u, ew_Utime = im_CreatedAt msg, ew_Lt = im_CreatedLT msg, ew_To = a,
                         ew_Amount = jt_Amount jettonTransfer, ew_Comment = jt_Comment jettonTransfer,
                         ew_IsFailed = False, ew_TxHash = tx_Hash tx\<rparr>]\<rparr>,
                     a # addrMapOut)))
          else if dst = Some JettonOwner then
            andThen (wrap_err ''jetton withdrawal error'' (processTonHotWalletProxyMsg s msg)) (\<lambda>e.
            ok (Events_Append events e, addr # addrMapOut))
          else if dst = None then
            ok (events\<lparr>ExternalWithdrawals := ExternalWithdrawals events @
                  [\<lparr>ew_ExtMsgUuid = u, ew_Utime = im_CreatedAt msg, ew_Lt = im_CreatedLT msg, ew_To = addr,
                    ew_Amount = NewCoins (im_Amount msg), ew_Comment = im_Comment msg,
                    ew_IsFailed = False, ew_TxHash = tx_Hash tx\<rparr>]\<rparr>,
                addr # addrMapOut)
          else ok (events, addr # addrMapOut))
      | _ \<Rightarrow>
          noting (LogTX Error (WalletType_string TonHotWallet) (tx_Hash tx) ''not internal out message for transaction'')
            (fail (Errorf ''anomalous behavior of the TON hot wallet'')))"

definition processTonHotWalletExternalInMsg :: "scanner \<Rightarrow> Transaction \<Rightarrow> ExternalMessage \<Rightarrow> Events audited" where
  "processTonHotWalletExternalInMsg s tx inMsg =
     andThen (lift_res (parseExternalMessage (bs_lib s) inMsg)) (\<lambda>parsed.
     case parsed of
       None \<Rightarrow>
         noting (LogTX Error (WalletType_string TonHotWallet) (tx_Hash tx) ''not valid external message'')
           (fail (Errorf ''not valid message''))
     | Some (u, addrMapIn) \<Rightarrow>
         andThen (lift_res (out_messages tx)) (\<lambda>outList.
         andThen (forM (hot_wallet_out_msg s u tx) outList (no_events, [])) (\<lambda>(events, addrMapOut).
         andThen (failedWithdrawals s addrMapIn addrMapOut u (tx_Hash tx)) (\<lambda>failed.
         ok (events\<lparr>ExternalWithdrawals := ExternalWithdrawals events @ failed\<rparr>)))))"

definition processTonHotWalletInternalInMsg :: "scanner \<Rightarrow> Transaction \<Rightarrow> InternalMessage \<Rightarrow> Events audited" where
  "processTonHotWalletInternalInMsg s tx inMsg =
     (let lib = bs_lib s in
      andThen (lift_res (AddressFromTonutilsAddress (im_SrcAddr inMsg))) (\<lambda>srcAddr.
      andThen (lift_res (AddressFromTonutilsAddress (im_DstAddr inMsg))) (\<lambda>dstAddr.
      case GetWalletType (bs_db s) srcAddr of
        None \<Rightarrow>
          (case decodeJettonExcesses lib inMsg of
             Inl e \<Rightarrow> ok no_events
           | Inr queryID \<Rightarrow> ok (no_events\<lparr>WithdrawalConfirmations := [\<lparr>jwc_QueryId = queryID\<rparr>]\<rparr>))
      | Some TonDepositWallet \<Rightarrow>
          andThen (lift_res (checkTxForSuccess lib tx)) (\<lambda>success.
          ok (no_events\<lparr>InternalIncomes :=
                [\<lparr>ii_Utime = im_CreatedAt inMsg, ii_Lt = im_CreatedLT inMsg, ii_From = srcAddr, ii_To = dstAddr,
                  ii_Amount = NewCoins (im_Amount inMsg), ii_Memo = im_Comment inMsg,
                  ii_IsFailed = (\<not> success), ii_TxHash = tx_Hash tx\<rparr>]\<rparr>))
      | Some JettonHotWallet \<Rightarrow>
          (case decodeJettonTransferNotification lib inMsg of
             Inl e \<Rightarrow> ok no_events
           | Inr income \<Rightarrow>
               andThen (lift_res (AddressFromTonutilsAddress (jtn_Sender income))) (\<lambda>sender.
               if GetWalletType (bs_db s) sender \<noteq> Some JettonOwner then ok no_events
               else ok (no_events\<lparr>InternalIncomes :=
                 [\<lparr>ii_Utime = im_CreatedAt inMsg, ii_Lt = im_CreatedLT inMsg, ii_From = sender, ii_To = srcAddr,
                   ii_Amount = jtn_Amount income, ii_Memo = jtn_Comment income,
                   ii_IsFailed = False, ii_TxHash = tx_Hash tx\<rparr>]\<rparr>)))
      | Some _ \<Rightarrow> ok no_events)))"

definition hot_wallet_tx :: "scanner \<Rightarrow> Transaction \<Rightarrow> Events \<Rightarrow> Events audited" where
  "hot_wallet_tx s tx events =
     (case tx_In tx of
        None \<Rightarrow>
          noting (LogTX Error (WalletType_string TonHotWallet) (tx_Hash tx) ''transaction without in message'')
            (fail (Errorf ''anomalous behavior of the TON hot wallet''))
      | Some (MsgExternalIn msg) \<Rightarrow>
          andThen (processTonHotWalletExternalInMsg s tx msg) (\<lambda>e. ok (Events_Append events e))
      | Some (MsgInternal msg) \<Rightarrow>
          andThen (processTonHotWalletInternalInMsg s tx msg) (\<lambda>e. ok (Events_Append events e))
      | Some MsgExternalOut \<Rightarrow>
          noting (LogTX Error (WalletType_string TonHotWallet) (tx_Hash tx)
                    ''transaction in message must be internal or external in'')
            (fail (Errorf ''anomalous behavior of the TON hot wallet'')))"

definition processTonHotWalletTXs :: "scanner \<Rightarrow> transactions \<Rightarrow> Events audited" where
  "processTonHotWalletTXs s txs = forM (hot_wallet_tx s) (t_Transactions txs) no_events"

end
