(* ===== verification/Wallets.thy ===== *)
theory Wallets
  imports Block_Scanner
begin

text \<open>
  \<open>src/core/wallets.go\<close> and \<open>src/core/proxy.go\<close>: the messages the service sends and the proxy
  contract, and the initialisation of the hot wallets.  Building and serialising cells is done by
  third-party packages: these calls are the fields of \<open>celllib\<close>.
\<close>

section \<open>Cells\<close>

record jetton_transfer =
  jp_QueryID :: u64
  jp_Amount :: int
  jp_Destination :: taddress
  jp_ResponseDestination :: taddress
  jp_ForwardTONAmount :: int
  jp_ForwardPayload :: cell

text \<open>\<open>tlb.InternalMessage\<close> as the program builds it, and \<open>wallet.Message\<close>.\<close>

record built_message =
  bm_Bounce :: bool
  bm_DstAddr :: "taddress option"
  bm_Amount :: int
  bm_Body :: "cell option"
  bm_StateInit :: "cell option"

record wallet_message =
  wm_Mode :: nat
  wm_InternalMessage :: built_message

record celllib =
  cb_Empty :: cell
  cb_StoreComment :: "string \<Rightarrow> error + cell"
  cb_BitStringFromFiftHex :: "string \<Rightarrow> error + nat"
  cb_TaggedSnake :: "u32 \<Rightarrow> nat \<Rightarrow> error + cell"
  cb_FromBOC :: "cell \<Rightarrow> error + cell"
  cb_TransferPayload :: "jetton_transfer \<Rightarrow> error + cell"
  cb_MessageCell :: "built_message \<Rightarrow> error + cell"
  cb_StoreRef :: "cell \<Rightarrow> cell"
  cb_ProxyCode :: "error + cell"
  cb_ProxyData :: "taddress \<Rightarrow> u32 \<Rightarrow> cell"
  cb_StateInitCell :: "cell \<Rightarrow> cell \<Rightarrow> error + cell"

definition buildComment :: "celllib \<Rightarrow> string \<Rightarrow> error + cell" where
  "buildComment cb comment = orFatal ''memo must fit into cell'' (cb_StoreComment cb comment)"

definition decodeBinaryComment :: "celllib \<Rightarrow> string \<Rightarrow> error + cell" where
  "decodeBinaryComment cb comment =
     andThenR (cb_BitStringFromFiftHex cb comment) (\<lambda>bitString.
     andThenR (cb_TaggedSnake cb 0xb3ddcf7d bitString) (\<lambda>b.
     cb_FromBOC cb b))"

definition MakeJettonTransferMessage ::
  "celllib \<Rightarrow> taddress \<Rightarrow> taddress \<Rightarrow> int \<Rightarrow> int \<Rightarrow> int \<Rightarrow> string \<Rightarrow> string \<Rightarrow> error + cell" where
  "MakeJettonTransferMessage cb destination responseDest amount forwardAmount queryId comment binaryComment =
     andThenR (if binaryComment \<noteq> [] then orFatal ''decode binary comment error'' (decodeBinaryComment cb binaryComment)
               else if comment \<noteq> [] then buildComment cb comment
               else Inr (cb_Empty cb)) (\<lambda>forwardPayload.
     orFatal ''jetton transfer message serialization error''
       (cb_TransferPayload cb
          \<lparr>jp_QueryID = word_of_int queryId, jp_Amount = amount, jp_Destination = destination,
           jp_ResponseDestination = responseDest, jp_ForwardTONAmount = forwardAmount,
           jp_ForwardPayload = forwardPayload\<rparr>))"

section \<open>The proxy contract\<close>

record JettonProxy =
  prx_Owner :: taddress
  prx_SubwalletID :: u32
  prx_address :: taddress
  prx_stateInit :: cell

definition buildJettonProxyStateInit :: "celllib \<Rightarrow> u32 \<Rightarrow> taddress \<Rightarrow> error + (cell \<times> cell)" where
  "buildJettonProxyStateInit cb subwalletId owner =
     andThenR (orFatal ''parsing JettonProxyContractCode boc error'' (cb_ProxyCode cb)) (\<lambda>code.
     Inr (code, cb_ProxyData cb owner subwalletId))"

definition NewJettonProxy :: "tonlib \<Rightarrow> celllib \<Rightarrow> u32 \<Rightarrow> taddress \<Rightarrow> error + JettonProxy" where
  "NewJettonProxy lib cb subwalletId owner =
     andThenR (buildJettonProxyStateInit cb subwalletId owner) (\<lambda>(code, d).
     case cb_StateInitCell cb code d of
       Inl e \<Rightarrow> Inl (Errorf ''failed to get state cell'')
     | Inr stateCell \<Rightarrow>
         Inr \<lparr>prx_Owner = owner, prx_SubwalletID = subwalletId,
              prx_address = lib_NewAddress lib 0 (word_of_int DefaultWorkchain) (lib_Hash lib stateCell),
              prx_stateInit = stateCell\<rparr>)"

definition BuildMessage :: "taddress \<Rightarrow> cell \<Rightarrow> built_message" where
  "BuildMessage destination body =
     \<lparr>bm_Bounce = True, bm_DstAddr = Some destination, bm_Amount = 0, bm_Body = Some body, bm_StateInit = None\<rparr>"

section \<open>Messages of the hot wallet\<close>

definition BuildTonWithdrawalMessage :: "tonlib \<Rightarrow> celllib \<Rightarrow> ExternalWithdrawalTask \<Rightarrow> error + wallet_message" where
  "BuildTonWithdrawalMessage lib cb t =
     andThenR (if ewt_BinaryComment t \<noteq> []
               then orFatal ''decode binary comment error'' (decodeBinaryComment cb (ewt_BinaryComment t))
               else if ewt_Comment t \<noteq> [] then buildComment cb (ewt_Comment t)
               else Inr (cb_Empty cb)) (\<lambda>body.
     Inr \<lparr>wm_Mode = 3,
          wm_InternalMessage =
            \<lparr>bm_Bounce = ewt_Bounceable t,
             bm_DstAddr = Some (Address_ToTonutilsAddressStd lib (ewt_Destination t) 0),
             bm_Amount = lib_BigInt lib (ewt_Amount t), bm_Body = Some body, bm_StateInit = None\<rparr>\<rparr>)"

definition BuildJettonWithdrawalMessage ::
  "tonlib \<Rightarrow> celllib \<Rightarrow> config \<Rightarrow> ExternalWithdrawalTask \<Rightarrow> taddress \<Rightarrow> taddress option \<Rightarrow> error + wallet_message" where
  "BuildJettonWithdrawalMessage lib cb cfg t highloadWallet fromJettonWallet =
     andThenR (MakeJettonTransferMessage cb (Address_ToTonutilsAddressStd lib (ewt_Destination t) 0) highloadWallet
                 (lib_BigInt lib (ewt_Amount t)) (cfg_JettonForwardAmount cfg) (ewt_QueryID t)
                 (ewt_Comment t) (ewt_BinaryComment t)) (\<lambda>body.
     Inr \<lparr>wm_Mode = 3,
          wm_InternalMessage =
            \<lparr>bm_Bounce = True, bm_DstAddr = fromJettonWallet, bm_Amount = JettonTransferTonAmount,
             bm_Body = Some body, bm_StateInit = None\<rparr>\<rparr>)"

text \<open>\<open>rnd\<close> is the value of \<open>rand.Int63()\<close>.\<close>

definition BuildJettonProxyWithdrawalMessage ::
  "celllib \<Rightarrow> JettonProxy \<Rightarrow> taddress \<Rightarrow> taddress \<Rightarrow> int \<Rightarrow> int \<Rightarrow> int \<Rightarrow> string \<Rightarrow> error + wallet_message" where
  "BuildJettonProxyWithdrawalMessage cb proxy jettonWallet tonWallet forwardAmount amount rnd comment =
     andThenR (MakeJettonTransferMessage cb tonWallet tonWallet amount forwardAmount rnd comment []) (\<lambda>payload.
     andThenR (orFatal ''build proxy message cell error'' (cb_MessageCell cb (BuildMessage jettonWallet payload))) (\<lambda>msg.
     Inr \<lparr>wm_Mode = 3,
          wm_InternalMessage =
            \<lparr>bm_Bounce = True, bm_DstAddr = Some (prx_address proxy), bm_Amount = JettonTransferTonAmount,
             bm_Body = Some (cb_StoreRef cb msg), bm_StateInit = Some (prx_stateInit proxy)\<rparr>\<rparr>))"

definition buildJettonProxyServiceTonWithdrawalMessage ::
  "tonlib \<Rightarrow> celllib \<Rightarrow> JettonProxy \<Rightarrow> taddress \<Rightarrow> uuid \<Rightarrow> error + wallet_message" where
  "buildJettonProxyServiceTonWithdrawalMessage lib cb proxy tonWallet memo =
     andThenR (buildComment cb (lib_UuidString lib memo)) (\<lambda>comment.
     andThenR (orFatal ''build proxy message cell error'' (cb_MessageCell cb (BuildMessage tonWallet comment))) (\<lambda>msg.
     Inr \<lparr>wm_Mode = 3,
          wm_InternalMessage =
            \<lparr>bm_Bounce = True, bm_DstAddr = Some (prx_address proxy), bm_Amount = JettonTransferTonAmount,
             bm_Body = Some (cb_StoreRef cb msg), bm_StateInit = Some (prx_stateInit proxy)\<rparr>\<rparr>))"

definition buildTonFillMessage :: "tonlib \<Rightarrow> celllib \<Rightarrow> taddress \<Rightarrow> int \<Rightarrow> uuid \<Rightarrow> error + wallet_message" where
  "buildTonFillMessage lib cb to amount memo =
     andThenR (buildComment cb (lib_UuidString lib memo)) (\<lambda>body.
     Inr \<lparr>wm_Mode = 3,
          wm_InternalMessage =
            \<lparr>bm_Bounce = False, bm_DstAddr = Some to, bm_Amount = amount, bm_Body = Some body, bm_StateInit = None\<rparr>\<rparr>)"

section \<open>Messages of deposit wallets\<close>

text \<open>\<open>WithdrawTONs\<close> and \<open>WithdrawJettons\<close> up to the call of \<open>Send\<close> on the deposit's wallet: the
  message that is sent.\<close>

definition WithdrawTONs :: "celllib \<Rightarrow> taddress \<Rightarrow> string \<Rightarrow> error + wallet_message" where
  "WithdrawTONs cb to comment =
     andThenR (if comment \<noteq> [] then andThenR (buildComment cb comment) (\<lambda>c. Inr (Some c)) else Inr None) (\<lambda>body.
     Inr \<lparr>wm_Mode = 128 + 32,
          wm_InternalMessage =
            \<lparr>bm_Bounce = False, bm_DstAddr = Some to, bm_Amount = 0, bm_Body = body, bm_StateInit = None\<rparr>\<rparr>)"

definition WithdrawJettons ::
  "tonlib \<Rightarrow> celllib \<Rightarrow> taddress \<Rightarrow> taddress \<Rightarrow> int \<Rightarrow> Coins \<Rightarrow> int \<Rightarrow> string \<Rightarrow> error + wallet_message" where
  "WithdrawJettons lib cb to jettonWallet forwardAmount amount rnd comment =
     andThenR (MakeJettonTransferMessage cb to to (lib_BigInt lib amount) forwardAmount rnd comment []) (\<lambda>body.
     Inr \<lparr>wm_Mode = 128 + 32,
          wm_InternalMessage =
            \<lparr>bm_Bounce = True, bm_DstAddr = Some jettonWallet, bm_Amount = 0, bm_Body = Some body, bm_StateInit = None\<rparr>\<rparr>)"

end
