(* ===== verification/Blockchain.thy ===== *)
theory Blockchain
  imports Shard_Tracker Wallets
begin

text \<open>
  \<open>src/blockchain/blockchain.go\<close>: generation of wallets in the service's shard, account state and
  balances, paging through the transactions of a block, the clock check, deployment, the choice of
  a trusted block, and the checks of \<open>src/pkg/trust\<close>.

  The lite client, the wallet package, the emulator and the DNS client are third-party code: what
  they answer are the fields of \<open>node\<close>.  A call wrapped in \<open>retry\<close> is a function of the number of
  the attempt.  Loops that wait for the node are partial functions; \<open>expired k\<close> says whether the
  context's deadline had passed when the loop looked for the \<open>k\<close>-th time.
\<close>

section \<open>The node\<close>

record account =
  acc_IsActive :: bool
  acc_Balance :: int
  acc_Status :: AccountStatus
  acc_Code :: "cell option"
  acc_Data :: "cell option"

datatype stack_value = StackInt int | StackOther

datatype wallet_version = HighloadV2R2 | V3

record wallet =
  w_Address :: taddress
  w_GetSubwallet :: "u32 \<Rightarrow> error + taddress"

record contract =
  ctr_Address :: nat
  ctr_Code :: cell
  ctr_Data :: cell

text \<open>What the emulator leaves on the stack and how a slice decodes to an address.\<close>

datatype vm_result = VmStkSlice slice | VmStkOther

datatype MsgAddress = AddrStd int Address | AddrOther

record node =
  nd_CurrentMasterchainInfo :: "nat \<Rightarrow> error + BlockIDExt"
  nd_GetAccount :: "BlockIDExt \<Rightarrow> taddress \<Rightarrow> nat \<Rightarrow> nat \<Rightarrow> error + account option"
  nd_RunGetMethod :: "BlockIDExt \<Rightarrow> taddress \<Rightarrow> string \<Rightarrow> nat \<Rightarrow> error + stack_value list"
  nd_GetBlockTransactionsV2 ::
    "BlockIDExt \<Rightarrow> nat \<Rightarrow> TransactionShortInfo option \<Rightarrow> nat \<Rightarrow> error + (TransactionShortInfo list \<times> bool)"
  nd_GetTransaction :: "BlockIDExt \<Rightarrow> taddress \<Rightarrow> u64 \<Rightarrow> nat \<Rightarrow> error + Transaction"
  nd_GetTime :: "nat \<Rightarrow> error + u32"
  nd_FromSeed :: "string list \<Rightarrow> wallet_version \<Rightarrow> error + wallet"
  nd_ParseAccountID :: "string \<Rightarrow> error + nat"
  nd_AccountBoc :: "cell \<Rightarrow> error + cell list"
  nd_NewEmulator :: "cell \<Rightarrow> cell \<Rightarrow> error + nat"
  nd_AccountSlice :: "nat \<Rightarrow> error + slice"
  nd_RunSmcMethod :: "nat \<Rightarrow> nat \<Rightarrow> string \<Rightarrow> slice \<Rightarrow> error + (int \<times> vm_result list)"
  nd_UnmarshalMsgAddress :: "slice \<Rightarrow> error + MsgAddress"
  nd_JettonBalanceByOwner :: "taddress \<Rightarrow> taddress \<Rightarrow> error + int"
  nd_Resolve :: "string \<Rightarrow> error + nat"
  nd_GetRecord :: "nat \<Rightarrow> string \<Rightarrow> cell option"
  nd_LoadUInt16 :: "slice \<Rightarrow> error + (nat \<times> slice)"
  nd_LoadAddr :: "slice \<Rightarrow> error + taddress option"

definition retry2 :: "config \<Rightarrow> (nat \<Rightarrow> error + ('a \<times> 'b)) \<Rightarrow> error + ('a \<times> 'b)" where
  "retry2 cfg f =
     (if cfg_LiteServerMaxRetries cfg = 0 then f 1
      else retry_loop (cfg_LiteServerMaxRetries cfg - 1) 1 f)"

definition CurrentMasterchainInfo :: "config \<Rightarrow> node \<Rightarrow> error + BlockIDExt" where
  "CurrentMasterchainInfo cfg nd = retry cfg (nd_CurrentMasterchainInfo nd)"

definition GetAccount :: "config \<Rightarrow> node \<Rightarrow> BlockIDExt \<Rightarrow> taddress \<Rightarrow> nat \<Rightarrow> error + account option" where
  "GetAccount cfg nd block addr k = retry cfg (nd_GetAccount nd block addr k)"

section \<open>Generation of wallets\<close>

definition GenerateDefaultWallet :: "tonlib \<Rightarrow> node \<Rightarrow> string \<Rightarrow> bool \<Rightarrow> error + (wallet \<times> byte \<times> u32)" where
  "GenerateDefaultWallet lib nd seed isHighload =
     (let words = strings_Split seed (CHR '' '') in
      andThenR (nd_FromSeed nd words (if isHighload then HighloadV2R2 else V3)) (\<lambda>w.
      case ta_Data (w_Address w) of
        [] \<Rightarrow> Inl (Panicf ''index out of range'')
      | b # _ \<Rightarrow> Inr (w, b, lib_DefaultSubwallet lib)))"

text \<open>\<open>for id := start; id < math.MaxUint32; id++\<close>: \<open>probe\<close> is the body, \<open>None\<close> goes on.\<close>

function for_ids :: "(u32 \<Rightarrow> error + 'a option) \<Rightarrow> error \<Rightarrow> u32 \<Rightarrow> error + 'a" where
  "for_ids probe notFound i =
     (if i < - 1 then
        (case probe i of
           Inl e \<Rightarrow> Inl e
         | Inr (Some x) \<Rightarrow> Inr x
         | Inr None \<Rightarrow> for_ids probe notFound (i + 1))
      else Inl notFound)"
  by pat_completeness auto
termination
proof (relation "measure (\<lambda>(_, _, i). unat (- 1 - i))")
  fix probe :: "u32 \<Rightarrow> error + 'a option" and notFound and i :: u32 and x :: "'a option"
  assume "i < - 1"
  then have "- 1 - i \<noteq> 0" by auto
  then have "unat (- 1 - (i + 1)) < unat (- 1 - i)"
    using measure_unat[of "- 1 - i"] by (simp add: algebra_simps)
  then show "((probe, notFound, i + 1), probe, notFound, i) \<in> measure (\<lambda>(_, _, i). unat (- 1 - i))" by simp
qed simp

declare for_ids.simps [simp del]

definition GenerateSubWallet :: "node \<Rightarrow> string \<Rightarrow> byte \<Rightarrow> u32 \<Rightarrow> error + (taddress \<times> u32)" where
  "GenerateSubWallet nd seed shard startSubWalletID =
     (let words = strings_Split seed (CHR '' '') in
      andThenR (nd_FromSeed nd words V3) (\<lambda>basic.
      for_ids (\<lambda>i.
        andThenR (w_GetSubwallet basic i) (\<lambda>subWallet.
        andThenR (AddressFromTonutilsAddress (Some subWallet)) (\<lambda>addr.
        Inr (if inShard addr shard then Some (subWallet, i) else None))))
        (Errorf ''subwallet not found'') startSubWalletID))"

definition one_root :: "error + cell list \<Rightarrow> error + cell" where
  "one_root r =
     andThenR r (\<lambda>cs. case cs of [c] \<Rightarrow> Inr c | _ \<Rightarrow> Inl (Errorf ''BOC must have only one root''))"

definition getContract :: "tonlib \<Rightarrow> config \<Rightarrow> node \<Rightarrow> taddress \<Rightarrow> error + contract" where
  "getContract lib cfg nd addr =
     andThenR (CurrentMasterchainInfo cfg nd) (\<lambda>block.
     andThenR (nd_GetAccount nd block addr 0 1) (\<lambda>account.
     case account of
       None \<Rightarrow> Inl (Errorf ''empty account code or data'')
     | Some a \<Rightarrow>
         (case (acc_Code a, acc_Data a) of
            (Some code, Some d) \<Rightarrow>
              andThenR (nd_ParseAccountID nd (lib_AddrString lib addr)) (\<lambda>accountID.
              andThenR (one_root (nd_AccountBoc nd code)) (\<lambda>codeCell.
              andThenR (one_root (nd_AccountBoc nd d)) (\<lambda>dataCell.
              Inr \<lparr>ctr_Address = accountID, ctr_Code = codeCell, ctr_Data = dataCell\<rparr>)))
          | _ \<Rightarrow> Inl (Errorf ''empty account code or data''))))"

definition getJettonWalletAddressByTVM :: "tonlib \<Rightarrow> node \<Rightarrow> taddress \<Rightarrow> nat \<Rightarrow> nat \<Rightarrow> error + Address" where
  "getJettonWalletAddressByTVM lib nd owner jettonMaster emulator =
     andThenR (nd_ParseAccountID nd (lib_AddrString lib owner)) (\<lambda>ownerAccountID.
     andThenR (nd_AccountSlice nd ownerAccountID) (\<lambda>sl.
     andThenR (nd_RunSmcMethod nd emulator jettonMaster ''get_wallet_address'' sl) (\<lambda>(code, result).
     case (code = 0, result) of
       (True, [VmStkSlice r]) \<Rightarrow>
         andThenR (nd_UnmarshalMsgAddress nd r) (\<lambda>msgAddress.
         case msgAddress of
           AddrOther \<Rightarrow> Inl (Errorf ''not std jetton wallet address'')
         | AddrStd wc a \<Rightarrow>
             if wc \<noteq> DefaultWorkchain then Inl (Errorf ''not default workchain for jetton wallet address'')
             else Inr a)
     | _ \<Rightarrow> Inl (Errorf ''tvm execution failed''))))"

definition GetJettonWalletAddress :: "tonlib \<Rightarrow> config \<Rightarrow> node \<Rightarrow> taddress \<Rightarrow> taddress \<Rightarrow> error + taddress" where
  "GetJettonWalletAddress lib cfg nd owner jettonMaster =
     andThenR (getContract lib cfg nd jettonMaster) (\<lambda>contr.
     andThenR (nd_NewEmulator nd (ctr_Code contr) (ctr_Data contr)) (\<lambda>emulator.
     andThenR (getJettonWalletAddressByTVM lib nd owner (ctr_Address contr) emulator) (\<lambda>addr.
     Inr ((Address_ToTonutilsAddressStd lib addr 0)\<lparr>ta_TestnetOnly := cfg_Testnet cfg\<rparr>))))"

definition GenerateDepositJettonWalletForProxy ::
  "tonlib \<Rightarrow> celllib \<Rightarrow> config \<Rightarrow> node \<Rightarrow> byte \<Rightarrow> taddress \<Rightarrow> taddress \<Rightarrow> u32 \<Rightarrow> error + (JettonProxy \<times> taddress)" where
  "GenerateDepositJettonWalletForProxy lib cb cfg nd shard proxyOwner jettonMaster startSubWalletID =
     andThenR (getContract lib cfg nd jettonMaster) (\<lambda>contr.
     andThenR (nd_NewEmulator nd (ctr_Code contr) (ctr_Data contr)) (\<lambda>emulator.
     for_ids (\<lambda>i.
       andThenR (NewJettonProxy lib cb i proxyOwner) (\<lambda>proxy.
       andThenR (getJettonWalletAddressByTVM lib nd (prx_address proxy) (ctr_Address contr) emulator) (\<lambda>jettonWalletAddress.
       Inr (if inShard jettonWalletAddress shard
            then Some (proxy, (Address_ToTonutilsAddressStd lib jettonWalletAddress 0)\<lparr>ta_TestnetOnly := cfg_Testnet cfg\<rparr>)
            else None))))
       (Errorf ''jetton wallet address not found'') startSubWalletID))"

section \<open>Balances and states\<close>

definition RunGetMethod ::
  "config \<Rightarrow> node \<Rightarrow> bool \<Rightarrow> BlockIDExt \<Rightarrow> taddress \<Rightarrow> string \<Rightarrow> error + stack_value list" where
  "RunGetMethod cfg nd expired block addr meth =
     (if expired then Inl ErrTimeoutExceeded else retry cfg (nd_RunGetMethod nd block addr meth))"

definition GetJettonBalance :: "tonlib \<Rightarrow> config \<Rightarrow> node \<Rightarrow> bool \<Rightarrow> Address \<Rightarrow> BlockIDExt \<Rightarrow> error + int" where
  "GetJettonBalance lib cfg nd expired address blockID =
     (case RunGetMethod cfg nd expired blockID (Address_ToTonutilsAddressStd lib address 0) ''get_wallet_data'' of
        Inl e \<Rightarrow> if strings_Contains (error_text e) ''contract is not initialized'' then Inr 0
                 else Inl (Errorf ''get wallet data error'')
      | Inr res \<Rightarrow>
          if length res \<noteq> 4 then Inl (Errorf ''invalid stack size'')
          else (case res ! 0 of StackInt n \<Rightarrow> Inr n | StackOther \<Rightarrow> Inl (Errorf ''invalid balance type'')))"

definition GetLastJettonBalance :: "tonlib \<Rightarrow> config \<Rightarrow> node \<Rightarrow> bool \<Rightarrow> taddress \<Rightarrow> error + int" where
  "GetLastJettonBalance lib cfg nd expired address =
     andThenR (CurrentMasterchainInfo cfg nd) (\<lambda>masterID.
     andThenR (AddressFromTonutilsAddress (Some address)) (\<lambda>addr.
     GetJettonBalance lib cfg nd expired addr masterID))"

text \<open>The loop of \<open>GetAccountCurrentState\<close>; a nil account would be dereferenced.\<close>

partial_function (option) account_loop ::
  "config \<Rightarrow> node \<Rightarrow> (nat \<Rightarrow> bool) \<Rightarrow> BlockIDExt \<Rightarrow> taddress \<Rightarrow> nat \<Rightarrow> (error + (int \<times> AccountStatus)) option" where
  "account_loop cfg nd expired masterID address k =
     (if expired k then Some (Inl ErrTimeoutExceeded)
      else
        (case GetAccount cfg nd masterID address k of
           Inl e \<Rightarrow> if isNotReadyError e then account_loop cfg nd expired masterID address (Suc k) else Some (Inl e)
         | Inr None \<Rightarrow> Some (Inl nil_pointer)
         | Inr (Some account) \<Rightarrow>
             if \<not> acc_IsActive account then Some (Inr (0, AccountStatusNonExist))
             else Some (Inr (acc_Balance account, acc_Status account))))"

definition GetAccountCurrentState ::
  "config \<Rightarrow> node \<Rightarrow> (nat \<Rightarrow> bool) \<Rightarrow> taddress \<Rightarrow> (error + (int \<times> AccountStatus)) option" where
  "GetAccountCurrentState cfg nd expired address =
     (case CurrentMasterchainInfo cfg nd of
        Inl e \<Rightarrow> Some (Inl e)
      | Inr masterID \<Rightarrow> account_loop cfg nd expired masterID address 0)"

text \<open>\<open>WaitStatus\<close>: \<open>state k\<close> is what the \<open>k\<close>-th \<open>GetAccountCurrentState\<close> answered.\<close>

partial_function (option) WaitStatus ::
  "(nat \<Rightarrow> bool) \<Rightarrow> (nat \<Rightarrow> error + (int \<times> AccountStatus)) \<Rightarrow> AccountStatus \<Rightarrow> nat \<Rightarrow> (error + unit) option" where
  "WaitStatus expired state status k =
     (if expired k then Some (Inl ErrTimeoutExceeded)
      else
        (case state k of
           Inl e \<Rightarrow> Some (Inl e)
         | Inr (_, st) \<Rightarrow> if st = status then Some (Inr ()) else WaitStatus expired state status (Suc k)))"

definition DeployTonWallet ::
  "(nat \<Rightarrow> bool) \<Rightarrow> (nat \<Rightarrow> error + (int \<times> AccountStatus)) \<Rightarrow> error + unit \<Rightarrow> (error + unit) option" where
  "DeployTonWallet expired state transfer =
     (case state 0 of
        Inl e \<Rightarrow> Some (Inl e)
      | Inr (balance, status) \<Rightarrow>
          if balance = 0 then Some (Inl (Errorf ''empty balance''))
          else if status \<noteq> AccountStatusActive then
            (case transfer of
               Inl e \<Rightarrow> Some (Inl e)
             | Inr _ \<Rightarrow> WaitStatus expired state AccountStatusActive 1)
          else Some (Inr ()))"

section \<open>Blocks\<close>

text \<open>\<open>sort.Slice\<close> is not stable: the sorting is a parameter, with its contract.\<close>

definition lt_sorting :: "(TransactionShortInfo list \<Rightarrow> TransactionShortInfo list) \<Rightarrow> bool" where
  "lt_sorting f \<longleftrightarrow> (\<forall>xs. mset (f xs) = mset xs \<and> sorted (map tsi_LT (f xs)))"

partial_function (option) page_loop ::
  "config \<Rightarrow> node \<Rightarrow> BlockIDExt \<Rightarrow> TransactionShortInfo option \<Rightarrow> TransactionShortInfo list
    \<Rightarrow> (error + TransactionShortInfo list) option" where
  "page_loop cfg nd blockID after txIDList =
     (case retry2 cfg (nd_GetBlockTransactionsV2 nd blockID 256 after) of
        Inl e \<Rightarrow> Some (Inl e)
      | Inr (fetchedIDs, hasMore) \<Rightarrow>
          if \<not> hasMore then Some (Inr (txIDList @ fetchedIDs))
          else if fetchedIDs = [] then Some (Inl (Panicf ''index out of range''))
          else page_loop cfg nd blockID (Some (last fetchedIDs)) (txIDList @ fetchedIDs))"

definition GetTransactionIDsFromBlock ::
  "(TransactionShortInfo list \<Rightarrow> TransactionShortInfo list) \<Rightarrow> config \<Rightarrow> node \<Rightarrow> BlockIDExt
    \<Rightarrow> (error + TransactionShortInfo list) option" where
  "GetTransactionIDsFromBlock lt_sort cfg nd blockID =
     map_option (map_sum id lt_sort) (page_loop cfg nd blockID None [])"

definition GetTransactionFromBlock ::
  "tonlib \<Rightarrow> config \<Rightarrow> node \<Rightarrow> BlockIDExt \<Rightarrow> TransactionShortInfo \<Rightarrow> error + Transaction" where
  "GetTransactionFromBlock lib cfg nd blockID txID =
     retry cfg (nd_GetTransaction nd blockID
       (lib_NewAddress lib 0 (word_of_int (bid_Workchain blockID)) (tsi_Account txID)) (tsi_LT txID))"

section \<open>Time\<close>

definition getCurrentNodeTime :: "config \<Rightarrow> node \<Rightarrow> error + Time" where
  "getCurrentNodeTime cfg nd = andThenR (retry cfg (nd_GetTime nd)) (\<lambda>t. Inr (time_Unix t))"

text \<open>\<open>time.Duration\<close> is a number of nanoseconds; its division truncates towards zero.\<close>

definition CheckTime :: "config \<Rightarrow> node \<Rightarrow> Time \<Rightarrow> Time \<Rightarrow> int \<Rightarrow> error + bool" where
  "CheckTime cfg nd prevTime nextTime cutoff =
     andThenR (getCurrentNodeTime cfg nd) (\<lambda>nodeTime.
     let d = nextTime - prevTime;
         midTime = prevTime + (if 0 \<le> d then d div 2 else - (- d div 2));
         nodeTimeShift = midTime - nodeTime
     in Inr (\<not> (nodeTimeShift > cutoff \<or> nodeTimeShift < - cutoff)))"

section \<open>DNS\<close>

definition getWalletRecord :: "tonlib \<Rightarrow> node \<Rightarrow> nat \<Rightarrow> taddress option" where
  "getWalletRecord lib nd d =
     (case nd_GetRecord nd d ''wallet'' of
        None \<Rightarrow> None
      | Some rec \<Rightarrow>
          (case andThenR (lib_BeginParse lib rec) (lib_LoadRef lib) of
             Inl e \<Rightarrow> None
           | Inr p \<Rightarrow>
               (case nd_LoadUInt16 nd p of
                  Inl e \<Rightarrow> None
                | Inr (category, p') \<Rightarrow>
                    if category \<noteq> 0x9fd3 then None
                    else (case nd_LoadAddr nd p' of Inl e \<Rightarrow> None | Inr addr \<Rightarrow> addr))))"

text \<open>\<open>dns.ErrNoSuchRecord\<close> is the library's error \<open>LibError ''no such dns record''\<close>.\<close>

definition DnsResolveSmc :: "tonlib \<Rightarrow> node \<Rightarrow> string \<Rightarrow> error + taddress" where
  "DnsResolveSmc lib nd domainName =
     (case nd_Resolve nd domainName of
        Inl e \<Rightarrow> if e = LibError ''no such dns record'' then Inl ErrNotFound else Inl e
      | Inr domain \<Rightarrow>
          (case getWalletRecord lib nd domain of
             None \<Rightarrow> Inl ErrNotFound
           | Some smcAddr \<Rightarrow> Inr smcAddr))"

end
