(* ===== verification/Withdrawal_Inv.thy ===== *)
theory Withdrawal_Inv
  imports Storage_Queries
begin

text \<open>
  The life of an external withdrawal across \<open>src/db/db.go\<close>: a request is pending, is picked and
  sent (one open row in \<open>external_withdrawals\<close>), and then either is settled by a transaction found
  in a block or expires and becomes pending again.  \<open>wd_inv\<close> is the invariant of the two tables;
  the operations that write them keep it, in whatever order the goroutines run them.
\<close>

section \<open>The invariant\<close>

text \<open>A row is settled when a transaction was recorded for it, open while it waits for one.\<close>

definition settled :: "external_withdrawals_row \<Rightarrow> bool" where
  "settled x \<longleftrightarrow> xw_tx_hash x \<noteq> None"

definition open_row :: "external_withdrawals_row \<Rightarrow> bool" where
  "open_row x \<longleftrightarrow> xw_tx_hash x = None \<and> \<not> xw_failed x"

definition rows_of :: "(external_withdrawals_row \<Rightarrow> bool) \<Rightarrow> int \<Rightarrow> external_withdrawals_row list \<Rightarrow> nat" where
  "rows_of P q xs = length (filter (\<lambda>x. xw_query_id x = q \<and> P x) xs)"

definition row_ok :: "external_withdrawals_row \<Rightarrow> bool" where
  "row_ok x \<longleftrightarrow> (xw_processed_lt x \<noteq> None \<longrightarrow> settled x) \<and> (settled x \<longrightarrow> xw_failed x \<or> xw_processed_lt x \<noteq> None)"

definition request_ok :: "external_withdrawals_row list \<Rightarrow> withdrawal_requests_row \<Rightarrow> bool" where
  "request_ok xs r \<longleftrightarrow>
     (rq_processed r \<longrightarrow> rq_processing r)
     \<and> rows_of settled (rq_query_id r) xs = (if rq_processed r then 1 else 0)
     \<and> rows_of open_row (rq_query_id r) xs = (if rq_processing r \<and> \<not> rq_processed r then 1 else 0)"

definition row_linked :: "withdrawal_requests_row list \<Rightarrow> external_withdrawals_row \<Rightarrow> bool" where
  "row_linked rs x \<longleftrightarrow> (\<exists>r\<in>set rs. rq_query_id r = xw_query_id x \<and> rq_dest_address r = xw_address x)"

definition row_key :: "external_withdrawals_row \<Rightarrow> uuid \<times> Address" where
  "row_key x = (xw_msg_uuid x, xw_address x)"

definition user_key :: "withdrawal_requests_row \<Rightarrow> string \<times> string \<times> bool" where
  "user_key r = (rq_user_id r, rq_user_query_id r, rq_is_internal r)"

definition wd_inv :: "tables \<Rightarrow> bool" where
  "wd_inv t \<longleftrightarrow>
     distinct (map rq_query_id (withdrawal_requests t))
     \<and> (\<forall>r\<in>set (withdrawal_requests t). rq_query_id r < query_id_seq t)
     \<and> distinct (map user_key (withdrawal_requests t))
     \<and> distinct (map row_key (external_withdrawals t))
     \<and> (\<forall>x\<in>set (external_withdrawals t). row_ok x \<and> row_linked (withdrawal_requests t) x)
     \<and> (\<forall>r\<in>set (withdrawal_requests t). request_ok (external_withdrawals t) r)"

text \<open>What a request keeps for ever, and what only sending and expiration change.\<close>

definition request_static :: "withdrawal_requests_row \<Rightarrow> withdrawal_requests_row" where
  "request_static r = r\<lparr>rq_processing := False, rq_processed := False\<rparr>"

definition request_sending :: "withdrawal_requests_row \<Rightarrow> withdrawal_requests_row" where
  "request_sending r = r\<lparr>rq_processed := False\<rparr>"

definition pending_tasks :: "tables \<Rightarrow> ExternalWithdrawalTask set" where
  "pending_tasks t = task_of_request ` {r \<in> set (withdrawal_requests t). \<not> rq_processing r}"

section \<open>Counting rows\<close>

lemma rows_of_append [simp]: "rows_of P q (xs @ ys) = rows_of P q xs + rows_of P q ys"
  by (simp add: rows_of_def)

lemma rows_of_Nil [simp]: "rows_of P q [] = 0"
  by (simp add: rows_of_def)

lemma rows_of_Cons [simp]:
  "rows_of P q (x # xs) = (if xw_query_id x = q \<and> P x then 1 else 0) + rows_of P q xs"
  by (simp add: rows_of_def)

lemma rows_of_zero: "rows_of P q xs = 0 \<longleftrightarrow> (\<forall>x\<in>set xs. xw_query_id x = q \<longrightarrow> \<not> P x)"
  by (induction xs) auto

lemma rows_of_pos: "0 < rows_of P q xs \<longleftrightarrow> (\<exists>x\<in>set xs. xw_query_id x = q \<and> P x)"
  using rows_of_zero[of P q xs] by auto

lemma rows_of_update_same:
  "(\<And>x. x \<in> set xs \<Longrightarrow> hit x \<Longrightarrow> xw_query_id (f x) = xw_query_id x \<and> P (f x) = P x)
    \<Longrightarrow> rows_of P q (update_where hit f xs) = rows_of P q xs"
  by (induction xs) auto

lemma rows_of_update_one:
  assumes "distinct (map k xs)" "x \<in> set xs" "\<And>y. xw_query_id (f y) = xw_query_id y"
  shows "rows_of P q (update_where (\<lambda>y. k y = k x) f xs) + (if xw_query_id x = q \<and> P x then 1 else 0)
       = rows_of P q xs + (if xw_query_id x = q \<and> P (f x) then 1 else 0)"
  using assms
proof (induction xs)
  case Nil
  then show ?case by simp
next
  case (Cons y ys)
  show ?case
  proof (cases "y = x")
    case True
    then have "k x \<notin> k ` set ys" using Cons.prems(1) by simp
    then have "update_where (\<lambda>y. k y = k x) f ys = ys"
      by (intro update_where_none) (metis imageI)
    with True Cons.prems(3) show ?thesis by simp
  next
    case False
    with Cons.prems have "x \<in> set ys" "k y \<noteq> k x" by auto
    with Cons show ?thesis by auto
  qed
qed

lemma rows_of_unique:
  "rows_of P q xs \<le> 1 \<Longrightarrow> distinct xs \<Longrightarrow> x \<in> set xs \<Longrightarrow> y \<in> set xs \<Longrightarrow>
     xw_query_id x = q \<Longrightarrow> P x \<Longrightarrow> xw_query_id y = q \<Longrightarrow> P y \<Longrightarrow> x = y"
proof (induction xs)
  case Nil
  then show ?case by simp
next
  case (Cons z zs)
  then show ?case
  proof (cases "xw_query_id z = q \<and> P z")
    case True
    with Cons.prems(1) have "rows_of P q zs = 0" by simp
    with Cons.prems show ?thesis unfolding rows_of_zero by auto
  next
    case False
    with Cons show ?thesis by auto
  qed
qed

section \<open>Frame\<close>

text \<open>The invariant reads two tables and the sequence only.\<close>

lemma wd_inv_cong:
  "withdrawal_requests t' = withdrawal_requests t \<Longrightarrow> external_withdrawals t' = external_withdrawals t
    \<Longrightarrow> query_id_seq t' = query_id_seq t \<Longrightarrow> wd_inv t' = wd_inv t"
  by (simp add: wd_inv_def)

lemma pending_tasks_cong:
  "map request_sending (withdrawal_requests t') = map request_sending (withdrawal_requests t)
    \<Longrightarrow> pending_tasks t' = pending_tasks t"
proof -
  have *: "task_of_request r = task_of_request (request_sending r)" "rq_processing r = rq_processing (request_sending r)" for r
    by (simp_all add: task_of_request_def request_sending_def)
  have P: "pending_tasks u = task_of_request ` {r \<in> set (map request_sending (withdrawal_requests u)). \<not> rq_processing r}" for u
  proof -
    have "task_of_request ` {r \<in> set (withdrawal_requests u). \<not> rq_processing r}
        = task_of_request ` request_sending ` {r \<in> set (withdrawal_requests u). \<not> rq_processing (request_sending r)}"
      using * by (force simp: image_iff)
    also have "request_sending ` {r \<in> set (withdrawal_requests u). \<not> rq_processing (request_sending r)}
        = {r \<in> set (map request_sending (withdrawal_requests u)). \<not> rq_processing r}"
      by auto
    finally show ?thesis unfolding pending_tasks_def .
  qed
  assume "map request_sending (withdrawal_requests t') = map request_sending (withdrawal_requests t)"
  then show ?thesis unfolding P by simp
qed

section \<open>A block\<close>

text \<open>What was paid: the settled rows by key and request.\<close>

definition paid :: "tables \<Rightarrow> ((uuid \<times> Address) \<times> int) set" where
  "paid t = (\<lambda>x. (row_key x, xw_query_id x)) ` {x \<in> set (external_withdrawals t). settled x}"

text \<open>A block never touches the \<open>processing\<close> flags, and what was paid stays paid.\<close>

definition block_frame :: "tables \<Rightarrow> tables \<Rightarrow> bool" where
  "block_frame t t' \<longleftrightarrow>
     map request_sending (withdrawal_requests t') = map request_sending (withdrawal_requests t)
     \<and> paid t \<subseteq> paid t'"

lemma block_frame_refl: "block_frame t t"
  by (simp add: block_frame_def)

lemma block_frame_trans: "block_frame t u \<Longrightarrow> block_frame u v \<Longrightarrow> block_frame t v"
  by (auto simp: block_frame_def)

lemma block_frame_cong:
  "withdrawal_requests t' = withdrawal_requests t \<Longrightarrow> external_withdrawals t' = external_withdrawals t
    \<Longrightarrow> block_frame t t'"
  by (simp add: block_frame_def paid_def)

lemma paid_update_where:
  assumes "\<And>x. hit x \<Longrightarrow> row_key (f x) = row_key x \<and> xw_query_id (f x) = xw_query_id x"
    and "\<And>x. hit x \<Longrightarrow> settled x \<Longrightarrow> settled (f x)"
    and "external_withdrawals t' = update_where hit f (external_withdrawals t)"
  shows "paid t \<subseteq> paid t'"
proof
  fix p assume "p \<in> paid t"
  then obtain x where x: "x \<in> set (external_withdrawals t)" "settled x" "p = (row_key x, xw_query_id x)"
    by (auto simp: paid_def)
  let ?y = "if hit x then f x else x"
  have "?y \<in> set (external_withdrawals t')"
    unfolding assms(3) by (rule in_update_whereI) (rule x(1))
  moreover have "settled ?y" "row_key ?y = row_key x" "xw_query_id ?y = xw_query_id x"
    using assms(1,2) x(2) by auto
  ultimately show "p \<in> paid t'" unfolding paid_def x(3) by (auto intro!: image_eqI[where x = ?y])
qed

lemma request_sending_update:
  "map request_sending (update_where P (\<lambda>r. r\<lparr>rq_processed := b\<rparr>) rs) = map request_sending rs"
  by (rule map_update_where) (simp add: request_sending_def)

lemma row_linked_cong:
  assumes "map request_static rs' = map request_static rs"
    and "xw_query_id y = xw_query_id x" "xw_address y = xw_address x" "row_linked rs x"
  shows "row_linked rs' y"
proof -
  from assms(4) obtain r where r: "r \<in> set rs" "rq_query_id r = xw_query_id x" "rq_dest_address r = xw_address x"
    by (auto simp: row_linked_def)
  then have "request_static r \<in> set (map request_static rs')" unfolding assms(1) by simp
  then obtain r' where r': "r' \<in> set rs'" "request_static r = request_static r'" by auto
  have "rq_query_id r' = rq_query_id (request_static r')" "rq_dest_address r' = rq_dest_address (request_static r')"
    by (simp_all add: request_static_def)
  then have "rq_query_id r' = rq_query_id r" "rq_dest_address r' = rq_dest_address r"
    unfolding r'(2)[symmetric] by (simp_all add: request_static_def)
  with r r'(1) assms(2,3) show ?thesis by (auto simp: row_linked_def)
qed

text \<open>The unique request a row belongs to.\<close>

lemma wd_inv_request_of_row:
  assumes "wd_inv t" "x \<in> set (external_withdrawals t)"
  obtains r where "r \<in> set (withdrawal_requests t)" "rq_query_id r = xw_query_id x" "request_ok (external_withdrawals t) r"
  using assms by (auto simp: wd_inv_def row_linked_def)

text \<open>A row that has not failed belongs to a request that is being processed.\<close>

lemma wd_inv_live_row:
  assumes "wd_inv t" "x \<in> set (external_withdrawals t)" "\<not> xw_failed x"
    and "r \<in> set (withdrawal_requests t)" "rq_query_id r = xw_query_id x"
  shows "rq_processing r \<and> (rq_processed r \<longleftrightarrow> settled x)"
proof -
  have ok: "request_ok (external_withdrawals t) r" using assms by (auto simp: wd_inv_def)
  show ?thesis
  proof (cases "settled x")
    case True
    then have "0 < rows_of settled (rq_query_id r) (external_withdrawals t)"
      using assms by (auto simp: rows_of_pos)
    with ok True show ?thesis by (auto simp: request_ok_def split: if_splits)
  next
    case False
    then have "open_row x" using assms(3) by (simp add: open_row_def settled_def)
    then have "0 < rows_of open_row (rq_query_id r) (external_withdrawals t)"
      using assms by (auto simp: rows_of_pos)
    with ok False show ?thesis by (auto simp: request_ok_def split: if_splits)
  qed
qed

text \<open>Recording a transaction for a row that has not failed settles its request.\<close>

lemma settle_inv:
  assumes inv: "wd_inv t" and x: "x \<in> set (external_withdrawals t)" "\<not> xw_failed x"
    and f: "\<And>y. row_key (f y) = row_key y" "\<And>y. xw_query_id (f y) = xw_query_id y"
      "\<And>y. xw_address (f y) = xw_address y" "\<And>y. settled (f y)" "\<And>y. row_ok (f y)"
  shows "wd_inv (mark_processed (xw_query_id x)
           (t\<lparr>external_withdrawals := update_where (\<lambda>y. row_key y = row_key x) f (external_withdrawals t)\<rparr>))"
    (is "wd_inv ?t")
proof -
  let ?xs = "external_withdrawals t" and ?rs = "withdrawal_requests t"
  let ?ys = "update_where (\<lambda>y. row_key y = row_key x) f ?xs"
  let ?ss = "update_where (\<lambda>r. rq_query_id r = xw_query_id x) (\<lambda>r. r\<lparr>rq_processed := True\<rparr>) ?rs"
  have dk: "distinct (map row_key ?xs)" and rows: "\<forall>y\<in>set ?xs. row_ok y \<and> row_linked ?rs y"
    using inv by (auto simp: wd_inv_def)
  have static: "map request_static ?ss = map request_static ?rs"
    by (rule map_update_where) (simp add: request_static_def)
  have ids: "map rq_query_id ?ss = map rq_query_id ?rs" "map user_key ?ss = map user_key ?rs"
    by (rule map_update_where, simp add: user_key_def)+
  have keys: "map row_key ?ys = map row_key ?xs" by (rule map_update_where) (simp add: f)
  have rows': "\<forall>y\<in>set ?ys. row_ok y \<and> row_linked ?ss y"
  proof
    fix y assume "y \<in> set ?ys"
    then show "row_ok y \<and> row_linked ?ss y"
    proof (cases rule: in_update_whereE)
      case (1 y0)
      then show ?thesis using rows row_linked_cong[OF static] f by blast
    next
      case 2
      then show ?thesis using rows row_linked_cong[OF static] by blast
    qed
  qed
  note one = rows_of_update_one[OF dk x(1) f(2)]
  have req: "request_ok ?ys r" if "r \<in> set ?ss" for r
    using that
  proof (cases rule: in_update_whereE)
    case (1 r0)
    then have ok: "request_ok ?xs r0" and live: "rq_processing r0 \<and> (rq_processed r0 \<longleftrightarrow> settled x)"
      using inv wd_inv_live_row[OF inv x] by (auto simp: wd_inv_def)
    have "\<not> open_row (f x)" "settled (f x)" using f(4)[of x] by (auto simp: open_row_def settled_def)
    moreover have "open_row x \<longleftrightarrow> \<not> settled x" using x(2) by (auto simp: open_row_def settled_def)
    ultimately show ?thesis
      using ok live 1 one[of settled "xw_query_id x"] one[of open_row "xw_query_id x"]
      by (auto simp: request_ok_def split: if_splits)
  next
    case 2
    then have "request_ok ?xs r" "rq_query_id r \<noteq> xw_query_id x" using inv by (auto simp: wd_inv_def)
    then show ?thesis using one[of settled "rq_query_id r"] one[of open_row "rq_query_id r"]
      by (simp add: request_ok_def)
  qed
  have seq: "\<forall>r\<in>set ?ss. rq_query_id r < query_id_seq t"
    using inv by (auto simp: wd_inv_def elim!: in_update_whereE)
  show ?thesis
    using inv req rows' seq by (simp add: wd_inv_def mark_processed_def ids keys)
qed

text \<open>A successful update found a row that had not failed, and recorded the transaction.\<close>

lemma updateExternalWithdrawal_success:
  assumes "snd (updateExternalWithdrawal lib w t) = Inr t'"
  obtains x f where "x \<in> set (external_withdrawals t)" "\<not> xw_failed x"
    "row_key x = (ew_ExtMsgUuid w, ew_To w)"
    "\<And>y. row_key (f y) = row_key y" "\<And>y. xw_query_id (f y) = xw_query_id y"
    "\<And>y. xw_address (f y) = xw_address y" "\<And>y. settled (f y)" "\<And>y. row_ok (f y)"
    "t' = mark_processed (xw_query_id x)
       (t\<lparr>external_withdrawals := update_where (\<lambda>y. row_key y = row_key x) f (external_withdrawals t)\<rparr>)"
proof -
  let ?hit = "\<lambda>r. xw_msg_uuid r = ew_ExtMsgUuid w \<and> xw_address r = ew_To w"
  let ?bad = "\<lambda>y. y\<lparr>xw_failed := True, xw_tx_hash := Some (ew_TxHash w)\<rparr>"
  let ?good = "\<lambda>y. y\<lparr>xw_processed_lt := Some (uint (ew_Lt w)), xw_processed_at := Some (time_Unix (ew_Utime w)),
                    xw_tx_hash := Some (ew_TxHash w)\<rparr>"
  from assms obtain x where x: "find ?hit (external_withdrawals t) = Some x"
    by (auto simp: updateExternalWithdrawal_def Let_def split: option.splits if_splits)
  then have k: "row_key x = (ew_ExtMsgUuid w, ew_To w)" and m: "x \<in> set (external_withdrawals t)"
    by (auto simp: row_key_def dest: find_SomeD)
  have hit: "?hit = (\<lambda>y. row_key y = row_key x)" unfolding k by (auto simp: row_key_def)
  from assms x have nf: "\<not> xw_failed x"
    by (auto simp: updateExternalWithdrawal_def Let_def split: if_splits)
  have t': "t' = mark_processed (xw_query_id x)
      (t\<lparr>external_withdrawals := update_where (\<lambda>y. row_key y = row_key x) (if ew_IsFailed w then ?bad else ?good)
           (external_withdrawals t)\<rparr>)"
    using assms x nf unfolding hit[symmetric] by (simp add: updateExternalWithdrawal_def Let_def split: if_splits)
  show thesis
    by (rule that[OF m nf k _ _ _ _ _ t']) (simp_all add: row_key_def settled_def row_ok_def)
qed

lemma updateExternalWithdrawal_inv:
  "wd_inv t \<Longrightarrow> snd (updateExternalWithdrawal lib w t) = Inr t' \<Longrightarrow> wd_inv t'"
  by (erule updateExternalWithdrawal_success, erule ssubst, rule settle_inv)

lemma updateExternalWithdrawal_frame:
  assumes "snd (updateExternalWithdrawal lib w t) = Inr t'"
  shows "block_frame t t'"
  using assms
proof (cases rule: updateExternalWithdrawal_success)
  case f: (1 x f)
  note t' = f(9)
  have "paid t \<subseteq> paid t'"
    by (rule paid_update_where[where hit = "\<lambda>y. row_key y = row_key x" and f = f])
      (use f(4,5,7) in \<open>simp_all add: t' mark_processed_def\<close>)
  then show ?thesis unfolding block_frame_def t' by (simp add: mark_processed_def request_sending_update)
qed

lemma applyJettonWithdrawalConfirmation_step:
  assumes "wd_inv t" "snd (applyJettonWithdrawalConfirmation c t) = Inr t'"
  shows "wd_inv t'" "block_frame t t'"
proof -
  let ?hit = "\<lambda>r. xw_query_id r = jwc_QueryId c \<and> xw_processed_lt r \<noteq> None"
  let ?f = "\<lambda>r. r\<lparr>xw_confirmed := True\<rparr>"
  have t': "t' = t\<lparr>external_withdrawals := update_where ?hit ?f (external_withdrawals t)\<rparr>"
    using assms(2) by (simp add: applyJettonWithdrawalConfirmation_def)
  have rows: "rows_of P q (update_where ?hit ?f (external_withdrawals t)) = rows_of P q (external_withdrawals t)"
    if "P = settled \<or> P = open_row" for P q
    using that by (intro rows_of_update_same) (auto simp: settled_def open_row_def)
  have keys: "map row_key (update_where ?hit ?f (external_withdrawals t)) = map row_key (external_withdrawals t)"
    by (rule map_update_where) (simp add: row_key_def)
  have "\<forall>y\<in>set (update_where ?hit ?f (external_withdrawals t)). row_ok y \<and> row_linked (withdrawal_requests t) y"
  proof
    fix y assume "y \<in> set (update_where ?hit ?f (external_withdrawals t))"
    then obtain x where "x \<in> set (external_withdrawals t)" "row_ok y = row_ok x"
      "row_linked (withdrawal_requests t) y = row_linked (withdrawal_requests t) x"
      by (rule in_update_whereE) (auto simp: row_ok_def settled_def row_linked_def)
    then show "row_ok y \<and> row_linked (withdrawal_requests t) y" using assms(1) by (auto simp: wd_inv_def)
  qed
  then show "wd_inv t'" using assms(1) by (simp add: t' wd_inv_def keys request_ok_def rows del: not_None_eq)
  have "paid t \<subseteq> paid t'"
    by (rule paid_update_where[where hit = ?hit and f = ?f]) (simp_all add: t' row_key_def settled_def)
  then show "block_frame t t'" by (simp add: block_frame_def t')
qed

text \<open>The steps on the other tables leave the withdrawals alone.\<close>

definition same_withdrawals :: "tables \<Rightarrow> tables \<Rightarrow> bool" where
  "same_withdrawals t t' \<longleftrightarrow>
     withdrawal_requests t' = withdrawal_requests t \<and> external_withdrawals t' = external_withdrawals t
     \<and> query_id_seq t' = query_id_seq t"

lemma same_withdrawals_ok: "same_withdrawals t t' \<Longrightarrow> wd_inv t \<Longrightarrow> wd_inv t' \<and> block_frame t t'"
  by (simp add: same_withdrawals_def wd_inv_cong[of t' t] block_frame_cong)

lemma saveExternalIncome_same: "snd (saveExternalIncome i t) = Inr t' \<Longrightarrow> same_withdrawals t t'"
  by (auto simp: saveExternalIncome_def same_withdrawals_def)

lemma saveInternalIncome_same: "snd (saveInternalIncome lib ab i t) = Inr t' \<Longrightarrow> same_withdrawals t t'"
  by (auto simp: saveInternalIncome_def same_withdrawals_def andThen_success split: if_splits)

lemma applySendingConfirmations_same:
  "snd (applySendingConfirmations lib c t) = Inr t' \<Longrightarrow> same_withdrawals t t'"
  by (auto simp: applySendingConfirmations_def same_withdrawals_def andThen_success split: if_splits option.splits)

lemma updateInternalWithdrawal_same:
  "snd (updateInternalWithdrawal lib w t) = Inr t' \<Longrightarrow> same_withdrawals t t'"
  by (auto simp: updateInternalWithdrawal_def same_withdrawals_def andThen_success Let_def split: if_splits)

lemma saveBlock_same: "snd (saveBlock h t) = Inr t' \<Longrightarrow> same_withdrawals t t'"
  by (auto simp: saveBlock_def same_withdrawals_def Let_def split: if_splits)

lemmas block_frame_laws = block_frame_refl block_frame_trans

interpretation external_incomes_tx: tx_step saveExternalIncome wd_inv block_frame
  by unfold_locales (blast intro: block_frame_laws dest: saveExternalIncome_same same_withdrawals_ok)+

interpretation internal_incomes_tx: tx_step "saveInternalIncome lib ab" wd_inv block_frame for lib ab
  by unfold_locales (blast intro: block_frame_laws dest: saveInternalIncome_same same_withdrawals_ok)+

interpretation confirmations_tx: tx_step "applySendingConfirmations lib" wd_inv block_frame for lib
  by unfold_locales (blast intro: block_frame_laws dest: applySendingConfirmations_same same_withdrawals_ok)+

interpretation internal_withdrawals_tx: tx_step "updateInternalWithdrawal lib" wd_inv block_frame for lib
  by unfold_locales (blast intro: block_frame_laws dest: updateInternalWithdrawal_same same_withdrawals_ok)+

interpretation external_withdrawals_tx: tx_step "updateExternalWithdrawal lib" wd_inv block_frame for lib
  by unfold_locales
    (blast intro: block_frame_laws updateExternalWithdrawal_inv updateExternalWithdrawal_frame)+

interpretation jetton_confirmations_tx: tx_step applyJettonWithdrawalConfirmation wd_inv block_frame
  by unfold_locales (blast intro: block_frame_laws applyJettonWithdrawalConfirmation_step)+

lemmas block_loops =
  external_incomes_tx.loop_ok internal_incomes_tx.loop_ok confirmations_tx.loop_ok
  internal_withdrawals_tx.loop_ok external_withdrawals_tx.loop_ok jetton_confirmations_tx.loop_ok

lemma parsed_block_tx_ok:
  assumes inv: "wd_inv t" and tx: "snd (parsed_block_tx lib ab events t) = Inr t'"
  shows "wd_inv t' \<and> block_frame t t'"
proof -
  let ?e = "be_Events events"
  from tx obtain t1 t2 t3 t4 t5 t6 where
    s: "snd (forM saveExternalIncome (ExternalIncomes ?e) t) = Inr t1"
    "snd (forM (saveInternalIncome lib ab) (InternalIncomes ?e) t1) = Inr t2"
    "snd (forM (applySendingConfirmations lib) (SendingConfirmations ?e) t2) = Inr t3"
    "snd (forM (updateInternalWithdrawal lib) (InternalWithdrawals ?e) t3) = Inr t4"
    "snd (forM (updateExternalWithdrawal lib) (ExternalWithdrawals ?e) t4) = Inr t5"
    "snd (forM applyJettonWithdrawalConfirmation (WithdrawalConfirmations ?e) t5) = Inr t6"
    "snd (saveBlock (be_Block events) t6) = Inr t'"
    unfolding parsed_block_tx_def Let_def andThen_success by blast
  have i1: "wd_inv t1 \<and> block_frame t t1" using external_incomes_tx.loop_ok[OF inv s(1)] .
  have i2: "wd_inv t2 \<and> block_frame t t2"
    using internal_incomes_tx.loop_ok[OF _ s(2)] i1 block_frame_trans by blast
  have i3: "wd_inv t3 \<and> block_frame t t3"
    using confirmations_tx.loop_ok[OF _ s(3)] i2 block_frame_trans by blast
  have i4: "wd_inv t4 \<and> block_frame t t4"
    using internal_withdrawals_tx.loop_ok[OF _ s(4)] i3 block_frame_trans by blast
  have i5: "wd_inv t5 \<and> block_frame t t5"
    using external_withdrawals_tx.loop_ok[OF _ s(5)] i4 block_frame_trans by blast
  have i6: "wd_inv t6 \<and> block_frame t t6"
    using jetton_confirmations_tx.loop_ok[OF _ s(6)] i5 block_frame_trans by blast
  show ?thesis using same_withdrawals_ok[OF saveBlock_same[OF s(7)]] i6 block_frame_trans by blast
qed

end
