(* ===== verification/Withdrawal_Steps.thy ===== *)
theory Withdrawal_Steps
  imports Withdrawal_Inv
begin

text \<open>
  The operations on withdrawals that other goroutines run: the API saves requests, the withdrawal
  processor picks pending ones and records the message it is about to send, the expiration
  processor gives up on lost messages, the scanner saves blocks.  \<open>sys_step\<close> interleaves them, with
  the tasks the processor has picked but not yet recorded as its local state.
\<close>

section \<open>Requests\<close>

lemma SaveWithdrawalRequest_inv:
  assumes "wd_inv t" "SaveWithdrawalRequest w t = (t', res)"
  shows "wd_inv t'"
proof (cases "\<exists>r\<in>set (withdrawal_requests t). user_key r = (wr_UserID w, wr_QueryID w, wr_IsInternal w)")
  case True
  then have "t' = t\<lparr>query_id_seq := query_id_seq t + 1\<rparr>"
    using assms(2) by (auto simp: SaveWithdrawalRequest_def user_key_def Let_def split: if_splits)
  with assms(1) show ?thesis by (auto simp: wd_inv_def)
next
  case False
  define r where "r = \<lparr>rq_query_id = query_id_seq t, rq_bounceable = wr_Bounceable w,
                rq_processing = False, rq_processed = False, rq_is_internal = wr_IsInternal w,
                rq_amount = wr_Amount w, rq_user_id = wr_UserID w, rq_user_query_id = wr_QueryID w,
                rq_currency = wr_Currency w, rq_dest_address = wr_Destination w,
                rq_comment = wr_Comment w, rq_binary_comment = wr_BinaryComment w\<rparr>"
  have r: "rq_query_id r = query_id_seq t" "\<not> rq_processing r" "\<not> rq_processed r"
    "user_key r = (wr_UserID w, wr_QueryID w, wr_IsInternal w)"
    by (simp_all add: r_def user_key_def)
  have t': "t' = t\<lparr>query_id_seq := query_id_seq t + 1, withdrawal_requests := withdrawal_requests t @ [r]\<rparr>"
    using False assms(2) by (auto simp: SaveWithdrawalRequest_def user_key_def r_def Let_def split: if_splits)
  have "\<forall>x\<in>set (external_withdrawals t). xw_query_id x < query_id_seq t"
    using assms(1) unfolding wd_inv_def row_linked_def by metis
  then have "rows_of P (query_id_seq t) (external_withdrawals t) = 0" for P
    by (auto simp: rows_of_zero)
  then have ok: "request_ok (external_withdrawals t) r" using r by (simp add: request_ok_def)
  have "\<forall>x\<in>set (external_withdrawals t). row_linked (withdrawal_requests t @ [r]) x"
    using assms(1) by (auto simp: wd_inv_def row_linked_def)
  moreover have "user_key r \<notin> user_key ` set (withdrawal_requests t)" using False r(4) by auto
  moreover have "query_id_seq t \<notin> rq_query_id ` set (withdrawal_requests t)" using assms(1) by (auto simp: wd_inv_def)
  ultimately show ?thesis using assms(1) ok r(1) by (auto simp: wd_inv_def t' less_Suc_eq)
qed

lemma SaveWithdrawalRequest_pending:
  "SaveWithdrawalRequest w t = (t', res) \<Longrightarrow> pending_tasks t \<subseteq> pending_tasks t'"
  by (auto simp: SaveWithdrawalRequest_def pending_tasks_def Let_def split: if_splits)

lemma SaveWithdrawalRequest_paid: "SaveWithdrawalRequest w t = (t', res) \<Longrightarrow> paid t' = paid t"
  by (auto simp: SaveWithdrawalRequest_def paid_def Let_def split: if_splits)

section \<open>Picking and recording\<close>

lemma pending_task_request:
  assumes "wd_inv t" "task \<in> pending_tasks t"
  obtains r where "r \<in> set (withdrawal_requests t)" "\<not> rq_processing r" "task = task_of_request r"
    "\<And>s. s \<in> set (withdrawal_requests t) \<Longrightarrow> rq_query_id s = ewt_QueryID task \<Longrightarrow> s = r"
proof -
  from assms(2) obtain r where r: "r \<in> set (withdrawal_requests t)" "\<not> rq_processing r" "task = task_of_request r"
    by (auto simp: pending_tasks_def)
  have d: "distinct (map rq_query_id (withdrawal_requests t))" using assms(1) by (simp add: wd_inv_def)
  show thesis
    by (rule that[OF r]) (use d r in \<open>auto simp: task_of_request_def intro: distinct_map_unique\<close>)
qed

lemma create_external_withdrawal_inv:
  assumes inv: "wd_inv t" and task: "task \<in> pending_tasks t"
    and ok: "snd (create_external_withdrawal u e task t) = Inr t'"
  shows "wd_inv t'"
proof -
  obtain r0 where r0: "r0 \<in> set (withdrawal_requests t)" "\<not> rq_processing r0" "task = task_of_request r0"
    and uniq: "\<And>s. s \<in> set (withdrawal_requests t) \<Longrightarrow> rq_query_id s = ewt_QueryID task \<Longrightarrow> s = r0"
    using pending_task_request[OF inv task] by blast
  let ?rs = "withdrawal_requests t" and ?xs = "external_withdrawals t"
  let ?ss = "update_where (\<lambda>r. rq_query_id r = ewt_QueryID task) (\<lambda>r. r\<lparr>rq_processing := True\<rparr>) ?rs"
  define x where "x = \<lparr>xw_msg_uuid = u, xw_query_id = ewt_QueryID task, xw_expired_at = Some e,
            xw_processed_at = None, xw_processed_lt = None, xw_confirmed = False, xw_failed = False,
            xw_address = ewt_Destination task, xw_tx_hash = None\<rparr>"
  have x: "xw_query_id x = ewt_QueryID task" "xw_address x = ewt_Destination task" "open_row x" "\<not> settled x" "row_ok x"
    by (simp_all add: x_def open_row_def settled_def row_ok_def)
  from ok have t': "t' = t\<lparr>external_withdrawals := ?xs @ [x], withdrawal_requests := ?ss\<rparr>"
    and fresh: "row_key x \<notin> row_key ` set ?xs"
    by (auto simp: create_external_withdrawal_def x_def row_key_def split: if_splits)
  have static: "map request_static ?ss = map request_static ?rs"
    by (rule map_update_where) (simp add: request_static_def)
  have ids: "map rq_query_id ?ss = map rq_query_id ?rs" "map user_key ?ss = map user_key ?rs"
    by (rule map_update_where, simp add: user_key_def)+
  have "row_linked ?rs x" using r0(1,3) x(1,2) by (auto simp: row_linked_def task_of_request_def)
  then have linked: "\<forall>y\<in>set (?xs @ [x]). row_ok y \<and> row_linked ?ss y"
    using inv row_linked_cong[OF static refl refl] x(5) by (auto simp: wd_inv_def)
  have req: "request_ok (?xs @ [x]) r" if "r \<in> set ?ss" for r
    using that
  proof (cases rule: in_update_whereE)
    case (1 s)
    then have "s = r0" using uniq by blast
    then have "request_ok ?xs s" "\<not> rq_processing s" using inv r0(1,2) by (auto simp: wd_inv_def)
    with 1 x show ?thesis by (auto simp: request_ok_def)
  next
    case 2
    then have "request_ok ?xs r" using inv by (auto simp: wd_inv_def)
    with 2 x show ?thesis by (auto simp: request_ok_def)
  qed
  have seq: "\<forall>r\<in>set ?ss. rq_query_id r < query_id_seq t"
    using inv by (auto simp: wd_inv_def elim!: in_update_whereE)
  show ?thesis using inv fresh linked req seq unfolding t' by (simp add: wd_inv_def ids)
qed

lemma create_external_withdrawal_pending:
  assumes "snd (create_external_withdrawal u e task t) = Inr t'"
    and "task' \<in> pending_tasks t" "ewt_QueryID task' \<noteq> ewt_QueryID task"
  shows "task' \<in> pending_tasks t'"
proof -
  from assms(2) obtain r where r: "r \<in> set (withdrawal_requests t)" "\<not> rq_processing r" "task' = task_of_request r"
    by (auto simp: pending_tasks_def)
  have "withdrawal_requests t' = update_where (\<lambda>r. rq_query_id r = ewt_QueryID task) (\<lambda>r. r\<lparr>rq_processing := True\<rparr>)
          (withdrawal_requests t)"
    using assms(1) by (auto simp: create_external_withdrawal_def split: if_splits)
  moreover have "rq_query_id r \<noteq> ewt_QueryID task" using r(3) assms(3) by (simp add: task_of_request_def)
  ultimately have "r \<in> set (withdrawal_requests t')" by (simp add: set_update_where r(1))
  with r show ?thesis by (auto simp: pending_tasks_def)
qed

lemma create_external_withdrawal_paid:
  "snd (create_external_withdrawal u e task t) = Inr t' \<Longrightarrow> paid t' = paid t"
  by (auto simp: create_external_withdrawal_def paid_def settled_def split: if_splits)

lemma create_loop_ok:
  "wd_inv t \<Longrightarrow> set tasks \<subseteq> pending_tasks t \<Longrightarrow> distinct (map ewt_QueryID tasks)
    \<Longrightarrow> snd (forM (create_external_withdrawal u e) tasks t) = Inr t' \<Longrightarrow> wd_inv t' \<and> paid t' = paid t"
proof (induction tasks arbitrary: t)
  case Nil
  then show ?case by simp
next
  case (Cons task tasks)
  obtain t1 where t1: "snd (create_external_withdrawal u e task t) = Inr t1"
    and rest: "snd (forM (create_external_withdrawal u e) tasks t1) = Inr t'"
    using Cons.prems(4) unfolding forM_Cons_success by blast
  have "wd_inv t1" using create_external_withdrawal_inv[OF Cons.prems(1) _ t1] Cons.prems(2) by simp
  moreover have "set tasks \<subseteq> pending_tasks t1"
  proof
    fix task' assume "task' \<in> set tasks"
    then have "task' \<in> pending_tasks t" "ewt_QueryID task' \<noteq> ewt_QueryID task"
      using Cons.prems(2,3) by (auto, metis image_eqI)
    then show "task' \<in> pending_tasks t1" by (rule create_external_withdrawal_pending[OF t1])
  qed
  ultimately show ?case
    using Cons.IH[OF _ _ _ rest] Cons.prems(3) create_external_withdrawal_paid[OF t1] by simp
qed

lemma CreateExternalWithdrawals_ok:
  assumes "wd_inv t" "set tasks \<subseteq> pending_tasks t" "distinct (map ewt_QueryID tasks)"
    and "CreateExternalWithdrawals tasks u e t = (t', res)"
  shows "wd_inv t' \<and> paid t' = paid t"
  using assms(1,4) create_loop_ok[OF assms(1-3)]
  by (auto simp: CreateExternalWithdrawals_def split: sum.splits)

text \<open>What the selection returns is pending, one task a request and one a destination.\<close>

lemma GetExternalWithdrawalTasks_pending: "set (GetExternalWithdrawalTasks limit t) \<subseteq> pending_tasks t"
proof -
  let ?rows = "sort_key rq_dest_address (sort_key rq_query_id (filter (\<lambda>r. \<not> rq_processing r) (withdrawal_requests t)))"
  have "set (take limit (distinct_on rq_dest_address ?rows)) \<subseteq> set ?rows"
    using set_take_subset set_distinct_on by fast
  then show ?thesis by (auto simp: GetExternalWithdrawalTasks_def pending_tasks_def)
qed

lemma GetExternalWithdrawalTasks_destinations:
  "distinct (map ewt_Destination (GetExternalWithdrawalTasks limit t))"
proof -
  have "ewt_Destination \<circ> task_of_request = rq_dest_address" by (auto simp: task_of_request_def)
  then show ?thesis
    by (simp add: GetExternalWithdrawalTasks_def distinct_map_take distinct_on_distinct)
qed

lemma pending_tasks_by_id:
  "wd_inv t \<Longrightarrow> a \<in> pending_tasks t \<Longrightarrow> b \<in> pending_tasks t \<Longrightarrow> ewt_QueryID a = ewt_QueryID b \<Longrightarrow> a = b"
proof -
  assume "wd_inv t" "a \<in> pending_tasks t" and b: "b \<in> pending_tasks t" "ewt_QueryID a = ewt_QueryID b"
  then obtain r where r: "a = task_of_request r"
    "\<And>s. s \<in> set (withdrawal_requests t) \<Longrightarrow> rq_query_id s = ewt_QueryID a \<Longrightarrow> s = r"
    by (metis pending_task_request)
  from b obtain s where "s \<in> set (withdrawal_requests t)" "b = task_of_request s"
    by (auto simp: pending_tasks_def)
  with b(2) r show "a = b" by (auto simp: task_of_request_def)
qed

lemma distinct_map_by_inj:
  "distinct (map k xs) \<Longrightarrow> (\<And>a b. a \<in> set xs \<Longrightarrow> b \<in> set xs \<Longrightarrow> l a = l b \<Longrightarrow> a = b) \<Longrightarrow> distinct (map l xs)"
  by (auto simp: distinct_map inj_on_def)

lemma GetExternalWithdrawalTasks_ids:
  "wd_inv t \<Longrightarrow> distinct (map ewt_QueryID (GetExternalWithdrawalTasks limit t))"
  using GetExternalWithdrawalTasks_pending[of limit t]
  by (intro distinct_map_by_inj[OF GetExternalWithdrawalTasks_destinations]) (blast intro: pending_tasks_by_id)

section \<open>Expiration\<close>

lemma fold_reset_processing:
  "fold reset_processing ids t =
     t\<lparr>withdrawal_requests :=
        update_where (\<lambda>r. rq_query_id r \<in> set ids) (\<lambda>r. r\<lparr>rq_processing := False\<rparr>) (withdrawal_requests t)\<rparr>"
proof (induction ids arbitrary: t)
  case Nil
  show ?case by (simp add: update_where_def)
next
  case (Cons q ids)
  have "update_where (\<lambda>r. rq_query_id r \<in> set ids) (\<lambda>r. r\<lparr>rq_processing := False\<rparr>)
          (update_where (\<lambda>r. rq_query_id r = q) (\<lambda>r. r\<lparr>rq_processing := False\<rparr>) rs)
      = update_where (\<lambda>r. rq_query_id r \<in> set (q # ids)) (\<lambda>r. r\<lparr>rq_processing := False\<rparr>) rs" for rs :: "withdrawal_requests_row list"
    by (induction rs) auto
  with Cons show ?case by (simp add: reset_processing_def)
qed

definition expired_ids :: "Time \<Rightarrow> external_withdrawals_row list \<Rightarrow> int set" where
  "expired_ids deadline xs = xw_query_id ` {x \<in> set xs. xw_expired deadline x}"

lemma SetExpired_tables:
  assumes deadline: "deadline = now2 - cfg_AllowableBlockchainLagging cfg"
  shows "withdrawal_requests (SetExpired cfg now1 now2 t) =
           update_where (\<lambda>r. rq_query_id r \<in> expired_ids deadline (external_withdrawals t))
             (\<lambda>r. r\<lparr>rq_processing := False\<rparr>) (withdrawal_requests t)"
    and "external_withdrawals (SetExpired cfg now1 now2 t) =
           update_where (xw_expired deadline) (\<lambda>x. x\<lparr>xw_failed := True\<rparr>) (external_withdrawals t)"
    and "query_id_seq (SetExpired cfg now1 now2 t) = query_id_seq t"
  by (simp_all add: SetExpired_def Let_def fold_reset_processing expired_ids_def deadline)

text \<open>Only a row that waits for a transaction can expire.\<close>

lemma expired_open: "row_ok x \<Longrightarrow> xw_expired deadline x \<Longrightarrow> open_row x"
  by (auto simp: row_ok_def xw_expired_def open_row_def settled_def)

lemma rows_of_expire:
  assumes "\<forall>x\<in>set xs. row_ok x"
  shows "rows_of settled q (update_where (xw_expired deadline) (\<lambda>x. x\<lparr>xw_failed := True\<rparr>) xs) = rows_of settled q xs"
    and "rows_of open_row q (update_where (xw_expired deadline) (\<lambda>x. x\<lparr>xw_failed := True\<rparr>) xs)
       + rows_of (xw_expired deadline) q xs = rows_of open_row q xs"
proof -
  show "rows_of settled q (update_where (xw_expired deadline) (\<lambda>x. x\<lparr>xw_failed := True\<rparr>) xs) = rows_of settled q xs"
    by (rule rows_of_update_same) (simp add: settled_def)
  have o: "xw_expired deadline x \<Longrightarrow> open_row x" if "x \<in> set xs" for x using assms that expired_open by blast
  have u: "\<not> open_row (x\<lparr>xw_failed := True\<rparr>)" for x by (simp add: open_row_def)
  from o show "rows_of open_row q (update_where (xw_expired deadline) (\<lambda>x. x\<lparr>xw_failed := True\<rparr>) xs)
       + rows_of (xw_expired deadline) q xs = rows_of open_row q xs"
  proof (induction xs)
    case (Cons y ys)
    then show ?case by (cases "xw_expired deadline y") (simp_all add: u)
  qed simp
qed

lemma SetExpired_inv:
  assumes inv: "wd_inv t"
  shows "wd_inv (SetExpired cfg now1 now2 t)"
proof -
  let ?deadline = "now2 - cfg_AllowableBlockchainLagging cfg"
  let ?xs = "external_withdrawals t" and ?rs = "withdrawal_requests t"
  let ?ys = "update_where (xw_expired ?deadline) (\<lambda>x. x\<lparr>xw_failed := True\<rparr>) ?xs"
  let ?ss = "update_where (\<lambda>r. rq_query_id r \<in> expired_ids ?deadline ?xs) (\<lambda>r. r\<lparr>rq_processing := False\<rparr>) ?rs"
  have rok: "\<forall>x\<in>set ?xs. row_ok x" using inv by (simp add: wd_inv_def)
  have static: "map request_static ?ss = map request_static ?rs"
    by (rule map_update_where) (simp add: request_static_def)
  have ids: "map rq_query_id ?ss = map rq_query_id ?rs" "map user_key ?ss = map user_key ?rs"
    by (rule map_update_where, simp add: user_key_def)+
  have keys: "map row_key ?ys = map row_key ?xs" by (rule map_update_where) (simp add: row_key_def)
  have rows: "\<forall>y\<in>set ?ys. row_ok y \<and> row_linked ?ss y"
  proof
    fix y assume "y \<in> set ?ys"
    then obtain x where x: "x \<in> set ?xs" "row_ok x \<longrightarrow> row_ok y" "xw_query_id y = xw_query_id x" "xw_address y = xw_address x"
      by (rule in_update_whereE) (auto simp: row_ok_def settled_def)
    with inv show "row_ok y \<and> row_linked ?ss y"
      using row_linked_cong[OF static x(3,4)] by (auto simp: wd_inv_def)
  qed
  have req: "request_ok ?ys r" if "r \<in> set ?ss" for r
    using that
  proof (cases rule: in_update_whereE)
    case (1 s)
    then have ok: "request_ok ?xs s" using inv by (auto simp: wd_inv_def)
    have "0 < rows_of (xw_expired ?deadline) (rq_query_id s) ?xs"
      using 1 by (auto simp: rows_of_pos expired_ids_def)
    with rows_of_expire[OF rok, of "rq_query_id s" ?deadline] ok 1 show ?thesis
      by (auto simp: request_ok_def split: if_splits)
  next
    case 2
    then have ok: "request_ok ?xs r" using inv by (auto simp: wd_inv_def)
    have "rows_of (xw_expired ?deadline) (rq_query_id r) ?xs = 0"
      using 2 unfolding rows_of_zero expired_ids_def by (metis (mono_tags, lifting) image_eqI mem_Collect_eq)
    with rows_of_expire[OF rok, of "rq_query_id r" ?deadline] ok show ?thesis by (simp add: request_ok_def)
  qed
  have seq: "\<forall>r\<in>set ?ss. rq_query_id r < query_id_seq t"
    using inv by (auto simp: wd_inv_def elim!: in_update_whereE)
  show ?thesis
    using inv rows req seq by (simp add: wd_inv_def SetExpired_tables[OF refl] keys ids)
qed

lemma SetExpired_pending:
  "pending_tasks t \<subseteq> pending_tasks (SetExpired cfg now1 now2 t)"
proof
  fix task assume "task \<in> pending_tasks t"
  then obtain r where r: "r \<in> set (withdrawal_requests t)" "\<not> rq_processing r" "task = task_of_request r"
    by (auto simp: pending_tasks_def)
  let ?ids = "expired_ids (now2 - cfg_AllowableBlockchainLagging cfg) (external_withdrawals t)"
  let ?r = "if rq_query_id r \<in> ?ids then r\<lparr>rq_processing := False\<rparr> else r"
  have "?r \<in> set (withdrawal_requests (SetExpired cfg now1 now2 t))"
    unfolding SetExpired_tables(1)[OF refl] by (rule in_update_whereI) (rule r(1))
  moreover have "\<not> rq_processing ?r" "task = task_of_request ?r" using r by (auto simp: task_of_request_def)
  ultimately show "task \<in> pending_tasks (SetExpired cfg now1 now2 t)" by (auto simp: pending_tasks_def)
qed

lemma SetExpired_paid: "wd_inv t \<Longrightarrow> paid t \<subseteq> paid (SetExpired cfg now1 now2 t)"
  by (rule paid_update_where[OF _ _ SetExpired_tables(2)[OF refl]]) (simp_all add: row_key_def settled_def)

section \<open>Interleaving\<close>

text \<open>\<open>sys_picked\<close> is what the withdrawal processor selected and has not yet recorded.\<close>

record sys =
  sys_conn :: Connection
  sys_picked :: "ExternalWithdrawalTask list"

inductive sys_step :: "tonlib \<Rightarrow> config \<Rightarrow> sys \<Rightarrow> sys \<Rightarrow> bool" for lib cfg where
  request:
    "SaveWithdrawalRequest w (conn_db (sys_conn s)) = (t, res)
      \<Longrightarrow> sys_step lib cfg s (s\<lparr>sys_conn := (sys_conn s)\<lparr>conn_db := t\<rparr>\<rparr>)"
| pick:
    "sys_picked s = []
      \<Longrightarrow> tasks = filter keep (GetExternalWithdrawalTasks limit (conn_db (sys_conn s)))
      \<Longrightarrow> sys_step lib cfg s (s\<lparr>sys_picked := tasks\<rparr>)"
| record_sent:
    "CreateExternalWithdrawals (sys_picked s) u expiredAt (conn_db (sys_conn s)) = (t, res)
      \<Longrightarrow> sys_step lib cfg s \<lparr>sys_conn = (sys_conn s)\<lparr>conn_db := t\<rparr>, sys_picked = []\<rparr>"
| block:
    "SaveParsedBlockData lib events (sys_conn s) = (c, res)
      \<Longrightarrow> sys_step lib cfg s (s\<lparr>sys_conn := c\<rparr>)"
| expire:
    "sys_step lib cfg s (s\<lparr>sys_conn := (sys_conn s)\<lparr>conn_db := SetExpired cfg now1 now2 (conn_db (sys_conn s))\<rparr>\<rparr>)"
| new_ton_wallet:
    "SaveTonWallet wd (sys_conn s) = (c, r) \<Longrightarrow> sys_step lib cfg s (s\<lparr>sys_conn := c\<rparr>)"
| new_jetton_wallet:
    "SaveJettonWallet owner wd notSaveOwner (sys_conn s) = (c, r) \<Longrightarrow> sys_step lib cfg s (s\<lparr>sys_conn := c\<rparr>)"
| internal_sent:
    "SaveInternalWithdrawalTask itask expiredAt memo (conn_db (sys_conn s)) = Inr t
      \<Longrightarrow> sys_step lib cfg s (s\<lparr>sys_conn := (sys_conn s)\<lparr>conn_db := t\<rparr>\<rparr>)"
| service_request:
    "SaveServiceWithdrawalRequest memo swr (conn_db (sys_conn s)) = Inr (t, m)
      \<Longrightarrow> sys_step lib cfg s (s\<lparr>sys_conn := (sys_conn s)\<lparr>conn_db := t\<rparr>\<rparr>)"
| service_sent:
    "sys_step lib cfg s (s\<lparr>sys_conn := (sys_conn s)\<lparr>conn_db :=
        UpdateServiceWithdrawalRequest stask tonAmount expiredAt filled (conn_db (sys_conn s))\<rparr>\<rparr>)"
| proven:
    "sys_step lib cfg s (s\<lparr>sys_conn := (sys_conn s)\<lparr>conn_db := SaveLastMasterchainProvenBlock b (conn_db (sys_conn s))\<rparr>\<rparr>)"
| restart:
    "LoadAddressBook (NewConnection (conn_db (sys_conn s))) = (c, r)
      \<Longrightarrow> sys_step lib cfg s \<lparr>sys_conn = c, sys_picked = []\<rparr>"

inductive sys_reach :: "tonlib \<Rightarrow> config \<Rightarrow> sys \<Rightarrow> sys \<Rightarrow> bool" for lib cfg s0 where
  reach_start: "sys_reach lib cfg s0 s0"
| reach_step: "sys_reach lib cfg s0 s \<Longrightarrow> sys_step lib cfg s s' \<Longrightarrow> sys_reach lib cfg s0 s'"

definition sys_inv :: "sys \<Rightarrow> bool" where
  "sys_inv s \<longleftrightarrow> wd_inv (conn_db (sys_conn s)) \<and> set (sys_picked s) \<subseteq> pending_tasks (conn_db (sys_conn s))
     \<and> distinct (map ewt_QueryID (sys_picked s))"

lemma SaveParsedBlockData_db:
  assumes "SaveParsedBlockData lib events c = (c', res)"
  shows "c' = c \<or> (\<exists>t. snd (parsed_block_tx lib (conn_addressBook c) events (conn_db c)) = Inr t \<and> c' = c\<lparr>conn_db := t\<rparr>)"
  using assms by (auto simp: SaveParsedBlockData_def split: prod.splits sum.splits)

lemma put_info_same: "put_info a i c = (c', r) \<Longrightarrow> conn_db c' = conn_db c"
  by (auto simp: put_info_def split: sum.splits)

lemma insert_ton_wallet_same: "insert_ton_wallet sub u ty a t = Inr t' \<Longrightarrow> same_withdrawals t t'"
  by (auto simp: insert_ton_wallet_def same_withdrawals_def split: if_splits)

lemma insert_jetton_wallet_same: "insert_jetton_wallet wd t = Inr t' \<Longrightarrow> same_withdrawals t t'"
  by (auto simp: insert_jetton_wallet_def same_withdrawals_def split: if_splits)

lemma same_withdrawals_refl: "same_withdrawals t t"
  by (simp add: same_withdrawals_def)

lemma same_withdrawals_trans: "same_withdrawals t u \<Longrightarrow> same_withdrawals u v \<Longrightarrow> same_withdrawals t v"
  by (simp add: same_withdrawals_def)

lemma SaveTonWallet_same: "SaveTonWallet wd c = (c', r) \<Longrightarrow> same_withdrawals (conn_db c) (conn_db c')"
  by (auto simp: SaveTonWallet_def same_withdrawals_refl split: sum.splits
      dest!: insert_ton_wallet_same put_info_same)

lemma SaveJettonWallet_same:
  assumes "SaveJettonWallet owner wd notSaveOwner c = (c', r)"
  shows "same_withdrawals (conn_db c) (conn_db c')"
proof -
  have "same_withdrawals (conn_db c) t"
    if "andThenR (if notSaveOwner then Inr (conn_db c)
          else insert_ton_wallet (wd_SubwalletID wd) (wd_UserID wd) JettonOwner owner (conn_db c))
        (insert_jetton_wallet wd) = Inr t" for t
    using that unfolding andThenR_success
    by (cases notSaveOwner)
      (auto intro: same_withdrawals_trans[OF insert_ton_wallet_same insert_jetton_wallet_same] insert_jetton_wallet_same)
  with assms show ?thesis
    by (auto simp: SaveJettonWallet_def same_withdrawals_refl Let_def split: sum.splits prod.splits if_splits
        dest!: put_info_same)
qed

lemma LoadAddressBook_same: "LoadAddressBook c = (c', r) \<Longrightarrow> conn_db c' = conn_db c"
  by (auto simp: LoadAddressBook_def Let_def split: sum.splits)

lemma other_tables_same:
  "SaveInternalWithdrawalTask itask e memo t = Inr t' \<Longrightarrow> same_withdrawals t t'"
  "SaveServiceWithdrawalRequest memo swr t = Inr (t', m) \<Longrightarrow> same_withdrawals t t'"
  "same_withdrawals t (UpdateServiceWithdrawalRequest stask amount e filled t)"
  "same_withdrawals t (SaveLastMasterchainProvenBlock b t)"
  by (auto simp: SaveLastMasterchainProvenBlock_def SaveInternalWithdrawalTask_def SaveServiceWithdrawalRequest_def
      UpdateServiceWithdrawalRequest_def same_withdrawals_def split: if_splits)

lemma sys_inv_same:
  assumes "sys_inv s" "same_withdrawals (conn_db (sys_conn s)) (conn_db c)"
  shows "sys_inv (s\<lparr>sys_conn := c\<rparr>) \<and> sys_inv (s\<lparr>sys_conn := c, sys_picked := []\<rparr>)
    \<and> paid (conn_db (sys_conn s)) \<subseteq> paid (conn_db c)"
  using assms same_withdrawals_ok[OF assms(2)] pending_tasks_cong[of "conn_db c" "conn_db (sys_conn s)"]
  by (auto simp: sys_inv_def same_withdrawals_def block_frame_def)

text \<open>The invariant over the steps that save a block, and over the steps that touch other tables.\<close>

lemma sys_block_inv:
  assumes "SaveParsedBlockData lib events (sys_conn s) = (c, res)" "sys_inv s"
  shows "sys_inv (s\<lparr>sys_conn := c\<rparr>) \<and> paid (conn_db (sys_conn s)) \<subseteq> paid (conn_db c)"
  using SaveParsedBlockData_db[OF assms(1)]
proof
  assume "c = sys_conn s"
  with assms(2) show ?thesis by simp
next
  assume "\<exists>t. snd (parsed_block_tx lib (conn_addressBook (sys_conn s)) events (conn_db (sys_conn s))) = Inr t
            \<and> c = (sys_conn s)\<lparr>conn_db := t\<rparr>"
  then obtain t where t: "snd (parsed_block_tx lib (conn_addressBook (sys_conn s)) events (conn_db (sys_conn s))) = Inr t"
    and c: "c = (sys_conn s)\<lparr>conn_db := t\<rparr>" by blast
  from assms(2) parsed_block_tx_ok[OF _ t] have "wd_inv t" "block_frame (conn_db (sys_conn s)) t"
    by (auto simp: sys_inv_def)
  moreover have "pending_tasks t = pending_tasks (conn_db (sys_conn s))"
    using calculation(2) by (intro pending_tasks_cong) (simp add: block_frame_def)
  ultimately show ?thesis using assms(2) c by (simp add: sys_inv_def block_frame_def)
qed

lemma sys_restart_inv:
  assumes "LoadAddressBook (NewConnection (conn_db (sys_conn s))) = (c, r)" "sys_inv s"
  shows "sys_inv \<lparr>sys_conn = c, sys_picked = []\<rparr> \<and> paid (conn_db (sys_conn s)) \<subseteq> paid (conn_db c)"
proof -
  have "same_withdrawals (conn_db (sys_conn s)) (conn_db c)"
    using LoadAddressBook_same[OF assms(1)] by (simp add: NewConnection_def same_withdrawals_refl)
  moreover have eq: "s\<lparr>sys_conn := c, sys_picked := []\<rparr> = \<lparr>sys_conn = c, sys_picked = []\<rparr>"
    by (cases s) simp
  ultimately show ?thesis using sys_inv_same[OF assms(2), of c, unfolded eq] by simp
qed

lemma sys_inv_db:
  "sys_inv s \<Longrightarrow> same_withdrawals (conn_db (sys_conn s)) t \<Longrightarrow>
     sys_inv (s\<lparr>sys_conn := (sys_conn s)\<lparr>conn_db := t\<rparr>\<rparr>) \<and> paid (conn_db (sys_conn s)) \<subseteq> paid t"
  using sys_inv_same[of s "(sys_conn s)\<lparr>conn_db := t\<rparr>"] by simp

lemma sys_step_inv:
  assumes "sys_step lib cfg s s'" "sys_inv s"
  shows "sys_inv s' \<and> paid (conn_db (sys_conn s)) \<subseteq> paid (conn_db (sys_conn s'))"
  using assms
proof (cases rule: sys_step.cases)
  case (request w t res)
  then show ?thesis
    using assms(2) SaveWithdrawalRequest_inv[OF _ request(2)] SaveWithdrawalRequest_pending[OF request(2)]
      SaveWithdrawalRequest_paid[OF request(2)] by (auto simp: sys_inv_def)
next
  case (pick tasks keep limit)
  then show ?thesis
    using assms(2) GetExternalWithdrawalTasks_pending[of limit "conn_db (sys_conn s)"]
      GetExternalWithdrawalTasks_ids[of "conn_db (sys_conn s)" limit]
    by (auto simp: sys_inv_def intro: distinct_map_filter)
next
  case (record_sent u expiredAt t res)
  then show ?thesis using assms(2) CreateExternalWithdrawals_ok[OF _ _ _ record_sent(2)] by (simp add: sys_inv_def)
next
  case (block events c res)
  then show ?thesis using sys_block_inv[OF block(2) assms(2)] by simp
next
  case (expire now1 now2)
  then show ?thesis
    using assms(2) SetExpired_inv SetExpired_paid SetExpired_pending unfolding sys_inv_def by fastforce
next
  case (new_ton_wallet wd c r)
  then show ?thesis using sys_inv_same[OF assms(2) SaveTonWallet_same[OF new_ton_wallet(2)]] by simp
next
  case (new_jetton_wallet owner wd notSaveOwner c r)
  then show ?thesis using sys_inv_same[OF assms(2) SaveJettonWallet_same[OF new_jetton_wallet(2)]] by simp
next
  case (restart c r)
  then show ?thesis using sys_restart_inv[OF restart(2) assms(2)] by simp
qed (simp_all add: sys_inv_db[OF assms(2)] other_tables_same)

lemma sys_reach_inv:
  assumes "sys_reach lib cfg s0 s" "sys_inv s0"
  shows "sys_inv s \<and> paid (conn_db (sys_conn s0)) \<subseteq> paid (conn_db (sys_conn s))"
  using assms
proof (induction rule: sys_reach.induct)
  case reach_start
  then show ?case by simp
next
  case (reach_step s s')
  then show ?case using sys_step_inv[OF reach_step(2)] by blast
qed

lemma sys_inv_init: "sys_inv \<lparr>sys_conn = NewConnection empty_tables, sys_picked = []\<rparr>"
  by (simp add: sys_inv_def wd_inv_def NewConnection_def empty_tables_def)

end
