(* ===== verification/Withdrawal_Safety.thy ===== *)
theory Withdrawal_Safety
  imports Withdrawal_Steps Samples
begin

text \<open>
  What the invariant of the withdrawal tables gives for every run of the service from an empty
  database: no request is paid twice, its status can always be reported, what was paid stays paid,
  a block is accounted at most once and as a whole.
\<close>

section \<open>A sample run\<close>

definition sample_s0 :: sys where
  "sample_s0 = \<lparr>sys_conn = NewConnection empty_tables, sys_picked = []\<rparr>"

definition sample_db1 :: tables where
  "sample_db1 = fst (SaveWithdrawalRequest sample_request empty_tables)"

definition sample_tasks :: "ExternalWithdrawalTask list" where
  "sample_tasks = GetExternalWithdrawalTasks 1 sample_db1"

definition sample_db2 :: tables where
  "sample_db2 = fst (CreateExternalWithdrawals sample_tasks 3 100 sample_db1)"

definition sample_conn3 :: Connection where
  "sample_conn3 = fst (SaveParsedBlockData sample_lib sample_block (NewConnection sample_db2))"

lemma sample_db1_eval:
  "withdrawal_requests sample_db1 =
     [\<lparr>rq_query_id = 1, rq_bounceable = False, rq_processing = False, rq_processed = False,
       rq_is_internal = False, rq_amount = 5, rq_user_id = ''u'', rq_user_query_id = ''q'',
       rq_currency = ''TON'', rq_dest_address = 7, rq_comment = [], rq_binary_comment = []\<rparr>]"
  "external_withdrawals sample_db1 = []" "block_data sample_db1 = []" "query_id_seq sample_db1 = 2"
  by (simp_all add: sample_db1_def SaveWithdrawalRequest_def empty_tables_def sample_request_def TonSymbol_def)

lemma sample_tasks_eval:
  "sample_tasks = [\<lparr>ewt_QueryID = 1, ewt_Currency = ''TON'', ewt_Amount = 5, ewt_Destination = 7,
     ewt_Bounceable = False, ewt_Comment = [], ewt_BinaryComment = []\<rparr>]"
  by (simp add: sample_tasks_def GetExternalWithdrawalTasks_def sample_db1_eval task_of_request_def)

lemma sample_db2_eval:
  "withdrawal_requests sample_db2 =
     [\<lparr>rq_query_id = 1, rq_bounceable = False, rq_processing = True, rq_processed = False,
       rq_is_internal = False, rq_amount = 5, rq_user_id = ''u'', rq_user_query_id = ''q'',
       rq_currency = ''TON'', rq_dest_address = 7, rq_comment = [], rq_binary_comment = []\<rparr>]"
  "external_withdrawals sample_db2 =
     [\<lparr>xw_msg_uuid = 3, xw_query_id = 1, xw_expired_at = Some 100, xw_processed_at = None,
       xw_processed_lt = None, xw_confirmed = False, xw_failed = False, xw_address = 7, xw_tx_hash = None\<rparr>]"
  "block_data sample_db2 = []"
  by (simp_all add: sample_db2_def sample_tasks_eval CreateExternalWithdrawals_def
      create_external_withdrawal_def sample_db1_eval)

lemma sample_conn3_eval:
  "withdrawal_requests (conn_db sample_conn3) =
     [\<lparr>rq_query_id = 1, rq_bounceable = False, rq_processing = True, rq_processed = True,
       rq_is_internal = False, rq_amount = 5, rq_user_id = ''u'', rq_user_query_id = ''q'',
       rq_currency = ''TON'', rq_dest_address = 7, rq_comment = [], rq_binary_comment = []\<rparr>]"
  "external_withdrawals (conn_db sample_conn3) =
     [\<lparr>xw_msg_uuid = 3, xw_query_id = 1, xw_expired_at = Some 100, xw_processed_at = Some 9000000000,
       xw_processed_lt = Some 8, xw_confirmed = False, xw_failed = False, xw_address = 7, xw_tx_hash = Some [1]\<rparr>]"
  by (simp_all add: sample_conn3_def SaveParsedBlockData_def parsed_block_tx_def sample_block_def
      sample_header_def sample_block_id_def sample_withdrawal_def updateExternalWithdrawal_def saveBlock_def
      NewConnection_def sample_db2_eval ok_def mark_processed_def time_Unix_def Second_def)

definition sample_s3 :: sys where
  "sample_s3 = \<lparr>sys_conn = sample_conn3, sys_picked = []\<rparr>"

lemma sample_run_sent:
  "sys_reach sample_lib sample_config sample_s0 \<lparr>sys_conn = NewConnection sample_db2, sys_picked = []\<rparr>"
proof -
  let ?s1 = "\<lparr>sys_conn = NewConnection sample_db1, sys_picked = []\<rparr>"
  let ?s1' = "\<lparr>sys_conn = NewConnection sample_db1, sys_picked = sample_tasks\<rparr>"
  have "sys_step sample_lib sample_config sample_s0 ?s1"
    using sys_step.request[of sample_request sample_s0 sample_db1 "snd (SaveWithdrawalRequest sample_request empty_tables)"]
    by (simp add: sample_s0_def NewConnection_def sample_db1_def)
  moreover have "sys_step sample_lib sample_config ?s1 ?s1'"
    using sys_step.pick[of ?s1 sample_tasks "\<lambda>_. True" 1] by (simp add: sample_tasks_def NewConnection_def)
  moreover have "sys_step sample_lib sample_config ?s1' \<lparr>sys_conn = NewConnection sample_db2, sys_picked = []\<rparr>"
    using sys_step.record_sent[of ?s1' 3 100 sample_db2 "snd (CreateExternalWithdrawals sample_tasks 3 100 sample_db1)"]
    by (simp add: sample_db2_def NewConnection_def)
  ultimately show ?thesis by (meson reach_start reach_step)
qed

lemma sample_run: "sys_reach sample_lib sample_config sample_s0 sample_s3"
proof -
  let ?s2 = "\<lparr>sys_conn = NewConnection sample_db2, sys_picked = []\<rparr>"
  have "sys_step sample_lib sample_config ?s2 sample_s3"
    using sys_step.block[of sample_lib sample_block ?s2 sample_conn3
        "snd (SaveParsedBlockData sample_lib sample_block (NewConnection sample_db2))"]
    by (simp add: sample_conn3_def sample_s3_def)
  with sample_run_sent show ?thesis by (rule reach_step)
qed

section \<open>Payments\<close>

lemma reachable_inv:
  assumes "conn_db (sys_conn s0) = empty_tables" "sys_picked s0 = []" "sys_reach lib cfg s0 s"
  shows "wd_inv (conn_db (sys_conn s))"
proof -
  have "sys_inv s0" using assms(1,2) sys_inv_init by (simp add: sys_inv_def NewConnection_def)
  with sys_reach_inv[OF assms(3)] show ?thesis by (simp add: sys_inv_def)
qed

text \<open>
  C1.  No double payment.  In every state the service can reach from an empty database, whatever
  the interleaving of the API, the withdrawal processor, the expiration processor, the block
  scanner and restarts, a withdrawal request has at most one message that is in flight or has a
  transaction recorded for it; and every message recorded for it pays the requested destination.
\<close>

theorem no_double_payment:
  assumes "conn_db (sys_conn s0) = empty_tables" "sys_picked s0 = []" "sys_reach lib cfg s0 s"
    and "r \<in> set (withdrawal_requests (conn_db (sys_conn s)))"
  shows "length (filter (\<lambda>x. xw_query_id x = rq_query_id r \<and> (\<not> xw_failed x \<or> xw_tx_hash x \<noteq> None))
           (external_withdrawals (conn_db (sys_conn s)))) \<le> 1
    \<and> (\<forall>x\<in>set (external_withdrawals (conn_db (sys_conn s))).
         xw_query_id x = rq_query_id r \<longrightarrow> xw_address x = rq_dest_address r)"
proof -
  let ?t = "conn_db (sys_conn s)"
  have inv: "wd_inv ?t" by (rule reachable_inv[OF assms(1-3)])
  then have ok: "request_ok (external_withdrawals ?t) r" using assms(4) by (simp add: wd_inv_def)
  have split: "length (filter (\<lambda>x. xw_query_id x = q \<and> (\<not> xw_failed x \<or> xw_tx_hash x \<noteq> None)) xs)
      = rows_of settled q xs + rows_of open_row q xs" for q and xs :: "external_withdrawals_row list"
    by (induction xs) (auto simp: settled_def open_row_def)
  have "xw_address x = rq_dest_address r"
    if x: "x \<in> set (external_withdrawals ?t)" "xw_query_id x = rq_query_id r" for x
  proof -
    from inv x obtain r' where "r' \<in> set (withdrawal_requests ?t)" "rq_query_id r' = rq_query_id r"
      "rq_dest_address r' = xw_address x"
      by (auto simp: wd_inv_def row_linked_def)
    moreover from this inv assms(4) have "r' = r" by (auto simp: wd_inv_def intro: distinct_map_unique)
    ultimately show ?thesis by simp
  qed
  with ok show ?thesis unfolding split by (auto simp: request_ok_def split: if_splits)
qed

theorem no_double_payment_witness:
  "length (external_withdrawals (conn_db (sys_conn sample_s3))) = 1
   \<and> length (filter (\<lambda>x. xw_query_id x = 1 \<and> (\<not> xw_failed x \<or> xw_tx_hash x \<noteq> None))
        (external_withdrawals (conn_db (sys_conn sample_s3)))) \<le> 1"
  using no_double_payment[OF _ _ sample_run, of "hd (withdrawal_requests (conn_db (sys_conn sample_s3)))"]
  by (simp add: sample_s0_def sample_s3_def NewConnection_def sample_conn3_eval)

lemma find_request:
  assumes "wd_inv t" "r \<in> set (withdrawal_requests t)" "\<not> rq_is_internal r"
  shows "find (\<lambda>x. rq_query_id x = rq_query_id r \<and> \<not> rq_is_internal x) (withdrawal_requests t) = Some r"
proof -
  have d: "distinct (map rq_query_id (withdrawal_requests t))" using assms(1) by (simp add: wd_inv_def)
  have "find (\<lambda>x. rq_query_id x = rq_query_id r \<and> \<not> rq_is_internal x) (withdrawal_requests t) \<noteq> None"
    using assms(2,3) by (auto simp: find_None_iff)
  then obtain y where y: "find (\<lambda>x. rq_query_id x = rq_query_id r \<and> \<not> rq_is_internal x) (withdrawal_requests t) = Some y"
    by blast
  then have "y \<in> set (withdrawal_requests t)" "rq_query_id y = rq_query_id r" by (auto dest: find_SomeD)
  with d assms(2) have "y = r" by (metis distinct_map_unique)
  with y show ?thesis by simp
qed

text \<open>The rows of a processed request: the row with a transaction is found, and it alone has one.\<close>

lemma find_settled:
  assumes inv: "wd_inv t" and r: "r \<in> set (withdrawal_requests t)" "rq_processed r"
  obtains x where
    "find (\<lambda>x. xw_query_id x = rq_query_id r \<and> (xw_tx_hash x \<noteq> None \<or> xw_processed_lt x \<noteq> None))
       (external_withdrawals t) = Some x"
    "x \<in> set (external_withdrawals t)" "xw_query_id x = rq_query_id r" "settled x"
    "\<And>y. y \<in> set (external_withdrawals t) \<Longrightarrow> xw_query_id y = rq_query_id r \<Longrightarrow> settled y \<Longrightarrow> y = x"
proof -
  let ?P = "\<lambda>x. xw_query_id x = rq_query_id r \<and> (xw_tx_hash x \<noteq> None \<or> xw_processed_lt x \<noteq> None)"
  have ok: "request_ok (external_withdrawals t) r" using inv r by (simp add: wd_inv_def)
  then have one: "rows_of settled (rq_query_id r) (external_withdrawals t) = 1" using r(2) by (simp add: request_ok_def)
  have P: "?P x \<longleftrightarrow> xw_query_id x = rq_query_id r \<and> settled x" if "x \<in> set (external_withdrawals t)" for x
    using inv that by (auto simp: wd_inv_def row_ok_def settled_def)
  from one have "\<exists>x\<in>set (external_withdrawals t). xw_query_id x = rq_query_id r \<and> settled x"
    using rows_of_pos[of settled "rq_query_id r" "external_withdrawals t"] by simp
  with P have "\<exists>x\<in>set (external_withdrawals t). ?P x" by blast
  then have "find ?P (external_withdrawals t) \<noteq> None" unfolding find_None_all by blast
  then obtain x where x: "find ?P (external_withdrawals t) = Some x" by blast
  then have m: "x \<in> set (external_withdrawals t)" "?P x" by (auto dest: find_SomeD)
  then have s: "xw_query_id x = rq_query_id r" "settled x" using P by auto
  have d: "distinct (external_withdrawals t)" using inv by (simp add: wd_inv_def distinct_map)
  show thesis
    by (rule that[OF x m(1) s])
      (use rows_of_unique[of settled "rq_query_id r", OF _ d _ m(1) _ _ s] one in simp)
qed

text \<open>
  C5.  A status for every request.  In every reachable state the status query of an external
  request succeeds (it never meets a processed request without its message, nor a contradictory
  pair of flags), and the status it reports is what the messages of the request say: processed
  exactly when a transaction was recorded for a message that did not fail, failed exactly when one
  was recorded for a failed message, processing exactly when a message is in flight, and pending
  when neither is the case; the transaction hash it reports is the recorded one.
\<close>

theorem withdrawal_status_faithful:
  assumes "conn_db (sys_conn s0) = empty_tables" "sys_picked s0 = []" "sys_reach lib cfg s0 s"
    and "r \<in> set (withdrawal_requests (conn_db (sys_conn s)))" "\<not> rq_is_internal r"
  shows "\<exists>d. GetExternalWithdrawalStatus (rq_query_id r) (conn_db (sys_conn s)) = Inr d
    \<and> wdt_UserID d = rq_user_id r \<and> wdt_QueryID d = rq_user_query_id r
    \<and> (wdt_Status d = ProcessedStatus \<longleftrightarrow>
        (\<exists>x\<in>set (external_withdrawals (conn_db (sys_conn s))).
           xw_query_id x = rq_query_id r \<and> xw_tx_hash x \<noteq> None \<and> \<not> xw_failed x))
    \<and> (wdt_Status d = FailedStatus \<longleftrightarrow>
        (\<exists>x\<in>set (external_withdrawals (conn_db (sys_conn s))).
           xw_query_id x = rq_query_id r \<and> xw_tx_hash x \<noteq> None \<and> xw_failed x))
    \<and> (wdt_Status d = ProcessingStatus \<longleftrightarrow>
        (\<exists>x\<in>set (external_withdrawals (conn_db (sys_conn s))).
           xw_query_id x = rq_query_id r \<and> xw_tx_hash x = None \<and> \<not> xw_failed x))
    \<and> (\<forall>x\<in>set (external_withdrawals (conn_db (sys_conn s))).
           xw_query_id x = rq_query_id r \<and> xw_tx_hash x \<noteq> None \<longrightarrow> wdt_TxHash d = xw_tx_hash x)"
proof -
  let ?t = "conn_db (sys_conn s)" and ?q = "rq_query_id r"
  have inv: "wd_inv ?t" by (rule reachable_inv[OF assms(1-3)])
  then have ok: "request_ok (external_withdrawals ?t) r" using assms(4) by (simp add: wd_inv_def)
  note found = find_request[OF inv assms(4,5)]
  show ?thesis
  proof (cases "rq_processed r")
    case True
    with ok have proc: "rq_processing r" and no_open: "rows_of open_row ?q (external_withdrawals ?t) = 0"
      by (simp_all add: request_ok_def)
    from True obtain x where x:
      "find (\<lambda>x. xw_query_id x = ?q \<and> (xw_tx_hash x \<noteq> None \<or> xw_processed_lt x \<noteq> None)) (external_withdrawals ?t) = Some x"
      "x \<in> set (external_withdrawals ?t)" "xw_query_id x = ?q" "settled x"
      "\<And>y. y \<in> set (external_withdrawals ?t) \<Longrightarrow> xw_query_id y = ?q \<Longrightarrow> settled y \<Longrightarrow> y = x"
      using find_settled[OF inv assms(4)] by blast
    have "GetExternalWithdrawalStatus ?q ?t =
        Inr \<lparr>wdt_QueryID = rq_user_query_id r, wdt_UserID = rq_user_id r,
             wdt_Status = (if xw_failed x then FailedStatus else ProcessedStatus), wdt_TxHash = xw_tx_hash x\<rparr>"
      unfolding GetExternalWithdrawalStatus_def found using True proc x(1) by (simp add: Let_def)
    moreover have "(\<exists>y\<in>set (external_withdrawals ?t). xw_query_id y = ?q \<and> xw_tx_hash y \<noteq> None \<and> Q y) \<longleftrightarrow> Q x" for Q
      using x(2-5) unfolding settled_def by metis
    moreover have "\<not> (\<exists>y\<in>set (external_withdrawals ?t). xw_query_id y = ?q \<and> xw_tx_hash y = None \<and> \<not> xw_failed y)"
      using no_open unfolding rows_of_zero open_row_def by blast
    moreover have "\<forall>y\<in>set (external_withdrawals ?t). xw_query_id y = ?q \<and> xw_tx_hash y \<noteq> None \<longrightarrow> xw_tx_hash x = xw_tx_hash y"
      using x(5) unfolding settled_def by blast
    ultimately show ?thesis by (simp del: not_None_eq)
  next
    case False
    with ok have none: "rows_of settled ?q (external_withdrawals ?t) = 0"
      and "rows_of open_row ?q (external_withdrawals ?t) = (if rq_processing r then 1 else 0)"
      by (simp_all add: request_ok_def)
    then have op: "rq_processing r \<longleftrightarrow> (\<exists>x\<in>set (external_withdrawals ?t). xw_query_id x = ?q \<and> open_row x)"
      using rows_of_pos[of open_row ?q "external_withdrawals ?t"] by (simp split: if_splits)
    have "GetExternalWithdrawalStatus ?q ?t =
        Inr \<lparr>wdt_QueryID = rq_user_query_id r, wdt_UserID = rq_user_id r,
             wdt_Status = (if rq_processing r then ProcessingStatus else PendingStatus), wdt_TxHash = None\<rparr>"
      unfolding GetExternalWithdrawalStatus_def found using False by (simp add: Let_def)
    moreover have "\<forall>x\<in>set (external_withdrawals ?t). xw_query_id x = ?q \<longrightarrow> xw_tx_hash x = None"
      using none unfolding rows_of_zero settled_def by blast
    ultimately show ?thesis using op unfolding open_row_def by (auto simp del: not_None_eq)
  qed
qed

theorem withdrawal_status_faithful_witness:
  "\<exists>d. GetExternalWithdrawalStatus 1 (conn_db (sys_conn sample_s3)) = Inr d \<and> wdt_Status d = ProcessedStatus
     \<and> wdt_TxHash d = Some [1]"
  using withdrawal_status_faithful[OF _ _ sample_run, of "hd (withdrawal_requests (conn_db (sys_conn sample_s3)))"]
  by (simp add: sample_s0_def sample_s3_def NewConnection_def sample_conn3_eval) metis

text \<open>
  C6.  What was paid stays paid.  Along every run, the transaction recorded for a message is never
  removed: a message that has one keeps one, and its request stays processed, so the selection of
  new withdrawals never returns that request again.
\<close>

theorem paid_for_ever:
  assumes "conn_db (sys_conn s0) = empty_tables" "sys_picked s0 = []" "sys_reach lib cfg s0 s"
    and "sys_reach lib cfg s s'"
    and "x \<in> set (external_withdrawals (conn_db (sys_conn s)))" "xw_tx_hash x \<noteq> None"
  shows "(\<exists>y\<in>set (external_withdrawals (conn_db (sys_conn s'))).
            xw_msg_uuid y = xw_msg_uuid x \<and> xw_address y = xw_address x \<and> xw_query_id y = xw_query_id x
            \<and> xw_tx_hash y \<noteq> None)
    \<and> (\<exists>r\<in>set (withdrawal_requests (conn_db (sys_conn s'))). rq_query_id r = xw_query_id x \<and> rq_processed r)
    \<and> xw_query_id x \<notin> ewt_QueryID ` set (GetExternalWithdrawalTasks limit (conn_db (sys_conn s')))"
proof -
  let ?t = "conn_db (sys_conn s')"
  have i0: "sys_inv s0" using assms(1,2) sys_inv_init by (simp add: sys_inv_def NewConnection_def)
  then have i: "sys_inv s" using sys_reach_inv[OF assms(3)] by blast
  then have inv: "wd_inv ?t" and p: "paid (conn_db (sys_conn s)) \<subseteq> paid ?t"
    using sys_reach_inv[OF assms(4)] by (auto simp: sys_inv_def)
  have "(row_key x, xw_query_id x) \<in> paid (conn_db (sys_conn s))"
    using assms(5,6) by (auto simp: paid_def settled_def)
  with p obtain y where y: "y \<in> set (external_withdrawals ?t)" "row_key y = row_key x" "xw_query_id y = xw_query_id x" "settled y"
    by (auto simp: paid_def)
  obtain r where r: "r \<in> set (withdrawal_requests ?t)" "rq_query_id r = xw_query_id y" "request_ok (external_withdrawals ?t) r"
    using wd_inv_request_of_row[OF inv y(1)] by blast
  have "0 < rows_of settled (rq_query_id r) (external_withdrawals ?t)"
    using y r(2) by (auto simp: rows_of_pos)
  with r(3) have prcd: "rq_processed r" "rq_processing r" by (auto simp: request_ok_def split: if_splits)
  have "xw_query_id x \<notin> ewt_QueryID ` pending_tasks ?t"
  proof
    assume "xw_query_id x \<in> ewt_QueryID ` pending_tasks ?t"
    then obtain r' where "r' \<in> set (withdrawal_requests ?t)" "\<not> rq_processing r'" "rq_query_id r' = rq_query_id r"
      using r(2) y(3) by (auto simp: pending_tasks_def task_of_request_def)
    with inv r(1) prcd(2) show False by (auto simp: wd_inv_def dest: distinct_map_unique)
  qed
  with GetExternalWithdrawalTasks_pending[of limit ?t] have
    "xw_query_id x \<notin> ewt_QueryID ` set (GetExternalWithdrawalTasks limit ?t)" by blast
  with y r prcd(1) show ?thesis by (auto simp: row_key_def settled_def)
qed

theorem paid_for_ever_witness:
  "\<exists>x\<in>set (external_withdrawals (conn_db (sys_conn sample_s3))). xw_tx_hash x \<noteq> None
     \<and> xw_query_id x \<notin> ewt_QueryID ` set (GetExternalWithdrawalTasks 250 (conn_db (sys_conn sample_s3)))"
  using paid_for_ever[OF _ _ sample_run reach_start, of "hd (external_withdrawals (conn_db (sys_conn sample_s3)))" 250]
  by (simp add: sample_s0_def sample_s3_def NewConnection_def sample_conn3_eval)

section \<open>Selection and expiration\<close>

lemma oldest_of_destination:
  assumes "x \<in> set (distinct_on rq_dest_address (sort_key rq_dest_address (sort_key rq_query_id rs)))"
    and "r \<in> set rs" "rq_dest_address r = rq_dest_address x"
  shows "rq_query_id x \<le> rq_query_id r"
proof -
  obtain ys where "filter (\<lambda>y. rq_dest_address y = rq_dest_address x) (sort_key rq_query_id rs) = x # ys"
    using distinct_on_first[OF assms(1)] by (auto simp: sort_key_stable)
  moreover have "sorted (map rq_query_id (filter (\<lambda>y. rq_dest_address y = rq_dest_address x) (sort_key rq_query_id rs)))"
    by (rule sorted_filter) simp
  moreover have "r \<in> set (filter (\<lambda>y. rq_dest_address y = rq_dest_address x) (sort_key rq_query_id rs))"
    using assms(2,3) by simp
  ultimately show ?thesis by auto
qed

text \<open>
  C9.  Selection of external withdrawals.  The selection returns at most \<open>limit\<close> tasks, no two with
  the same destination (one message of a batch is identified by its destination); each is a request
  that is not being processed and the oldest such request of its destination; and unless the limit
  cuts the list, every waiting destination is served.
\<close>

theorem external_tasks_selection:
  "length (GetExternalWithdrawalTasks limit t) \<le> limit
   \<and> distinct (map ewt_Destination (GetExternalWithdrawalTasks limit t))
   \<and> (\<forall>task\<in>set (GetExternalWithdrawalTasks limit t).
        \<exists>r\<in>set (withdrawal_requests t). task = task_of_request r \<and> \<not> rq_processing r
          \<and> (\<forall>r'\<in>set (withdrawal_requests t).
               \<not> rq_processing r' \<and> rq_dest_address r' = rq_dest_address r \<longrightarrow> rq_query_id r \<le> rq_query_id r'))
   \<and> (length (GetExternalWithdrawalTasks limit t) < limit \<longrightarrow>
        (\<forall>r\<in>set (withdrawal_requests t). \<not> rq_processing r \<longrightarrow>
           rq_dest_address r \<in> ewt_Destination ` set (GetExternalWithdrawalTasks limit t)))"
proof -
  let ?rs = "filter (\<lambda>r. \<not> rq_processing r) (withdrawal_requests t)"
  let ?sel = "distinct_on rq_dest_address (sort_key rq_dest_address (sort_key rq_query_id ?rs))"
  have tasks: "GetExternalWithdrawalTasks limit t = map task_of_request (take limit ?sel)"
    by (simp add: GetExternalWithdrawalTasks_def)
  have dest: "ewt_Destination (task_of_request r) = rq_dest_address r" for r by (simp add: task_of_request_def)
  have "\<exists>r\<in>set (withdrawal_requests t). task = task_of_request r \<and> \<not> rq_processing r
          \<and> (\<forall>r'\<in>set (withdrawal_requests t).
               \<not> rq_processing r' \<and> rq_dest_address r' = rq_dest_address r \<longrightarrow> rq_query_id r \<le> rq_query_id r')"
    if "task \<in> set (GetExternalWithdrawalTasks limit t)" for task
  proof -
    from that obtain r where r: "r \<in> set ?sel" "task = task_of_request r"
      unfolding tasks by (auto dest: in_set_takeD)
    then have "r \<in> set ?rs" using set_distinct_on[of rq_dest_address "sort_key rq_dest_address (sort_key rq_query_id ?rs)"] by auto
    with r(2) oldest_of_destination[OF r(1)] show ?thesis by auto
  qed
  moreover have "rq_dest_address r \<in> ewt_Destination ` set (GetExternalWithdrawalTasks limit t)"
    if "length (GetExternalWithdrawalTasks limit t) < limit" "r \<in> set (withdrawal_requests t)" "\<not> rq_processing r" for r
  proof -
    have all: "take limit ?sel = ?sel" using that(1) unfolding tasks by (simp split: if_splits)
    have "rq_dest_address r \<in> rq_dest_address ` set ?rs" using that(2,3) by auto
    then have "rq_dest_address r \<in> rq_dest_address ` set ?sel"
      using distinct_on_keys[of rq_dest_address "sort_key rq_dest_address (sort_key rq_query_id ?rs)"] by simp
    then show ?thesis unfolding tasks all by (auto simp: dest image_iff)
  qed
  ultimately show ?thesis using GetExternalWithdrawalTasks_destinations[of limit t] unfolding tasks by auto
qed

theorem external_tasks_selection_witness:
  "length (GetExternalWithdrawalTasks 2 sample_db1) < 2
   \<and> 7 \<in> ewt_Destination ` set (GetExternalWithdrawalTasks 2 sample_db1)"
  using external_tasks_selection[of 2 sample_db1]
  by (simp add: GetExternalWithdrawalTasks_def sample_db1_eval task_of_request_def)

text \<open>
  C10.  Lost messages are retried.  In a reachable state, when the expiration processor runs, a
  message without a transaction whose deadline passed more than the allowed lag ago is marked
  failed and its request is pending again, so that it can be picked anew; a message with a
  transaction, and a message whose deadline has not passed, is left exactly as it was.
\<close>

theorem expired_is_retried:
  assumes "conn_db (sys_conn s0) = empty_tables" "sys_picked s0 = []" "sys_reach lib cfg s0 s"
    and x: "x \<in> set (external_withdrawals (conn_db (sys_conn s)))" "xw_expired_at x = Some e"
  shows "if e < now2 - cfg_AllowableBlockchainLagging cfg \<and> xw_tx_hash x = None \<and> \<not> xw_failed x
     then x\<lparr>xw_failed := True\<rparr> \<in> set (external_withdrawals (SetExpired cfg now1 now2 (conn_db (sys_conn s))))
       \<and> (\<exists>r\<in>set (withdrawal_requests (SetExpired cfg now1 now2 (conn_db (sys_conn s)))).
            rq_query_id r = xw_query_id x \<and> \<not> rq_processing r \<and> \<not> rq_processed r)
     else x \<in> set (external_withdrawals (SetExpired cfg now1 now2 (conn_db (sys_conn s))))"
proof -
  let ?t = "conn_db (sys_conn s)" and ?d = "now2 - cfg_AllowableBlockchainLagging cfg"
  have inv: "wd_inv ?t" by (rule reachable_inv[OF assms(1-3)])
  then have ok: "row_ok x" using x(1) by (simp add: wd_inv_def)
  have exp: "xw_expired ?d x \<longleftrightarrow> e < ?d \<and> xw_tx_hash x = None \<and> \<not> xw_failed x"
    using ok x(2) by (auto simp: xw_expired_def row_ok_def settled_def)
  have row: "(if xw_expired ?d x then x\<lparr>xw_failed := True\<rparr> else x)
      \<in> set (external_withdrawals (SetExpired cfg now1 now2 ?t))"
    unfolding SetExpired_tables(2)[OF refl] by (rule in_update_whereI) (rule x(1))
  have req: "\<exists>r\<in>set (withdrawal_requests (SetExpired cfg now1 now2 ?t)).
            rq_query_id r = xw_query_id x \<and> \<not> rq_processing r \<and> \<not> rq_processed r" if hit: "xw_expired ?d x"
  proof -
    obtain r where r: "r \<in> set (withdrawal_requests ?t)" "rq_query_id r = xw_query_id x"
      using wd_inv_request_of_row[OF inv x(1)] by blast
    have "\<not> xw_failed x" "\<not> settled x" using hit exp by (auto simp: settled_def)
    with wd_inv_live_row[OF inv x(1) _ r] have "\<not> rq_processed r" by blast
    moreover have "rq_query_id r \<in> expired_ids ?d (external_withdrawals ?t)"
      using hit x(1) r(2) by (auto simp: expired_ids_def)
    ultimately show ?thesis
      using in_update_whereI[OF r(1), of "\<lambda>r. rq_query_id r \<in> expired_ids ?d (external_withdrawals ?t)"
          "\<lambda>r. r\<lparr>rq_processing := False\<rparr>"] r(2)
      unfolding SetExpired_tables(1)[OF refl] by (intro bexI[where x = "r\<lparr>rq_processing := False\<rparr>"]) simp_all
  qed
  show ?thesis using row req unfolding exp by (auto split: if_splits)
qed

theorem expired_is_retried_witness:
  "\<exists>r\<in>set (withdrawal_requests (SetExpired sample_config 200 200 sample_db2)).
     rq_query_id r = 1 \<and> \<not> rq_processing r \<and> \<not> rq_processed r"
  using expired_is_retried[OF _ _ sample_run_sent, of "hd (external_withdrawals sample_db2)" 100 200 200]
  by (simp add: sample_s0_def NewConnection_def sample_db2_eval sample_config_def)

end
