(* ===== verification/Withdrawal_Processor.thy ===== *)
theory Withdrawal_Processor
  imports Wallets Withdrawal_Safety
begin

text \<open>
  \<open>src/core/withdrawal_processor.go\<close>: the round of the withdrawal processor (cold wallet requests,
  the batch of service, internal and external withdrawals, its recording) and the withdrawals from
  deposits.  The functions are actions on the connection: what was written stays written when a
  later call fails.

  The processor (\<open>wproc\<close>) holds the libraries, the configuration, the hot wallet's address, the
  jetton hot wallets in the order a \<open>range\<close> loop visits them, and what the blockchain calls answer.
  Random values are read from streams: \<open>wp_NewV4 n\<close> is the \<open>n\<close>-th UUID drawn, \<open>wp_Int63 n\<close> the
  \<open>n\<close>-th number; \<open>n\<close> is threaded through the round.  \<open>wp_now\<close> is the clock.
\<close>

section \<open>Data\<close>

record internalWithdrawal =
  itw_Memo :: uuid
  itw_Task :: InternalWithdrawalTask

record serviceWithdrawal =
  srw_TonAmount :: Coins
  srw_Filled :: bool
  srw_Task :: ServiceWithdrawalTask

record withdrawals =
  wds_Messages :: "wallet_message list"
  wds_External :: "ExternalWithdrawalTask list"
  wds_Internal :: "internalWithdrawal list"
  wds_Service :: "serviceWithdrawal list"

record wproc =
  wp_lib :: tonlib
  wp_cb :: celllib
  wp_cfg :: config
  wp_hot :: taddress
  wp_JettonHotWallets :: "(string \<times> JettonWallet) list"
  wp_coldWallet :: "taddress option"
  wp_GetAccountCurrentState :: "taddress \<Rightarrow> error + (int \<times> AccountStatus)"
  wp_GetLastJettonBalance :: "taddress \<Rightarrow> error + int"
  wp_GetJettonWalletAddress :: "taddress \<Rightarrow> taddress \<Rightarrow> error + taddress"
  wp_GetSubwallet :: "u32 \<Rightarrow> error + taddress"
  wp_BuildExternalMessageForMany :: "wallet_message list \<Rightarrow> error + ExternalMessage"
  wp_NewV4 :: "nat \<Rightarrow> error + uuid"
  wp_Int63 :: "nat \<Rightarrow> int"
  wp_now :: Time

type_synonym 'a dbact = "(Connection, message, 'a) action"

definition read_db :: "(tables \<Rightarrow> 'a) \<Rightarrow> 'a dbact" where
  "read_db f c = (c, ok (f (conn_db c)))"

definition write_db :: "(tables \<Rightarrow> tables) \<Rightarrow> unit dbact" where
  "write_db f c = (c\<lparr>conn_db := f (conn_db c)\<rparr>, ok ())"

definition write_db_res :: "(tables \<Rightarrow> tables \<times> (error + 'a)) \<Rightarrow> 'a dbact" where
  "write_db_res f c = (c\<lparr>conn_db := fst (f (conn_db c))\<rparr>, lift_res (snd (f (conn_db c))))"

definition liftE :: "error + 'a \<Rightarrow> 'a dbact" where
  "liftE r = liftA (lift_res r)"

definition auditA :: "message \<Rightarrow> unit dbact" where
  "auditA m = liftA (noting m (ok ()))"

section \<open>Balances\<close>

definition decreaseBalances ::
  "(string \<rightharpoonup> int) \<Rightarrow> string \<Rightarrow> int \<Rightarrow> error + ((string \<rightharpoonup> int) \<times> bool)" where
  "decreaseBalances balances currency amount =
     (if currency = TonSymbol then
        (case balances TonSymbol of
           None \<Rightarrow> Inl nil_pointer
         | Some ton \<Rightarrow>
             if ton < amount then Inr (balances, True)
             else Inr (balances(TonSymbol \<mapsto> ton - amount), False))
      else
        (case balances currency of
           None \<Rightarrow> Inl nil_pointer
         | Some bal \<Rightarrow>
             if bal < amount then Inr (balances, True)
             else
               (case balances TonSymbol of
                  None \<Rightarrow> Inl nil_pointer
                | Some ton \<Rightarrow>
                    if ton < JettonTransferTonAmount then Inr (balances, True)
                    else Inr (balances(currency \<mapsto> bal - amount, TonSymbol \<mapsto> ton - JettonTransferTonAmount), False))))"

primrec jetton_balances ::
  "wproc \<Rightarrow> (string \<times> JettonWallet) list \<Rightarrow> (string \<rightharpoonup> int) \<Rightarrow> error + (string \<rightharpoonup> int)" where
  "jetton_balances p [] res = Inr res"
| "jetton_balances p (x # xs) res =
     andThenR (wp_GetLastJettonBalance p (jwl_Address (snd x))) (\<lambda>balance.
     jetton_balances p xs (res(fst x \<mapsto> balance)))"

definition getHotWalletBalances :: "wproc \<Rightarrow> error + (string \<rightharpoonup> int)" where
  "getHotWalletBalances p =
     andThenR (wp_GetAccountCurrentState p (wp_hot p)) (\<lambda>(balance, _).
     jetton_balances p (wp_JettonHotWallets p) [TonSymbol \<mapsto> balance])"

section \<open>Messages\<close>

text \<open>The internal withdrawal of a jetton deposit: the message and memo, if the balance is above the
  cutoff, and the number of random values drawn.\<close>

definition buildJettonInternalWithdrawalMessage ::
  "wproc \<Rightarrow> nat \<Rightarrow> InternalWithdrawalTask \<Rightarrow> error + (nat \<times> (wallet_message \<times> uuid) option)" where
  "buildJettonInternalWithdrawalMessage p n task =
     (let lib = wp_lib p; cb = wp_cb p in
      andThenR (NewJettonProxy lib cb (iwt_SubwalletID task) (wp_hot p)) (\<lambda>proxy.
      let jettonWalletAddress = Address_ToTonutilsAddressStd lib (iwt_From task) 0 in
      andThenR (wp_GetLastJettonBalance p jettonWalletAddress) (\<lambda>balance.
      case cfg_Jettons (wp_cfg p) (iwt_Currency task) of
        None \<Rightarrow> Inl nil_pointer
      | Some j \<Rightarrow>
          if balance > j_WithdrawalCutoff j then
            andThenR (wp_NewV4 p n) (\<lambda>memo.
            andThenR (BuildJettonProxyWithdrawalMessage cb proxy jettonWalletAddress (wp_hot p)
                        JettonInternalForwardAmount balance (wp_Int63 p n) (lib_UuidString lib memo)) (\<lambda>msg.
            Inr (Suc n, Some (msg, memo))))
          else Inr (n, None))))"

definition buildServiceFilling ::
  "wproc \<Rightarrow> ServiceWithdrawalTask \<Rightarrow> (message, wallet_message option \<times> serviceWithdrawal) logged" where
  "buildServiceFilling p task =
     (let lib = wp_lib p; deposit = Address_ToTonutilsAddressStd lib (swr_From task) 0 in
      case swr_JettonMaster task of
        None \<Rightarrow> fail nil_pointer
      | Some master \<Rightarrow>
          let masterAddr = Address_ToTonutilsAddressStd lib master 0 in
          andThen (lift_res (wp_GetJettonWalletAddress p deposit masterAddr)) (\<lambda>jettonWallet.
          andThen (lift_res (wp_GetLastJettonBalance p jettonWallet)) (\<lambda>jettonBalance.
          if jettonBalance = 0 then
            noting (Log Warning (WalletType_string TonDepositWallet) (EventName_string ServiceWithdrawalEvent)
                      (''zero balance of Jettons '' @ lib_AddrString lib masterAddr @ '' on TON deposit address ''
                       @ TonutilsAddressToUserFormat lib (wp_cfg p) deposit))
              (ok (None, \<lparr>srw_TonAmount = ZeroCoins, srw_Filled = False, srw_Task = task\<rparr>))
          else
            andThen (lift_res (buildTonFillMessage lib (wp_cb p) deposit JettonTransferTonAmount (swt_Memo task))) (\<lambda>msg.
            ok (Some msg, \<lparr>srw_TonAmount = ZeroCoins, srw_Filled = True,
                           srw_Task = task\<lparr>swt_JettonAmount := NewCoins jettonBalance\<rparr>\<rparr>)))))"

definition buildServiceTonWithdrawal ::
  "wproc \<Rightarrow> ServiceWithdrawalTask \<Rightarrow> (message, wallet_message option \<times> serviceWithdrawal) logged" where
  "buildServiceTonWithdrawal p task =
     (let lib = wp_lib p; cb = wp_cb p in
      andThen (lift_res (NewJettonProxy lib cb (swt_SubwalletID task) (wp_hot p))) (\<lambda>proxy.
      andThen (lift_res (wp_GetAccountCurrentState p (prx_address proxy))) (\<lambda>(tonBalance, _).
      let res = \<lparr>srw_TonAmount = NewCoins tonBalance, srw_Filled = False, srw_Task = task\<rparr> in
      if tonBalance = 0 then
        noting (Log Warning (WalletType_string JettonOwner) (EventName_string ServiceWithdrawalEvent)
                  (''zero balance of TONs on proxy address '' @ TonutilsAddressToUserFormat lib (wp_cfg p) (prx_address proxy)))
          (ok (None, res))
      else
        andThen (lift_res (buildJettonProxyServiceTonWithdrawalMessage lib cb proxy (wp_hot p) (swt_Memo task))) (\<lambda>msg.
        ok (Some msg, res)))))"

definition buildServiceJettonWithdrawal ::
  "wproc \<Rightarrow> addressBook \<Rightarrow> nat \<Rightarrow> Address \<Rightarrow> ServiceWithdrawalTask \<Rightarrow> (message, wallet_message option \<times> serviceWithdrawal) logged" where
  "buildServiceJettonWithdrawal p ab n master task =
     (let lib = wp_lib p; cb = wp_cb p; masterAddr = Address_ToTonutilsAddressStd lib master 0;
          rejected = \<lparr>srw_TonAmount = ZeroCoins, srw_Filled = False, srw_Task = task\<rparr> in
      andThen (lift_res (NewJettonProxy lib cb (swt_SubwalletID task) (wp_hot p))) (\<lambda>proxy.
      andThen (lift_res (wp_GetJettonWalletAddress p (prx_address proxy) masterAddr)) (\<lambda>jettonWallet.
      case GetWalletTypeByTonutilsAddress ab (Some jettonWallet) of
        Some t \<Rightarrow>
          noting (Log Warning (WalletType_string JettonOwner) (EventName_string ServiceWithdrawalEvent)
                    (''service withdrawal from known internal '' @ WalletType_string t @ '' address ''
                     @ TonutilsAddressToUserFormat lib (wp_cfg p) jettonWallet @ '' rejected''))
            (ok (None, rejected))
      | None \<Rightarrow>
          andThen (lift_res (wp_GetLastJettonBalance p jettonWallet)) (\<lambda>jettonBalance.
          if jettonBalance = 0 then
            noting (Log Warning (WalletType_string JettonOwner) (EventName_string ServiceWithdrawalEvent)
                      (''zero '' @ lib_AddrString lib masterAddr @ '' Jetton balance on proxy address ''
                       @ TonutilsAddressToUserFormat lib (wp_cfg p) (prx_address proxy)))
              (ok (None, rejected))
          else
            andThen (lift_res (BuildJettonProxyWithdrawalMessage cb proxy jettonWallet (wp_hot p) 0 jettonBalance
                                 (wp_Int63 p n) (lib_UuidString lib (swt_Memo task)))) (\<lambda>msg.
            ok (Some msg, \<lparr>srw_TonAmount = ZeroCoins, srw_Filled = False,
                           srw_Task = task\<lparr>swt_JettonAmount := NewCoins jettonBalance\<rparr>\<rparr>))))))"

definition buildServiceWithdrawalMessage ::
  "wproc \<Rightarrow> addressBook \<Rightarrow> nat \<Rightarrow> ServiceWithdrawalTask \<Rightarrow> (message, wallet_message option \<times> serviceWithdrawal) logged" where
  "buildServiceWithdrawalMessage p ab n task =
     (case GetWalletType ab (swr_From task) of
        Some TonDepositWallet \<Rightarrow> buildServiceFilling p task
      | Some JettonOwner \<Rightarrow>
          (case swr_JettonMaster task of
             None \<Rightarrow> buildServiceTonWithdrawal p task
           | Some master \<Rightarrow> buildServiceJettonWithdrawal p ab n master task)
      | _ \<Rightarrow> fail (Errorf ''invalid service withdrawal address''))"

definition buildExternalWithdrawalMessage :: "wproc \<Rightarrow> ExternalWithdrawalTask \<Rightarrow> error + wallet_message" where
  "buildExternalWithdrawalMessage p wt =
     (if ewt_Currency wt = TonSymbol then BuildTonWithdrawalMessage (wp_lib p) (wp_cb p) wt
      else BuildJettonWithdrawalMessage (wp_lib p) (wp_cb p) (wp_cfg p) wt (wp_hot p)
             (map_option jwl_Address (map_of (wp_JettonHotWallets p) (ewt_Currency wt))))"

section \<open>The batch\<close>

record batch =
  bt_balances :: "string \<rightharpoonup> int"
  bt_used :: "Address list"
  bt_res :: withdrawals
  bt_rnd :: nat

text \<open>A failed \<open>for\<close> round ends the function; \<open>continue\<close> keeps the batch; \<open>len(res.Messages) > 250\<close>
  stops taking tasks (the remaining rounds of the source's loop are cut by \<open>break\<close>, here they do
  nothing).\<close>

definition service_round :: "wproc \<Rightarrow> ServiceWithdrawalTask \<Rightarrow> batch \<Rightarrow> batch dbact" where
  "service_round p t b =
     bindA (liftE (decreaseBalances (bt_balances b) TonSymbol JettonTransferTonAmount)) (\<lambda>(bal, short).
     if short then retA b
     else
       bindA getA (\<lambda>c.
       bindA (liftA (buildServiceWithdrawalMessage p (conn_addressBook c) (bt_rnd b) t)) (\<lambda>(msg, w).
       case msg of
         Some m \<Rightarrow>
           retA (b\<lparr>bt_balances := bal, bt_used := bt_used b @ [swr_From t], bt_rnd := Suc (bt_rnd b),
                   bt_res := (bt_res b)\<lparr>wds_Messages := wds_Messages (bt_res b) @ [m],
                                        wds_Service := wds_Service (bt_res b) @ [w]\<rparr>\<rparr>)
       | None \<Rightarrow>
           bindA (write_db (UpdateServiceWithdrawalRequest (srw_Task w) (srw_TonAmount w) (wp_now p) (srw_Filled w))) (\<lambda>_.
           retA (b\<lparr>bt_balances := bal\<rparr>)))))"

definition internal_round :: "wproc \<Rightarrow> InternalWithdrawalTask \<Rightarrow> batch \<Rightarrow> batch dbact" where
  "internal_round p t b =
     (if length (wds_Messages (bt_res b)) > 250 then retA b
      else
        bindA (liftE (decreaseBalances (bt_balances b) TonSymbol JettonTransferTonAmount)) (\<lambda>(bal, short).
        if short then retA b
        else
          bindA (liftE (buildJettonInternalWithdrawalMessage p (bt_rnd b) t)) (\<lambda>(n, r).
          case r of
            Some (m, memo) \<Rightarrow>
              retA (b\<lparr>bt_balances := bal, bt_rnd := n,
                      bt_res := (bt_res b)\<lparr>wds_Messages := wds_Messages (bt_res b) @ [m],
                                           wds_Internal := wds_Internal (bt_res b) @ [\<lparr>itw_Memo = memo, itw_Task = t\<rparr>]\<rparr>\<rparr>)
          | None \<Rightarrow> retA (b\<lparr>bt_balances := bal, bt_rnd := n\<rparr>))))"

definition external_round :: "wproc \<Rightarrow> ExternalWithdrawalTask \<Rightarrow> batch \<Rightarrow> batch dbact" where
  "external_round p w b =
     (if length (wds_Messages (bt_res b)) > 250 then retA b
      else
        bindA getA (\<lambda>c.
        case GetWalletType (conn_addressBook c) (ewt_Destination w) of
          Some t \<Rightarrow>
            bindA (auditA (Log Warning (WalletType_string TonHotWallet) (EventName_string ExternalWithdrawalEvent)
                             (''withdrawal task to internal '' @ WalletType_string t @ '' address ''
                              @ Address_ToUserFormat (wp_lib p) (wp_cfg p) (ewt_Destination w)))) (\<lambda>_.
            retA b)
        | None \<Rightarrow>
            bindA (liftE (decreaseBalances (bt_balances b) (ewt_Currency w) (lib_BigInt (wp_lib p) (ewt_Amount w)))) (\<lambda>(bal, short).
            if short then retA b
            else
              bindA (liftE (buildExternalWithdrawalMessage p w)) (\<lambda>m.
              retA (b\<lparr>bt_balances := bal,
                      bt_res := (bt_res b)\<lparr>wds_Messages := wds_Messages (bt_res b) @ [m],
                                           wds_External := wds_External (bt_res b) @ [w]\<rparr>\<rparr>)))))"

definition no_withdrawals :: withdrawals where
  "no_withdrawals = \<lparr>wds_Messages = [], wds_External = [], wds_Internal = [], wds_Service = []\<rparr>"

definition buildWithdrawalMessages :: "wproc \<Rightarrow> nat \<Rightarrow> (nat \<times> withdrawals) dbact" where
  "buildWithdrawalMessages p n =
     bindA (liftA (wrap_err ''get hot wallet balance error'' (lift_res (getHotWalletBalances p)))) (\<lambda>balances.
     bindA (read_db (GetServiceHotWithdrawalTasks 250)) (\<lambda>serviceTasks.
     bindA (forA (service_round p) serviceTasks
              \<lparr>bt_balances = balances, bt_used = [], bt_res = no_withdrawals, bt_rnd = n\<rparr>) (\<lambda>b1.
     bindA (read_db (GetJettonInternalWithdrawalTasks (bt_used b1) 250)) (\<lambda>internalTasks.
     bindA (forA (internal_round p) internalTasks b1) (\<lambda>b2.
     bindA (read_db (GetExternalWithdrawalTasks 250)) (\<lambda>externalTasks.
     bindA (forA (external_round p) externalTasks b2) (\<lambda>b3.
     retA (bt_rnd b3, bt_res b3))))))))"

section \<open>Cold wallet\<close>

text \<open>One jetton of \<open>makeColdWalletWithdrawals\<close>; the TON balance and the number of the next UUID are
  threaded.\<close>

definition cold_jetton_round :: "wproc \<Rightarrow> Address \<Rightarrow> (string \<times> JettonWallet) \<Rightarrow> int \<times> nat \<Rightarrow> (int \<times> nat) dbact" where
  "cold_jetton_round p dest x st =
     (let (cur, jw) = x; (tonBalance, n) = st in
      bindA (read_db (IsInProgressInternalWithdrawalRequest dest cur)) (\<lambda>inProgress.
      if inProgress then retA st
      else
        bindA (liftE (wp_GetLastJettonBalance p (jwl_Address jw))) (\<lambda>jettonBalance.
        case cfg_Jettons (wp_cfg p) cur of
          None \<Rightarrow> failA nil_pointer
        | Some j \<Rightarrow>
            if \<not> jettonBalance > j_HotWalletMaxCutoff j then retA st
            else
              bindA (liftE (wp_NewV4 p n)) (\<lambda>u.
              bindA (write_db_res (SaveWithdrawalRequest
                \<lparr>wr_QueryID = lib_UuidString (wp_lib p) u, wr_UserID = [], wr_Currency = jwl_Currency jw,
                 wr_Amount = NewCoins (jettonBalance - j_HotWalletResidual j), wr_Bounceable = True,
                 wr_IsInternal = True, wr_Destination = dest, wr_Comment = [], wr_BinaryComment = []\<rparr>)) (\<lambda>_.
              retA (tonBalance - JettonTransferTonAmount, Suc n))))))"

definition cold_ton_request :: "wproc \<Rightarrow> Address \<Rightarrow> taddress \<Rightarrow> int \<times> nat \<Rightarrow> nat dbact" where
  "cold_ton_request p dest coldWallet st =
     (let (tonBalance, n) = st in
      bindA (read_db (IsInProgressInternalWithdrawalRequest dest TonSymbol)) (\<lambda>inProgress.
      if inProgress then retA n
      else if \<not> tonBalance > c_HotWalletMax (cfg_Ton (wp_cfg p)) then retA n
      else
        bindA (liftE (wp_NewV4 p n)) (\<lambda>u.
        bindA (write_db_res (SaveWithdrawalRequest
          \<lparr>wr_QueryID = lib_UuidString (wp_lib p) u, wr_UserID = [], wr_Currency = TonSymbol,
           wr_Amount = NewCoins (tonBalance - c_HotWalletResidual (cfg_Ton (wp_cfg p))),
           wr_Bounceable = ta_Bounceable coldWallet, wr_IsInternal = True, wr_Destination = dest,
           wr_Comment = [], wr_BinaryComment = []\<rparr>)) (\<lambda>_.
        retA (Suc n)))))"

definition makeColdWalletWithdrawals :: "wproc \<Rightarrow> nat \<Rightarrow> nat dbact" where
  "makeColdWalletWithdrawals p n =
     (case wp_coldWallet p of
        None \<Rightarrow> retA n
      | Some coldWallet \<Rightarrow>
          bindA (liftE (wp_GetAccountCurrentState p (wp_hot p))) (\<lambda>(tonBalance, _).
          bindA (liftE (AddressMustFromTonutilsAddress (Some coldWallet))) (\<lambda>dest.
          bindA (forA (cold_jetton_round p dest) (wp_JettonHotWallets p) (tonBalance, n)) (\<lambda>st.
          cold_ton_request p dest coldWallet st))))"

section \<open>A round of the withdrawal processor\<close>

text \<open>\<open>if err != nil { log.Fatalf(...) }\<close> around an action; a panic has already ended the process.\<close>

definition fatalA :: "string \<Rightarrow> 'a dbact \<Rightarrow> 'a dbact" where
  "fatalA msg m c =
     (case m c of
        (c', logs, Inl (Panicf s)) \<Rightarrow> (c', logs, Inl (Panicf s))
      | (c', logs, r) \<Rightarrow> (c', logs, orFatal msg r))"

definition update_service :: "Time \<Rightarrow> serviceWithdrawal \<Rightarrow> unit \<Rightarrow> unit dbact" where
  "update_service ttl sw _ =
     write_db (UpdateServiceWithdrawalRequest (srw_Task sw) (srw_TonAmount sw) ttl (srw_Filled sw))"

definition save_internal :: "Time \<Rightarrow> internalWithdrawal \<Rightarrow> unit \<Rightarrow> unit dbact" where
  "save_internal ttl iw _ =
     write_db_res (\<lambda>t. case SaveInternalWithdrawalTask (itw_Task iw) ttl (itw_Memo iw) t of
                         Inl e \<Rightarrow> (t, Inl e) | Inr t' \<Rightarrow> (t', Inr ()))"

text \<open>One round of the loop of \<open>startWithdrawalsProcessor\<close>, up to the external message it hands to
  \<open>SendExternalMessage\<close> (\<open>None\<close> when there is nothing to send).  Everything is recorded before the
  message is sent; an error of the sending itself is only logged.\<close>

definition withdrawals_round :: "wproc \<Rightarrow> nat \<Rightarrow> (nat \<times> ExternalMessage option) dbact" where
  "withdrawals_round p n =
     bindA (fatalA ''make withdrawals to cold wallet error'' (makeColdWalletWithdrawals p n)) (\<lambda>n1.
     bindA (fatalA ''make withdrawal messages error'' (buildWithdrawalMessages p n1)) (\<lambda>(n2, w).
     if wds_Messages w = [] then retA (n2, None)
     else
       bindA (fatalA ''build hotwallet external msg error'' (liftE (wp_BuildExternalMessageForMany p (wds_Messages w)))) (\<lambda>extMsg.
       bindA (fatalA ''get external message uuid error'' (liftE (getHighLoadWalletExtMsgInfo (wp_lib p) extMsg))) (\<lambda>info.
       bindA (fatalA ''save external withdrawals error''
                (write_db_res (CreateExternalWithdrawals (wds_External w) (hl_UUID info) (hl_TTL info)))) (\<lambda>_.
       bindA (fatalA ''update service withdrawal error'' (forA (update_service (hl_TTL info)) (wds_Service w) ())) (\<lambda>_.
       bindA (fatalA ''save internal withdrawal error'' (forA (save_internal (hl_TTL info)) (wds_Internal w) ())) (\<lambda>_.
       retA (n2, Some extMsg))))))))"

section \<open>Withdrawals from deposits\<close>

text \<open>\<open>withdrawTONsFromDeposit\<close> and \<open>serviceWithdrawJettons\<close>: the message handed to the deposit's
  wallet, if any.  An error of the sending is only logged.\<close>

definition withdrawTONsFromDeposit :: "wproc \<Rightarrow> nat \<Rightarrow> InternalWithdrawalTask \<Rightarrow> (nat \<times> wallet_message option) dbact" where
  "withdrawTONsFromDeposit p n task =
     bindA (liftE (wp_GetSubwallet p (iwt_SubwalletID task))) (\<lambda>subwallet.
     bindA (liftE (wp_GetAccountCurrentState p subwallet)) (\<lambda>(balance, state).
     if state = AccountStatusNonExist then retA (n, None)
     else if balance > c_Withdrawal (cfg_Ton (wp_cfg p)) then
       bindA (liftE (wp_NewV4 p n)) (\<lambda>memo.
       bindA (write_db_res (\<lambda>t. case SaveInternalWithdrawalTask task (wp_now p + ExternalMessageLifetime) memo t of
                                  Inl e \<Rightarrow> (t, Inl e) | Inr t' \<Rightarrow> (t', Inr ()))) (\<lambda>_.
       bindA (liftE (WithdrawTONs (wp_cb p) (wp_hot p) (lib_UuidString (wp_lib p) memo))) (\<lambda>msg.
       retA (Suc n, Some msg))))
     else retA (n, None)))"

definition serviceWithdrawJettons :: "wproc \<Rightarrow> nat \<Rightarrow> ServiceWithdrawalTask \<Rightarrow> (nat \<times> wallet_message option) dbact" where
  "serviceWithdrawJettons p n task =
     bindA (liftE (wp_GetSubwallet p (swt_SubwalletID task))) (\<lambda>subwallet.
     bindA (liftE (wp_GetAccountCurrentState p subwallet)) (\<lambda>(balance, state).
     if state = AccountStatusNonExist then retA (n, None)
     else
       case swr_JettonMaster task of
         None \<Rightarrow> failA nil_pointer
       | Some master \<Rightarrow>
           bindA (liftE (wp_GetJettonWalletAddress p subwallet (Address_ToTonutilsAddressStd (wp_lib p) master 0))) (\<lambda>jettonWallet.
           bindA (write_db (UpdateServiceWithdrawalRequest task ZeroCoins (wp_now p + ExternalMessageLifetime) False)) (\<lambda>_.
           bindA (liftE (WithdrawJettons (wp_lib p) (wp_cb p) (wp_hot p) jettonWallet 0 (swt_JettonAmount task)
                           (wp_Int63 p n) (lib_UuidString (wp_lib p) (swt_Memo task)))) (\<lambda>msg.
           retA (Suc n, Some msg))))))"

text \<open>One round of the loop of \<open>startInternalTonWithdrawalsProcessor\<close>: the messages it sent.\<close>

definition service_deposit_step ::
  "wproc \<Rightarrow> ServiceWithdrawalTask \<Rightarrow> nat \<times> wallet_message list \<Rightarrow> (nat \<times> wallet_message list) dbact" where
  "service_deposit_step p task st =
     bindA (fatalA ''Jettons service internal withdrawal error'' (serviceWithdrawJettons p (fst st) task)) (\<lambda>(n, m).
     retA (n, snd st @ (case m of None \<Rightarrow> [] | Some x \<Rightarrow> [x])))"

definition ton_deposit_step ::
  "wproc \<Rightarrow> InternalWithdrawalTask \<Rightarrow> nat \<times> wallet_message list \<Rightarrow> (nat \<times> wallet_message list) dbact" where
  "ton_deposit_step p task st =
     bindA (fatalA ''TONs internal withdrawal error'' (withdrawTONsFromDeposit p (fst st) task)) (\<lambda>(n, m).
     retA (n, snd st @ (case m of None \<Rightarrow> [] | Some x \<Rightarrow> [x])))"

definition internal_ton_round :: "wproc \<Rightarrow> nat \<Rightarrow> (nat \<times> wallet_message list) dbact" where
  "internal_ton_round p n =
     bindA (read_db (GetServiceDepositWithdrawalTasks 5)) (\<lambda>serviceTasks.
     bindA (forA (service_deposit_step p) serviceTasks (n, [])) (\<lambda>st.
     bindA (read_db (GetTonInternalWithdrawalTasks 40)) (\<lambda>internalTasks.
     forA (ton_deposit_step p) internalTasks st)))"

text \<open>\<open>waitSync\<close>: \<open>stop k\<close> and \<open>synced k\<close> are what the \<open>k\<close>-th look at the flag and at the database
  found; the result says whether the service is in sync (or is shutting down).\<close>

partial_function (option) waitSync :: "(nat \<Rightarrow> bool) \<Rightarrow> (nat \<Rightarrow> bool) \<Rightarrow> nat \<Rightarrow> bool option" where
  "waitSync stop synced k =
     (if stop k then Some False
      else if synced k then Some True
      else waitSync stop synced (Suc k))"

section \<open>Actions on the connection\<close>

lemma runs_db [simp]:
  "runs (read_db f) c c' x \<longleftrightarrow> c' = c \<and> x = f (conn_db c)"
  "runs (write_db g) c c' u \<longleftrightarrow> c' = c\<lparr>conn_db := g (conn_db c)\<rparr>"
  "runs (write_db_res h) c c' y \<longleftrightarrow> c' = c\<lparr>conn_db := fst (h (conn_db c))\<rparr> \<and> snd (h (conn_db c)) = Inr y"
  "runs (liftE r) c c' z \<longleftrightarrow> c' = c \<and> r = Inr z"
  "runs (auditA m) c c' v \<longleftrightarrow> c' = c"
  by (auto simp: runs_def read_db_def write_db_def write_db_res_def liftE_def liftA_def auditA_def)

lemma runs_fatalA [simp]: "runs (fatalA msg m) c c' x \<longleftrightarrow> runs m c c' x"
  by (auto simp: runs_def fatalA_def orFatal_def split: prod.splits sum.splits error.splits)

end
