(* ===== verification/Wallet_Init.thy ===== *)
theory Wallet_Init
  imports Blockchain Withdrawal_Processor Samples
begin

text \<open>
  The start of \<open>src/core/wallets.go\<close>: \<open>InitWallets\<close> derives the hot wallets from the seed, compares
  them with what is stored, checks and deploys the TON hot wallet and registers what is new.

  \<open>bcapi\<close> is the interface \<open>blockchain\<close> of the packages \<open>core\<close> and \<open>api\<close>: the calls the service
  makes to the connection of \<open>Blockchain\<close>.  The lifetime that \<open>SetMessagesTTL\<close> stores in the hot
  wallet is state of the wallet package; the messages it builds carry it.  A Go map is the list of its entries in the order a
  \<open>range\<close> loop visits them.
\<close>

record bcapi =
  bc_GetAccountCurrentState :: "taddress \<Rightarrow> error + (int \<times> AccountStatus)"
  bc_GenerateDefaultWallet :: "string \<Rightarrow> bool \<Rightarrow> error + (wallet \<times> byte \<times> u32)"
  bc_GenerateSubWallet :: "string \<Rightarrow> byte \<Rightarrow> u32 \<Rightarrow> error + (taddress \<times> u32)"
  bc_GenerateDepositJettonWalletForProxy ::
    "byte \<Rightarrow> taddress \<Rightarrow> taddress \<Rightarrow> u32 \<Rightarrow> error + (JettonProxy \<times> taddress)"
  bc_GetJettonWalletAddress :: "taddress \<Rightarrow> taddress \<Rightarrow> error + taddress"
  bc_DeployTonWallet :: "wallet \<Rightarrow> error + unit"
  bc_GetJettonBalanceByOwner :: "taddress \<Rightarrow> taddress \<Rightarrow> error + int"
  bc_DnsResolveSmc :: "string \<Rightarrow> error + taddress"

record Wallets_rec =
  wl_Shard :: byte
  wl_TonHotWallet :: wallet
  wl_TonBasicWallet :: wallet
  wl_JettonHotWallets :: "(string \<times> JettonWallet) list"

definition connA :: "(Connection \<Rightarrow> Connection \<times> (error + 'a)) \<Rightarrow> 'a dbact" where
  "connA f c = (case f c of (c', r) \<Rightarrow> (c', lift_res r))"

text \<open>The comparison with the stored hot wallet: is it already saved?\<close>

definition check_saved :: "tonlib \<Rightarrow> wallet \<Rightarrow> Address \<Rightarrow> error + Address \<Rightarrow> bool dbact" where
  "check_saved lib tonHotWallet addr addrFromDb =
     (case addrFromDb of
        Inr a \<Rightarrow>
          if addr \<noteq> a then
            bindA (auditA (Log Error (WalletType_string TonHotWallet) (EventName_string InitEvent)
                     (''Hot TON wallet address is not equal to the one stored in the database. Maybe seed was being changed. ''
                      @ lib_AddrString lib (w_Address tonHotWallet) @ '' != ''
                      @ lib_AddrString lib (Address_ToTonutilsAddressStd lib a 0)))) (\<lambda>_.
            failA (Errorf ''saved hot wallet not equal generated hot wallet. Maybe seed was being changed''))
          else retA True
      | Inl e \<Rightarrow> if e = ErrNotFound then retA False else failA e)"

definition save_hot :: "tonlib \<Rightarrow> bcapi \<Rightarrow> wallet \<Rightarrow> Address \<Rightarrow> bool \<Rightarrow> AccountStatus \<Rightarrow> unit dbact" where
  "save_hot lib bc tonHotWallet addr alreadySaved status =
     bindA (if status \<noteq> AccountStatusActive then liftE (bc_DeployTonWallet bc tonHotWallet) else retA ()) (\<lambda>_.
     if \<not> alreadySaved then
       connA (SaveTonWallet \<lparr>wd_SubwalletID = lib_DefaultSubwallet lib, wd_UserID = [], wd_Currency = TonSymbol,
                             wd_Type = TonHotWallet, wd_Address = addr\<rparr>)
     else retA ())"

definition initTonHotWallet :: "tonlib \<Rightarrow> config \<Rightarrow> bcapi \<Rightarrow> string \<Rightarrow> (wallet \<times> byte \<times> u32) dbact" where
  "initTonHotWallet lib cfg bc seed =
     bindA (liftE (bc_GenerateDefaultWallet bc seed True)) (\<lambda>(tonHotWallet, shard, subwalletId).
     bindA (liftE (AddressMustFromTonutilsAddress (Some (w_Address tonHotWallet)))) (\<lambda>addr.
     bindA (read_db GetTonHotWalletAddress) (\<lambda>addrFromDb.
     bindA (check_saved lib tonHotWallet addr addrFromDb) (\<lambda>alreadySaved.
     bindA (liftE (bc_GetAccountCurrentState bc (w_Address tonHotWallet))) (\<lambda>(balance, status).
     if balance < c_HotWalletMin (cfg_Ton cfg) then failA (Errorf ''hot wallet balance must be at least'')
     else
       bindA (save_hot lib bc tonHotWallet addr alreadySaved status) (\<lambda>_.
       retA (tonHotWallet, shard, subwalletId)))))))"

definition initJettonHotWallet ::
  "tonlib \<Rightarrow> bcapi \<Rightarrow> taddress \<Rightarrow> taddress \<Rightarrow> string \<Rightarrow> u32 \<Rightarrow> JettonWallet dbact" where
  "initJettonHotWallet lib bc tonHotWallet jettonMaster currency subwalletId =
     bindA (liftE (bc_GetJettonWalletAddress bc tonHotWallet jettonMaster)) (\<lambda>a.
     let res = \<lparr>jwl_Address = a, jwl_Currency = currency\<rparr> in
     bindA (liftE (AddressFromTonutilsAddress (Some tonHotWallet))) (\<lambda>ownerAddr.
     bindA (liftE (AddressFromTonutilsAddress (Some a))) (\<lambda>jettonWalletAddr.
     bindA (read_db (GetJettonWallet jettonWalletAddr)) (\<lambda>walletData.
     case walletData of
       Some wd \<Rightarrow>
         if wd_Currency wd = currency then retA res
         else
           bindA (auditA (Log Error (WalletType_string JettonHotWallet) (EventName_string InitEvent)
                    (''Hot Jetton wallets '' @ wd_Currency wd @ '' and '' @ currency @ '' have the same address ''
                     @ lib_AddrString lib a))) (\<lambda>_.
           failA (Errorf ''jetton hot wallet address duplication''))
     | None \<Rightarrow>
         bindA (connA (SaveJettonWallet ownerAddr
                  \<lparr>wd_SubwalletID = subwalletId, wd_UserID = [], wd_Currency = currency,
                   wd_Type = JettonHotWallet, wd_Address = jettonWalletAddr\<rparr> True)) (\<lambda>_.
         retA res)))))"

definition init_jetton ::
  "tonlib \<Rightarrow> bcapi \<Rightarrow> taddress \<Rightarrow> u32 \<Rightarrow> (string \<times> Jetton) \<Rightarrow> (string \<times> JettonWallet) list \<Rightarrow> (string \<times> JettonWallet) list dbact" where
  "init_jetton lib bc hot subwalletId x ws =
     bindA (initJettonHotWallet lib bc hot (j_Master (snd x)) (fst x) subwalletId) (\<lambda>w.
     retA (ws @ [(fst x, w)]))"

definition check_cold_wallet :: "config \<Rightarrow> bcapi \<Rightarrow> unit dbact" where
  "check_cold_wallet cfg bc =
     (case cfg_ColdWallet cfg of
        Some cold \<Rightarrow>
          if ta_Bounceable cold then
            bindA (liftE (bc_GetAccountCurrentState bc cold)) (\<lambda>(_, status).
            if status \<noteq> AccountStatusActive
            then failA (Errorf ''cold wallet address must be non-bounceable for not active wallet'')
            else retA ())
          else retA ()
      | None \<Rightarrow> retA ())"

definition InitWallets :: "tonlib \<Rightarrow> config \<Rightarrow> bcapi \<Rightarrow> string \<Rightarrow> (string \<times> Jetton) list \<Rightarrow> Wallets_rec dbact" where
  "InitWallets lib cfg bc seed jettons =
     bindA (check_cold_wallet cfg bc) (\<lambda>_.
     bindA (initTonHotWallet lib cfg bc seed) (\<lambda>(tonHotWallet, shard, subwalletId).
     bindA (liftE (bc_GenerateDefaultWallet bc seed False)) (\<lambda>(tonBasicWallet, _, _).
     bindA (forA (init_jetton lib bc (w_Address tonHotWallet) subwalletId) jettons []) (\<lambda>jettonHotWallets.
     retA \<lparr>wl_Shard = shard, wl_TonHotWallet = tonHotWallet, wl_TonBasicWallet = tonBasicWallet,
           wl_JettonHotWallets = jettonHotWallets\<rparr>))))"

section \<open>Starting again\<close>

lemma runs_connA [simp]: "runs (connA f) c c' x \<longleftrightarrow> f c = (c', Inr x)"
  by (auto simp: runs_def connA_def split: prod.splits)

text \<open>Sequences that start with a step that leaves the connection alone.\<close>

lemma runs_bind_pure [simp]:
  "runs (bindA (retA x) f) s s' y \<longleftrightarrow> runs (f x) s s' y"
  "runs (bindA (liftE r) f) s s' y \<longleftrightarrow> (\<exists>x. r = Inr x \<and> runs (f x) s s' y)"
  "runs (bindA (read_db q) f) s s' y \<longleftrightarrow> runs (f (q (conn_db s))) s s' y"
  by (auto simp: runs_bindA)

text \<open>What the stored wallets say about the address of the TON hot wallet and of a jetton wallet.\<close>

definition knows_jetton :: "Address \<Rightarrow> string \<Rightarrow> Connection \<Rightarrow> bool" where
  "knows_jetton a cur c \<longleftrightarrow> (\<exists>wd. GetJettonWallet a (conn_db c) = Some wd \<and> wd_Currency wd = cur)"

lemma find_append_None: "find P (xs @ ys) = (case find P xs of Some x \<Rightarrow> Some x | None \<Rightarrow> find P ys)"
  by (induction xs) auto

lemma SaveTonWallet_tables:
  assumes "SaveTonWallet wd c = (c', Inr u)"
  shows "ton_wallets (conn_db c') = ton_wallets (conn_db c) @
      [\<lparr>tw_subwallet_id = wd_SubwalletID wd, tw_user_id = wd_UserID wd, tw_type = wd_Type wd, tw_address = wd_Address wd\<rparr>]"
    and "jetton_wallets (conn_db c') = jetton_wallets (conn_db c)"
  using assms by (auto simp: SaveTonWallet_def insert_ton_wallet_def put_info_def split: sum.splits if_splits)

lemma SaveJettonWallet_tables:
  assumes "SaveJettonWallet owner wd True c = (c', Inr u)"
  shows "jetton_wallets (conn_db c') = jetton_wallets (conn_db c) @
      [\<lparr>jw_subwallet_id = wd_SubwalletID wd, jw_user_id = wd_UserID wd, jw_currency = wd_Currency wd,
        jw_type = wd_Type wd, jw_address = wd_Address wd\<rparr>]"
    and "ton_wallets (conn_db c') = ton_wallets (conn_db c)"
    and "wd_Address wd \<notin> jw_address ` set (jetton_wallets (conn_db c))"
  using assms
  by (auto simp: SaveJettonWallet_def insert_jetton_wallet_def put_info_def Let_def split: sum.splits if_splits prod.splits)

lemma initJettonHotWallet_ok:
  assumes "runs (initJettonHotWallet lib bc hot master cur sub) c c' w"
  shows "jwl_Currency w = cur \<and> bc_GetJettonWalletAddress bc hot master = Inr (jwl_Address w)
    \<and> (\<exists>a. AddressFromTonutilsAddress (Some (jwl_Address w)) = Inr a \<and> knows_jetton a cur c')
    \<and> GetTonHotWalletAddress (conn_db c') = GetTonHotWalletAddress (conn_db c)
    \<and> (\<forall>a cur'. knows_jetton a cur' c \<longrightarrow> knows_jetton a cur' c')"
proof -
  from assms obtain a own ja where a: "bc_GetJettonWalletAddress bc hot master = Inr a"
    "AddressFromTonutilsAddress (Some hot) = Inr own" "AddressFromTonutilsAddress (Some a) = Inr ja"
    and w: "w = \<lparr>jwl_Address = a, jwl_Currency = cur\<rparr>"
    and wd: "(\<exists>wd. GetJettonWallet ja (conn_db c) = Some wd \<and> wd_Currency wd = cur) \<and> c' = c
      \<or> SaveJettonWallet own \<lparr>wd_SubwalletID = sub, wd_UserID = [], wd_Currency = cur,
                   wd_Type = JettonHotWallet, wd_Address = ja\<rparr> True c = (c', Inr ())"
    by (auto simp: initJettonHotWallet_def runs_bindA Let_def split: option.splits if_splits)
  from wd show ?thesis
  proof
    assume "(\<exists>wd. GetJettonWallet ja (conn_db c) = Some wd \<and> wd_Currency wd = cur) \<and> c' = c"
    then show ?thesis using a w by (auto simp: knows_jetton_def)
  next
    assume "SaveJettonWallet own \<lparr>wd_SubwalletID = sub, wd_UserID = [], wd_Currency = cur,
                   wd_Type = JettonHotWallet, wd_Address = ja\<rparr> True c = (c', Inr ())"
    note t = SaveJettonWallet_tables[OF this, simplified]
    have "find (\<lambda>r. jw_address r = ja) (jetton_wallets (conn_db c)) = None"
      using t(3) by (auto simp: find_None_iff)
    then show ?thesis using a w t(1,2)
      by (auto simp: knows_jetton_def GetJettonWallet_def GetTonHotWalletAddress_def find_append_None split: option.splits)
  qed
qed

lemma initJettonHotWallet_again:
  assumes "runs (initJettonHotWallet lib bc hot master cur sub) c c' w"
    and "\<And>a. knows_jetton a cur c' \<Longrightarrow> knows_jetton a cur c2"
  shows "runs (initJettonHotWallet lib bc hot master cur sub) c2 c2 w"
proof -
  from initJettonHotWallet_ok[OF assms(1)] obtain a where
    w: "jwl_Currency w = cur" "bc_GetJettonWalletAddress bc hot master = Inr (jwl_Address w)"
    and a: "AddressFromTonutilsAddress (Some (jwl_Address w)) = Inr a" "knows_jetton a cur c2"
    using assms(2) by blast
  moreover obtain own where "AddressFromTonutilsAddress (Some hot) = Inr own"
    using assms(1) by (auto simp: initJettonHotWallet_def runs_bindA Let_def)
  moreover have "w = \<lparr>jwl_Address = jwl_Address w, jwl_Currency = cur\<rparr>" using w(1) by (cases w) simp
  ultimately show ?thesis by (auto simp: initJettonHotWallet_def runs_bindA Let_def knows_jetton_def)
qed

lemma runs_init_jetton:
  "runs (init_jetton lib bc hot sub x ws) c c' r \<longleftrightarrow>
     (\<exists>w. runs (initJettonHotWallet lib bc hot (j_Master (snd x)) (fst x) sub) c c' w \<and> r = ws @ [(fst x, w)])"
  by (auto simp: init_jetton_def runs_bindA)

lemma check_cold_wallet_again: "runs (check_cold_wallet cfg bc) c c' u \<Longrightarrow> c' = c \<and> runs (check_cold_wallet cfg bc) c2 c2 u"
  by (auto simp: check_cold_wallet_def runs_bindA split: option.splits if_splits)

lemma init_jettons_again:
  assumes "runs (forA (init_jetton lib bc hot sub) js ws) c c' res"
  shows "GetTonHotWalletAddress (conn_db c') = GetTonHotWalletAddress (conn_db c)
    \<and> (\<forall>a cur. knows_jetton a cur c \<longrightarrow> knows_jetton a cur c')
    \<and> (\<forall>c2. (\<forall>a cur. knows_jetton a cur c' \<longrightarrow> knows_jetton a cur c2) \<longrightarrow> runs (forA (init_jetton lib bc hot sub) js ws) c2 c2 res)"
  using assms
proof (induction js arbitrary: ws c)
  case Nil
  then show ?case by simp
next
  case (Cons j js)
  from Cons.prems obtain c1 w where j: "runs (initJettonHotWallet lib bc hot (j_Master (snd j)) (fst j) sub) c c1 w"
    and js: "runs (forA (init_jetton lib bc hot sub) js (ws @ [(fst j, w)])) c1 c' res"
    unfolding runs_forA_Cons runs_init_jetton by blast
  note ok = initJettonHotWallet_ok[OF j] and rest = Cons.IH[OF js]
  have "runs (forA (init_jetton lib bc hot sub) (j # js) ws) c2 c2 res"
    if c2: "\<forall>a cur. knows_jetton a cur c' \<longrightarrow> knows_jetton a cur c2" for c2
  proof -
    have "runs (initJettonHotWallet lib bc hot (j_Master (snd j)) (fst j) sub) c2 c2 w"
      using c2 rest by (intro initJettonHotWallet_again[OF j]) blast
    moreover have "runs (forA (init_jetton lib bc hot sub) js (ws @ [(fst j, w)])) c2 c2 res"
      using c2 rest by blast
    ultimately show ?thesis unfolding runs_forA_Cons runs_init_jetton by blast
  qed
  with ok rest show ?case by auto
qed

lemma runs_check_saved [simp]:
  "runs (check_saved lib hot addr r) c c' b \<longleftrightarrow> c' = c \<and> (if b then r = Inr addr else r = Inl ErrNotFound)"
  by (auto simp: check_saved_def runs_bindA split: sum.splits)

lemma runs_bind_check:
  "runs (bindA (check_saved lib hot addr r) f) c c' y \<longleftrightarrow>
     (\<exists>b. r = (if b then Inr addr else Inl ErrNotFound) \<and> runs (f b) c c' y)"
  by (auto simp: runs_bindA split: if_splits)

lemma runs_bind_last: "runs (bindA m (\<lambda>_. retA x)) c c' y \<longleftrightarrow> runs m c c' () \<and> y = x"
  unfolding runs_bindA runs_simps by (metis (full_types) old.unit.exhaust)

lemma runs_guard: "runs (if b then failA e else m) c c' y \<longleftrightarrow> \<not> b \<and> runs m c c' y"
  by simp

lemma runs_save_hot:
  "runs (save_hot lib bc hot addr b status) c c' u \<longleftrightarrow>
     (status \<noteq> AccountStatusActive \<longrightarrow> bc_DeployTonWallet bc hot = Inr ())
     \<and> (if b then c' = c else SaveTonWallet \<lparr>wd_SubwalletID = lib_DefaultSubwallet lib, wd_UserID = [],
              wd_Currency = TonSymbol, wd_Type = TonHotWallet, wd_Address = addr\<rparr> c = (c', Inr ()))"
  by (cases "status = AccountStatusActive"; cases b) (auto simp: save_hot_def)

lemma runs_initTonHotWallet:
  "runs (initTonHotWallet lib cfg bc seed) c c' (hot, shard, sub) \<longleftrightarrow>
     (\<exists>addr b balance status. bc_GenerateDefaultWallet bc seed True = Inr (hot, shard, sub)
       \<and> AddressMustFromTonutilsAddress (Some (w_Address hot)) = Inr addr
       \<and> GetTonHotWalletAddress (conn_db c) = (if b then Inr addr else Inl ErrNotFound)
       \<and> bc_GetAccountCurrentState bc (w_Address hot) = Inr (balance, status)
       \<and> \<not> balance < c_HotWalletMin (cfg_Ton cfg)
       \<and> runs (save_hot lib bc hot addr b status) c c' ())"
  unfolding initTonHotWallet_def
  by (simp add: runs_bind_check runs_bind_last runs_guard split_paired_Ex cong: conj_cong) blast

lemma initTonHotWallet_again:
  assumes "runs (initTonHotWallet lib cfg bc seed) c c' r"
  shows "\<exists>addr. GetTonHotWalletAddress (conn_db c') = Inr addr
    \<and> (\<forall>c2. GetTonHotWalletAddress (conn_db c2) = Inr addr \<longrightarrow> runs (initTonHotWallet lib cfg bc seed) c2 c2 r)"
proof -
  obtain hot shard sub where r: "r = (hot, shard, sub)" by (cases r)
  from assms[unfolded r runs_initTonHotWallet] obtain addr b balance status where
    gen: "bc_GenerateDefaultWallet bc seed True = Inr (hot, shard, sub)"
    "AddressMustFromTonutilsAddress (Some (w_Address hot)) = Inr addr"
    "bc_GetAccountCurrentState bc (w_Address hot) = Inr (balance, status)" "\<not> balance < c_HotWalletMin (cfg_Ton cfg)"
    and saved: "GetTonHotWalletAddress (conn_db c) = (if b then Inr addr else Inl ErrNotFound)"
      "runs (save_hot lib bc hot addr b status) c c' ()" by blast
  have "GetTonHotWalletAddress (conn_db c') = Inr addr"
  proof (cases b)
    case True
    then show ?thesis using saved by (simp add: runs_save_hot)
  next
    case False
    then have "SaveTonWallet \<lparr>wd_SubwalletID = lib_DefaultSubwallet lib, wd_UserID = [],
              wd_Currency = TonSymbol, wd_Type = TonHotWallet, wd_Address = addr\<rparr> c = (c', Inr ())"
      using saved(2) by (simp add: runs_save_hot)
    from SaveTonWallet_tables(1)[OF this] saved(1) False show ?thesis
      by (simp add: GetTonHotWalletAddress_def find_append_None split: option.splits)
  qed
  moreover have "runs (initTonHotWallet lib cfg bc seed) c2 c2 r" if "GetTonHotWalletAddress (conn_db c2) = Inr addr" for c2
  proof -
    have "runs (save_hot lib bc hot addr True status) c2 c2 ()" using saved(2) by (simp add: runs_save_hot)
    then show ?thesis using gen that unfolding r runs_initTonHotWallet by fastforce
  qed
  ultimately show ?thesis by blast
qed

text \<open>
  C32.  Starting again finds the same wallets.  After the wallets were initialised, initialising them
  once more with the same seed, jettons and answers of the node, on any connection with the same
  tables (such as the one a restart opens), succeeds with the same wallets and writes nothing.
\<close>

theorem init_again:
  assumes "runs (InitWallets lib cfg bc seed jettons) c c' w" "conn_db c2 = conn_db c'"
  shows "runs (InitWallets lib cfg bc seed jettons) c2 c2 w"
proof -
  from assms(1) obtain hot shard sub c0 c1 basic b s res where
    cold: "runs (check_cold_wallet cfg bc) c c0 ()"
    and ton: "runs (initTonHotWallet lib cfg bc seed) c0 c1 (hot, shard, sub)"
    and basic: "bc_GenerateDefaultWallet bc seed False = Inr (basic, b, s)"
    and jet: "runs (forA (init_jetton lib bc (w_Address hot) sub) jettons []) c1 c' res"
    and w: "w = \<lparr>wl_Shard = shard, wl_TonHotWallet = hot, wl_TonBasicWallet = basic, wl_JettonHotWallets = res\<rparr>"
    by (auto simp: InitWallets_def runs_bindA)
  note again = init_jettons_again[OF jet]
  have "runs (initTonHotWallet lib cfg bc seed) c2 c2 (hot, shard, sub)"
    using initTonHotWallet_again[OF ton] again assms(2) by auto
  moreover have "runs (forA (init_jetton lib bc (w_Address hot) sub) jettons []) c2 c2 res"
    using again assms(2) by (auto simp: knows_jetton_def)
  moreover have "runs (check_cold_wallet cfg bc) c2 c2 ()" using check_cold_wallet_again[OF cold] by blast
  ultimately show ?thesis using basic w unfolding InitWallets_def runs_bindA
    by (intro exI[of _ c2] exI[of _ "()"] exI[of _ "(hot, shard, sub)"] conjI) (auto simp: runs_bindA)
qed

definition sample_hot :: wallet where
  "sample_hot = \<lparr>w_Address = sample_taddress 1, w_GetSubwallet = (\<lambda>i. Inr (sample_taddress (of_nat (unat i))))\<rparr>"

definition sample_bc :: bcapi where
  "sample_bc =
     \<lparr>bc_GetAccountCurrentState = (\<lambda>a. Inr (50, AccountStatusUninit)),
      bc_GenerateDefaultWallet = (\<lambda>seed highload. Inr (sample_hot, 0, 698983191)),
      bc_GenerateSubWallet = (\<lambda>seed shard i. Inr (sample_taddress (of_nat (unat i)), i)),
      bc_GenerateDepositJettonWalletForProxy = (\<lambda>shard owner master i.
        Inr (\<lparr>prx_Owner = owner, prx_SubwalletID = i, prx_address = sample_taddress 5, prx_stateInit = 0\<rparr>, sample_taddress 6)),
      bc_GetJettonWalletAddress = (\<lambda>owner master. Inr (sample_taddress 9)),
      bc_DeployTonWallet = (\<lambda>w. Inr ()),
      bc_GetJettonBalanceByOwner = (\<lambda>owner master. Inr 3),
      bc_DnsResolveSmc = (\<lambda>domain. Inl ErrNotFound)\<rparr>"

definition sample_jettons :: "(string \<times> Jetton) list" where
  "sample_jettons = [(''SCALE'', \<lparr>j_Master = sample_taddress 8, j_WithdrawalCutoff = 1, j_HotWalletMaxCutoff = 10, j_HotWalletResidual = 9\<rparr>)]"

definition sample_conn0 :: Connection where
  "sample_conn0 = \<lparr>conn_db = empty_tables, conn_addressBook = Some Map.empty\<rparr>"

lemma sample_taddress_read [simp]: "AddressFromTonutilsAddress (Some (sample_taddress a)) = Inr a"
  by (simp add: AddressFromTonutilsAddress_success sample_taddress_def)

lemma sample_init:
  "snd (snd (InitWallets sample_lib sample_config sample_bc [] sample_jettons sample_conn0)) =
     Inr \<lparr>wl_Shard = 0, wl_TonHotWallet = sample_hot, wl_TonBasicWallet = sample_hot,
          wl_JettonHotWallets = [(''SCALE'', \<lparr>jwl_Address = sample_taddress 9, jwl_Currency = ''SCALE''\<rparr>)]\<rparr>"
  by (simp add: InitWallets_def bindA_def check_cold_wallet_def retA_def sample_config_def initTonHotWallet_def
      sample_bc_def liftE_def liftA_def AddressMustFromTonutilsAddress_def sample_hot_def read_db_def
      GetTonHotWalletAddress_def sample_conn0_def empty_tables_def check_saved_def save_hot_def connA_def
      SaveTonWallet_def insert_ton_wallet_def put_info_def addressBook_put_def sample_jettons_def
      init_jetton_def initJettonHotWallet_def GetJettonWallet_def SaveJettonWallet_def insert_jetton_wallet_def
      ok_def fail_def lift_res_def Let_def)

theorem init_again_witness:
  "runs (InitWallets sample_lib sample_config sample_bc [] sample_jettons)
     (fst (InitWallets sample_lib sample_config sample_bc [] sample_jettons sample_conn0))
     (fst (InitWallets sample_lib sample_config sample_bc [] sample_jettons sample_conn0))
     \<lparr>wl_Shard = 0, wl_TonHotWallet = sample_hot, wl_TonBasicWallet = sample_hot,
      wl_JettonHotWallets = [(''SCALE'', \<lparr>jwl_Address = sample_taddress 9, jwl_Currency = ''SCALE''\<rparr>)]\<rparr>"
  by (rule init_again[of sample_lib sample_config sample_bc "[]" sample_jettons sample_conn0])
    (simp_all add: runs_def sample_init)

end
