(* ===== verification/Trust.thy ===== *)
theory Trust
  imports Blockchain
begin

text \<open>
  \<open>src/pkg/trust\<close> and the start-up part of \<open>src/blockchain/blockchain.go\<close> and
  \<open>src/blockchain/proofs.go\<close> that uses it: before it follows the chain with proofs, the service
  asks independent explorers to confirm the masterchain head its lite server reports.

  An explorer's answer is a parameter: an error of the HTTP request, or whether the status was 200
  together with the decoded JSON body.  \<open>b64\<close> is \<open>base64.StdEncoding.DecodeString\<close>.
\<close>

section \<open>The explorers\<close>

text \<open>\<open>strings.ToLower\<close>; letters outside ASCII do not become one of the characters compared with.\<close>

definition strings_ToLower :: "string \<Rightarrow> string" where
  "strings_ToLower s = map (\<lambda>c. if 65 \<le> (of_char c :: nat) \<and> (of_char c :: nat) \<le> 90 then char_of ((of_char c :: nat) + 32) else c) s"

type_synonym hash_pair = "string \<times> string"

definition Tonapi_CheckBlock :: "error + (bool \<times> (error + hash_pair)) \<Rightarrow> BlockIDExt \<Rightarrow> error + unit" where
  "Tonapi_CheckBlock resp i =
     andThenR resp (\<lambda>(ok200, body).
     if \<not> ok200 then Inl (Errorf ''tonapi bad status'')
     else andThenR body (\<lambda>(root, file).
       if strings_ToLower root \<noteq> hex (bid_RootHash i) \<or> strings_ToLower file \<noteq> hex (bid_FileHash i)
       then Inl MismatchHead else Inr ()))"

definition compare_hashes :: "(string \<Rightarrow> error + byte list) \<Rightarrow> hash_pair \<Rightarrow> BlockIDExt \<Rightarrow> error + unit" where
  "compare_hashes b64 h i =
     andThenR (b64 (fst h)) (\<lambda>rootHash.
     andThenR (b64 (snd h)) (\<lambda>fileHash.
     if rootHash \<noteq> bid_RootHash i \<or> fileHash \<noteq> bid_FileHash i then Inl MismatchHead else Inr ()))"

fun tonhub_shards :: "(string \<Rightarrow> error + byte list) \<Rightarrow> (int \<times> hash_pair) list \<Rightarrow> BlockIDExt \<Rightarrow> error + unit" where
  "tonhub_shards b64 [] i = Inl (Errorf ''block not found in tonhub api'')"
| "tonhub_shards b64 (b # bs) i =
     (if fst b = - 1 then compare_hashes b64 (snd b) i else tonhub_shards b64 bs i)"

definition Tonhub_CheckBlock ::
  "(string \<Rightarrow> error + byte list) \<Rightarrow> error + (error + (int \<times> hash_pair) list) \<Rightarrow> BlockIDExt \<Rightarrow> error + unit" where
  "Tonhub_CheckBlock b64 resp i =
     andThenR resp (\<lambda>body. andThenR body (\<lambda>shards. tonhub_shards b64 shards i))"

definition Toncenter_CheckBlock ::
  "(string \<Rightarrow> error + byte list) \<Rightarrow> error + (bool \<times> (error + hash_pair list)) \<Rightarrow> BlockIDExt \<Rightarrow> error + unit" where
  "Toncenter_CheckBlock b64 resp i =
     andThenR resp (\<lambda>(ok200, body).
     if \<not> ok200 then Inl (Errorf ''tonapi bad status'')
     else andThenR body (\<lambda>blocks.
       case blocks of
         [] \<Rightarrow> Inl (Errorf ''block not found in toncenter response'')
       | h # _ \<Rightarrow> compare_hashes b64 h i))"

definition Orbs_CheckBlock ::
  "(string \<Rightarrow> error + byte list) \<Rightarrow> error + (bool \<times> (error + hash_pair)) \<Rightarrow> BlockIDExt \<Rightarrow> error + unit" where
  "Orbs_CheckBlock b64 resp i =
     andThenR resp (\<lambda>(ok200, body).
     if \<not> ok200 then Inl (Errorf ''bad status'')
     else andThenR body (\<lambda>h. compare_hashes b64 h i))"

section \<open>The vote\<close>

fun trust_loop :: "(BlockIDExt \<Rightarrow> error + unit) list \<Rightarrow> int \<Rightarrow> int \<Rightarrow> BlockIDExt \<Rightarrow> error + BlockIDExt" where
  "trust_loop [] require success mcInfo = Inl (Errorf ''failed to find trusted block. try set NETWORK_CONFIG_URL'')"
| "trust_loop (t # ts) require success mcInfo =
     (case t mcInfo of
        Inl e \<Rightarrow> if e = MismatchHead then Inl e else trust_loop ts require success mcInfo
      | Inr _ \<Rightarrow> if success + 1 \<ge> require then Inr mcInfo else trust_loop ts require (success + 1) mcInfo)"

definition getTrustBlockFromDifferentSources ::
  "error + BlockIDExt \<Rightarrow> (BlockIDExt \<Rightarrow> error + unit) list \<Rightarrow> error + BlockIDExt" where
  "getTrustBlockFromDifferentSources head sourcesOfTrust =
     andThenR head (\<lambda>mcInfo.
     let r = int (length sourcesOfTrust) - 1;
         require = (if r < 1 then 1 else r)
     in trust_loop sourcesOfTrust require 0 mcInfo)"

definition trustSources ::
  "(string \<Rightarrow> error + byte list) \<Rightarrow> error + (bool \<times> (error + hash_pair)) \<Rightarrow> error + (error + (int \<times> hash_pair) list)
    \<Rightarrow> error + (bool \<times> (error + hash_pair list)) \<Rightarrow> error + (bool \<times> (error + hash_pair))
    \<Rightarrow> (BlockIDExt \<Rightarrow> error + unit) list" where
  "trustSources b64 r1 r2 r3 r4 =
     [Tonapi_CheckBlock r1, Tonhub_CheckBlock b64 r2, Toncenter_CheckBlock b64 r3, Orbs_CheckBlock b64 r4]"

section \<open>The connection with proofs\<close>

text \<open>What \<open>NewConnection\<close> trusts: nothing (proofs disabled), a block, or the network configuration.\<close>

datatype trusted = Unchecked | TrustedBlock BlockIDExt | TrustedConfig nat

definition connection_trust ::
  "bool \<Rightarrow> string \<Rightarrow> error + BlockIDExt \<Rightarrow> (BlockIDExt \<Rightarrow> error + unit) list \<Rightarrow> error + nat \<Rightarrow> error + BlockIDExt
    \<Rightarrow> tables \<Rightarrow> tables \<times> (error + trusted)" where
  "connection_trust proofCheckEnabled networkConfigUrl head sourcesOfTrust configFromUrl current t =
     (if \<not> proofCheckEnabled then (t, Inr Unchecked)
      else
        (case (case GetLastMasterchainProvenBlock t of
                 Inr lastBlock \<Rightarrow> (t, Inr (TrustedBlock lastBlock))
               | Inl e \<Rightarrow>
                   if networkConfigUrl = [] then
                     (case getTrustBlockFromDifferentSources head sourcesOfTrust of
                        Inl e \<Rightarrow> (t, Inl e)
                      | Inr block \<Rightarrow> (SaveLastMasterchainProvenBlock block t, Inr (TrustedBlock block)))
                   else
                     (case configFromUrl of
                        Inl e \<Rightarrow> (t, Inl (Errorf ''get network config from url err''))
                      | Inr c \<Rightarrow> (t, Inr (TrustedConfig c)))) of
           (t', Inl e) \<Rightarrow> (t', Inl e)
         | (t', Inr tr) \<Rightarrow>
             (case current of
                Inl e \<Rightarrow> (t', Inl (Errorf ''get masterchain info err''))
              | Inr _ \<Rightarrow> (t', Inr tr))))"

text \<open>One round of the loop of \<open>updateLastBlocks\<close>.\<close>

definition updateLastBlocks_round :: "error + BlockIDExt \<Rightarrow> tables \<Rightarrow> tables" where
  "updateLastBlocks_round lastBlock t = (case lastBlock of Inl e \<Rightarrow> t | Inr b \<Rightarrow> SaveLastMasterchainProvenBlock b t)"

section \<open>Properties\<close>

lemma trust_loop_confirmed:
  assumes "trust_loop ts require success mcInfo = Inr b"
  shows "b = mcInfo \<and> (\<exists>n\<le>length ts. require \<le> success + int (length (filter (\<lambda>t. t mcInfo = Inr ()) (take n ts)))
           \<and> (\<forall>t\<in>set (take n ts). t mcInfo \<noteq> Inl MismatchHead))"
  using assms
proof (induction ts arbitrary: success)
  case Nil
  then show ?case by simp
next
  case (Cons t ts)
  show ?case
  proof (cases "t mcInfo")
    case (Inl e)
    with Cons.prems have "e \<noteq> MismatchHead" "trust_loop ts require success mcInfo = Inr b" by (auto split: if_splits)
    with Cons.IH[of success] obtain n where "b = mcInfo" "n \<le> length ts"
      "require \<le> success + int (length (filter (\<lambda>t. t mcInfo = Inr ()) (take n ts)))"
      "\<forall>t\<in>set (take n ts). t mcInfo \<noteq> Inl MismatchHead" by blast
    with Inl \<open>e \<noteq> MismatchHead\<close> show ?thesis by (intro conjI exI[of _ "Suc n"]) auto
  next
    case (Inr u)
    show ?thesis
    proof (cases "success + 1 \<ge> require")
      case True
      with Cons.prems Inr show ?thesis by (intro conjI exI[of _ 1]) auto
    next
      case False
      with Cons.prems Inr Cons.IH[of "success + 1"] obtain n where "b = mcInfo" "n \<le> length ts"
        "require \<le> success + 1 + int (length (filter (\<lambda>t. t mcInfo = Inr ()) (take n ts)))"
        "\<forall>t\<in>set (take n ts). t mcInfo \<noteq> Inl MismatchHead" by auto
      with Inr show ?thesis by (intro conjI exI[of _ "Suc n"]) auto
    qed
  qed
qed

text \<open>An explorer confirms a block only when the hashes it reports are the hashes of that block.\<close>

lemma compare_hashes_confirms:
  "compare_hashes b64 h i = Inr () \<longleftrightarrow> b64 (fst h) = Inr (bid_RootHash i) \<and> b64 (snd h) = Inr (bid_FileHash i)"
  by (auto simp: compare_hashes_def andThenR_success)

lemma tonhub_shards_confirms:
  "tonhub_shards b64 bs i = Inr () \<Longrightarrow>
     \<exists>h. (- 1, h) \<in> set bs \<and> b64 (fst h) = Inr (bid_RootHash i) \<and> b64 (snd h) = Inr (bid_FileHash i)"
  by (induction bs) (fastforce simp: compare_hashes_confirms split: if_splits)+

text \<open>What an explorer reported: the hashes of the block, in its own format.\<close>

definition same_hashes :: "(string \<Rightarrow> error + byte list) \<Rightarrow> hash_pair \<Rightarrow> BlockIDExt \<Rightarrow> bool" where
  "same_hashes b64 h i \<longleftrightarrow> b64 (fst h) = Inr (bid_RootHash i) \<and> b64 (snd h) = Inr (bid_FileHash i)"

lemma explorers_confirm:
  "Tonapi_CheckBlock r1 b = Inr () \<Longrightarrow>
     \<exists>root file. r1 = Inr (True, Inr (root, file)) \<and> strings_ToLower root = hex (bid_RootHash b)
       \<and> strings_ToLower file = hex (bid_FileHash b)"
  "Tonhub_CheckBlock b64 r2 b = Inr () \<Longrightarrow> \<exists>bs h. r2 = Inr (Inr bs) \<and> (- 1, h) \<in> set bs \<and> same_hashes b64 h b"
  "Toncenter_CheckBlock b64 r3 b = Inr () \<Longrightarrow> \<exists>h hs. r3 = Inr (True, Inr (h # hs)) \<and> same_hashes b64 h b"
  "Orbs_CheckBlock b64 r4 b = Inr () \<Longrightarrow> \<exists>h. r4 = Inr (True, Inr h) \<and> same_hashes b64 h b"
proof -
  show "Tonapi_CheckBlock r1 b = Inr () \<Longrightarrow>
     \<exists>root file. r1 = Inr (True, Inr (root, file)) \<and> strings_ToLower root = hex (bid_RootHash b)
       \<and> strings_ToLower file = hex (bid_FileHash b)"
    by (auto simp: Tonapi_CheckBlock_def andThenR_success split: if_splits)
  show "Toncenter_CheckBlock b64 r3 b = Inr () \<Longrightarrow> \<exists>h hs. r3 = Inr (True, Inr (h # hs)) \<and> same_hashes b64 h b"
    by (auto simp: Toncenter_CheckBlock_def andThenR_success compare_hashes_confirms same_hashes_def neq_Nil_conv
        split: if_splits list.split_asm)
  show "Orbs_CheckBlock b64 r4 b = Inr () \<Longrightarrow> \<exists>h. r4 = Inr (True, Inr h) \<and> same_hashes b64 h b"
    by (auto simp: Orbs_CheckBlock_def andThenR_success compare_hashes_confirms same_hashes_def split: if_splits)
  assume "Tonhub_CheckBlock b64 r2 b = Inr ()"
  then obtain bs where "r2 = Inr (Inr bs)" "tonhub_shards b64 bs b = Inr ()"
    by (auto simp: Tonhub_CheckBlock_def andThenR_success)
  with tonhub_shards_confirms[of b64 bs b]
  show "\<exists>bs h. r2 = Inr (Inr bs) \<and> (- 1, h) \<in> set bs \<and> same_hashes b64 h b" by (auto simp: same_hashes_def)
qed



end
