(* ===== verification/Api_Handlers.thy ===== *)
theory Api_Handlers
  imports Wallet_Init Trust
begin

text \<open>
  \<open>src/api/handlers.go\<close> and \<open>src/api/middleware.go\<close>: the HTTP interface.

  A request is what the program reads from \<open>*http.Request\<close>: the method, the path, the header
  \<open>authorization\<close>, the query parameters (absent and empty are the same to \<open>Query().Get\<close>) and, for
  each structure the program decodes a body into, the outcome of the JSON decoder.  A response is
  the status code and the value handed to the JSON encoder; the text of an error is its constant
  part, without the wrapped error.  A handler is an action on the connection; one that fails ends
  the goroutine by a panic, which \<open>recoverMiddleware\<close> turns into a 500, or the process.

  \<open>api\<close> holds what \<open>NewHandler\<close> is given and the outside values a request sees: the libraries, the
  clock, the value of \<open>gen_random_uuid()\<close> and the counters.
\<close>

section \<open>Requests and responses\<close>

record WithdrawalBody =
  wb_UserID :: string
  wb_QueryID :: string
  wb_Currency :: string
  wb_Amount :: Coins
  wb_Destination :: string
  wb_Comment :: string
  wb_BinaryComment :: string

record ServiceJettonBody =
  sjb_Owner :: string
  sjb_JettonMaster :: string

record http_request =
  req_Method :: string
  req_Path :: string
  req_Authorization :: string
  req_Query :: "string \<Rightarrow> string"
  req_NewAddress :: "error + (string \<times> string)"
  req_Withdrawal :: "error + WithdrawalBody"
  req_ServiceTon :: "error + string"
  req_ServiceJetton :: "error + ServiceJettonBody"

record WalletAddress =
  wa_Address :: string
  wa_Currency :: string

record totalIncome =
  toi_Address :: string
  toi_Amount :: string
  toi_Currency :: string

record income =
  inc_DepositAddress :: string
  inc_Time :: int
  inc_SourceAddress :: string
  inc_Amount :: string
  inc_Comment :: string
  inc_TxHash :: string

record GetBalanceResponse =
  gbr_Balance :: string
  gbr_Status :: string
  gbr_ProcessingAmount :: string
  gbr_PendingAmount :: string

datatype body =
    NoBody
  | ErrorBody string
  | NewAddressBody string
  | AddressesBody "WalletAddress list"
  | WithdrawalResponse int
  | SyncBody bool int
  | StatusBody string string WithdrawalStatus string
  | IncomeBody string "totalIncome list"
  | HistoryBody "income list"
  | IncomeByTxBody string income
  | MemoBody uuid
  | BalanceBody GetBalanceResponse
  | ResolveBody string
  | TextBody string

type_synonym response = "nat \<times> body"

record api =
  h_lib :: tonlib
  h_cfg :: config
  h_bc :: bcapi
  h_shard :: byte
  h_hotWalletAddress :: taddress
  h_BitStringFromFiftHex :: "string \<Rightarrow> error + nat"
  h_statusString :: "AccountStatus \<Rightarrow> string"
  h_now :: Time
  h_uuid :: uuid
  h_metrics :: metrics

type_synonym handler = "api \<Rightarrow> http_request \<Rightarrow> response dbact"

definition writeHttpError :: "nat \<Rightarrow> string \<Rightarrow> response dbact" where
  "writeHttpError status comment = retA (status, ErrorBody comment)"

text \<open>\<open>if err != nil { writeHttpError(...); return }\<close>.  A panic and \<open>log.Fatalf\<close> are not returned
  errors: they pass through.\<close>

definition crashes :: "error \<Rightarrow> bool" where
  "crashes e \<longleftrightarrow> (case e of Panicf m \<Rightarrow> True | Fatalf m \<Rightarrow> True | _ \<Rightarrow> False)"

definition orError :: "'a dbact \<Rightarrow> (error \<Rightarrow> response dbact) \<Rightarrow> ('a \<Rightarrow> response dbact) \<Rightarrow> response dbact" where
  "orError m onErr f c =
     (case m c of
        (c1, logs, Inr x) \<Rightarrow> (case f x c1 of (c2, logs2, r) \<Rightarrow> (c2, logs @ logs2, r))
      | (c1, logs, Inl e) \<Rightarrow>
          if crashes e then (c1, logs, Inl e)
          else (case onErr e c1 of (c2, logs2, r) \<Rightarrow> (c2, logs @ logs2, r)))"

definition read_book :: "(addressBook \<Rightarrow> 'a) \<Rightarrow> 'a dbact" where
  "read_book f c = (c, ok (f (conn_addressBook c)))"

section \<open>Text\<close>

definition is_digit :: "char \<Rightarrow> bool" where
  "is_digit c \<longleftrightarrow> 48 \<le> (of_char c :: nat) \<and> (of_char c :: nat) \<le> 57"

definition digits_value :: "string \<Rightarrow> int" where
  "digits_value ds = foldl (\<lambda>n c. n * 10 + (int (of_char c) - 48)) 0 ds"

text \<open>\<open>strconv.ParseInt(s, 10, 64)\<close>, which \<open>strconv.Atoi\<close> agrees with on a 64-bit machine.\<close>

definition ParseInt :: "string \<Rightarrow> error + int" where
  "ParseInt s =
     (let (neg, ds) = (case s of
                         c # cs \<Rightarrow> if c = CHR ''-'' then (True, cs) else if c = CHR ''+'' then (False, cs) else (False, s)
                       | [] \<Rightarrow> (False, []));
          n = (if neg then - digits_value ds else digits_value ds)
      in if ds = [] \<or> \<not> list_all is_digit ds then Inl (LibError ''invalid syntax'')
         else if n < - (2 ^ 63) \<or> 2 ^ 63 \<le> n then Inl (LibError ''value out of range'')
         else Inr n)"

definition show_int :: "int \<Rightarrow> string" where
  "show_int n = (if n < 0 then CHR ''-'' # show_nat (nat (- n)) else show_nat (nat n))"

definition hex_value :: "char \<Rightarrow> nat option" where
  "hex_value c =
     (let n = (of_char c :: nat) in
      if 48 \<le> n \<and> n \<le> 57 then Some (n - 48)
      else if 97 \<le> n \<and> n \<le> 102 then Some (n - 87)
      else if 65 \<le> n \<and> n \<le> 70 then Some (n - 55)
      else None)"

text \<open>\<open>hex.DecodeString\<close>.\<close>

fun hex_DecodeString :: "string \<Rightarrow> error + byte list" where
  "hex_DecodeString [] = Inr []"
| "hex_DecodeString [c] = Inl (LibError ''odd length hex string'')"
| "hex_DecodeString (c # d # cs) =
     (case (hex_value c, hex_value d) of
        (Some a, Some b) \<Rightarrow> andThenR (hex_DecodeString cs) (\<lambda>bs. Inr (of_nat (16 * a + b) # bs))
      | _ \<Rightarrow> Inl (LibError ''invalid byte''))"

section \<open>Validation and conversion\<close>

definition isValidCommentLen :: "string \<Rightarrow> bool" where
  "isValidCommentLen comment \<longleftrightarrow> length comment < MaxCommentLength"

definition isValidCurrency :: "config \<Rightarrow> string \<Rightarrow> bool" where
  "isValidCurrency cfg cur \<longleftrightarrow> cfg_Jettons cfg cur \<noteq> None \<or> cur = TonSymbol"

definition validateAddress :: "tonlib \<Rightarrow> config \<Rightarrow> string \<Rightarrow> error + (Address \<times> bool)" where
  "validateAddress lib cfg addr =
     (if addr = [] then Inl (Errorf ''empty address'')
      else case lib_ParseAddr lib addr of
        Inl e \<Rightarrow> Inl (Errorf ''invalid address'')
      | Inr a \<Rightarrow>
          if ta_TestnetOnly a \<and> \<not> cfg_Testnet cfg then Inl (Errorf ''address for testnet only'')
          else if ta_Workchain a \<noteq> DefaultWorkchain then Inl (Errorf ''address must be in workchain'')
          else andThenR (AddressFromTonutilsAddress (Some a)) (\<lambda>res. Inr (res, ta_Bounceable a)))"

definition convertWithdrawal :: "api \<Rightarrow> WithdrawalBody \<Rightarrow> error + WithdrawalRequest" where
  "convertWithdrawal h w =
     (if \<not> isValidCurrency (h_cfg h) (wb_Currency w) then Inl (Errorf ''invalid currency'')
      else case validateAddress (h_lib h) (h_cfg h) (wb_Destination w) of
        Inl e \<Rightarrow> Inl (Errorf ''invalid destination address'')
      | Inr (addr, bounceable) \<Rightarrow>
          if \<not> wb_Amount w > 0 then Inl (Errorf ''amount must be > 0'')
          else if wb_Comment w \<noteq> [] \<and> wb_BinaryComment w \<noteq> []
            then Inl (Errorf ''only one type of comment can be specified (comment OR binary comment)'')
          else if \<not> isValidCommentLen (wb_Comment w) \<or> \<not> isValidCommentLen (wb_BinaryComment w)
            then Inl (Errorf ''too long comment'')
          else
            let res = \<lparr>wr_QueryID = wb_QueryID w, wr_UserID = wb_UserID w, wr_Currency = wb_Currency w,
                       wr_Amount = wb_Amount w, wr_Bounceable = bounceable, wr_IsInternal = False,
                       wr_Destination = addr, wr_Comment = wb_Comment w, wr_BinaryComment = []\<rparr>
            in if wb_BinaryComment w \<noteq> [] then
                 (case h_BitStringFromFiftHex h (wb_BinaryComment w) of
                    Inl e \<Rightarrow> Inl (Errorf ''decode binary comment error'')
                  | Inr b \<Rightarrow> Inr (res\<lparr>wr_BinaryComment := wb_BinaryComment w\<rparr>))
               else Inr res)"

definition convertTonServiceWithdrawal :: "api \<Rightarrow> addressBook \<Rightarrow> string \<Rightarrow> error + ServiceWithdrawalRequest" where
  "convertTonServiceWithdrawal h ab from_str =
     (case validateAddress (h_lib h) (h_cfg h) from_str of
        Inl e \<Rightarrow> Inl (Errorf ''invalid from address'')
      | Inr (a, _) \<Rightarrow>
          (case GetWalletType ab a of
             None \<Rightarrow> Inl (Errorf ''unknown deposit address'')
           | Some ty \<Rightarrow>
               if ty \<noteq> JettonOwner then Inl (Errorf ''service withdrawal allowed only for Jetton deposit owner'')
               else Inr \<lparr>swr_From = a, swr_JettonMaster = None\<rparr>))"

definition convertJettonServiceWithdrawal ::
  "api \<Rightarrow> addressBook \<Rightarrow> ServiceJettonBody \<Rightarrow> error + ServiceWithdrawalRequest" where
  "convertJettonServiceWithdrawal h ab w =
     (case validateAddress (h_lib h) (h_cfg h) (sjb_Owner w) of
        Inl e \<Rightarrow> Inl (Errorf ''invalid from address'')
      | Inr (a, _) \<Rightarrow>
          (case GetWalletType ab a of
             None \<Rightarrow> Inl (Errorf ''unknown deposit address'')
           | Some ty \<Rightarrow>
               if ty \<noteq> JettonOwner \<and> ty \<noteq> TonDepositWallet
               then Inl (Errorf ''service withdrawal allowed only for Jetton deposit owner or TON deposit'')
               else case validateAddress (h_lib h) (h_cfg h) (sjb_JettonMaster w) of
                 Inl e \<Rightarrow> Inl (Errorf ''invalid jetton master address'')
               | Inr (jetton, _) \<Rightarrow> Inr \<lparr>swr_From = a, swr_JettonMaster = Some jetton\<rparr>))"

text \<open>The owner of a jetton deposit; the process ends when the book does not know it.\<close>

definition owner_format :: "api \<Rightarrow> addressBook \<Rightarrow> Address \<Rightarrow> error + string" where
  "owner_format h ab deposit =
     andThenR (GetOwner ab deposit) (\<lambda>owner.
     case owner of
       None \<Rightarrow> Inl (Fatalf ''can not find owner for deposit'')
     | Some a \<Rightarrow> Inr (Address_ToUserFormat (h_lib h) (h_cfg h) a))"

primrec convert_totals :: "api \<Rightarrow> addressBook \<Rightarrow> TotalIncome list \<Rightarrow> error + totalIncome list" where
  "convert_totals h ab [] = Inr []"
| "convert_totals h ab (b # bs) =
     andThenR (if ti_Currency b = TonSymbol then Inr (Address_ToUserFormat (h_lib h) (h_cfg h) (ti_Deposit b))
               else owner_format h ab (ti_Deposit b)) (\<lambda>a.
     andThenR (convert_totals h ab bs) (\<lambda>ts.
     Inr (\<lparr>toi_Address = a, toi_Amount = lib_CoinsString (h_lib h) (ti_Amount b), toi_Currency = ti_Currency b\<rparr> # ts)))"

definition convertIncome :: "api \<Rightarrow> addressBook \<Rightarrow> TotalIncome list \<Rightarrow> error + body" where
  "convertIncome h ab totalIncomes =
     andThenR (convert_totals h ab totalIncomes) (\<lambda>ts.
     Inr (IncomeBody (if cfg_IsDepositSideCalculation (h_cfg h) then ''deposit'' else ''hot_wallet'') ts))"

definition convertOneIncome :: "api \<Rightarrow> addressBook \<Rightarrow> string \<Rightarrow> ExternalIncome \<Rightarrow> error + income" where
  "convertOneIncome h ab currency i =
     andThenR (if currency = TonSymbol then Inr (Address_ToUserFormat (h_lib h) (h_cfg h) (ei_To i))
               else owner_format h ab (ei_To i)) (\<lambda>a.
     Inr \<lparr>inc_DepositAddress = a, inc_Time = uint (ei_Utime i),
          inc_SourceAddress =
            (case (ei_From i, ei_FromWorkchain i) of
               (Some bs, Some wc) \<Rightarrow>
                 if length bs = 32
                 then lib_AddrString (h_lib h)
                        ((lib_NewAddress (h_lib h) 0 (word_of_int wc) bs)\<lparr>ta_TestnetOnly := cfg_Testnet (h_cfg h)\<rparr>)
                 else []
             | _ \<Rightarrow> []),
          inc_Amount = lib_CoinsString (h_lib h) (ei_Amount i), inc_Comment = ei_Comment i,
          inc_TxHash = hex (ei_TxHash i)\<rparr>)"

primrec convertHistory :: "api \<Rightarrow> addressBook \<Rightarrow> string \<Rightarrow> ExternalIncome list \<Rightarrow> error + income list" where
  "convertHistory h ab currency [] = Inr []"
| "convertHistory h ab currency (i # is) =
     andThenR (convertOneIncome h ab currency i) (\<lambda>x.
     andThenR (convertHistory h ab currency is) (\<lambda>xs. Inr (x # xs)))"

end
