(* ===== verification/Api_Routes.thy ===== *)
theory Api_Routes
  imports Api_Handlers
begin

text \<open>
  The handlers of \<open>src/api/handlers.go\<close>, the middleware that wraps them and the routes.  The mutex of
  \<open>getNewAddress\<close> makes reading the last identifier and saving the wallet one step with respect to
  the other requests for a new address.
\<close>

section \<open>Handlers that change the state\<close>

definition generateAddress :: "api \<Rightarrow> string \<Rightarrow> string \<Rightarrow> string dbact" where
  "generateAddress h userID currency =
     bindA (read_db (GetLastSubwalletID (h_lib h))) (\<lambda>subwalletID.
     if currency = TonSymbol then
       bindA (liftE (bc_GenerateSubWallet (h_bc h) (cfg_Seed (h_cfg h)) (h_shard h) (subwalletID + 1))) (\<lambda>(w, i).
       bindA (liftE (AddressFromTonutilsAddress (Some w))) (\<lambda>a.
       bindA (connA (SaveTonWallet \<lparr>wd_SubwalletID = i, wd_UserID = userID, wd_Currency = TonSymbol,
                                    wd_Type = TonDepositWallet, wd_Address = a\<rparr>)) (\<lambda>_.
       retA (Address_ToUserFormat (h_lib h) (h_cfg h) a))))
     else
       case cfg_Jettons (h_cfg h) currency of
         None \<Rightarrow> failA (Errorf ''jetton address not found'')
       | Some jetton \<Rightarrow>
           bindA (liftE (bc_GenerateDepositJettonWalletForProxy (h_bc h) (h_shard h) (h_hotWalletAddress h)
                           (j_Master jetton) (subwalletID + 1))) (\<lambda>(proxy, addr).
           bindA (liftE (AddressFromTonutilsAddress (Some addr))) (\<lambda>jettonWalletAddr.
           bindA (liftE (AddressFromTonutilsAddress (Some (prx_address proxy)))) (\<lambda>proxyAddr.
           bindA (connA (SaveJettonWallet proxyAddr
                    \<lparr>wd_SubwalletID = prx_SubwalletID proxy, wd_UserID = userID, wd_Currency = currency,
                     wd_Type = JettonDepositWallet, wd_Address = jettonWalletAddr\<rparr> False)) (\<lambda>_.
           retA (Address_ToUserFormat (h_lib h) (h_cfg h) proxyAddr))))))"

definition handle_getNewAddress :: handler where
  "handle_getNewAddress h req =
     orError (liftE (req_NewAddress req)) (\<lambda>_. writeHttpError 400 ''decode payload data err'') (\<lambda>(userID, currency).
     if \<not> isValidCurrency (h_cfg h) currency then writeHttpError 400 ''invalid currency type''
     else
       orError (generateAddress h userID currency) (\<lambda>_. writeHttpError 500 ''generate address err'') (\<lambda>addr.
       retA (200, NewAddressBody addr)))"

definition handle_sendWithdrawal :: handler where
  "handle_sendWithdrawal h req =
     orError (liftE (req_Withdrawal req)) (\<lambda>_. writeHttpError 400 ''decode payload err'') (\<lambda>body.
     orError (liftE (convertWithdrawal h body)) (\<lambda>_. writeHttpError 400 ''convert withdrawal err'') (\<lambda>w.
     bindA (read_db (IsWithdrawalRequestUnique w)) (\<lambda>unique.
     if \<not> unique then writeHttpError 400 ''(user_id,query_id) not unique''
     else
       bindA (read_book (\<lambda>ab. GetWalletType ab (wr_Destination w))) (\<lambda>known.
       if known \<noteq> None then writeHttpError 400 ''withdrawal to service internal addresses not supported''
       else
         orError (write_db_res (SaveWithdrawalRequest w)) (\<lambda>_. writeHttpError 500 ''save withdrawal request err'') (\<lambda>i.
         retA (200, WithdrawalResponse i))))))"

definition save_service_request :: "api \<Rightarrow> ServiceWithdrawalRequest \<Rightarrow> response dbact" where
  "save_service_request h w =
     orError (write_db_res (\<lambda>t. case SaveServiceWithdrawalRequest (h_uuid h) w t of
                                  Inl e \<Rightarrow> (t, Inl e)
                                | Inr (t', memo) \<Rightarrow> (t', Inr memo)))
       (\<lambda>_. writeHttpError 500 ''save service withdrawal request err'') (\<lambda>memo.
     retA (200, MemoBody memo))"

definition handle_serviceTonWithdrawal :: handler where
  "handle_serviceTonWithdrawal h req =
     orError (liftE (req_ServiceTon req)) (\<lambda>_. writeHttpError 400 ''decode payload err'') (\<lambda>from_str.
     bindA (read_book (\<lambda>ab. convertTonServiceWithdrawal h ab from_str)) (\<lambda>r.
     orError (liftE r) (\<lambda>_. writeHttpError 400 ''convert service withdrawal err'') (save_service_request h)))"

definition handle_serviceJettonWithdrawal :: handler where
  "handle_serviceJettonWithdrawal h req =
     orError (liftE (req_ServiceJetton req)) (\<lambda>_. writeHttpError 400 ''decode payload err'') (\<lambda>body.
     bindA (read_book (\<lambda>ab. convertJettonServiceWithdrawal h ab body)) (\<lambda>r.
     orError (liftE r) (\<lambda>_. writeHttpError 400 ''convert service withdrawal err'') (save_service_request h)))"

section \<open>Handlers that only read\<close>

definition getAddresses :: "api \<Rightarrow> string \<Rightarrow> tables \<Rightarrow> error + WalletAddress list" where
  "getAddresses h userID t =
     (let user_format = Address_ToUserFormat (h_lib h) (h_cfg h);
          tonAddr = GetTonWalletsAddresses userID [TonDepositWallet] t
      in andThenR (GetJettonOwnersAddresses userID [JettonDepositWallet] t) (\<lambda>jettonAddr.
         Inr (map (\<lambda>a. \<lparr>wa_Address = user_format a, wa_Currency = TonSymbol\<rparr>) tonAddr
              @ map (\<lambda>ow. \<lparr>wa_Address = user_format (ow_Address ow), wa_Currency = ow_Currency ow\<rparr>) jettonAddr)))"

definition handle_getAddresses :: handler where
  "handle_getAddresses h req =
     (let userID = req_Query req ''user_id'' in
      if userID = [] then writeHttpError 400 ''need to provide user ID''
      else
        bindA (read_db (getAddresses h userID)) (\<lambda>r.
        orError (liftE r) (\<lambda>_. writeHttpError 500 ''get addresses err'') (\<lambda>addresses.
        retA (200, AddressesBody addresses))))"

definition handle_getSync :: handler where
  "handle_getSync h req =
     bindA (read_db (IsActualBlockData (h_cfg h) (h_now h))) (\<lambda>(isSynced, utime).
     retA (200, SyncBody isSynced utime))"

definition handle_getWithdrawalStatus :: handler where
  "handle_getWithdrawalStatus h req =
     (let ids = req_Query req ''id'' in
      if ids = [] then writeHttpError 400 ''need to provide request ID''
      else
        orError (liftE (ParseInt ids)) (\<lambda>_. writeHttpError 400 ''convert request ID err'') (\<lambda>i.
        bindA (read_db (GetExternalWithdrawalStatus i)) (\<lambda>r.
        orError (liftE r)
          (\<lambda>e. if e = ErrNotFound then writeHttpError 400 ''request ID not found''
               else writeHttpError 500 ''get external withdrawal status err'') (\<lambda>status.
        retA (200, StatusBody (wdt_UserID status) (wdt_QueryID status) (wdt_Status status)
                     (case wdt_TxHash status of None \<Rightarrow> [] | Some hash \<Rightarrow> hex hash))))))"

definition handle_getIncome :: handler where
  "handle_getIncome h req =
     (let userID = req_Query req ''user_id'' in
      if userID = [] then writeHttpError 400 ''need to provide user ID''
      else
        bindA (read_db (GetIncome userID (cfg_IsDepositSideCalculation (h_cfg h)))) (\<lambda>totalIncomes.
        bindA (read_book (\<lambda>ab. convertIncome h ab totalIncomes)) (\<lambda>r.
        bindA (liftE r) (\<lambda>res. retA (200, res)))))"

text \<open>The sort order: \<open>None\<close> is an invalid parameter.\<close>

definition sort_order :: "string \<Rightarrow> bool option" where
  "sort_order s =
     (let sort = strings_ToLower s in
      if sort = ''asc'' then Some True
      else if sort \<noteq> [] \<and> sort \<noteq> ''desc'' then None
      else Some False)"

definition handle_getIncomeHistory :: handler where
  "handle_getIncomeHistory h req =
     (let userID = req_Query req ''user_id''; currency = req_Query req ''currency'' in
      if userID = [] then writeHttpError 400 ''need to provide user ID''
      else if currency = [] then writeHttpError 400 ''need to provide currency''
      else if \<not> isValidCurrency (h_cfg h) currency then writeHttpError 400 ''invalid currency type''
      else
        orError (liftE (ParseInt (req_Query req ''limit''))) (\<lambda>_. writeHttpError 400 ''invalid limit parameter'') (\<lambda>limit.
        orError (liftE (ParseInt (req_Query req ''offset''))) (\<lambda>_. writeHttpError 400 ''invalid offset parameter'') (\<lambda>offset.
        case sort_order (req_Query req ''sort_order'') of
          None \<Rightarrow> writeHttpError 400 ''invalid sort order''
        | Some ascOrder \<Rightarrow>
            bindA (read_db (GetIncomeHistory userID currency limit offset ascOrder)) (\<lambda>r.
            orError (liftE r) (\<lambda>_. writeHttpError 500 ''get history err'') (\<lambda>history.
            bindA (read_book (\<lambda>ab. convertHistory h ab currency history)) (\<lambda>r.
            bindA (liftE r) (\<lambda>res. retA (200, HistoryBody res))))))))"

definition handle_getMetrics :: handler where
  "handle_getMetrics h req =
     retA (200, TextBody (concat (map counter_Print (AllMetrics (h_metrics h)))))"

definition handle_getIncomeByTx :: handler where
  "handle_getIncomeByTx h req =
     (let txHash = strings_ToLower (req_Query req ''tx_hash'') in
      orError (liftE (hex_DecodeString txHash)) (\<lambda>_. writeHttpError 400 ''get tx hash err'') (\<lambda>hash.
      if length hash \<noteq> 32 then writeHttpError 400 ''invalid hash len''
      else
        bindA (read_db (GetIncomeByTx hash)) (\<lambda>r.
        orError (liftE r)
          (\<lambda>e. if e = ErrNotFound then writeHttpError 404 ''transaction not found''
               else writeHttpError 500 ''get income by tx err'') (\<lambda>(oneIncome, currency).
        bindA (read_book (\<lambda>ab. convertOneIncome h ab currency oneIncome)) (\<lambda>r.
        bindA (liftE r) (\<lambda>inc. retA (200, IncomeByTxBody currency inc)))))))"

text \<open>The account whose balance is asked for, with the totals when it is the hot wallet.\<close>

definition balance_account :: "api \<Rightarrow> string \<Rightarrow> string \<Rightarrow> tables \<Rightarrow> error + (Address \<times> GetBalanceResponse)" where
  "balance_account h addr currency t =
     (let empty = \<lparr>gbr_Balance = [], gbr_Status = [], gbr_ProcessingAmount = [], gbr_PendingAmount = []\<rparr> in
      if addr \<noteq> [] then
        andThenR (validateAddress (h_lib h) (h_cfg h) addr) (\<lambda>(a, _). Inr (a, empty))
      else
        andThenR (AddressMustFromTonutilsAddress (Some (h_hotWalletAddress h))) (\<lambda>a.
        let amounts = GetTotalWithdrawalAmounts currency t in
        Inr (a, empty\<lparr>gbr_PendingAmount := lib_CoinsString (h_lib h) (twa_Pending amounts),
                      gbr_ProcessingAmount := lib_CoinsString (h_lib h) (twa_Processing amounts)\<rparr>)))"

text \<open>The currency was validated, so a currency other than TON has its entry in the map.\<close>

definition handle_getBalance :: handler where
  "handle_getBalance h req =
     (let currency = req_Query req ''currency'' in
      if currency = [] then writeHttpError 400 ''need to provide currency''
      else if \<not> isValidCurrency (h_cfg h) currency then writeHttpError 400 ''invalid currency type''
      else
        bindA (read_db (balance_account h (req_Query req ''address'') currency)) (\<lambda>r.
        orError (liftE r) (\<lambda>_. writeHttpError 400 ''invalid address'') (\<lambda>(a, res).
        let account = Address_ToTonutilsAddressStd (h_lib h) a 0 in
        if currency = TonSymbol then
          orError (liftE (bc_GetAccountCurrentState (h_bc h) account)) (\<lambda>_. writeHttpError 500 ''get TON balance err'')
            (\<lambda>(balance, status).
          retA (200, BalanceBody (res\<lparr>gbr_Status := strings_ToLower (h_statusString h status),
                                      gbr_Balance := show_int balance\<rparr>)))
        else
          case cfg_Jettons (h_cfg h) currency of
            None \<Rightarrow> failA (Panicf ''nil jetton master'')
          | Some jetton \<Rightarrow>
              orError (liftE (bc_GetJettonBalanceByOwner (h_bc h) account (j_Master jetton)))
                (\<lambda>_. writeHttpError 500 ''get jetton balance err'') (\<lambda>balance.
              retA (200, BalanceBody (res\<lparr>gbr_Balance := show_int balance\<rparr>))))))"

definition handle_getResolve :: handler where
  "handle_getResolve h req =
     (let domain = req_Query req ''domain'' in
      if domain = [] then writeHttpError 400 ''invalid domain''
      else
        orError (liftE (bc_DnsResolveSmc (h_bc h) domain))
          (\<lambda>e. if e = ErrNotFound then writeHttpError 404 ''smart contract DNS record not found''
               else writeHttpError 500 ''get DNS record err'') (\<lambda>addr.
        retA (200, ResolveBody (lib_AddrString (h_lib h)
                     (addr\<lparr>ta_TestnetOnly := cfg_Testnet (h_cfg h), ta_Bounceable := True\<rparr>)))))"

section \<open>Middleware and routes\<close>

definition checkToken :: "string \<Rightarrow> string \<Rightarrow> bool" where
  "checkToken authorization token =
     (let auth = strings_Split authorization (CHR '' '') in
      if length auth \<noteq> 2 then False
      else if auth ! 0 \<noteq> ''Bearer'' then False
      else auth ! 1 = token)"

definition recoverMiddleware :: "handler \<Rightarrow> handler" where
  "recoverMiddleware next_h h req c =
     (case next_h h req c of
        (c1, logs, Inl (Panicf m)) \<Rightarrow> (c1, logs, Inr (500, NoBody))
      | r \<Rightarrow> r)"

definition authMiddleware :: "handler \<Rightarrow> handler" where
  "authMiddleware next_h h req =
     (if \<not> checkToken (req_Authorization req) (cfg_APIToken (h_cfg h)) then retA (401, NoBody)
      else next_h h req)"

definition get_only :: "handler \<Rightarrow> handler" where
  "get_only next_h h req =
     (if req_Method req \<noteq> ''GET'' then writeHttpError 400 ''only GET method is supported'' else next_h h req)"

definition post_only :: "handler \<Rightarrow> handler" where
  "post_only next_h h req =
     (if req_Method req \<noteq> ''POST'' then writeHttpError 400 ''only POST method is supported'' else next_h h req)"

definition RegisterHandlers :: "(string \<times> handler) list" where
  "RegisterHandlers =
     [(''/v1/address/new'', recoverMiddleware (authMiddleware (post_only handle_getNewAddress))),
      (''/v1/address/all'', recoverMiddleware (authMiddleware (get_only handle_getAddresses))),
      (''/v1/withdrawal/send'', recoverMiddleware (authMiddleware (post_only handle_sendWithdrawal))),
      (''/v1/withdrawal/service/ton'', recoverMiddleware (authMiddleware (post_only handle_serviceTonWithdrawal))),
      (''/v1/withdrawal/service/jetton'', recoverMiddleware (authMiddleware (post_only handle_serviceJettonWithdrawal))),
      (''/v1/withdrawal/status'', recoverMiddleware (authMiddleware (get_only handle_getWithdrawalStatus))),
      (''/v1/system/sync'', recoverMiddleware (get_only handle_getSync)),
      (''/v1/income'', recoverMiddleware (authMiddleware (get_only handle_getIncome))),
      (''/v1/deposit/history'', recoverMiddleware (authMiddleware (get_only handle_getIncomeHistory))),
      (''/v1/deposit/income'', recoverMiddleware (authMiddleware (get_only handle_getIncomeByTx))),
      (''/v1/balance'', recoverMiddleware (authMiddleware (get_only handle_getBalance))),
      (''/v1/resolve'', recoverMiddleware (authMiddleware (get_only handle_getResolve))),
      (''/metrics'', recoverMiddleware (get_only handle_getMetrics))]"

text \<open>\<open>http.ServeMux\<close> on these patterns: a path is served by the handler registered for exactly it; every other path is refused (or redirected to its
  cleaned form, which is another request).\<close>

definition serve :: handler where
  "serve h req =
     (case map_of RegisterHandlers (req_Path req) of
        None \<Rightarrow> retA (404, NoBody)
      | Some f \<Rightarrow> f h req)"

end
