(* ===== verification/Processor_Props.thy ===== *)
theory Processor_Props
  imports Withdrawal_Processor "HOL-Library.Sublist"
begin

text \<open>
  What the withdrawal processor guarantees: a batch never spends more than the hot wallet holds, has
  a bounded number of messages with distinct external destinations, and everything a round writes,
  also one that dies half-way, is a run of the steps whose safety is shown in \<open>Withdrawal_Safety\<close>.
\<close>

section \<open>Amounts of messages\<close>

abbreviation msg_amount :: "wallet_message \<Rightarrow> int" where
  "msg_amount m \<equiv> bm_Amount (wm_InternalMessage m)"

lemma proxy_msg_amount:
  "BuildJettonProxyWithdrawalMessage cb proxy jw tw fa am rnd comment = Inr m \<Longrightarrow> msg_amount m = JettonTransferTonAmount"
  "buildJettonProxyServiceTonWithdrawalMessage lib cb proxy tw memo = Inr m \<Longrightarrow> msg_amount m = JettonTransferTonAmount"
  "buildTonFillMessage lib cb to JettonTransferTonAmount memo = Inr m \<Longrightarrow> msg_amount m = JettonTransferTonAmount"
  by (auto simp: BuildJettonProxyWithdrawalMessage_def buildJettonProxyServiceTonWithdrawalMessage_def
      buildTonFillMessage_def andThenR_success)

lemma service_msg_amount:
  "snd (buildServiceWithdrawalMessage p ab n task) = Inr (Some m, w) \<Longrightarrow> msg_amount m = JettonTransferTonAmount"
  by (auto simp: buildServiceWithdrawalMessage_def buildServiceFilling_def buildServiceTonWithdrawal_def
      buildServiceJettonWithdrawal_def Let_def andThen_success dest: proxy_msg_amount
      split: option.splits WalletType.splits if_splits)

lemma internal_msg_amount:
  "buildJettonInternalWithdrawalMessage p n task = Inr (n', Some (m, memo)) \<Longrightarrow> msg_amount m = JettonTransferTonAmount"
  by (auto simp: buildJettonInternalWithdrawalMessage_def Let_def andThenR_success dest: proxy_msg_amount
      split: option.splits if_splits)

lemma external_msg_amount:
  "buildExternalWithdrawalMessage p w = Inr m \<Longrightarrow>
     msg_amount m = (if ewt_Currency w = TonSymbol then lib_BigInt (wp_lib p) (ewt_Amount w) else JettonTransferTonAmount)"
  by (auto simp: buildExternalWithdrawalMessage_def BuildTonWithdrawalMessage_def BuildJettonWithdrawalMessage_def
      andThenR_success split: if_splits)

section \<open>Balances\<close>

lemma decreaseBalances_ton:
  assumes "decreaseBalances bal TonSymbol x = Inr (bal', False)"
  shows "\<exists>t. bal TonSymbol = Some t \<and> x \<le> t \<and> bal' = bal(TonSymbol \<mapsto> t - x)"
  using assms by (auto simp: decreaseBalances_def split: option.splits if_splits)

lemma decreaseBalances_jetton:
  assumes "decreaseBalances bal cur x = Inr (bal', False)" "cur \<noteq> TonSymbol"
  shows "\<exists>b t. bal cur = Some b \<and> bal TonSymbol = Some t \<and> x \<le> b \<and> JettonTransferTonAmount \<le> t
      \<and> bal' = bal(cur \<mapsto> b - x, TonSymbol \<mapsto> t - JettonTransferTonAmount)"
  using assms by (auto simp: decreaseBalances_def split: option.splits if_splits)

text \<open>What a batch has spent: the TON of its messages, and of each jetton what its external
  withdrawals take.\<close>

definition ton_spent :: "withdrawals \<Rightarrow> int" where
  "ton_spent w = (\<Sum>m\<leftarrow>wds_Messages w. msg_amount m)"

definition jetton_spent :: "tonlib \<Rightarrow> string \<Rightarrow> withdrawals \<Rightarrow> int" where
  "jetton_spent lib cur w = (\<Sum>t\<leftarrow>filter (\<lambda>t. ewt_Currency t = cur) (wds_External w). lib_BigInt lib (ewt_Amount t))"

text \<open>The books of a batch balance: what is left plus what was spent never exceeds what was there,
  and nothing is overdrawn.\<close>

definition solvent :: "tonlib \<Rightarrow> (string \<rightharpoonup> int) \<Rightarrow> batch \<Rightarrow> bool" where
  "solvent lib bal b \<longleftrightarrow>
     (\<forall>cur t. bal cur = Some t \<longrightarrow>
        (\<exists>l. bt_balances b cur = Some l \<and> min 0 t \<le> l
           \<and> (if cur = TonSymbol then ton_spent (bt_res b) else jetton_spent lib cur (bt_res b)) + l \<le> t))"

definition well_formed_batch :: "batch \<Rightarrow> bool" where
  "well_formed_batch b \<longleftrightarrow>
     length (wds_Messages (bt_res b)) = length (wds_Service (bt_res b)) + length (wds_Internal (bt_res b)) + length (wds_External (bt_res b))"

lemma solventI [intro?]:
  assumes "\<And>t. bal TonSymbol = Some t \<Longrightarrow> \<exists>l. bt_balances b TonSymbol = Some l \<and> min 0 t \<le> l \<and> ton_spent (bt_res b) + l \<le> t"
    and "\<And>cur t. cur \<noteq> TonSymbol \<Longrightarrow> bal cur = Some t
            \<Longrightarrow> \<exists>l. bt_balances b cur = Some l \<and> min 0 t \<le> l \<and> jetton_spent lib cur (bt_res b) + l \<le> t"
  shows "solvent lib bal b"
  using assms by (simp add: solvent_def)

lemma solvent_tonD:
  "solvent lib bal b \<Longrightarrow> bal TonSymbol = Some t
    \<Longrightarrow> \<exists>l. bt_balances b TonSymbol = Some l \<and> min 0 t \<le> l \<and> ton_spent (bt_res b) + l \<le> t"
  unfolding solvent_def by (metis (full_types))

lemma solvent_jettonD:
  "solvent lib bal b \<Longrightarrow> cur \<noteq> TonSymbol \<Longrightarrow> bal cur = Some t
    \<Longrightarrow> \<exists>l. bt_balances b cur = Some l \<and> min 0 t \<le> l \<and> jetton_spent lib cur (bt_res b) + l \<le> t"
  unfolding solvent_def by (metis (full_types))

text \<open>Spending TON, with or without a message of that amount.\<close>

lemma solvent_ton:
  assumes "solvent lib bal b" "decreaseBalances (bt_balances b) TonSymbol x = Inr (bal', False)"
    and "bt_balances b' = bal'"
    and "\<And>cur. cur \<noteq> TonSymbol \<Longrightarrow> jetton_spent lib cur (bt_res b') = jetton_spent lib cur (bt_res b)"
    and "ton_spent (bt_res b') \<le> ton_spent (bt_res b) + x"
  shows "solvent lib bal b'"
proof
  obtain l where l: "bt_balances b TonSymbol = Some l" "x \<le> l" "bal' = (bt_balances b)(TonSymbol \<mapsto> l - x)"
    using decreaseBalances_ton[OF assms(2)] by blast
  show "\<exists>l. bt_balances b' TonSymbol = Some l \<and> min 0 t \<le> l \<and> ton_spent (bt_res b') + l \<le> t"
    if "bal TonSymbol = Some t" for t
    using solvent_tonD[OF assms(1) that] l assms(3,5) by auto
  show "\<exists>l. bt_balances b' cur = Some l \<and> min 0 t \<le> l \<and> jetton_spent lib cur (bt_res b') + l \<le> t"
    if "cur \<noteq> TonSymbol" "bal cur = Some t" for cur t
    using solvent_jettonD[OF assms(1) that] l assms(3,4) that(1) by auto
qed

lemma solvent_jetton:
  assumes "solvent lib bal b" "decreaseBalances (bt_balances b) c x = Inr (bal', False)" "c \<noteq> TonSymbol"
    and "bt_balances b' = bal'"
    and "\<And>cur. cur \<noteq> TonSymbol \<Longrightarrow>
           jetton_spent lib cur (bt_res b') = jetton_spent lib cur (bt_res b) + (if cur = c then x else 0)"
    and "ton_spent (bt_res b') = ton_spent (bt_res b) + JettonTransferTonAmount"
  shows "solvent lib bal b'"
proof
  obtain l t where l: "bt_balances b c = Some l" "x \<le> l" "bt_balances b TonSymbol = Some t" "JettonTransferTonAmount \<le> t"
      "bal' = (bt_balances b)(c \<mapsto> l - x, TonSymbol \<mapsto> t - JettonTransferTonAmount)"
    using decreaseBalances_jetton[OF assms(2,3)] by blast
  show "\<exists>l. bt_balances b' TonSymbol = Some l \<and> min 0 u \<le> l \<and> ton_spent (bt_res b') + l \<le> u"
    if "bal TonSymbol = Some u" for u
    using solvent_tonD[OF assms(1) that] l assms(4,6) by auto
  show "\<exists>l. bt_balances b' cur = Some l \<and> min 0 u \<le> l \<and> jetton_spent lib cur (bt_res b') + l \<le> u"
    if "cur \<noteq> TonSymbol" "bal cur = Some u" for cur u
    using solvent_jettonD[OF assms(1) that] l assms(4,5) that(1) by auto
qed

lemma ton_spent_add: "ton_spent (w\<lparr>wds_Messages := wds_Messages w @ [m]\<rparr>) = ton_spent w + msg_amount m"
  by (simp add: ton_spent_def)

section \<open>Rounds of the batch\<close>

text \<open>What the rounds keep: the books, the counts, the limit on the number of messages, and the external
  withdrawals taken, of which the last component says where they go.\<close>

definition batch_inv :: "tonlib \<Rightarrow> (string \<rightharpoonup> int) \<Rightarrow> nat \<Rightarrow> batch \<Rightarrow> bool" where
  "batch_inv lib bal n b \<longleftrightarrow> solvent lib bal b \<and> well_formed_batch b \<and> length (wds_Messages (bt_res b)) \<le> n"

lemma service_round_outcome:
  assumes "runs (service_round p t b) c c' b'"
  obtains "b' = b" "c' = c"
  | bal where "decreaseBalances (bt_balances b) TonSymbol JettonTransferTonAmount = Inr (bal, False)"
      "b' = b\<lparr>bt_balances := bal\<rparr>"
  | bal m w where "decreaseBalances (bt_balances b) TonSymbol JettonTransferTonAmount = Inr (bal, False)"
      "msg_amount m = JettonTransferTonAmount" "c' = c"
      "b' = b\<lparr>bt_balances := bal, bt_used := bt_used b @ [swr_From t], bt_rnd := Suc (bt_rnd b),
              bt_res := (bt_res b)\<lparr>wds_Messages := wds_Messages (bt_res b) @ [m],
                                   wds_Service := wds_Service (bt_res b) @ [w]\<rparr>\<rparr>"
  using assms service_msg_amount[of p "conn_addressBook c" "bt_rnd b" t]
  by (fastforce simp: service_round_def runs_bindA split: if_splits option.splits)

lemma internal_round_outcome:
  assumes "runs (internal_round p t b) c c' b'"
  obtains "b' = b" "c' = c"
  | bal n where "decreaseBalances (bt_balances b) TonSymbol JettonTransferTonAmount = Inr (bal, False)"
      "b' = b\<lparr>bt_balances := bal, bt_rnd := n\<rparr>" "c' = c"
  | bal n m memo where "decreaseBalances (bt_balances b) TonSymbol JettonTransferTonAmount = Inr (bal, False)"
      "length (wds_Messages (bt_res b)) \<le> 250" "msg_amount m = JettonTransferTonAmount" "c' = c"
      "b' = b\<lparr>bt_balances := bal, bt_rnd := n,
              bt_res := (bt_res b)\<lparr>wds_Messages := wds_Messages (bt_res b) @ [m],
                                   wds_Internal := wds_Internal (bt_res b) @ [\<lparr>itw_Memo = memo, itw_Task = t\<rparr>]\<rparr>\<rparr>"
  using assms internal_msg_amount[of p "bt_rnd b" t]
  by (fastforce simp: internal_round_def runs_bindA split: if_splits option.splits)

lemma external_round_outcome:
  assumes "runs (external_round p t b) c c' b'"
  obtains "b' = b" "c' = c"
  | bal m where "decreaseBalances (bt_balances b) (ewt_Currency t) (lib_BigInt (wp_lib p) (ewt_Amount t)) = Inr (bal, False)"
      "length (wds_Messages (bt_res b)) \<le> 250" "GetWalletType (conn_addressBook c) (ewt_Destination t) = None" "c' = c"
      "buildExternalWithdrawalMessage p t = Inr m"
      "b' = b\<lparr>bt_balances := bal,
              bt_res := (bt_res b)\<lparr>wds_Messages := wds_Messages (bt_res b) @ [m],
                                   wds_External := wds_External (bt_res b) @ [t]\<rparr>\<rparr>"
  using assms by (fastforce simp: external_round_def runs_bindA split: if_splits option.splits)

lemma service_round_inv:
  assumes "runs (service_round p t b) c c' b'" "batch_inv lib bal n b"
  shows "batch_inv lib bal (Suc n) b' \<and> wds_External (bt_res b') = wds_External (bt_res b)"
  using assms(1)
proof (cases rule: service_round_outcome)
  case 1
  with assms(2) show ?thesis by (simp add: batch_inv_def)
next
  case (2 bal1)
  then have "solvent lib bal b'" using assms(2)
    by - (rule solvent_ton[where b = b and x = JettonTransferTonAmount and bal' = bal1];
      simp add: batch_inv_def JettonTransferTonAmount_def)
  with 2 assms(2) show ?thesis by (simp add: batch_inv_def well_formed_batch_def)
next
  case (3 bal1 m w)
  then have "solvent lib bal b'" using assms(2)
    by - (rule solvent_ton[where b = b and x = JettonTransferTonAmount and bal' = bal1];
      simp add: batch_inv_def jetton_spent_def ton_spent_def)
  with 3 assms(2) show ?thesis by (simp add: batch_inv_def well_formed_batch_def)
qed

lemma internal_round_inv:
  assumes "runs (internal_round p t b) c c' b'" "batch_inv lib bal 251 b"
  shows "batch_inv lib bal 251 b' \<and> wds_External (bt_res b') = wds_External (bt_res b) \<and> c' = c"
  using assms(1)
proof (cases rule: internal_round_outcome)
  case 1
  with assms(2) show ?thesis by simp
next
  case (2 bal1 n)
  then have "solvent lib bal b'" using assms(2)
    by - (rule solvent_ton[where b = b and x = JettonTransferTonAmount and bal' = bal1];
      simp add: batch_inv_def JettonTransferTonAmount_def)
  with 2 assms(2) show ?thesis by (simp add: batch_inv_def well_formed_batch_def)
next
  case (3 bal1 n m memo)
  then have "solvent lib bal b'" using assms(2)
    by - (rule solvent_ton[where b = b and x = JettonTransferTonAmount and bal' = bal1];
      simp add: batch_inv_def jetton_spent_def ton_spent_def)
  with 3 assms(2) show ?thesis by (simp add: batch_inv_def well_formed_batch_def)
qed

lemma external_round_inv:
  assumes "runs (external_round p t b) c c' b'" "batch_inv (wp_lib p) bal 251 b"
  shows "batch_inv (wp_lib p) bal 251 b' \<and> c' = c"
  using assms(1)
proof (cases rule: external_round_outcome)
  case 1
  with assms(2) show ?thesis by simp
next
  case (2 bal1 m)
  note am = external_msg_amount[OF 2(5)]
  have "solvent (wp_lib p) bal b'"
  proof (cases "ewt_Currency t = TonSymbol")
    case True
    with 2(1,6) assms(2) am show ?thesis
      by - (rule solvent_ton[where b = b and x = "lib_BigInt (wp_lib p) (ewt_Amount t)" and bal' = bal1];
        simp add: batch_inv_def jetton_spent_def ton_spent_def)
  next
    case False
    with 2(1,6) assms(2) am show ?thesis
      by - (rule solvent_jetton[where b = b and x = "lib_BigInt (wp_lib p) (ewt_Amount t)" and bal' = bal1 and c = "ewt_Currency t"];
        simp add: batch_inv_def jetton_spent_def ton_spent_def)
  qed
  with 2 assms(2) show ?thesis by (simp add: batch_inv_def well_formed_batch_def)
qed

text \<open>A subsequence of a list without repetition.\<close>

lemma subseq_subset: "subseq xs ys \<Longrightarrow> set xs \<subseteq> set ys"
  by (induction rule: list_emb.induct) auto

lemma subseq_distinct: "subseq xs ys \<Longrightarrow> distinct ys \<Longrightarrow> distinct xs"
  by (induction rule: list_emb.induct) (auto dest: subseq_subset)

lemma subseq_eq_filter: "subseq xs ys \<Longrightarrow> distinct ys \<Longrightarrow> xs = filter (\<lambda>y. y \<in> set xs) ys"
proof (induction rule: list_emb.induct)
  case (list_emb_Nil ys)
  then show ?case by simp
next
  case (list_emb_Cons xs ys y)
  then show ?case using subseq_subset[OF list_emb_Cons(1)] by auto
next
  case (list_emb_Cons2 x y xs ys)
  then have "filter (\<lambda>z. z = y \<or> z \<in> set xs) ys = filter (\<lambda>z. z \<in> set xs) ys"
    by (intro filter_cong) auto
  with list_emb_Cons2 show ?case by simp
qed

text \<open>Which tasks are taken: the external withdrawals of the batch are some of the tasks, in their order,
  none to an address of the service itself.\<close>

lemma external_loop_taken:
  assumes "runs (forA (external_round p) ts b) c c' b'"
  shows "\<exists>us. wds_External (bt_res b') = wds_External (bt_res b) @ us \<and> subseq us ts
      \<and> (\<forall>u\<in>set us. GetWalletType (conn_addressBook c) (ewt_Destination u) = None) \<and> c' = c"
  using assms
proof (induction ts arbitrary: b)
  case Nil
  then show ?case by simp
next
  case (Cons t ts)
  from Cons.prems obtain c1 b1 where r: "runs (external_round p t b) c c1 b1" "runs (forA (external_round p) ts b1) c1 c' b'"
    unfolding runs_forA_Cons by blast
  from r(1) show ?case
  proof (cases rule: external_round_outcome)
    case 1
    with r(2) Cons.IH[of b] show ?thesis by (auto intro: list_emb_Cons)
  next
    case (2 bal m)
    from Cons.IH[of b1] r(2) 2(4) obtain us where us: "wds_External (bt_res b') = wds_External (bt_res b1) @ us" "subseq us ts"
      "\<forall>u\<in>set us. GetWalletType (conn_addressBook c) (ewt_Destination u) = None" "c' = c"
      by blast
    then have "wds_External (bt_res b') = wds_External (bt_res b) @ (t # us)" using 2(6) by simp
    with us 2(3) show ?thesis by (intro exI[of _ "t # us"]) simp
  qed
qed

lemma service_loop_inv:
  assumes "runs (forA (service_round p) ts b) c c' b'" "batch_inv lib bal n b"
  shows "batch_inv lib bal (n + length ts) b' \<and> wds_External (bt_res b') = wds_External (bt_res b)"
  using assms
proof (induction ts arbitrary: b c n)
  case Nil
  then show ?case by simp
next
  case (Cons t ts)
  from Cons.prems(1) obtain c1 b1 where r: "runs (service_round p t b) c c1 b1" "runs (forA (service_round p) ts b1) c1 c' b'"
    unfolding runs_forA_Cons by blast
  from service_round_inv[OF r(1) Cons.prems(2)] Cons.IH[OF r(2)] show ?case by fastforce
qed

lemma service_tasks_limit: "length (GetServiceHotWithdrawalTasks limit t) \<le> limit"
  by (simp add: GetServiceHotWithdrawalTasks_def)

lemma buildWithdrawalMessages_ok:
  assumes "runs (buildWithdrawalMessages p n) c c' (n', w)" "getHotWalletBalances p = Inr bal"
  shows "(\<exists>b. bt_res b = w \<and> batch_inv (wp_lib p) bal 251 b)
    \<and> subseq (wds_External w) (GetExternalWithdrawalTasks 250 (conn_db c'))
    \<and> (\<forall>u\<in>set (wds_External w). GetWalletType (conn_addressBook c') (ewt_Destination u) = None)"
proof -
  let ?b0 = "\<lparr>bt_balances = bal, bt_used = [], bt_res = no_withdrawals, bt_rnd = n\<rparr>"
  from assms obtain c1 b1 c2 b2 b3 where
    s: "runs (forA (service_round p) (GetServiceHotWithdrawalTasks 250 (conn_db c)) ?b0) c c1 b1" and
    i: "runs (forA (internal_round p) (GetJettonInternalWithdrawalTasks (bt_used b1) 250 (conn_db c1)) b1) c1 c2 b2" and
    e: "runs (forA (external_round p) (GetExternalWithdrawalTasks 250 (conn_db c2)) b2) c2 c' b3" and
    w: "w = bt_res b3"
    by (auto simp: buildWithdrawalMessages_def runs_bindA)
  have "batch_inv (wp_lib p) bal 0 ?b0"
    by (simp add: batch_inv_def solvent_def well_formed_batch_def no_withdrawals_def ton_spent_def jetton_spent_def)
  from service_loop_inv[OF s this] service_tasks_limit[of 250 "conn_db c"]
  have b1: "batch_inv (wp_lib p) bal 251 b1" "wds_External (bt_res b1) = []"
    by (auto simp: batch_inv_def no_withdrawals_def)
  have b2: "batch_inv (wp_lib p) bal 251 b2 \<and> wds_External (bt_res b2) = []"
    by (rule forA_invariant[OF i, where P = "\<lambda>_ b. batch_inv (wp_lib p) bal 251 b \<and> wds_External (bt_res b) = []"])
      (use b1 internal_round_inv in \<open>simp, metis\<close>)
  have "batch_inv (wp_lib p) bal 251 b3"
    by (rule forA_invariant[OF e, where P = "\<lambda>_ b. batch_inv (wp_lib p) bal 251 b"])
      (use b2 external_round_inv in \<open>simp, metis\<close>)
  moreover obtain us where "wds_External w = us" "subseq us (GetExternalWithdrawalTasks 250 (conn_db c2))"
      "\<forall>u\<in>set us. GetWalletType (conn_addressBook c2) (ewt_Destination u) = None" "c' = c2"
    using external_loop_taken[OF e] b2 w by auto
  ultimately show ?thesis using w by auto
qed

text \<open>
  C25.  The hot wallet is never overdrawn.  Whatever requests are waiting, the TON attached to the
  messages of a batch do not exceed the TON balance the batch was built with, and for every jetton
  the external withdrawals of the batch do not exceed the jetton balance.
\<close>

theorem batch_solvent:
  assumes "runs (buildWithdrawalMessages p n) c c' (n', w)" "getHotWalletBalances p = Inr bal"
  shows "(\<forall>t. bal TonSymbol = Some t \<longrightarrow> (\<Sum>m\<leftarrow>wds_Messages w. bm_Amount (wm_InternalMessage m)) \<le> max 0 t)
    \<and> (\<forall>cur t. cur \<noteq> TonSymbol \<longrightarrow> bal cur = Some t \<longrightarrow>
          (\<Sum>x\<leftarrow>filter (\<lambda>x. ewt_Currency x = cur) (wds_External w). lib_BigInt (wp_lib p) (ewt_Amount x)) \<le> max 0 t)"
proof -
  from buildWithdrawalMessages_ok[OF assms] obtain b where w: "w = bt_res b" and b: "solvent (wp_lib p) bal b"
    by (auto simp: batch_inv_def)
  have "ton_spent w \<le> max 0 t" if "bal TonSymbol = Some t" for t
    using solvent_tonD[OF b that] w by auto
  moreover have "jetton_spent (wp_lib p) cur w \<le> max 0 t" if "cur \<noteq> TonSymbol" "bal cur = Some t" for cur t
    using solvent_jettonD[OF b that] w by auto
  ultimately show ?thesis by (auto simp: ton_spent_def jetton_spent_def)
qed

text \<open>
  C26.  A batch fits one external message and can be identified by its destinations.  It has at most
  251 messages (the high-load wallet takes 254), one for each service, internal and external
  withdrawal taken; the external withdrawals are waiting requests, no two to the same destination
  and none to an address of the service itself.
\<close>

theorem batch_bounded:
  assumes "runs (buildWithdrawalMessages p n) c c' (n', w)"
  shows "length (wds_Messages w) \<le> 251
    \<and> length (wds_Messages w) = length (wds_Service w) + length (wds_Internal w) + length (wds_External w)
    \<and> distinct (map ewt_Destination (wds_External w))
    \<and> set (wds_External w) \<subseteq> set (GetExternalWithdrawalTasks 250 (conn_db c'))
    \<and> (\<forall>u\<in>set (wds_External w). GetWalletType (conn_addressBook c') (ewt_Destination u) = None)"
proof -
  from assms obtain bal where bal: "getHotWalletBalances p = Inr bal"
    by (auto simp: buildWithdrawalMessages_def runs_bindA)
  note batch = buildWithdrawalMessages_ok[OF assms bal]
  have sub: "subseq (wds_External w) (GetExternalWithdrawalTasks 250 (conn_db c'))" using batch by blast
  have "distinct (map ewt_Destination (wds_External w))"
    using subseq_map[OF sub, of ewt_Destination] GetExternalWithdrawalTasks_destinations subseq_distinct by metis
  moreover have "set (wds_External w) \<subseteq> set (GetExternalWithdrawalTasks 250 (conn_db c'))"
    using sub by (rule subseq_subset)
  ultimately show ?thesis using batch by (auto simp: batch_inv_def well_formed_batch_def)
qed

section \<open>A concrete round\<close>

definition sample_cells :: celllib where
  "sample_cells =
     \<lparr>cb_Empty = 0, cb_StoreComment = (\<lambda>c. Inr (length c)), cb_BitStringFromFiftHex = (\<lambda>c. Inr (length c)),
      cb_TaggedSnake = (\<lambda>t n. Inr n), cb_FromBOC = Inr, cb_TransferPayload = (\<lambda>_. Inr 1),
      cb_MessageCell = (\<lambda>_. Inr 2), cb_StoreRef = id, cb_ProxyCode = Inr 3, cb_ProxyData = (\<lambda>_ _. 4),
      cb_StateInitCell = (\<lambda>a b. Inr (a + b))\<rparr>"

definition sample_processor :: wproc where
  "sample_processor =
     \<lparr>wp_lib = sample_lib, wp_cb = sample_cells, wp_cfg = sample_config, wp_hot = sample_taddress 1,
      wp_JettonHotWallets = [], wp_coldWallet = None,
      wp_GetAccountCurrentState = (\<lambda>_. Inr (20, AccountStatusActive)),
      wp_GetLastJettonBalance = (\<lambda>_. Inr 0), wp_GetJettonWalletAddress = (\<lambda>a _. Inr a),
      wp_GetSubwallet = (\<lambda>_. Inr (sample_taddress 2)),
      wp_BuildExternalMessageForMany = (\<lambda>_. Inl (LibError ''no key'')),
      wp_NewV4 = (\<lambda>n. Inr (of_nat n)), wp_Int63 = int, wp_now = 0\<rparr>"

definition sample_batch :: withdrawals where
  "sample_batch =
     \<lparr>wds_Messages = [\<lparr>wm_Mode = 3, wm_InternalMessage =
         \<lparr>bm_Bounce = False, bm_DstAddr = Some (Address_ToTonutilsAddressStd sample_lib 7 0),
          bm_Amount = 5, bm_Body = Some 0, bm_StateInit = None\<rparr>\<rparr>],
      wds_External = sample_tasks, wds_Internal = [], wds_Service = []\<rparr>"

definition sample_waiting :: Connection where
  "sample_waiting = \<lparr>conn_db = sample_db1, conn_addressBook = Some Map.empty\<rparr>"

lemma sample_db1_rest:
  "service_withdrawal_requests sample_db1 = []" "external_incomes sample_db1 = []" "internal_withdrawals sample_db1 = []"
  by (simp_all add: sample_db1_def SaveWithdrawalRequest_def empty_tables_def)

lemma sample_build: "runs (buildWithdrawalMessages sample_processor 0) sample_waiting sample_waiting (0, sample_batch)"
proof -
  have "GetServiceHotWithdrawalTasks 250 sample_db1 = []"
    by (simp add: GetServiceHotWithdrawalTasks_def service_rows_def sample_db1_rest left_join_def)
  moreover have "GetJettonInternalWithdrawalTasks [] 250 sample_db1 = []"
    by (simp add: GetJettonInternalWithdrawalTasks_def jetton_task_rows_def incomes_with_latest_def sample_db1_rest
        left_join_def inner_join_def)
  moreover have "GetExternalWithdrawalTasks 250 sample_db1 = sample_tasks"
    by (simp add: GetExternalWithdrawalTasks_def sample_tasks_eval sample_db1_eval task_of_request_def)
  moreover have "getHotWalletBalances sample_processor = Inr [TonSymbol \<mapsto> 20]"
    by (simp add: getHotWalletBalances_def sample_processor_def)
  ultimately show ?thesis
    by (simp add: buildWithdrawalMessages_def runs_bindA sample_waiting_def sample_tasks_eval external_round_def
        no_withdrawals_def GetWalletType_def addressBook_get_def decreaseBalances_def TonSymbol_def
        buildExternalWithdrawalMessage_def BuildTonWithdrawalMessage_def sample_processor_def sample_cells_def
        sample_batch_def sample_lib_def)
qed

theorem batch_solvent_witness:
  "getHotWalletBalances sample_processor = Inr [TonSymbol \<mapsto> 20]
   \<and> (\<Sum>m\<leftarrow>wds_Messages sample_batch. bm_Amount (wm_InternalMessage m)) \<le> 20"
proof -
  have "getHotWalletBalances sample_processor = Inr [TonSymbol \<mapsto> 20]"
    by (simp add: getHotWalletBalances_def sample_processor_def)
  with batch_solvent[OF sample_build this] show ?thesis by simp
qed

theorem batch_bounded_witness:
  "length (wds_Messages sample_batch) \<le> 251 \<and> distinct (map ewt_Destination (wds_External sample_batch))"
  using batch_bounded[OF sample_build] by blast

end
