(* ===== verification/Processor_Steps.thy ===== *)
theory Processor_Steps
  imports Processor_Props
begin

text \<open>
  The rounds of the withdrawal processor refine the steps of \<open>Withdrawal_Steps\<close>: everything a round
  writes, also one that ends the process half-way, is a run of those steps.
\<close>

section \<open>Runs of the connection\<close>

lemma sys_reach_trans: "sys_reach lib cfg s t \<Longrightarrow> sys_reach lib cfg t u \<Longrightarrow> sys_reach lib cfg s u"
  by (rotate_tac 1, induction rule: sys_reach.induct) (auto intro: reach_step)

text \<open>From \<open>c\<close> the storage steps lead to \<open>c'\<close>, with no batch under way before and after.\<close>

definition reach_conn :: "tonlib \<Rightarrow> config \<Rightarrow> Connection \<Rightarrow> Connection \<Rightarrow> bool" where
  "reach_conn lib cfg c c' \<longleftrightarrow> sys_reach lib cfg \<lparr>sys_conn = c, sys_picked = []\<rparr> \<lparr>sys_conn = c', sys_picked = []\<rparr>"

interpretation reaching: run_relation "reach_conn lib cfg" for lib cfg
  by unfold_locales (auto simp: reach_conn_def intro: reach_start sys_reach_trans)

lemma one_step:
  "sys_step lib cfg \<lparr>sys_conn = c, sys_picked = []\<rparr> s \<Longrightarrow> s = \<lparr>sys_conn = c', sys_picked = []\<rparr> \<Longrightarrow> reach_conn lib cfg c c'"
  by (auto simp: reach_conn_def intro: reach_step reach_start)

lemma reach_pure_db:
  "preserves (reach_conn lib cfg) (read_db f)" "preserves (reach_conn lib cfg) (liftE r)" "preserves (reach_conn lib cfg) (auditA a)"
  by (simp_all add: preserves_def read_db_def liftE_def liftA_def auditA_def reaching.R_refl)

lemma fatalA_state: "fst (fatalA msg m c) = fst (m c)"
  by (auto simp: fatalA_def split: prod.splits sum.splits error.splits)

lemma reach_fatalA: "preserves (reach_conn lib cfg) m \<Longrightarrow> preserves (reach_conn lib cfg) (fatalA msg m)"
  by (simp add: preserves_def fatalA_state)

lemma reach_service_update:
  "preserves (reach_conn lib cfg) (write_db (UpdateServiceWithdrawalRequest task am e filled))"
  unfolding preserves_def write_db_def
proof
  fix c
  show "reach_conn lib cfg c (fst (c\<lparr>conn_db := UpdateServiceWithdrawalRequest task am e filled (conn_db c)\<rparr>, ok ()))"
    by (rule one_step[OF service_sent[of lib cfg _ task am e filled]]) simp
qed

lemma reach_request: "preserves (reach_conn lib cfg) (write_db_res (SaveWithdrawalRequest w))"
  unfolding preserves_def write_db_res_def
proof
  fix c
  show "reach_conn lib cfg c (fst (c\<lparr>conn_db := fst (SaveWithdrawalRequest w (conn_db c))\<rparr>,
      lift_res (snd (SaveWithdrawalRequest w (conn_db c)))))"
    by (rule one_step[OF request[of w _ "fst (SaveWithdrawalRequest w (conn_db c))" "snd (SaveWithdrawalRequest w (conn_db c))"]]) simp_all
qed

lemma reach_internal_task:
  "preserves (reach_conn lib cfg)
     (write_db_res (\<lambda>t. case SaveInternalWithdrawalTask task e memo t of Inl x \<Rightarrow> (t, Inl x) | Inr t' \<Rightarrow> (t', Inr ())))"
  unfolding preserves_def write_db_res_def
proof
  fix c
  show "reach_conn lib cfg c (fst (c\<lparr>conn_db := fst (case SaveInternalWithdrawalTask task e memo (conn_db c) of
        Inl x \<Rightarrow> (conn_db c, Inl x) | Inr t' \<Rightarrow> (t', Inr ()))\<rparr>,
      lift_res (snd (case SaveInternalWithdrawalTask task e memo (conn_db c) of Inl x \<Rightarrow> (conn_db c, Inl x) | Inr t' \<Rightarrow> (t', Inr ())))))"
  proof (cases "SaveInternalWithdrawalTask task e memo (conn_db c)")
    case (Inl x)
    then show ?thesis by (simp add: reaching.R_refl)
  next
    case (Inr t)
    show ?thesis by (rule one_step[OF internal_sent[of task e memo _ t]]) (simp_all add: Inr)
  qed
qed

lemmas reach_rules = reaching.rules reaching.loop reach_pure_db reach_fatalA reach_service_update reach_request reach_internal_task

text \<open>A batch picked from the waiting requests and recorded at once.\<close>

lemma reach_recorded:
  assumes "us = filter keep (GetExternalWithdrawalTasks limit (conn_db c))"
  shows "reach_conn lib cfg c (c\<lparr>conn_db := fst (CreateExternalWithdrawals us u e (conn_db c))\<rparr>)"
proof -
  have "sys_step lib cfg \<lparr>sys_conn = c, sys_picked = []\<rparr> \<lparr>sys_conn = c, sys_picked = us\<rparr>"
    using pick[of "\<lparr>sys_conn = c, sys_picked = []\<rparr>" us keep limit lib cfg] assms by simp
  moreover have "sys_step lib cfg \<lparr>sys_conn = c, sys_picked = us\<rparr>
      \<lparr>sys_conn = c\<lparr>conn_db := fst (CreateExternalWithdrawals us u e (conn_db c))\<rparr>, sys_picked = []\<rparr>"
    using record_sent[of "\<lparr>sys_conn = c, sys_picked = us\<rparr>" u e "fst (CreateExternalWithdrawals us u e (conn_db c))"
        "snd (CreateExternalWithdrawals us u e (conn_db c))"] by simp
  ultimately show ?thesis unfolding reach_conn_def by (blast intro: reach_start reach_step)
qed

section \<open>The rounds\<close>

lemma reach_cold_jetton: "preserves (reach_conn lib cfg) (cold_jetton_round p dest x st)"
  by (cases x; cases st) (auto simp: cold_jetton_round_def intro!: reach_rules)

lemma reach_cold_ton: "preserves (reach_conn lib cfg) (cold_ton_request p dest w st)"
  by (cases st) (auto simp: cold_ton_request_def intro!: reach_rules)

lemma reach_cold: "preserves (reach_conn lib cfg) (makeColdWalletWithdrawals p n)"
  unfolding makeColdWalletWithdrawals_def by (intro reach_rules reach_cold_jetton reach_cold_ton)

lemma reach_service_round: "preserves (reach_conn lib cfg) (service_round p t b)"
  unfolding service_round_def by (intro reach_rules)

lemma reach_internal_round: "preserves (reach_conn lib cfg) (internal_round p t b)"
  unfolding internal_round_def by (intro reach_rules)

lemma reach_external_round: "preserves (reach_conn lib cfg) (external_round p t b)"
  unfolding external_round_def by (intro reach_rules)

lemma reach_build: "preserves (reach_conn lib cfg) (buildWithdrawalMessages p n)"
  unfolding buildWithdrawalMessages_def
  by (intro reach_rules reach_service_round reach_internal_round reach_external_round)

lemma batch_is_picked:
  assumes "runs (buildWithdrawalMessages p n) c c' (n', w)"
  shows "\<exists>keep. wds_External w = filter keep (GetExternalWithdrawalTasks 250 (conn_db c'))"
proof -
  from assms obtain bal where "getHotWalletBalances p = Inr bal"
    by (auto simp: buildWithdrawalMessages_def runs_bindA)
  then have "subseq (wds_External w) (GetExternalWithdrawalTasks 250 (conn_db c'))"
    using buildWithdrawalMessages_ok[OF assms] by blast
  moreover have "distinct (GetExternalWithdrawalTasks 250 (conn_db c'))"
    using GetExternalWithdrawalTasks_destinations distinct_map by blast
  ultimately show ?thesis using subseq_eq_filter by blast
qed

text \<open>Calls that leave the connection alone, in front of the rest of a round that starts at \<open>c\<close>.\<close>

lemma reach_after_call:
  assumes "\<And>x. reach_conn lib cfg c (fst (f x c))"
  shows "reach_conn lib cfg c (fst (bindA (fatalA msg (liftE r)) f c))"
proof -
  have "fst (bindA (fatalA msg (liftE r)) f c) \<in> insert c (range (\<lambda>x. fst (f x c)))"
    by (auto simp: bindA_def fatalA_def liftE_def liftA_def lift_res_def orFatal_def
        split: prod.splits sum.splits error.splits)
  with assms show ?thesis by (auto simp: reaching.R_refl)
qed

lemma reach_recording:
  assumes "us = filter keep (GetExternalWithdrawalTasks limit (conn_db c))" "\<And>x. preserves (reach_conn lib cfg) (f x)"
  shows "reach_conn lib cfg c (fst (bindA (fatalA msg (write_db_res (CreateExternalWithdrawals us u e))) f c))"
proof -
  let ?m = "fatalA msg (write_db_res (CreateExternalWithdrawals us u e)) :: unit dbact"
  have "fst (?m c) = c\<lparr>conn_db := fst (CreateExternalWithdrawals us u e (conn_db c))\<rparr>"
    by (simp add: fatalA_state write_db_res_def)
  then have m: "reach_conn lib cfg c (fst (?m c))" using reach_recorded[OF assms(1)] by metis
  have "fst (bindA ?m f c) = fst (?m c) \<or> (\<exists>x. fst (bindA ?m f c) = fst (f x (fst (?m c))))"
    by (auto simp: bindA_def split: prod.splits sum.splits)
  then show ?thesis
  proof
    assume "fst (bindA ?m f c) = fst (?m c)"
    with m show ?thesis by simp
  next
    assume "\<exists>x. fst (bindA ?m f c) = fst (f x (fst (?m c)))"
    then obtain x where "fst (bindA ?m f c) = fst (f x (fst (?m c)))" by blast
    then show ?thesis using reaching.R_trans[OF m preservesD[OF assms(2)]] by simp
  qed
qed

lemma reach_updates:
  "preserves (reach_conn lib cfg) (update_service ttl sw u)" "preserves (reach_conn lib cfg) (save_internal ttl iw u)"
  unfolding update_service_def save_internal_def by (rule reach_service_update reach_internal_task)+

lemma reach_round: "preserves (reach_conn lib cfg) (withdrawals_round p n)"
  unfolding withdrawals_round_def
proof (rule reaching.bind[OF reach_fatalA[OF reach_cold]], rule reaching.bind_runs[OF reach_fatalA[OF reach_build]])
  fix n1 c c' x
  assume "runs (fatalA ''make withdrawal messages error'' (buildWithdrawalMessages p n1)) c c' x"
  then obtain n2 w where x: "x = (n2, w)" and w: "runs (buildWithdrawalMessages p n1) c c' (n2, w)"
    by (cases x) auto
  obtain keep where keep: "wds_External w = filter keep (GetExternalWithdrawalTasks 250 (conn_db c'))"
    using batch_is_picked[OF w] by blast
  have rest: "preserves (reach_conn lib cfg)
     (bindA (fatalA ''update service withdrawal error'' (forA (update_service ttl) (wds_Service w) ())) (\<lambda>_.
      bindA (fatalA ''save internal withdrawal error'' (forA (save_internal ttl) (wds_Internal w) ())) (\<lambda>_.
      retA (n2, Some extMsg))))" for ttl extMsg
    by (intro reach_rules reach_updates)
  show "reach_conn lib cfg c' (fst ((case x of (n2, w) \<Rightarrow>
     if wds_Messages w = [] then retA (n2, None)
     else
       bindA (fatalA ''build hotwallet external msg error'' (liftE (wp_BuildExternalMessageForMany p (wds_Messages w)))) (\<lambda>extMsg.
       bindA (fatalA ''get external message uuid error'' (liftE (getHighLoadWalletExtMsgInfo (wp_lib p) extMsg))) (\<lambda>info.
       bindA (fatalA ''save external withdrawals error''
                (write_db_res (CreateExternalWithdrawals (wds_External w) (hl_UUID info) (hl_TTL info)))) (\<lambda>_.
       bindA (fatalA ''update service withdrawal error'' (forA (update_service (hl_TTL info)) (wds_Service w) ())) (\<lambda>_.
       bindA (fatalA ''save internal withdrawal error'' (forA (save_internal (hl_TTL info)) (wds_Internal w) ())) (\<lambda>_.
       retA (n2, Some extMsg))))))) c'))"
  proof (cases "wds_Messages w = []")
    case True
    then show ?thesis by (simp add: x retA_def reaching.R_refl)
  next
    case False
    then show ?thesis unfolding x prod.case if_not_P[OF False]
      by (intro reach_after_call reach_recording[OF keep] rest)
  qed
qed

lemma reach_deposits: "preserves (reach_conn lib cfg) (internal_ton_round p n)"
  unfolding internal_ton_round_def service_deposit_step_def ton_deposit_step_def withdrawTONsFromDeposit_def
    serviceWithdrawJettons_def
  by (intro reach_rules)

end
