(* ===== verification/Request_Frame.thy ===== *)
theory Request_Frame
  imports Processor_Steps
begin

text \<open>
  What happens to the table of withdrawal requests: no operation removes or rewrites a request, a
  processed request stays processed, and rows are only appended.  \<open>grows P\<close> says so of two states,
  with \<open>P\<close> a property of the rows appended.
\<close>

definition same_or_done :: "withdrawal_requests_row \<Rightarrow> withdrawal_requests_row \<Rightarrow> bool" where
  "same_or_done r r' \<longleftrightarrow> request_static r' = request_static r \<and> (rq_processed r \<longrightarrow> rq_processed r')"

definition grows :: "(withdrawal_requests_row \<Rightarrow> bool) \<Rightarrow> tables \<Rightarrow> tables \<Rightarrow> bool" where
  "grows P t t' \<longleftrightarrow>
     (\<exists>ys new. withdrawal_requests t' = ys @ new \<and> list_all2 same_or_done (withdrawal_requests t) ys \<and> (\<forall>r\<in>set new. P r))"

lemma same_or_done_refl: "same_or_done r r"
  by (simp add: same_or_done_def)

lemma same_or_done_trans: "same_or_done r s \<Longrightarrow> same_or_done s u \<Longrightarrow> same_or_done r u"
  by (simp add: same_or_done_def)

lemma same_or_done_fields:
  assumes "same_or_done r r'"
  shows "rq_is_internal r' = rq_is_internal r" "rq_dest_address r' = rq_dest_address r" "rq_currency r' = rq_currency r"
    "rq_user_id r' = rq_user_id r" "rq_user_query_id r' = rq_user_query_id r" "rq_query_id r' = rq_query_id r"
    "rq_amount r' = rq_amount r" "\<not> rq_processed r' \<Longrightarrow> \<not> rq_processed r"
  using assms by (cases r; cases r'; simp add: same_or_done_def request_static_def)+

lemma grows_same: "withdrawal_requests t' = withdrawal_requests t \<Longrightarrow> grows P t t'"
  unfolding grows_def by (rule exI[of _ "withdrawal_requests t"]) (simp add: list_all2_refl same_or_done_refl)

lemma grows_trans:
  assumes "\<And>r r'. P r \<Longrightarrow> same_or_done r r' \<Longrightarrow> P r'" "grows P t u" "grows P u v"
  shows "grows P t v"
proof -
  from assms(2) obtain ys new where u: "withdrawal_requests u = ys @ new"
    "list_all2 same_or_done (withdrawal_requests t) ys" "\<forall>r\<in>set new. P r" unfolding grows_def by blast
  from assms(3) u(1) obtain ys1 ys2 new1 where v: "withdrawal_requests v = (ys1 @ ys2) @ new1"
    "list_all2 same_or_done ys ys1" "list_all2 same_or_done new ys2" "\<forall>r\<in>set new1. P r"
    unfolding grows_def by (metis list_all2_append1)
  have "list_all2 same_or_done (withdrawal_requests t) ys1"
    by (rule list_all2_trans[OF same_or_done_trans u(2) v(2)])
  moreover have "\<forall>r\<in>set ys2. P r"
    using v(3) u(3) assms(1) by (metis in_set_conv_nth list_all2_conv_all_nth)
  ultimately show ?thesis using v(1,4) unfolding grows_def by (intro exI[of _ ys1] exI[of _ "ys2 @ new1"]) auto
qed

lemma grows_update:
  assumes "withdrawal_requests t' = update_where hit f (withdrawal_requests t)" "\<And>r. same_or_done r (f r)"
  shows "grows P t t'"
  unfolding grows_def assms(1)
  by (rule exI[of _ "update_where hit f (withdrawal_requests t)"])
    (simp add: update_where_def list_all2_map2 list_all2_conv_all_nth assms(2) same_or_done_refl)

lemma grows_weaken: "grows P t t' \<Longrightarrow> (\<And>r. P r \<Longrightarrow> Q r) \<Longrightarrow> grows Q t t'"
  unfolding grows_def by blast

text \<open>A request that was stored is found again.\<close>

lemma grows_member:
  assumes "grows P t t'" "r \<in> set (withdrawal_requests t)"
  obtains r' where "r' \<in> set (withdrawal_requests t')" "same_or_done r r'"
  using assms unfolding grows_def by (metis Un_iff in_set_conv_nth list_all2_conv_all_nth set_append)

section \<open>The operations\<close>

abbreviation (input) never :: "withdrawal_requests_row \<Rightarrow> bool" where
  "never \<equiv> \<lambda>_. False"

lemma never_trans: "grows never t u \<Longrightarrow> grows never u v \<Longrightarrow> grows never t v"
  by (rule grows_trans) simp_all

lemma never_weaken: "grows never t t' \<Longrightarrow> grows P t t'"
  by (erule grows_weaken) simp

lemma grows_request: "SaveWithdrawalRequest w t = (t', res) \<Longrightarrow> grows (\<lambda>r. rq_is_internal r = wr_IsInternal w) t t'"
  unfolding grows_def
  by (rule exI[of _ "withdrawal_requests t"])
    (auto simp: SaveWithdrawalRequest_def Let_def list_all2_refl same_or_done_refl split: if_splits)

lemma grows_create: "snd (create_external_withdrawal u e task t) = Inr t' \<Longrightarrow> grows never t t'"
  by (rule grows_update[where f = "\<lambda>r. r\<lparr>rq_processing := True\<rparr>"])
    (auto simp: create_external_withdrawal_def same_or_done_def request_static_def split: if_splits)

lemma grows_forM:
  assumes "snd (forM f xs t) = Inr t'" "\<And>x u v. snd (f x u) = Inr v \<Longrightarrow> grows never u v"
  shows "grows never t t'"
  using assms(1) by (rule forM_invariant[where P = "grows never t"]) (auto intro: grows_same never_trans assms(2))

lemma grows_recorded: "CreateExternalWithdrawals tasks u e t = (t', res) \<Longrightarrow> grows never t t'"
  by (auto simp: CreateExternalWithdrawals_def split: sum.splits intro: grows_same grows_forM[OF _ grows_create])

lemma grows_expired: "grows never t (SetExpired cfg now1 now2 t)"
  by (rule grows_update[OF SetExpired_tables(1)[OF refl]]) (simp add: same_or_done_def request_static_def)

lemma grows_settled: "snd (updateExternalWithdrawal lib w t) = Inr t' \<Longrightarrow> grows never t t'"
  by (erule updateExternalWithdrawal_success, rule grows_update[where f = "\<lambda>r. r\<lparr>rq_processed := True\<rparr>"])
    (auto simp: mark_processed_def same_or_done_def request_static_def)

lemma grows_same_withdrawals: "same_withdrawals t t' \<Longrightarrow> grows P t t'"
  by (rule grows_same) (simp add: same_withdrawals_def)

lemma grows_confirmed: "snd (applyJettonWithdrawalConfirmation w t) = Inr t' \<Longrightarrow> grows never t t'"
  by (rule grows_same) (auto simp: applyJettonWithdrawalConfirmation_def)

lemma grows_block_saved: "snd (saveBlock h t) = Inr t' \<Longrightarrow> grows never t t'"
  by (rule grows_same) (auto simp: saveBlock_def Let_def split: if_splits)

lemma grows_block_tx:
  assumes "snd (parsed_block_tx lib ab ev t) = Inr t'"
  shows "grows never t t'"
proof -
  let ?e = "be_Events ev"
  from assms obtain t1 t2 t3 t4 t5 t6 where
    s: "snd (forM saveExternalIncome (ExternalIncomes ?e) t) = Inr t1"
    "snd (forM (saveInternalIncome lib ab) (InternalIncomes ?e) t1) = Inr t2"
    "snd (forM (applySendingConfirmations lib) (SendingConfirmations ?e) t2) = Inr t3"
    "snd (forM (updateInternalWithdrawal lib) (InternalWithdrawals ?e) t3) = Inr t4"
    "snd (forM (updateExternalWithdrawal lib) (ExternalWithdrawals ?e) t4) = Inr t5"
    "snd (forM applyJettonWithdrawalConfirmation (WithdrawalConfirmations ?e) t5) = Inr t6"
    and last: "snd (saveBlock (be_Block ev) t6) = Inr t'"
    unfolding parsed_block_tx_def Let_def andThen_success by blast
  have "grows never t t1" by (rule grows_forM[OF s(1)]) (rule grows_same_withdrawals[OF saveExternalIncome_same])
  also have "grows never t1 t2"
    by (rule grows_forM[OF s(2)]) (rule grows_same_withdrawals[OF saveInternalIncome_same])
  also (never_trans) have "grows never t2 t3"
    by (rule grows_forM[OF s(3)]) (rule grows_same_withdrawals[OF applySendingConfirmations_same])
  also (never_trans) have "grows never t3 t4"
    by (rule grows_forM[OF s(4)]) (rule grows_same_withdrawals[OF updateInternalWithdrawal_same])
  also (never_trans) have "grows never t4 t5" by (rule grows_forM[OF s(5)]) (rule grows_settled)
  also (never_trans) have "grows never t5 t6" by (rule grows_forM[OF s(6)]) (rule grows_confirmed)
  also (never_trans) have "grows never t6 t'" by (rule grows_block_saved[OF last])
  finally (never_trans) show ?thesis .
qed

lemma grows_parsed:
  assumes "SaveParsedBlockData lib ev c = (c', res)"
  shows "grows never (conn_db c) (conn_db c')"
  using SaveParsedBlockData_db[OF assms] grows_block_tx by (auto intro: grows_same)

lemma grows_wallets:
  "SaveTonWallet wd c = (c', r) \<Longrightarrow> grows never (conn_db c) (conn_db c')"
  "SaveJettonWallet owner wd b c = (c', r) \<Longrightarrow> grows never (conn_db c) (conn_db c')"
  "LoadAddressBook (NewConnection t) = (c', r) \<Longrightarrow> grows never t (conn_db c')"
  by (erule grows_same_withdrawals[OF SaveTonWallet_same], erule grows_same_withdrawals[OF SaveJettonWallet_same],
      rule grows_same, simp add: LoadAddressBook_same NewConnection_def)

lemma grows_other:
  "SaveInternalWithdrawalTask itask e memo t = Inr t' \<Longrightarrow> grows never t t'"
  "SaveServiceWithdrawalRequest memo swr t = Inr (t', m) \<Longrightarrow> grows never t t'"
  "grows never t (UpdateServiceWithdrawalRequest stask amount e filled t)"
  "grows never t (SaveLastMasterchainProvenBlock b t)"
  by (erule grows_same_withdrawals[OF other_tables_same(1)], erule grows_same_withdrawals[OF other_tables_same(2)],
      rule grows_same_withdrawals[OF other_tables_same(3)], rule grows_same_withdrawals[OF other_tables_same(4)])

text \<open>Every step of the storage keeps every request.\<close>

abbreviation (input) always :: "withdrawal_requests_row \<Rightarrow> bool" where
  "always \<equiv> \<lambda>_. True"

lemma sys_step_grows: "sys_step lib cfg s s' \<Longrightarrow> grows always (conn_db (sys_conn s)) (conn_db (sys_conn s'))"
  by (induction rule: sys_step.induct)
    (auto intro: never_weaken[OF grows_recorded] never_weaken[OF grows_parsed] never_weaken[OF grows_expired]
      never_weaken[OF grows_wallets(1)] never_weaken[OF grows_wallets(2)] never_weaken[OF grows_wallets(3)]
      never_weaken[OF grows_other(1)] never_weaken[OF grows_other(2)] never_weaken[OF grows_other(3)] never_weaken[OF grows_other(4)]
      grows_weaken[OF grows_request] grows_same)

lemma sys_reach_grows: "sys_reach lib cfg s s' \<Longrightarrow> grows always (conn_db (sys_conn s)) (conn_db (sys_conn s'))"
  by (induction rule: sys_reach.induct) (auto intro: grows_same grows_trans sys_step_grows)

end
