(* ===== verification/Blockchain_Props.thy ===== *)
theory Blockchain_Props
  imports Blockchain
begin

text \<open>
  What the connection guarantees to its clients: new wallets lie in the service's shard and their
  identifiers do not wrap around, a block's transactions are fetched completely, the waiting loops
  end with the context, and an accepted clock is close to the node's.
\<close>

section \<open>Search for an identifier\<close>

lemma word_succ_le: "i < - 1 \<Longrightarrow> i + 1 \<le> j \<longleftrightarrow> i < j" for i j :: u32
proof -
  assume "i < - 1"
  then have "1 + i \<noteq> 0" by (metis add.commute add_eq_0_iff less_irrefl)
  then have "unat (i + 1) = Suc (unat i)" using unatSuc[of i] by (simp add: add.commute)
  then show ?thesis by (simp add: word_le_nat_alt word_less_nat_alt Suc_le_eq)
qed

lemma for_ids_found:
  "for_ids probe nf i = Inr x \<Longrightarrow>
     \<exists>j. i \<le> j \<and> j < - 1 \<and> probe j = Inr (Some x) \<and> (\<forall>k. i \<le> k \<longrightarrow> k < j \<longrightarrow> probe k = Inr None)"
proof (induction probe nf i rule: for_ids.induct)
  case (1 probe nf i)
  from "1.prems" have i: "i < - 1" by (simp add: for_ids.simps split: if_splits)
  show ?case
  proof (cases "probe i")
    case (Inl e)
    with "1.prems" i show ?thesis by (simp add: for_ids.simps)
  next
    case (Inr r)
    show ?thesis
    proof (cases r)
      case None
      with "1.prems" i Inr have "for_ids probe nf (i + 1) = Inr x" by (simp add: for_ids.simps)
      from "1.IH"[OF i Inr None this] obtain j where j: "i + 1 \<le> j" "j < - 1" "probe j = Inr (Some x)"
        "\<forall>k. i + 1 \<le> k \<longrightarrow> k < j \<longrightarrow> probe k = Inr None" by blast
      then have "i < j" using word_succ_le[OF i] by simp
      moreover have "probe k = Inr None" if "i \<le> k" "k < j" for k
        using that j(4) word_succ_le[OF i] Inr None by (cases "k = i") auto
      ultimately show ?thesis using j by (intro exI[of _ j]) auto
    next
      case (Some y)
      with "1.prems" i Inr have "y = x" by (simp add: for_ids.simps)
      with i Inr Some show ?thesis by (intro exI[of _ i]) auto
    qed
  qed
qed

text \<open>
  New deposit wallets.  A generated TON wallet belongs to the service's shard, its identifier is the
  first one from the start for which that holds, and the search does not wrap around: the identifier
  is at least the start and below the largest 32-bit number.
\<close>

theorem generated_wallet_in_shard:
  assumes "GenerateSubWallet nd seed shard start = Inr (w, i)"
  shows "start \<le> i \<and> i < - 1 \<and> (\<exists>a. AddressFromTonutilsAddress (Some w) = Inr a \<and> Address_bytes a ! 0 = shard)
    \<and> (\<exists>basic. nd_FromSeed nd (strings_Split seed (CHR '' '')) V3 = Inr basic \<and> w_GetSubwallet basic i = Inr w
        \<and> (\<forall>k. start \<le> k \<longrightarrow> k < i \<longrightarrow>
              (\<exists>w' a'. w_GetSubwallet basic k = Inr w' \<and> AddressFromTonutilsAddress (Some w') = Inr a' \<and> Address_bytes a' ! 0 \<noteq> shard)))"
proof -
  define probe where "probe basic = (\<lambda>i. andThenR (w_GetSubwallet basic i) (\<lambda>subWallet.
        andThenR (AddressFromTonutilsAddress (Some subWallet)) (\<lambda>addr.
        Inr (if inShard addr shard then Some (subWallet, i) else None))))" for basic :: wallet
  from assms obtain basic where b: "nd_FromSeed nd (strings_Split seed (CHR '' '')) V3 = Inr basic"
    and "for_ids (probe basic) (Errorf ''subwallet not found'') start = Inr (w, i)"
    by (auto simp: GenerateSubWallet_def andThenR_success probe_def)
  from for_ids_found[OF this(2)] obtain j where j: "start \<le> j" "j < - 1" "probe basic j = Inr (Some (w, i))"
    "\<forall>k. start \<le> k \<longrightarrow> k < j \<longrightarrow> probe basic k = Inr None" by blast
  from j(3) have hit: "j = i" "w_GetSubwallet basic i = Inr w" "\<exists>a. AddressFromTonutilsAddress (Some w) = Inr a \<and> inShard a shard"
    by (auto simp: probe_def andThenR_success split: if_splits)
  have "\<exists>w' a'. w_GetSubwallet basic k = Inr w' \<and> AddressFromTonutilsAddress (Some w') = Inr a' \<and> Address_bytes a' ! 0 \<noteq> shard"
    if "probe basic k = Inr None" for k
    using that by (auto simp: probe_def andThenR_success inShard_def split: if_splits)
  with j hit b show ?thesis by (auto simp: inShard_def)
qed

section \<open>Samples\<close>

definition sample_wallet :: wallet where
  "sample_wallet = \<lparr>w_Address = sample_taddress 1, w_GetSubwallet = (\<lambda>i. Inr (sample_taddress (push_bit 248 (ucast i))))\<rparr>"

definition sample_ids :: "TransactionShortInfo list" where
  "sample_ids = [\<lparr>tsi_Account = [1], tsi_LT = 9\<rparr>, \<lparr>tsi_Account = [2], tsi_LT = 4\<rparr>]"

definition sample_account :: account where
  "sample_account = \<lparr>acc_IsActive = True, acc_Balance = 20, acc_Status = AccountStatusActive, acc_Code = Some 1, acc_Data = Some 2\<rparr>"

definition sample_node :: node where
  "sample_node =
     \<lparr>nd_CurrentMasterchainInfo = (\<lambda>_. Inr (sample_block_id 5)),
      nd_GetAccount = (\<lambda>_ _ k _. if k = 0 then Inl (LibError ''block is not applied'') else Inr (Some sample_account)),
      nd_RunGetMethod = (\<lambda>_ _ _ _. Inr [StackInt 3, StackOther, StackOther, StackOther]),
      nd_GetBlockTransactionsV2 = (\<lambda>_ _ after _. case after of None \<Rightarrow> Inr (sample_ids, False)
                                     | Some x \<Rightarrow> Inr (tl (dropWhile (\<lambda>y. y \<noteq> x) sample_ids), False)),
      nd_GetTransaction = (\<lambda>_ _ _ _. Inl ErrNotFound), nd_GetTime = (\<lambda>_. Inr 1000),
      nd_FromSeed = (\<lambda>_ _. Inr sample_wallet), nd_ParseAccountID = (\<lambda>s. Inr (length s)),
      nd_AccountBoc = (\<lambda>c. Inr [c]), nd_NewEmulator = (\<lambda>c d. Inr (c + d)), nd_AccountSlice = Inr,
      nd_RunSmcMethod = (\<lambda>e m f sl. Inr (0, [VmStkSlice sl])),
      nd_UnmarshalMsgAddress = (\<lambda>sl. Inr (AddrStd 0 (of_nat sl))),
      nd_JettonBalanceByOwner = (\<lambda>_ _. Inr 0), nd_Resolve = (\<lambda>_. Inl ErrNotFound), nd_GetRecord = (\<lambda>_ _. None),
      nd_LoadUInt16 = (\<lambda>s. Inr (0, s)), nd_LoadAddr = (\<lambda>_. Inr None)\<rparr>"

section \<open>Paging\<close>

text \<open>What the node promises about a block with the transactions \<open>ids\<close>: a request after a transaction
  (or from the start) answers the next transactions, at most as many as asked for, and says whether
  there are more.\<close>

definition ids_after :: "TransactionShortInfo option \<Rightarrow> TransactionShortInfo list \<Rightarrow> TransactionShortInfo list" where
  "ids_after after ids = (case after of None \<Rightarrow> ids | Some x \<Rightarrow> tl (dropWhile (\<lambda>y. y \<noteq> x) ids))"

definition pages_served :: "config \<Rightarrow> node \<Rightarrow> BlockIDExt \<Rightarrow> TransactionShortInfo list \<Rightarrow> bool" where
  "pages_served cfg nd b ids \<longleftrightarrow>
     (\<forall>after. retry2 cfg (nd_GetBlockTransactionsV2 nd b 256 after)
        = Inr (take 256 (ids_after after ids), 256 < length (ids_after after ids)))"

lemma ids_after_last:
  assumes "distinct (xs @ ys)" "xs \<noteq> []"
  shows "ids_after (Some (last xs)) (xs @ ys) = ys"
proof -
  have xs: "xs = butlast xs @ [last xs]" using assms(2) by simp
  then have "last xs \<notin> set (butlast xs)" using assms(1) by (metis distinct_append not_distinct_conv_prefix)
  then have "dropWhile (\<lambda>y. y \<noteq> last xs) (butlast xs @ [last xs] @ ys) = [last xs] @ ys"
    by (subst dropWhile_append2) auto
  then show ?thesis using xs by (simp add: ids_after_def) (metis append.assoc append_Cons append_Nil list.sel(3))
qed

lemma page_loop_all:
  assumes "pages_served cfg nd b ids" "distinct ids" "ids = got @ rest"
    and "got = [] \<and> after = None \<or> got \<noteq> [] \<and> after = Some (last got)"
  shows "page_loop cfg nd b after got = Some (Inr ids)"
  using assms(3,4)
proof (induction "length rest" arbitrary: got rest after rule: less_induct)
  case less
  have rest: "ids_after after ids = rest"
    using less.prems assms(2) ids_after_last[of got rest] by (auto simp: ids_after_def)
  have page: "retry2 cfg (nd_GetBlockTransactionsV2 nd b 256 after) = Inr (take 256 rest, 256 < length rest)"
    using assms(1) rest by (auto simp: pages_served_def)
  show ?case
  proof (cases "256 < length rest")
    case False
    with page less.prems(1) show ?thesis by (subst page_loop.simps) simp
  next
    case True
    then have ne: "take 256 rest \<noteq> []" by auto
    have "page_loop cfg nd b (Some (last (take 256 rest))) (got @ take 256 rest) = Some (Inr ids)"
      using True less.prems(1) ne by (intro less.hyps[of "drop 256 rest"]) auto
    then show ?thesis using page True ne by (subst page_loop.simps) simp
  qed
qed

text \<open>
  C36.  All transactions of a block are fetched.  If the node answers page requests as documented,
  fetching the transactions of a block of any size returns, and the result has exactly the
  transactions of the block, ordered by logical time.
\<close>

theorem block_transactions_complete:
  assumes "lt_sorting lt_sort" "pages_served cfg nd b ids" "distinct ids"
  shows "\<exists>txs. GetTransactionIDsFromBlock lt_sort cfg nd b = Some (Inr txs)
    \<and> mset txs = mset ids \<and> sorted (map tsi_LT txs)"
proof -
  have "page_loop cfg nd b None [] = Some (Inr ids)"
    by (rule page_loop_all[OF assms(2,3)]) simp_all
  then show ?thesis using assms(1) by (simp add: GetTransactionIDsFromBlock_def lt_sorting_def)
qed

lemma sample_pages: "pages_served sample_config sample_node (sample_block_id 5) sample_ids"
  unfolding pages_served_def
proof
  fix after
  show "retry2 sample_config (nd_GetBlockTransactionsV2 sample_node (sample_block_id 5) 256 after)
    = Inr (take 256 (ids_after after sample_ids), 256 < length (ids_after after sample_ids))"
    by (cases after)
      (auto simp: retry2_def sample_config_def sample_node_def ids_after_def sample_ids_def split: if_splits)
qed

theorem block_transactions_complete_witness:
  "\<exists>txs. GetTransactionIDsFromBlock (sort_key tsi_LT) sample_config sample_node (sample_block_id 5) = Some (Inr txs)
    \<and> mset txs = mset sample_ids \<and> sorted (map tsi_LT txs)"
  by (rule block_transactions_complete[OF _ sample_pages])
    (simp_all add: lt_sorting_def sample_ids_def)

theorem generated_wallet_in_shard_witness:
  "GenerateSubWallet sample_node ''a b'' 9 7 = Inr (sample_taddress (push_bit 248 9), 9) \<and> (7 :: u32) \<le> 9"
proof -
  have "GenerateSubWallet sample_node ''a b'' 9 7 = Inr (sample_taddress (push_bit 248 9), 9)"
    by (simp add: GenerateSubWallet_def sample_node_def sample_wallet_def for_ids.simps[of _ _ 7] for_ids.simps[of _ _ 8]
        for_ids.simps[of _ _ 9] AddressFromTonutilsAddress_def sample_taddress_def AddressFromBytes_def inShard_def
        word_rcat_Address_bytes nth_Address_bytes)
  with generated_wallet_in_shard[OF this] show ?thesis by blast
qed

section \<open>Waiting\<close>

lemma account_loop_returns:
  assumes "expired (k + n)"
  shows "\<exists>r. account_loop cfg nd expired m a k = Some r"
  using assms
proof (induction n arbitrary: k)
  case 0
  then show ?case by (subst account_loop.simps) simp
next
  case (Suc n)
  then have "\<exists>r. account_loop cfg nd expired m a (Suc k) = Some r" by (intro Suc.IH) simp
  then show ?case by (subst account_loop.simps) (auto split: sum.splits option.splits)
qed

text \<open>What the state of an account that was found is reported as.\<close>

definition reported_state :: "account \<Rightarrow> int \<times> AccountStatus" where
  "reported_state acc = (if acc_IsActive acc then (acc_Balance acc, acc_Status acc) else (0, AccountStatusNonExist))"

lemma account_loop_answer_aux:
  "account_loop cfg nd expired m a k = Some y \<Longrightarrow> y = Inr r
    \<Longrightarrow> \<exists>j acc. GetAccount cfg nd m a j = Inr (Some acc) \<and> r = reported_state acc"
proof (induction rule: account_loop.raw_induct[rotated, consumes 1, case_names step])
  case (step rec cfg nd expired m a k y)
  show ?case
  proof (cases "GetAccount cfg nd m a k")
    case (Inl e)
    with step(2,3) have "rec cfg nd expired m a (Suc k) = Some y" by (auto split: if_splits)
    from step(1)[OF this step(3)] show ?thesis .
  next
    case (Inr x)
    with step(2,3) show ?thesis by (auto simp: reported_state_def split: if_splits option.splits intro!: exI[of _ k])
  qed
qed

text \<open>
  Asking for an account's state always ends.  Once the deadline of the context has passed the
  loop returns, however long the node says it is not ready; and a balance it returns is what the
  node answered for that account, with an account that is not active reported as empty and
  non-existing.
\<close>

theorem account_state_returns:
  assumes "expired n"
  shows "\<exists>res. GetAccountCurrentState cfg nd expired a = Some res
    \<and> (\<forall>r. res = Inr r \<longrightarrow> (\<exists>m j acc. GetAccount cfg nd m a j = Inr (Some acc)
          \<and> r = (if acc_IsActive acc then (acc_Balance acc, acc_Status acc) else (0, AccountStatusNonExist))))"
proof (cases "CurrentMasterchainInfo cfg nd")
  case (Inl e)
  then show ?thesis by (simp add: GetAccountCurrentState_def)
next
  case (Inr m)
  from account_loop_returns[of expired 0 n cfg nd m a] assms obtain res where
    res: "account_loop cfg nd expired m a 0 = Some res" by auto
  have "\<exists>m j acc. GetAccount cfg nd m a j = Inr (Some acc) \<and> r = reported_state acc" if "res = Inr r" for r
    using account_loop_answer_aux[OF res that] by blast
  with res Inr show ?thesis unfolding reported_state_def GetAccountCurrentState_def by simp
qed

theorem account_state_returns_witness:
  "\<exists>res. GetAccountCurrentState sample_config sample_node (\<lambda>k. 3 \<le> k) (sample_taddress 1) = Some res"
  using account_state_returns[of "\<lambda>k. 3 \<le> k" 3 sample_config sample_node "sample_taddress 1"] by auto

section \<open>The clock\<close>

text \<open>
  An accepted clock is close to the node's.  If the check succeeds, then at every moment between
  the request and the answer the local clock differs from the time the node reported by at most the
  cutoff plus half of the round trip (rounded up).
\<close>

theorem checked_time_close:
  assumes "CheckTime cfg nd prevTime nextTime cutoff = Inr True" "getCurrentNodeTime cfg nd = Inr node"
    and "prevTime \<le> t" "t \<le> nextTime"
  shows "\<bar>t - node\<bar> \<le> cutoff + (nextTime - prevTime + 1) div 2"
proof -
  have "0 \<le> nextTime - prevTime" using assms(3,4) by simp
  with assms(1,2) have "- cutoff \<le> prevTime + (nextTime - prevTime) div 2 - node"
    "prevTime + (nextTime - prevTime) div 2 - node \<le> cutoff"
    by (auto simp: CheckTime_def Let_def)
  with assms(3,4) show ?thesis by linarith
qed

theorem checked_time_close_witness:
  "CheckTime sample_config sample_node 999000000000 1001000000000 5000000000 = Inr True
   \<and> \<bar>1000500000000 - (1000000000000 :: int)\<bar> \<le> 5000000000 + (1001000000000 - 999000000000 + 1) div 2"
proof -
  have t: "getCurrentNodeTime sample_config sample_node = Inr 1000000000000"
    by (simp add: getCurrentNodeTime_def retry_def sample_config_def sample_node_def time_Unix_def Second_def)
  then have c: "CheckTime sample_config sample_node 999000000000 1001000000000 5000000000 = Inr True"
    by (simp add: CheckTime_def)
  from checked_time_close[OF c t, of 1000500000000] c show ?thesis by simp
qed

end
