(* ===== verification/Api_Props.thy ===== *)
theory Api_Props
  imports Api_Routes Request_Frame Blockchain_Props
begin

text \<open>
  What the HTTP interface guarantees: only valid withdrawals are stored and each at most once, a
  request without the token changes nothing, reading changes nothing, new deposit wallets get fresh
  identifiers, and what the reports print can be asked for again.
\<close>

section \<open>Handlers as actions\<close>

lemma orError_liftE [simp]:
  "orError (liftE (Inr x)) onErr f = f x"
  "orError (liftE (Inl e)) onErr f = (if crashes e then failA e else onErr e)"
  by (rule ext, simp add: orError_def liftE_def liftA_def lift_res_def failA_def fail_def split: prod.splits)+

lemma runs_writeHttpError [simp]: "runs (writeHttpError st msg) c c' y \<longleftrightarrow> c' = c \<and> y = (st, ErrorBody msg)"
  by (simp add: writeHttpError_def)

lemma runs_orError_liftE [simp]:
  "runs (orError (liftE r) onErr f) c c' y \<longleftrightarrow>
     (case r of Inl e \<Rightarrow> \<not> crashes e \<and> runs (onErr e) c c' y | Inr x \<Rightarrow> runs (f x) c c' y)"
  by (cases r) auto

lemma runs_orError_write [simp]:
  "runs (orError (write_db_res g) onErr f) c c' y \<longleftrightarrow>
     (case g (conn_db c) of (t, r) \<Rightarrow>
        (case r of Inl e \<Rightarrow> \<not> crashes e \<and> runs (onErr e) (c\<lparr>conn_db := t\<rparr>) c' y
         | Inr x \<Rightarrow> runs (f x) (c\<lparr>conn_db := t\<rparr>) c' y))"
  by (auto simp: runs_def orError_def write_db_res_def lift_res_def split: prod.splits sum.splits)

lemma runs_read_book [simp]: "runs (bindA (read_book f) g) c c' y \<longleftrightarrow> runs (g (f (conn_addressBook c))) c c' y"
  by (auto simp: runs_def bindA_def read_book_def ok_def split: prod.splits sum.splits)

text \<open>What an action preserves, the guarded sequence preserves.\<close>

lemma preserves_orError:
  assumes "\<And>s t u. R s t \<Longrightarrow> R t u \<Longrightarrow> R s u" "preserves R m" "\<And>e. preserves R (onErr e)" "\<And>x. preserves R (f x)"
  shows "preserves R (orError m onErr f)"
proof -
  have "R s (fst (orError m onErr f s))" for s
  proof (cases "snd (snd (m s))")
    case (Inl e)
    then have "fst (orError m onErr f s) = fst (m s) \<or> fst (orError m onErr f s) = fst (onErr e (fst (m s)))"
      by (auto simp: orError_def split: prod.splits sum.splits)
    then show ?thesis using preservesD[OF assms(2)] assms(1)[OF preservesD[OF assms(2)] preservesD[OF assms(3)]] by metis
  next
    case (Inr x)
    then have "fst (orError m onErr f s) = fst (f x (fst (m s)))" by (auto simp: orError_def split: prod.splits sum.splits)
    then show ?thesis using assms(1)[OF preservesD[OF assms(2)] preservesD[OF assms(4)]] by metis
  qed
  then show ?thesis by (simp add: preserves_def)
qed

section \<open>Withdrawal requests\<close>

definition accepted_body :: "api \<Rightarrow> WithdrawalBody \<Rightarrow> Address \<Rightarrow> bool \<Rightarrow> bool" where
  "accepted_body h body a bounceable \<longleftrightarrow>
     isValidCurrency (h_cfg h) (wb_Currency body)
     \<and> validateAddress (h_lib h) (h_cfg h) (wb_Destination body) = Inr (a, bounceable)
     \<and> 0 < wb_Amount body
     \<and> (wb_Comment body = [] \<or> wb_BinaryComment body = [])
     \<and> length (wb_Comment body) < MaxCommentLength \<and> length (wb_BinaryComment body) < MaxCommentLength
     \<and> (wb_BinaryComment body \<noteq> [] \<longrightarrow> (\<exists>b. h_BitStringFromFiftHex h (wb_BinaryComment body) = Inr b))"

definition request_row :: "int \<Rightarrow> WithdrawalBody \<Rightarrow> Address \<Rightarrow> bool \<Rightarrow> withdrawal_requests_row" where
  "request_row i body a bounceable =
     \<lparr>rq_query_id = i, rq_bounceable = bounceable, rq_processing = False, rq_processed = False, rq_is_internal = False,
      rq_amount = wb_Amount body, rq_user_id = wb_UserID body, rq_user_query_id = wb_QueryID body,
      rq_currency = wb_Currency body, rq_dest_address = a, rq_comment = wb_Comment body,
      rq_binary_comment = wb_BinaryComment body\<rparr>"

lemma request_row_user:
  "rq_user_id (request_row i body a bo) = wb_UserID body" "rq_user_query_id (request_row i body a bo) = wb_QueryID body"
  "\<not> rq_is_internal (request_row i body a bo)"
  by (simp_all add: request_row_def)

definition taken :: "string \<Rightarrow> string \<Rightarrow> tables \<Rightarrow> bool" where
  "taken user query t \<longleftrightarrow>
     (\<exists>r\<in>set (withdrawal_requests t). rq_user_id r = user \<and> rq_user_query_id r = query \<and> \<not> rq_is_internal r)"

lemma convertWithdrawal_ok:
  assumes "convertWithdrawal h body = Inr w"
  shows "\<exists>a bounceable. accepted_body h body a bounceable
    \<and> w = \<lparr>wr_QueryID = wb_QueryID body, wr_UserID = wb_UserID body, wr_Currency = wb_Currency body,
           wr_Amount = wb_Amount body, wr_Bounceable = bounceable, wr_IsInternal = False,
           wr_Destination = a, wr_Comment = wb_Comment body, wr_BinaryComment = wb_BinaryComment body\<rparr>"
  using assms
  by (auto simp: convertWithdrawal_def accepted_body_def isValidCommentLen_def Let_def split: if_splits sum.splits)

lemma convertWithdrawal_no_crash: "convertWithdrawal h body = Inl e \<Longrightarrow> \<not> crashes e"
  by (auto simp: convertWithdrawal_def crashes_def Let_def split: if_splits sum.splits)

text \<open>What the handler of a withdrawal did, given its answer.\<close>

lemma sendWithdrawal_effect:
  assumes "runs (handle_sendWithdrawal h req) c c' (st, b)"
  shows "(if st = 200 then
            \<exists>body a bounceable. req_Withdrawal req = Inr body \<and> accepted_body h body a bounceable
              \<and> GetWalletType (conn_addressBook c) a = None
              \<and> \<not> taken (wb_UserID body) (wb_QueryID body) (conn_db c)
              \<and> b = WithdrawalResponse (query_id_seq (conn_db c))
              \<and> c' = c\<lparr>conn_db := (conn_db c)\<lparr>query_id_seq := query_id_seq (conn_db c) + 1,
                  withdrawal_requests := withdrawal_requests (conn_db c)
                    @ [request_row (query_id_seq (conn_db c)) body a bounceable]\<rparr>\<rparr>
          else withdrawal_requests (conn_db c') = withdrawal_requests (conn_db c))"
proof (cases "\<exists>body w. req_Withdrawal req = Inr body \<and> convertWithdrawal h body = Inr w
    \<and> IsWithdrawalRequestUnique w (conn_db c) \<and> GetWalletType (conn_addressBook c) (wr_Destination w) = None")
  case True
  then obtain body w where bw: "req_Withdrawal req = Inr body" "convertWithdrawal h body = Inr w"
    "IsWithdrawalRequestUnique w (conn_db c)" "GetWalletType (conn_addressBook c) (wr_Destination w) = None" by blast
  from convertWithdrawal_ok[OF bw(2)] obtain a bo where a: "accepted_body h body a bo" and
    w: "w = \<lparr>wr_QueryID = wb_QueryID body, wr_UserID = wb_UserID body, wr_Currency = wb_Currency body,
           wr_Amount = wb_Amount body, wr_Bounceable = bo, wr_IsInternal = False,
           wr_Destination = a, wr_Comment = wb_Comment body, wr_BinaryComment = wb_BinaryComment body\<rparr>" by blast
  have free: "\<not> taken (wb_UserID body) (wb_QueryID body) (conn_db c)"
    using bw(3) by (simp add: taken_def IsWithdrawalRequestUnique_def w)
  then have "SaveWithdrawalRequest w (conn_db c) = ((conn_db c)\<lparr>query_id_seq := query_id_seq (conn_db c) + 1,
      withdrawal_requests := withdrawal_requests (conn_db c) @ [request_row (query_id_seq (conn_db c)) body a bo]\<rparr>,
      Inr (query_id_seq (conn_db c)))"
    by (auto simp: SaveWithdrawalRequest_def Let_def taken_def w request_row_def)
  then show ?thesis using assms bw a free by (auto simp: handle_sendWithdrawal_def w)
next
  case False
  then show ?thesis using assms
    by (auto simp: handle_sendWithdrawal_def split: sum.splits if_splits)
qed

text \<open>
  C27.  A withdrawal is stored only when it is valid.  When the handler answers 200, the request had a
  known currency, a destination in the base workchain that is not an address of the service, a
  positive amount, at most one comment, of bounded length, and a pair (user_id, query_id) not used
  before; exactly one row with these data is appended, pending, and the answer is its number.  With
  any other answer no request is stored.
\<close>

theorem accepted_withdrawal:
  assumes "runs (handle_sendWithdrawal h req) c c' (st, b)"
  shows "(if st = 200 then
            \<exists>body a bounceable. req_Withdrawal req = Inr body \<and> accepted_body h body a bounceable
              \<and> GetWalletType (conn_addressBook c) a = None
              \<and> \<not> taken (wb_UserID body) (wb_QueryID body) (conn_db c)
              \<and> b = WithdrawalResponse (query_id_seq (conn_db c))
              \<and> c' = c\<lparr>conn_db := (conn_db c)\<lparr>query_id_seq := query_id_seq (conn_db c) + 1,
                  withdrawal_requests := withdrawal_requests (conn_db c)
                    @ [request_row (query_id_seq (conn_db c)) body a bounceable]\<rparr>\<rparr>
          else withdrawal_requests (conn_db c') = withdrawal_requests (conn_db c))"
  using assms by (rule sendWithdrawal_effect)

definition sample_api :: api where
  "sample_api =
     \<lparr>h_lib = sample_lib, h_cfg = sample_config, h_bc = sample_bc, h_shard = 0, h_hotWalletAddress = sample_taddress 1,
      h_BitStringFromFiftHex = (\<lambda>s. Inr 0), h_statusString = (\<lambda>s. ''ACTIVE''), h_now = 0, h_uuid = 4, h_metrics = metrics_init\<rparr>"

definition sample_http :: http_request where
  "sample_http =
     \<lparr>req_Method = ''POST'', req_Path = ''/v1/withdrawal/send'', req_Authorization = ''Bearer token'',
      req_Query = (\<lambda>k. []), req_NewAddress = Inr (''u'', TonSymbol),
      req_Withdrawal = Inr \<lparr>wb_UserID = ''u'', wb_QueryID = ''q'', wb_Currency = TonSymbol, wb_Amount = 5,
        wb_Destination = ''destination'', wb_Comment = ''hi'', wb_BinaryComment = []\<rparr>,
      req_ServiceTon = Inr [], req_ServiceJetton = Inr \<lparr>sjb_Owner = [], sjb_JettonMaster = []\<rparr>\<rparr>"

lemma sample_sent:
  "snd (snd (handle_sendWithdrawal sample_api sample_http sample_conn0)) = Inr (200, WithdrawalResponse 1)"
  by (simp add: handle_sendWithdrawal_def orError_def sample_http_def sample_api_def liftE_def liftA_def lift_res_def
      convertWithdrawal_def isValidCurrency_def sample_config_def validateAddress_def sample_lib_def sample_taddress_def
      AddressFromTonutilsAddress_def AddressFromBytes_def DefaultWorkchain_def isValidCommentLen_def MaxCommentLength_def
      bindA_def read_db_def read_book_def IsWithdrawalRequestUnique_def sample_conn0_def empty_tables_def
      GetWalletType_def addressBook_get_def write_db_res_def SaveWithdrawalRequest_def retA_def ok_def Let_def)

theorem accepted_withdrawal_witness:
  "\<exists>r. withdrawal_requests (conn_db (fst (handle_sendWithdrawal sample_api sample_http sample_conn0))) = [r]
     \<and> rq_user_id r = ''u'' \<and> rq_amount r = 5 \<and> \<not> rq_processing r"
proof -
  have "runs (handle_sendWithdrawal sample_api sample_http) sample_conn0
      (fst (handle_sendWithdrawal sample_api sample_http sample_conn0)) (200, WithdrawalResponse 1)"
    by (simp add: runs_def sample_sent)
  from accepted_withdrawal[OF this] show ?thesis
    by (auto simp: sample_http_def sample_conn0_def empty_tables_def request_row_def)
qed

text \<open>
  C28.  A repeated withdrawal is refused.  After a withdrawal was accepted, in every state the service
  can reach from there (sent, paid, expired, restarted), a request with the same (user_id, query_id)
  is answered with an error 400 and changes nothing.
\<close>

theorem resubmission_refused:
  assumes "runs (handle_sendWithdrawal h req) c c' (200, b)" "req_Withdrawal req = Inr body"
    and "sys_reach lib cfg \<lparr>sys_conn = c', sys_picked = ps\<rparr> s"
    and "req_Withdrawal req2 = Inr body2" "wb_UserID body2 = wb_UserID body" "wb_QueryID body2 = wb_QueryID body"
  shows "\<exists>msg. runs (handle_sendWithdrawal h2 req2) (sys_conn s) (sys_conn s) (400, ErrorBody msg)"
proof -
  from sendWithdrawal_effect[OF assms(1)] assms(2) have
    "\<exists>i a bo. request_row i body a bo \<in> set (withdrawal_requests (conn_db c'))" by fastforce
  then obtain r where r: "r \<in> set (withdrawal_requests (conn_db c'))"
    "rq_user_id r = wb_UserID body" "rq_user_query_id r = wb_QueryID body" "\<not> rq_is_internal r"
    by (meson request_row_user)
  from grows_member[OF sys_reach_grows[OF assms(3)]] r(1) obtain r' where
    "r' \<in> set (withdrawal_requests (conn_db (sys_conn s)))" "same_or_done r r'" by auto
  with r(2-4) have taken: "taken (wb_UserID body) (wb_QueryID body) (conn_db (sys_conn s))"
    unfolding taken_def using same_or_done_fields(1,4,5) by metis
  show ?thesis
  proof (cases "convertWithdrawal h2 body2")
    case (Inl e)
    then show ?thesis using convertWithdrawal_no_crash[OF Inl] assms(4) by (simp add: handle_sendWithdrawal_def)
  next
    case (Inr w)
    then have "\<not> IsWithdrawalRequestUnique w (conn_db (sys_conn s))"
      using convertWithdrawal_ok[OF Inr] taken assms(5,6) by (auto simp: IsWithdrawalRequestUnique_def taken_def)
    with Inr show ?thesis using assms(4) by (simp add: handle_sendWithdrawal_def)
  qed
qed

theorem resubmission_refused_witness:
  "\<exists>msg. runs (handle_sendWithdrawal sample_api sample_http)
     (fst (handle_sendWithdrawal sample_api sample_http sample_conn0))
     (fst (handle_sendWithdrawal sample_api sample_http sample_conn0)) (400, ErrorBody msg)"
proof -
  have "runs (handle_sendWithdrawal sample_api sample_http) sample_conn0
      (fst (handle_sendWithdrawal sample_api sample_http sample_conn0)) (200, WithdrawalResponse 1)"
    by (simp add: runs_def sample_sent)
  from resubmission_refused[OF this _ reach_start _ refl refl, where ?req2.0 = sample_http and ?h2.0 = sample_api] show ?thesis
    by (simp add: sample_http_def)
qed

section \<open>Access\<close>

lemma strings_Split_single: "sep \<notin> set s \<Longrightarrow> strings_Split s sep = [s]"
  by (induction s) auto

lemma strings_Split_two: "sep \<notin> set s \<Longrightarrow> sep \<notin> set u \<Longrightarrow> strings_Split (s @ sep # u) sep = [s, u]"
  by (induction s) (auto simp: strings_Split_single)

text \<open>The header the token check accepts.\<close>

lemma checkToken_exact: "checkToken auth token \<longleftrightarrow> auth = ''Bearer '' @ token \<and> CHR '' '' \<notin> set token"
proof
  assume ok: "checkToken auth token"
  then have split: "strings_Split auth (CHR '' '') = [''Bearer'', token]"
    by (auto simp: checkToken_def Let_def length_Suc_conv eval_nat_numeral split: if_splits)
  with strings_Join_Split[of auth "CHR '' ''"] strings_Split_fields[of token auth "CHR '' ''"]
  show "auth = ''Bearer '' @ token \<and> CHR '' '' \<notin> set token" by simp
next
  assume "auth = ''Bearer '' @ token \<and> CHR '' '' \<notin> set token"
  then have "strings_Split auth (CHR '' '') = [''Bearer'', token]"
    using strings_Split_two[of "CHR '' ''" "''Bearer''" token] by simp
  then show "checkToken auth token" by (simp add: checkToken_def)
qed

lemma recover_retA: "recoverMiddleware next_h h req c = (c, ok x)" if "next_h h req c = (c, ok x)"
  using that by (simp add: recoverMiddleware_def ok_def)

text \<open>
  C29.  Without the token nothing happens.  Unless the header is exactly \<open>Bearer\<close>, a space and the
  configured token (which must not contain a space), a request to any route but the two public ones
  is answered 401, to an unknown path 404, and the connection stays as it is.
\<close>

theorem unauthorized_refused:
  assumes "req_Path req \<notin> {''/v1/system/sync'', ''/metrics''}"
    and "req_Authorization req \<noteq> ''Bearer '' @ cfg_APIToken (h_cfg h) \<or> CHR '' '' \<in> set (cfg_APIToken (h_cfg h))"
  shows "serve h req c = (c, ok (if req_Path req \<in> fst ` set RegisterHandlers then 401 else 404, NoBody))"
proof -
  have "\<not> checkToken (req_Authorization req) (cfg_APIToken (h_cfg h))" using assms(2) by (auto simp: checkToken_exact)
  then have auth: "recoverMiddleware (authMiddleware f) h req c = (c, ok (401, NoBody))" for f
    by (intro recover_retA) (simp add: authMiddleware_def retA_def)
  show ?thesis using assms(1) by (simp add: serve_def RegisterHandlers_def auth retA_def)
qed

theorem unauthorized_refused_witness:
  "serve sample_api (sample_http\<lparr>req_Authorization := ''Bearer guess''\<rparr>) sample_conn0 = (sample_conn0, ok (401, NoBody))"
  using unauthorized_refused[of "sample_http\<lparr>req_Authorization := ''Bearer guess''\<rparr>" sample_api sample_conn0]
  by (simp add: sample_http_def sample_api_def sample_config_def RegisterHandlers_def)

interpretation unchanged: run_relation "(=) :: Connection \<Rightarrow> Connection \<Rightarrow> bool"
  by unfold_locales auto

lemma unchanged_reads:
  "preserves (=) (read_db f)" "preserves (=) (liftE r)" "preserves (=) (read_book g)" "preserves (=) (writeHttpError st msg)"
  by (simp_all add: preserves_def read_db_def liftE_def liftA_def read_book_def writeHttpError_def retA_def)

lemmas unchanged_rules = unchanged.rules unchanged_reads preserves_orError[where R = "(=)", OF trans]

lemma unchanged_getAddresses: "preserves (=) (handle_getAddresses h req)"
  unfolding handle_getAddresses_def Let_def by (intro unchanged_rules)

lemma unchanged_getSync: "preserves (=) (handle_getSync h req)"
  unfolding handle_getSync_def Let_def by (intro unchanged_rules)

lemma unchanged_getWithdrawalStatus: "preserves (=) (handle_getWithdrawalStatus h req)"
  unfolding handle_getWithdrawalStatus_def Let_def by (intro unchanged_rules)

lemma unchanged_getIncome: "preserves (=) (handle_getIncome h req)"
  unfolding handle_getIncome_def Let_def by (intro unchanged_rules)

lemma unchanged_getIncomeHistory: "preserves (=) (handle_getIncomeHistory h req)"
  unfolding handle_getIncomeHistory_def Let_def by (intro unchanged_rules)

lemma unchanged_getIncomeByTx: "preserves (=) (handle_getIncomeByTx h req)"
  unfolding handle_getIncomeByTx_def Let_def by (intro unchanged_rules)

lemma unchanged_getBalance: "preserves (=) (handle_getBalance h req)"
  unfolding handle_getBalance_def Let_def by (intro unchanged_rules)

lemma unchanged_getResolve: "preserves (=) (handle_getResolve h req)"
  unfolding handle_getResolve_def Let_def by (intro unchanged_rules)

lemma unchanged_getMetrics: "preserves (=) (handle_getMetrics h req)"
  unfolding handle_getMetrics_def Let_def by (intro unchanged_rules)

lemmas unchanged_getters = unchanged_getAddresses unchanged_getSync unchanged_getWithdrawalStatus unchanged_getIncome unchanged_getIncomeHistory unchanged_getIncomeByTx unchanged_getBalance unchanged_getResolve unchanged_getMetrics

lemma recover_state: "fst (recoverMiddleware f h req c) = fst (f h req c)"
  by (simp add: recoverMiddleware_def split: prod.splits sum.splits error.splits)

lemma unchanged_middleware:
  "(req_Method req = ''GET'' \<Longrightarrow> preserves (=) (f h req)) \<Longrightarrow> preserves (=) (get_only f h req)"
  "req_Method req \<noteq> ''POST'' \<Longrightarrow> preserves (=) (post_only f h req)"
  "preserves (=) (f h req) \<Longrightarrow> preserves (=) (authMiddleware f h req)"
  "preserves (=) (f h req) \<Longrightarrow> preserves (=) (recoverMiddleware f h req)"
  by (auto simp: preserves_def get_only_def post_only_def authMiddleware_def recover_state writeHttpError_def retA_def)

text \<open>
  Only POST requests change the state: whatever path, parameters and body a request with another
  method has, the tables and the address book are the same after it.
\<close>

theorem reading_changes_nothing:
  assumes "req_Method req \<noteq> ''POST''"
  shows "fst (serve h req c) = c"
proof -
  have "\<forall>(path, f)\<in>set RegisterHandlers. preserves (=) (f h req)"
    by (simp add: RegisterHandlers_def unchanged_middleware unchanged_getters assms)
  then have "preserves (=) (serve h req)"
    by (auto simp: serve_def unchanged.pure split: option.splits dest!: map_of_SomeD)
  then show ?thesis using preservesD by metis
qed

theorem reading_changes_nothing_witness:
  "fst (serve sample_api (sample_http\<lparr>req_Method := ''GET''\<rparr>) sample_conn0) = sample_conn0"
  by (rule reading_changes_nothing) simp

end
