(* ===== verification/Scanner_Deposits.thy ===== *)
theory Scanner_Deposits
  imports Block_Scanner
begin

text \<open>
  The second half of \<open>src/core/block_scanner.go\<close>: transactions of TON and jetton deposit wallets,
  selection of the transactions of a block, and \<open>processBlock\<close> with its notifications.
\<close>

section \<open>TON deposits\<close>

definition deposit_out_msg :: "scanner \<Rightarrow> Transaction \<Rightarrow> Address \<Rightarrow> Message \<Rightarrow> Events \<Rightarrow> Events audited" where
  "deposit_out_msg s tx dstAddr o' events =
     (case o' of
        MsgInternal msg \<Rightarrow>
          if GetWalletTypeByTonutilsAddress (bs_db s) (im_DstAddr msg) \<noteq> Some TonHotWallet then
            (case (im_SrcAddr msg, im_DstAddr msg) of
               (Some src, Some dst) \<Rightarrow>
                 noting (LogTX Warning (WalletType_string TonDepositWallet) (tx_Hash tx)
                           (''TONs withdrawal from '' @ lib_AddrString (bs_lib s) src @ '' to ''
                            @ lib_AddrString (bs_lib s) dst @ '' (not to hot wallet)''))
                   (ok events)
             | _ \<Rightarrow> fail nil_pointer)
          else
            ok (events\<lparr>SendingConfirmations := SendingConfirmations events @
                  [\<lparr>sc_Lt = im_CreatedLT msg, sc_From = dstAddr, sc_Memo = im_Comment msg\<rparr>],
                InternalWithdrawals := InternalWithdrawals events @
                  [\<lparr>iw_Utime = im_CreatedAt msg, iw_Lt = im_CreatedLT msg, iw_From = dstAddr,
                    iw_Amount = NewCoins (im_Amount msg), iw_Memo = im_Comment msg, iw_IsFailed = False\<rparr>]\<rparr>)
      | _ \<Rightarrow>
          noting (LogTX Error (WalletType_string TonDepositWallet) (tx_Hash tx) ''not internal out message for transaction'')
            (fail (Errorf ''anomalous behavior of the deposit TON wallet'')))"

definition processTonDepositWalletExternalInMsg :: "scanner \<Rightarrow> Transaction \<Rightarrow> ExternalMessage \<Rightarrow> Events audited" where
  "processTonDepositWalletExternalInMsg s tx inMsg =
     andThen (lift_res (AddressFromTonutilsAddress (em_DstAddr inMsg))) (\<lambda>dstAddr.
     andThen (lift_res (out_messages tx)) (\<lambda>outList.
     forM (deposit_out_msg s tx dstAddr) outList no_events))"

text \<open>A sender that is not a standard address has no workchain recorded, and the zero address.\<close>

definition processTonDepositWalletInternalInMsg :: "scanner \<Rightarrow> Transaction \<Rightarrow> InternalMessage \<Rightarrow> Events audited" where
  "processTonDepositWalletInternalInMsg s tx inMsg =
     andThen (lift_res (AddressFromTonutilsAddress (im_DstAddr inMsg))) (\<lambda>dstAddr.
     case im_SrcAddr inMsg of
       None \<Rightarrow> fail nil_pointer
     | Some src \<Rightarrow>
         andThen (if ta_Type src = StdAddress
                  then andThen (lift_res (AddressFromTonutilsAddress (Some src))) (\<lambda>a.
                       ok (a, Some (ta_Workchain src), GetWalletType (bs_db s) a \<noteq> None))
                  else ok (0, None, False)) (\<lambda>(sender, fromWorkchain, isKnownSender).
         if \<not> isKnownSender
         then ok (no_events\<lparr>ExternalIncomes :=
                [\<lparr>ei_Utime = tx_Now tx, ei_Lt = tx_LT tx, ei_From = Some (Address_bytes sender),
                  ei_FromWorkchain = fromWorkchain, ei_To = dstAddr, ei_Amount = NewCoins (im_Amount inMsg),
                  ei_Comment = im_Comment inMsg, ei_TxHash = tx_Hash tx\<rparr>]\<rparr>)
         else ok no_events))"

definition ton_deposit_tx :: "scanner \<Rightarrow> Transaction \<Rightarrow> Events \<Rightarrow> Events audited" where
  "ton_deposit_tx s tx events =
     (case tx_In tx of
        None \<Rightarrow>
          noting (LogTX Error (WalletType_string TonDepositWallet) (tx_Hash tx) ''transaction without in message'')
            (fail (Errorf ''anomalous behavior of the deposit TON wallet''))
      | Some (MsgExternalIn msg) \<Rightarrow>
          andThen (lift_res (checkTxForSuccess (bs_lib s) tx)) (\<lambda>success.
          if \<not> success
          then noting (LogTX Info (WalletType_string TonDepositWallet) (tx_Hash tx) ''failed transaction'') (ok events)
          else andThen (processTonDepositWalletExternalInMsg s tx msg) (\<lambda>e. ok (Events_Append events e)))
      | Some (MsgInternal msg) \<Rightarrow>
          if tx_OutMsgCount tx \<noteq> 0
          then noting (LogTX Info (WalletType_string TonDepositWallet) (tx_Hash tx) ''ton deposit filling is bounced'') (ok events)
          else andThen (processTonDepositWalletInternalInMsg s tx msg) (\<lambda>e. ok (Events_Append events e))
      | Some MsgExternalOut \<Rightarrow>
          noting (LogTX Error (WalletType_string TonDepositWallet) (tx_Hash tx)
                    ''transaction in message must be internal or external in'')
            (fail (Errorf ''anomalous behavior of the deposit TON wallet'')))"

definition processTonDepositWalletTXs :: "scanner \<Rightarrow> transactions \<Rightarrow> Events audited" where
  "processTonDepositWalletTXs s txs = forM (ton_deposit_tx s) (t_Transactions txs) no_events"

section \<open>Jetton deposits\<close>

text \<open>One outgoing message of a jetton deposit wallet: the incomes found, the known amount and the
  flag ``unknown message found'' so far.\<close>

definition jetton_out_msg ::
  "scanner \<Rightarrow> Transaction \<Rightarrow> Message \<Rightarrow> Events \<times> int \<times> bool \<Rightarrow> (Events \<times> int \<times> bool) audited" where
  "jetton_out_msg s tx m st =
     (let lib = bs_lib s; (events, known, unknownFound) = st in
      case m of
        MsgInternal outMsg \<Rightarrow>
          andThen (lift_res (AddressFromTonutilsAddress (im_SrcAddr outMsg))) (\<lambda>srcAddr.
          case decodeJettonTransferNotification lib outMsg of
            Inl e \<Rightarrow> ok (events, known, True)
          | Inr notify \<Rightarrow>
              if GetWalletTypeByTonutilsAddress (bs_db s) (jtn_Sender notify) \<noteq> None then
                noting (LogTX Info (WalletType_string JettonDepositWallet) (tx_Hash tx) ''service Jetton transfer'')
                  (ok (events, known, unknownFound))
              else
                andThen (lift_res (AddressFromTonutilsAddress (im_DstAddr outMsg))) (\<lambda>dstAddr.
                andThen (lift_res (GetOwner (bs_db s) srcAddr)) (\<lambda>owner.
                case owner of
                  None \<Rightarrow> fail (Errorf ''no owner for Jetton deposit in addressbook'')
                | Some owner' \<Rightarrow>
                    if dstAddr \<noteq> owner' then
                      noting (LogTX Info (WalletType_string JettonDepositWallet) (tx_Hash tx)
                                ''sends transfer notification message not to owner'')
                        (ok (events, known, True))
                    else
                      let (src, fromWorkchain) =
                            (case jtn_Sender notify of
                               Some a \<Rightarrow> if ta_Type a = StdAddress \<or> ta_Type a = VarAddress
                                         then (Some (ta_Data a), Some (ta_Workchain a)) else (None, None)
                             | None \<Rightarrow> (None, None))
                      in ok (events\<lparr>ExternalIncomes := ExternalIncomes events @
                               [\<lparr>ei_Utime = im_CreatedAt outMsg, ei_Lt = im_CreatedLT outMsg, ei_From = src,
                                 ei_FromWorkchain = fromWorkchain, ei_To = srcAddr, ei_Amount = jtn_Amount notify,
                                 ei_Comment = jtn_Comment notify, ei_TxHash = tx_Hash tx\<rparr>]\<rparr>,
                             known + lib_BigInt lib (jtn_Amount notify), unknownFound))))
      | _ \<Rightarrow>
          noting (LogTX Info (WalletType_string JettonDepositWallet) (tx_Hash tx) ''sends external out message'')
            (ok (events, known, True)))"

definition processJettonDepositOutMsgs :: "scanner \<Rightarrow> Transaction \<Rightarrow> (Events \<times> int \<times> bool) audited" where
  "processJettonDepositOutMsgs s tx =
     andThen (lift_res (out_messages tx)) (\<lambda>outList.
     forM (jetton_out_msg s tx) outList (no_events, 0, False))"

definition processJettonDepositInMsg :: "scanner \<Rightarrow> Transaction \<Rightarrow> (Events \<times> int \<times> bool) audited" where
  "processJettonDepositInMsg s tx =
     (let lib = bs_lib s in
      case tx_In tx of
        None \<Rightarrow>
          noting (LogTX Info (WalletType_string JettonDepositWallet) (tx_Hash tx) ''transaction without in message'')
            (ok (no_events, 0, True))
      | Some (MsgInternal inMsg) \<Rightarrow>
          andThen (lift_res (checkTxForSuccess lib tx)) (\<lambda>success.
          andThen (lift_res (AddressFromTonutilsAddress (im_DstAddr inMsg))) (\<lambda>dstAddr.
          case DecodeJettonTransfer lib inMsg of
            Inl e \<Rightarrow> ok (no_events, 0, True)
          | Inr transfer \<Rightarrow>
              if \<not> success then
                ok (no_events\<lparr>InternalWithdrawals :=
                      [\<lparr>iw_Utime = im_CreatedAt inMsg, iw_Lt = im_CreatedLT inMsg, iw_From = dstAddr,
                        iw_Amount = jt_Amount transfer, iw_Memo = jt_Comment transfer, iw_IsFailed = True\<rparr>]\<rparr>, 0, False)
              else if tx_OutMsgCount tx < 1 then
                noting (LogTX Error (WalletType_string JettonDepositWallet) (tx_Hash tx)
                          ''success Jettons transfer TX without out message'')
                  (fail (Errorf ''anomalous behavior of the deposit Jetton wallet''))
              else if GetWalletTypeByTonutilsAddress (bs_db s) (jt_Destination transfer) \<noteq> Some TonHotWallet then
                (case (im_DstAddr inMsg, jt_Destination transfer) of
                   (Some src, Some dst) \<Rightarrow>
                     noting (LogTX Warning (WalletType_string JettonDepositWallet) (tx_Hash tx)
                               (''Jettons withdrawal from '' @ lib_AddrString lib src @ '' to ''
                                @ lib_AddrString lib dst @ '' (not to hot wallet)''))
                       (ok (no_events, lib_BigInt lib (jt_Amount transfer), False))
                 | _ \<Rightarrow> fail nil_pointer)
              else
                ok (no_events\<lparr>InternalWithdrawals :=
                      [\<lparr>iw_Utime = im_CreatedAt inMsg, iw_Lt = im_CreatedLT inMsg, iw_From = dstAddr,
                        iw_Amount = jt_Amount transfer, iw_Memo = jt_Comment transfer, iw_IsFailed = False\<rparr>]\<rparr>,
                    lib_BigInt lib (jt_Amount transfer), False)))
      | Some _ \<Rightarrow>
          noting (LogTX Info (WalletType_string JettonDepositWallet) (tx_Hash tx) ''not internal in message'')
            (ok (no_events, 0, True)))"

definition calculateJettonAmounts ::
  "scanner \<Rightarrow> Address \<Rightarrow> BlockIDExt \<Rightarrow> BlockIDExt \<Rightarrow> int \<Rightarrow> int \<Rightarrow> int audited" where
  "calculateJettonAmounts s a prevBlockID blockID knownIncomeAmount totalWithdrawalsAmount =
     andThen (lift_res (bs_GetJettonBalance s a prevBlockID)) (\<lambda>prevBalance.
     andThen (lift_res (bs_GetJettonBalance s a blockID)) (\<lambda>currentBalance.
     let diff = currentBalance - prevBalance;
         totalIncomeAmount = diff + totalWithdrawalsAmount
     in ok (totalIncomeAmount - knownIncomeAmount)))"

definition convertUnknownJettonTxs :: "Transaction list \<Rightarrow> Address \<Rightarrow> int \<Rightarrow> ExternalIncome list" where
  "convertUnknownJettonTxs txs addr amount =
     map (\<lambda>tx. \<lparr>ei_Utime = tx_Now tx, ei_Lt = tx_LT tx, ei_From = None, ei_FromWorkchain = None, ei_To = addr,
                ei_Amount = ZeroCoins, ei_Comment = [], ei_TxHash = tx_Hash tx\<rparr>) txs
     @ (case txs of
          [] \<Rightarrow> []
        | tx # _ \<Rightarrow> [\<lparr>ei_Utime = tx_Now tx, ei_Lt = tx_LT tx, ei_From = None, ei_FromWorkchain = None, ei_To = addr,
                     ei_Amount = NewCoins amount, ei_Comment = [], ei_TxHash = tx_Hash tx\<rparr>])"

record jetton_scan =
  js_events :: Events
  js_known :: int
  js_withdrawn :: int
  js_unknown :: "Transaction list"

definition jetton_deposit_tx :: "scanner \<Rightarrow> Transaction \<Rightarrow> jetton_scan \<Rightarrow> jetton_scan audited" where
  "jetton_deposit_tx s tx st =
     andThen (processJettonDepositOutMsgs s tx) (\<lambda>(e, knownAmount, outUnknownFound).
     andThen (processJettonDepositInMsg s tx) (\<lambda>(e', totalAmount, inUnknownFound).
     ok (st\<lparr>js_events := Events_Append (Events_Append (js_events st) e) e',
            js_known := js_known st + knownAmount,
            js_withdrawn := js_withdrawn st + totalAmount,
            js_unknown := js_unknown st @ (if outUnknownFound \<or> inUnknownFound then [tx] else [])\<rparr>)))"

definition processJettonDepositWalletTXs ::
  "scanner \<Rightarrow> transactions \<Rightarrow> BlockIDExt \<Rightarrow> BlockIDExt \<Rightarrow> Events audited" where
  "processJettonDepositWalletTXs s txs blockID prevBlockID =
     andThen (forM (jetton_deposit_tx s) (t_Transactions txs)
                \<lparr>js_events = no_events, js_known = 0, js_withdrawn = 0, js_unknown = []\<rparr>) (\<lambda>st.
     andThen (calculateJettonAmounts s (t_Address txs) prevBlockID blockID (js_known st) (js_withdrawn st)) (\<lambda>unknownIncomeAmount.
     if unknownIncomeAmount > 0
     then ok ((js_events st)\<lparr>ExternalIncomes := ExternalIncomes (js_events st)
                @ convertUnknownJettonTxs (js_unknown st) (t_Address txs) unknownIncomeAmount\<rparr>)
     else ok (js_events st)))"

section \<open>Blocks\<close>

text \<open>\<open>txMap\<close> of \<open>filterTXs\<close>: the addresses in the order they were first met, with their
  transactions in the order of the block.\<close>

fun map_append :: "Address \<Rightarrow> Transaction \<Rightarrow> (Address \<times> Transaction list) list \<Rightarrow> (Address \<times> Transaction list) list" where
  "map_append a tx [] = [(a, [tx])]"
| "map_append a tx ((b, txs) # m) = (if a = b then (b, txs @ [tx]) # m else (b, txs) # map_append a tx m)"

fun fetch_txs :: "scanner \<Rightarrow> BlockIDExt \<Rightarrow> TransactionShortInfo list \<Rightarrow> (Address \<times> Transaction list) list
    \<Rightarrow> error + (Address \<times> Transaction list) list" where
  "fetch_txs s blockID [] txMap = Inr txMap"
| "fetch_txs s blockID (i # is) txMap =
     andThenR (AddressFromBytes (tsi_Account i)) (\<lambda>a.
     if GetWalletType (bs_db s) a \<noteq> None
     then andThenR (bs_GetTransactionFromBlock s blockID i) (\<lambda>tx. fetch_txs s blockID is (map_append a tx txMap))
     else fetch_txs s blockID is txMap)"

definition filterTXs :: "scanner \<Rightarrow> BlockIDExt \<Rightarrow> TransactionShortInfo list \<Rightarrow> error + transactions list" where
  "filterTXs s blockID ids =
     andThenR (fetch_txs s blockID ids []) (\<lambda>txMap.
     Inr (map (\<lambda>a. \<lparr>t_Address = a,
                    t_WalletType = (case GetWalletType (bs_db s) a of Some t \<Rightarrow> t | None \<Rightarrow> JettonOwner),
                    t_Transactions = (case map_of txMap a of Some txs \<Rightarrow> txs | None \<Rightarrow> [])\<rparr>)
            (bs_range s (map fst txMap))))"

definition wallet_txs :: "scanner \<Rightarrow> ShardBlockHeader \<Rightarrow> transactions \<Rightarrow> Events \<Rightarrow> Events audited" where
  "wallet_txs s block t events =
     (case t_WalletType t of
        TonHotWallet \<Rightarrow> andThen (processTonHotWalletTXs s t) (\<lambda>e. ok (Events_Append events e))
      | TonDepositWallet \<Rightarrow> andThen (processTonDepositWalletTXs s t) (\<lambda>e. ok (Events_Append events e))
      | JettonDepositWallet \<Rightarrow>
          andThen (processJettonDepositWalletTXs s t (sbh_BlockIDExt block) (sbh_Parent block)) (\<lambda>e.
          ok (Events_Append events e))
      | _ \<Rightarrow> ok events)"

definition processTXs :: "scanner \<Rightarrow> transactions list \<Rightarrow> ShardBlockHeader \<Rightarrow> BlockEvents audited" where
  "processTXs s txs block =
     andThen (forM (wallet_txs s block) txs no_events) (\<lambda>e. ok \<lparr>be_Events = e, be_Block = block\<rparr>)"

section \<open>Notifications\<close>

type_synonym 'a published = "(incomeNotification, 'a) logged"

text \<open>A notification counts as published when the notificator accepted it.\<close>

definition publish :: "incomeNotification \<Rightarrow> (incomeNotification \<Rightarrow> error + unit) \<Rightarrow> unit \<Rightarrow> unit published" where
  "publish n pub _ = (case pub n of Inl e \<Rightarrow> fail e | Inr _ \<Rightarrow> noting n (ok ()))"

definition pushNotification ::
  "scanner \<Rightarrow> Address \<Rightarrow> Coins \<Rightarrow> u32 \<Rightarrow> byte list option \<Rightarrow> int option \<Rightarrow> string \<Rightarrow> byte list \<Rightarrow> unit published" where
  "pushNotification s addr amount timestamp src fromWorkchain comment txHash =
     (let lib = bs_lib s; cfg = bs_cfg s in
      andThen (lift_res (GetOwner (bs_db s) addr)) (\<lambda>owner.
      let addr' = (case owner of None \<Rightarrow> addr | Some a \<Rightarrow> a) in
      case GetUserID (bs_db s) addr' of
        None \<Rightarrow> fail (Errorf (''not found UserID for deposit '' @ Address_ToUserFormat lib cfg addr'))
      | Some userID \<Rightarrow>
          let source =
                (case (src, fromWorkchain) of
                   (Some bs, Some wc) \<Rightarrow>
                     if length bs = 32
                     then lib_AddrString lib ((lib_NewAddress lib 0 (word_of_int wc) bs)\<lparr>ta_TestnetOnly := cfg_Testnet cfg\<rparr>)
                     else []
                 | _ \<Rightarrow> []);
              n = \<lparr>ntf_Deposit = Address_ToUserFormat lib cfg addr', ntf_Timestamp = uint timestamp,
                   ntf_Amount = lib_CoinsString lib amount, ntf_Source = source, ntf_Comment = comment,
                   ntf_UserID = userID, ntf_TxHash = hex txHash\<rparr>
          in forM (publish n) (bs_notificators s) ()))"

definition pushNotifications :: "scanner \<Rightarrow> BlockEvents \<Rightarrow> unit published" where
  "pushNotifications s e =
     (if bs_notificators s = [] then ok ()
      else if cfg_IsDepositSideCalculation (bs_cfg s)
      then forM (\<lambda>ei _. pushNotification s (ei_To ei) (ei_Amount ei) (ei_Utime ei) (ei_From ei)
                          (ei_FromWorkchain ei) (ei_Comment ei) (ei_TxHash ei))
             (ExternalIncomes (be_Events e)) ()
      else forM (\<lambda>ii _. pushNotification s (ii_From ii) (ii_Amount ii) (ii_Utime ii) None None [] (ii_TxHash ii))
             (InternalIncomes (be_Events e)) ())"

text \<open>\<open>processBlock\<close>: the connection afterwards, the audit records, the notifications published and
  the result.  The scanner reads the address book of the connection.\<close>

definition processBlock ::
  "scanner \<Rightarrow> ShardBlockHeader \<Rightarrow> Connection \<Rightarrow> Connection \<times> message list \<times> incomeNotification list \<times> (error + unit)" where
  "processBlock s0 block c =
     (let s = s0\<lparr>bs_db := conn_addressBook c\<rparr> in
      case andThenR (bs_GetTransactionIDsFromBlock s (sbh_BlockIDExt block))
             (filterTXs s (sbh_BlockIDExt block)) of
        Inl e \<Rightarrow> (c, [], [], Inl e)
      | Inr filteredTXs \<Rightarrow>
          (case processTXs s filteredTXs block of
             (logs, Inl e) \<Rightarrow> (c, logs, [], Inl e)
           | (logs, Inr ev) \<Rightarrow>
               (case SaveParsedBlockData (bs_lib s) ev c of
                  (c', logs', Inl e) \<Rightarrow> (c', logs @ logs', [], Inl e)
                | (c', logs', Inr _) \<Rightarrow>
                    (let (pubs, r) = pushNotifications s ev in (c', logs @ logs', pubs, r)))))"

end
