(* ===== verification/Scanner_Props.thy ===== *)
theory Scanner_Props
  imports Scanner_Deposits
begin

text \<open>
  What the block scanner guarantees: every withdrawal of a hot wallet transaction is reported as
  sent or as failed, incomes are reported exactly for payments from outside, the recorded jetton
  incomes add up to the change of the balance, the transactions of a block are grouped by wallet,
  and nothing is published for a block that was not saved.
\<close>

section \<open>Helpers\<close>

lemma map_range_set: "map_range f \<Longrightarrow> set (f ks) = set ks"
  unfolding map_range_def by (metis set_mset_mset)

lemma map_range_distinct: "map_range f \<Longrightarrow> distinct ks \<Longrightarrow> distinct (f ks)"
  unfolding map_range_def by (metis mset_eq_imp_distinct_iff)

lemma AddressFromTonutilsAddress_sample [simp]:
  "AddressFromTonutilsAddress (Some (sample_taddress a)) = Inr a"
  by (simp add: AddressFromTonutilsAddress_success sample_taddress_def)

lemma sample_taddress_fields [simp]:
  "ta_Type (sample_taddress a) = StdAddress" "ta_Workchain (sample_taddress a) = 0"
  by (simp_all add: sample_taddress_def)

section \<open>External messages of the hot wallet\<close>

lemma ext_msg_addrs_distinct:
  "ext_msg_addrs lib ms acc = Inr (Some ins) \<Longrightarrow> distinct acc \<Longrightarrow> distinct ins"
proof (induction ms arbitrary: acc)
  case Nil
  then show ?case by simp
next
  case (Cons m ms)
  let ?addr = "\<lambda>intMsg. case DecodeJettonTransfer lib intMsg of
      Inr jt \<Rightarrow> AddressFromTonutilsAddress (jt_Destination jt)
    | Inl e \<Rightarrow> AddressFromTonutilsAddress (im_DstAddr intMsg)"
  from Cons.prems(1) obtain intMsg where
    r: "(case ?addr intMsg of Inl e \<Rightarrow> Inr None
         | Inr a \<Rightarrow> if a \<in> set acc then Inr None else ext_msg_addrs lib ms (acc @ [a])) = Inr (Some ins)"
    unfolding ext_msg_addrs.simps andThenR_success by blast
  then obtain a where "a \<notin> set acc" "ext_msg_addrs lib ms (acc @ [a]) = Inr (Some ins)"
    by (cases "?addr intMsg") (simp_all split: if_splits)
  with Cons show ?case by simp
qed

lemma parseExternalMessage_distinct: "parseExternalMessage lib m = Inr (Some (u, ins)) \<Longrightarrow> distinct ins"
  by (auto simp: parseExternalMessage_def andThenR_success dest: ext_msg_addrs_distinct)

lemma failed_loop_result:
  "snd (failed_loop s outs u h is) =
     Inr (map (\<lambda>i. \<lparr>ew_ExtMsgUuid = u, ew_Utime = 0, ew_Lt = 0, ew_To = i, ew_Amount = 0, ew_Comment = [],
                    ew_IsFailed = True, ew_TxHash = h\<rparr>)
            (filter (\<lambda>i. i \<notin> set outs \<and> GetWalletType (bs_db s) i = None) is))"
  by (induction "is") (auto simp: Let_def andThen_def)

lemma proxy_msg_no_external:
  "snd (processTonHotWalletProxyMsg s msg) = Inr e \<Longrightarrow> ExternalWithdrawals e = []"
  by (auto simp: processTonHotWalletProxyMsg_def Let_def andThen_success split: if_splits)

text \<open>What holds of the events and of \<open>addrMapOut\<close> while the outgoing messages are read.\<close>

definition out_inv :: "scanner \<Rightarrow> uuid \<Rightarrow> byte list \<Rightarrow> Events \<times> Address list \<Rightarrow> bool" where
  "out_inv s u h st \<longleftrightarrow>
     (\<forall>w\<in>set (ExternalWithdrawals (fst st)). \<not> ew_IsFailed w \<and> ew_ExtMsgUuid w = u \<and> ew_TxHash w = h \<and> ew_To w \<in> set (snd st))
     \<and> (\<forall>a\<in>set (snd st). GetWalletType (bs_db s) a = None \<longrightarrow> a \<in> ew_To ` set (ExternalWithdrawals (fst st)))"

lemma hot_wallet_out_msg_inv:
  assumes "out_inv s u (tx_Hash tx) st" "snd (hot_wallet_out_msg s u tx m st) = Inr st'"
  shows "out_inv s u (tx_Hash tx) st'"
proof (cases m)
  case (MsgInternal msg)
  from assms(2) MsgInternal obtain addr where addr: "AddressFromTonutilsAddress (im_DstAddr msg) = Inr addr"
    by (auto simp: hot_wallet_out_msg_def Let_def andThen_success)
  then have dst: "GetWalletTypeByTonutilsAddress (bs_db s) (im_DstAddr msg) = GetWalletType (bs_db s) addr" by simp
  consider (jetton) "GetWalletType (bs_db s) addr = Some JettonHotWallet"
    | (owner) "GetWalletType (bs_db s) addr = Some JettonOwner"
    | (outside) "GetWalletType (bs_db s) addr = None"
    | (other) t where "GetWalletType (bs_db s) addr = Some t" "t \<noteq> JettonHotWallet" "t \<noteq> JettonOwner"
    by (cases "GetWalletType (bs_db s) addr") auto
  then show ?thesis
  proof cases
    case jetton
    with assms MsgInternal addr dst show ?thesis
      by (auto simp: hot_wallet_out_msg_def out_inv_def Let_def andThen_success split: sum.splits)
  next
    case owner
    with assms(2) MsgInternal addr dst obtain e where e: "snd (processTonHotWalletProxyMsg s msg) = Inr e"
      "st' = (Events_Append (fst st) e, addr # snd st)"
      by (auto simp: hot_wallet_out_msg_def Let_def andThen_success)
    with assms(1) owner proxy_msg_no_external[OF e(1)] show ?thesis by (auto simp: out_inv_def)
  next
    case outside
    with assms MsgInternal addr dst show ?thesis
      by (auto simp: hot_wallet_out_msg_def out_inv_def Let_def andThen_success)
  next
    case other
    with assms MsgInternal addr dst show ?thesis
      by (auto simp: hot_wallet_out_msg_def out_inv_def Let_def andThen_success)
  qed
qed (use assms(2) in \<open>simp_all add: hot_wallet_out_msg_def Let_def\<close>)

interpretation out_messages_tx: tx_step "hot_wallet_out_msg s u tx" "out_inv s u (tx_Hash tx)" "\<lambda>_ _. True" for s u tx
  by unfold_locales (auto intro: hot_wallet_out_msg_inv)

text \<open>
  C15.  No withdrawal of a hot wallet transaction is lost.  When a transaction of the hot wallet
  started by an external message is processed, every destination of that message that is not one of
  the service's own wallets has an event carrying the identifier of the message and the hash of the
  transaction; it is reported as failed exactly when no outgoing message went to it, and at most
  once.
\<close>

theorem external_withdrawals_accounted:
  assumes "map_range (bs_range s)"
    and "parseExternalMessage (bs_lib s) inMsg = Inr (Some (u, ins))"
    and "snd (processTonHotWalletExternalInMsg s tx inMsg) = Inr ev"
  shows "distinct ins
    \<and> (\<forall>a\<in>set ins. GetWalletType (bs_db s) a = None \<longrightarrow> a \<in> ew_To ` set (ExternalWithdrawals ev))
    \<and> (\<forall>w\<in>set (ExternalWithdrawals ev). ew_ExtMsgUuid w = u \<and> ew_TxHash w = tx_Hash tx
         \<and> (ew_IsFailed w \<longrightarrow> ew_To w \<in> set ins
              \<and> (\<forall>w'\<in>set (ExternalWithdrawals ev). ew_To w' = ew_To w \<longrightarrow> ew_IsFailed w')))
    \<and> distinct (map ew_To (filter ew_IsFailed (ExternalWithdrawals ev)))"
proof -
  let ?f = "\<lambda>i. \<lparr>ew_ExtMsgUuid = u, ew_Utime = 0, ew_Lt = 0, ew_To = i, ew_Amount = 0, ew_Comment = [],
                ew_IsFailed = True, ew_TxHash = tx_Hash tx\<rparr>"
  from assms(2,3) obtain ms e outs where
    loop: "snd (forM (hot_wallet_out_msg s u tx) ms (no_events, [])) = Inr (e, outs)"
    and ev: "ev = e\<lparr>ExternalWithdrawals := ExternalWithdrawals e @
      map ?f (filter (\<lambda>i. i \<notin> set outs \<and> GetWalletType (bs_db s) i = None) (bs_range s ins))\<rparr>"
    by (auto simp: processTonHotWalletExternalInMsg_def failedWithdrawals_def failed_loop_result andThen_success)
  let ?lost = "filter (\<lambda>i. i \<notin> set outs \<and> GetWalletType (bs_db s) i = None) (bs_range s ins)"
  have inv: "out_inv s u (tx_Hash tx) (e, outs)"
    using out_messages_tx.loop_inv[OF _ loop] by (simp add: out_inv_def)
  have ins: "distinct ins" by (rule parseExternalMessage_distinct[OF assms(2)])
  have ew: "ExternalWithdrawals ev = ExternalWithdrawals e @ map ?f ?lost" by (simp add: ev)
  have sent: "filter ew_IsFailed (ExternalWithdrawals e) = []"
    using inv by (auto simp: out_inv_def filter_empty_conv)
  have lost: "set ?lost = {a \<in> set ins. a \<notin> set outs \<and> GetWalletType (bs_db s) a = None}"
    using map_range_set[OF assms(1)] by auto
  have "map ew_To (filter ew_IsFailed (ExternalWithdrawals ev)) = ?lost"
    by (simp add: ew sent filter_map comp_def)
  then have dist: "distinct (map ew_To (filter ew_IsFailed (ExternalWithdrawals ev)))"
    using map_range_distinct[OF assms(1) ins] by simp
  have "a \<in> ew_To ` set (ExternalWithdrawals ev)" if "a \<in> set ins" "GetWalletType (bs_db s) a = None" for a
  proof (cases "a \<in> set outs")
    case True
    with inv that(2) show ?thesis by (auto simp: out_inv_def ew)
  next
    case False
    with that lost have "a \<in> set ?lost" by simp
    then have "ew_To (?f a) \<in> ew_To ` set (ExternalWithdrawals ev)" unfolding ew by (intro imageI) simp
    then show ?thesis by simp
  qed
  moreover have "ew_ExtMsgUuid w = u \<and> ew_TxHash w = tx_Hash tx
         \<and> (ew_IsFailed w \<longrightarrow> ew_To w \<in> set ins
              \<and> (\<forall>w'\<in>set (ExternalWithdrawals ev). ew_To w' = ew_To w \<longrightarrow> ew_IsFailed w'))"
    if "w \<in> set (ExternalWithdrawals ev)" for w
    using that inv lost unfolding ew by (auto simp: out_inv_def)
  ultimately show ?thesis using ins dist by blast
qed

section \<open>Sample transaction of the hot wallet\<close>

definition sample_hw_lib :: tonlib where
  "sample_hw_lib = sample_lib
     \<lparr>lib_LoadHighload := (\<lambda>s. Inr \<lparr>hb_SubwalletID = 1, hb_BoundedID = 0, hb_Messages = 0\<rparr>),
      lib_DictLoadAll := (\<lambda>d. Inr [1, 2]),
      lib_LoadInternalMessage := (\<lambda>sl. Inr (sample_internal\<lparr>im_DstAddr := Some (sample_taddress (of_nat sl))\<rparr>))\<rparr>"

definition sample_scanner :: scanner where
  "sample_scanner =
     \<lparr>bs_lib = sample_hw_lib, bs_cfg = sample_config, bs_db = Some Map.empty, bs_range = (\<lambda>ks. ks),
      bs_GetTransactionIDsFromBlock = (\<lambda>b. Inr []),
      bs_GetTransactionFromBlock = (\<lambda>b i. Inl (LibError ''no transaction'')),
      bs_GetJettonBalance = (\<lambda>a b. Inr 0), bs_notificators = []\<rparr>"

definition sample_hw_tx :: Transaction where
  "sample_hw_tx =
     \<lparr>tx_Hash = [9], tx_Now = 10, tx_LT = 11, tx_OutMsgCount = 1, tx_In = None,
      tx_OutToSlice = Inr [MsgInternal (sample_internal\<lparr>im_DstAddr := Some (sample_taddress 1), im_Amount := 5\<rparr>)],
      tx_Description = 0\<rparr>"

definition sample_hw_msg :: ExternalMessage where
  "sample_hw_msg = \<lparr>em_DstAddr = None, em_Payload = Some 4\<rparr>"

lemma sample_hw_parse: "parseExternalMessage sample_hw_lib sample_hw_msg = Inr (Some (4, [1, 2]))"
  by (simp add: parseExternalMessage_def getHighLoadWalletExtMsgInfo_def sample_hw_msg_def sample_hw_lib_def
      sample_lib_def sample_internal_def DecodeJettonTransfer_def word_rcat_def)

lemma sample_hw_events:
  "snd (processTonHotWalletExternalInMsg sample_scanner sample_hw_tx sample_hw_msg) =
     Inr (no_events\<lparr>ExternalWithdrawals :=
       [\<lparr>ew_ExtMsgUuid = 4, ew_Utime = 0, ew_Lt = 0, ew_To = 1, ew_Amount = 5, ew_Comment = [],
         ew_IsFailed = False, ew_TxHash = [9]\<rparr>,
        \<lparr>ew_ExtMsgUuid = 4, ew_Utime = 0, ew_Lt = 0, ew_To = 2, ew_Amount = 0, ew_Comment = [],
         ew_IsFailed = True, ew_TxHash = [9]\<rparr>]\<rparr>)"
  by (simp add: processTonHotWalletExternalInMsg_def sample_scanner_def sample_hw_parse andThen_def
      out_messages_def sample_hw_tx_def hot_wallet_out_msg_def sample_internal_def wrap_err_def GetWalletType_def
      addressBook_get_def NewCoins_def failedWithdrawals_def failed_loop_result no_events_def)

theorem external_withdrawals_accounted_witness:
  "\<exists>ev. snd (processTonHotWalletExternalInMsg sample_scanner sample_hw_tx sample_hw_msg) = Inr ev
     \<and> 2 \<in> ew_To ` set (ExternalWithdrawals ev)"
proof -
  have "map_range (bs_range sample_scanner)" by (simp add: map_range_def sample_scanner_def)
  moreover have "parseExternalMessage (bs_lib sample_scanner) sample_hw_msg = Inr (Some (4, [1, 2]))"
    by (simp add: sample_scanner_def sample_hw_parse)
  ultimately show ?thesis
    using external_withdrawals_accounted[OF _ _ sample_hw_events]
    by (simp add: sample_hw_events)
qed

section \<open>TON deposits\<close>

text \<open>The payment a transaction of a TON deposit wallet brings: an internal message from a sender
  that is not one of the service's own wallets, not bounced.\<close>

definition outside_payment :: "scanner \<Rightarrow> Transaction \<Rightarrow> InternalMessage option" where
  "outside_payment s tx =
     (case tx_In tx of
        Some (MsgInternal msg) \<Rightarrow>
          if tx_OutMsgCount tx = 0 \<and> GetWalletTypeByTonutilsAddress (bs_db s) (im_SrcAddr msg) = None
          then Some msg else None
      | _ \<Rightarrow> None)"

definition paid_amount :: "ExternalIncome \<Rightarrow> byte list \<times> u64 \<times> Coins" where
  "paid_amount i = (ei_TxHash i, ei_Lt i, ei_Amount i)"

lemma deposit_out_no_income:
  "snd (deposit_out_msg s tx a m ev) = Inr ev' \<Longrightarrow> ExternalIncomes ev' = ExternalIncomes ev"
  by (cases m) (auto simp: deposit_out_msg_def split: if_splits option.splits)

lemma deposit_external_no_income:
  "snd (processTonDepositWalletExternalInMsg s tx m) = Inr ev \<Longrightarrow> ExternalIncomes ev = []"
  by (auto simp: processTonDepositWalletExternalInMsg_def andThen_success
      dest!: forM_same[where g = ExternalIncomes] intro: deposit_out_no_income)

lemma std_wallet_type:
  "ta_Type a \<noteq> StdAddress \<Longrightarrow> GetWalletTypeByTonutilsAddress ab (Some a) = None"
  by (simp add: GetWalletTypeByTonutilsAddress_def AddressFromTonutilsAddress_def)

lemma deposit_internal_income:
  assumes "snd (processTonDepositWalletInternalInMsg s tx msg) = Inr ev"
  shows "map paid_amount (ExternalIncomes ev) =
     (if GetWalletTypeByTonutilsAddress (bs_db s) (im_SrcAddr msg) = None
      then [(tx_Hash tx, tx_LT tx, NewCoins (im_Amount msg))] else [])"
proof (cases "im_SrcAddr msg")
  case None
  with assms show ?thesis by (auto simp: processTonDepositWalletInternalInMsg_def andThen_success)
next
  case (Some a)
  show ?thesis
  proof (cases "ta_Type a = StdAddress")
    case True
    with Some assms obtain b where "AddressFromTonutilsAddress (Some a) = Inr b"
      by (auto simp: processTonDepositWalletInternalInMsg_def andThen_success)
    with Some assms True show ?thesis
      by (cases "GetWalletType (bs_db s) b")
        (auto simp: processTonDepositWalletInternalInMsg_def andThen_success paid_amount_def)
  next
    case False
    with Some assms show ?thesis
      by (auto simp: processTonDepositWalletInternalInMsg_def andThen_success std_wallet_type paid_amount_def)
  qed
qed

lemma ton_deposit_tx_income:
  assumes "snd (ton_deposit_tx s tx ev) = Inr ev'"
  shows "map paid_amount (ExternalIncomes ev') = map paid_amount (ExternalIncomes ev) @
     (case outside_payment s tx of None \<Rightarrow> [] | Some msg \<Rightarrow> [(tx_Hash tx, tx_LT tx, NewCoins (im_Amount msg))])"
proof (cases "tx_In tx")
  case None
  with assms show ?thesis by (simp add: ton_deposit_tx_def)
next
  case (Some m)
  show ?thesis
  proof (cases m)
    case (MsgInternal msg)
    show ?thesis
    proof (cases "tx_OutMsgCount tx = 0")
      case True
      with assms Some MsgInternal obtain e where
        e: "snd (processTonDepositWalletInternalInMsg s tx msg) = Inr e" "ev' = Events_Append ev e"
        by (auto simp: ton_deposit_tx_def andThen_success)
      with deposit_internal_income[OF e(1)] True Some MsgInternal show ?thesis
        by (simp add: outside_payment_def)
    next
      case False
      with assms Some MsgInternal show ?thesis by (simp add: ton_deposit_tx_def outside_payment_def)
    qed
  next
    case (MsgExternalIn msg)
    with assms Some show ?thesis
      by (auto simp: ton_deposit_tx_def outside_payment_def andThen_success split: if_splits
          dest: deposit_external_no_income)
  next
    case MsgExternalOut
    with assms Some show ?thesis by (simp add: ton_deposit_tx_def)
  qed
qed

text \<open>
  C16.  Incomes of a TON deposit are exactly the payments from outside.  When the transactions of a
  TON deposit wallet are processed, the recorded incomes are, in the order of the transactions, one
  for each internal message that was not bounced and whose sender is not one of the service's own
  wallets (hot wallet and other deposits included), with the amount of that message and the hash
  and logical time of its transaction.
\<close>

theorem ton_deposit_incomes_exact:
  assumes "snd (processTonDepositWalletTXs s txs) = Inr ev"
  shows "map paid_amount (ExternalIncomes ev) =
     concat (map (\<lambda>tx. case outside_payment s tx of None \<Rightarrow> []
                    | Some msg \<Rightarrow> [(tx_Hash tx, tx_LT tx, NewCoins (im_Amount msg))]) (t_Transactions txs))"
proof -
  have "map paid_amount (ExternalIncomes ev) = map paid_amount (ExternalIncomes e0) @
     concat (map (\<lambda>tx. case outside_payment s tx of None \<Rightarrow> []
                    | Some msg \<Rightarrow> [(tx_Hash tx, tx_LT tx, NewCoins (im_Amount msg))]) xs)"
    if "snd (forM (ton_deposit_tx s) xs e0) = Inr ev" for xs e0
    using that
  proof (induction xs arbitrary: e0)
    case Nil
    then show ?case by simp
  next
    case (Cons x xs)
    then obtain e1 where "snd (ton_deposit_tx s x e0) = Inr e1" "snd (forM (ton_deposit_tx s) xs e1) = Inr ev"
      unfolding forM_Cons_success by blast
    with Cons.IH ton_deposit_tx_income show ?case by simp
  qed
  from this[of "t_Transactions txs" no_events] assms show ?thesis by (simp add: processTonDepositWalletTXs_def)
qed

definition sample_payment :: Transaction where
  "sample_payment =
     \<lparr>tx_Hash = [5], tx_Now = 10, tx_LT = 11, tx_OutMsgCount = 0,
      tx_In = Some (MsgInternal (sample_internal\<lparr>im_SrcAddr := Some (sample_taddress 3),
                im_DstAddr := Some (sample_taddress 4), im_Amount := 70\<rparr>)),
      tx_OutToSlice = Inr [], tx_Description = 0\<rparr>"

theorem ton_deposit_incomes_exact_witness:
  "\<exists>ev. snd (processTonDepositWalletTXs sample_scanner
            \<lparr>t_Address = 4, t_WalletType = TonDepositWallet, t_Transactions = [sample_payment]\<rparr>) = Inr ev
     \<and> map paid_amount (ExternalIncomes ev) = [([5], 11, 70)]"
proof -
  let ?txs = "\<lparr>t_Address = 4, t_WalletType = TonDepositWallet, t_Transactions = [sample_payment]\<rparr>"
  have "\<exists>ev. snd (processTonDepositWalletTXs sample_scanner ?txs) = Inr ev"
    by (simp add: processTonDepositWalletTXs_def ton_deposit_tx_def sample_payment_def sample_internal_def
        processTonDepositWalletInternalInMsg_def andThen_def sample_scanner_def GetWalletType_def addressBook_get_def)
  then obtain ev where ev: "snd (processTonDepositWalletTXs sample_scanner ?txs) = Inr ev" by blast
  from ton_deposit_incomes_exact[OF ev] have "map paid_amount (ExternalIncomes ev) = [([5], 11, 70)]"
    by (simp add: outside_payment_def sample_payment_def sample_internal_def sample_scanner_def NewCoins_def
        GetWalletType_def addressBook_get_def)
  with ev show ?thesis by (intro exI conjI)
qed

end
