(* ===== verification/Block_Safety.thy ===== *)
theory Block_Safety
  imports Withdrawal_Safety
begin

text \<open>
  \<open>SaveParsedBlockData\<close> as a transaction: a block is saved as a whole or not at all, at most once,
  and never when it confirms a message the expiration processor has given up.
\<close>

section \<open>Blocks\<close>

lemma block_data_steps:
  "snd (saveExternalIncome i t) = Inr t' \<Longrightarrow> block_data t' = block_data t"
  "snd (saveInternalIncome lib ab ii t) = Inr t' \<Longrightarrow> block_data t' = block_data t"
  "snd (applySendingConfirmations lib sc t) = Inr t' \<Longrightarrow> block_data t' = block_data t"
  "snd (updateInternalWithdrawal lib iw t) = Inr t' \<Longrightarrow> block_data t' = block_data t"
  "snd (updateExternalWithdrawal lib ew t) = Inr t' \<Longrightarrow> block_data t' = block_data t"
  "snd (applyJettonWithdrawalConfirmation jc t) = Inr t' \<Longrightarrow> block_data t' = block_data t"
  by (auto simp: saveExternalIncome_def saveInternalIncome_def applySendingConfirmations_def
      updateInternalWithdrawal_def updateExternalWithdrawal_def applyJettonWithdrawalConfirmation_def
      mark_processed_def andThen_success Let_def split: if_splits option.splits)

definition has_block :: "u64 \<Rightarrow> u32 \<Rightarrow> tables \<Rightarrow> bool" where
  "has_block shard seqno t \<longleftrightarrow> (\<exists>r\<in>set (block_data t). bd_shard r = shard \<and> bd_seqno r = seqno)"

lemma has_block_cong: "block_data t' = block_data t \<Longrightarrow> has_block a b t' = has_block a b t"
  by (simp add: has_block_def)

lemma parsed_block_tx_blocks:
  assumes "snd (parsed_block_tx lib ab ev t) = Inr t'"
  shows "\<not> has_block (bid_Shard (sbh_BlockIDExt (be_Block ev))) (bid_SeqNo (sbh_BlockIDExt (be_Block ev))) t"
    and "has_block (bid_Shard (sbh_BlockIDExt (be_Block ev))) (bid_SeqNo (sbh_BlockIDExt (be_Block ev))) t'"
    and "set (block_data t) \<subseteq> set (block_data t')"
proof -
  let ?e = "be_Events ev"
  from assms obtain t1 t2 t3 t4 t5 t6 where
    s: "snd (forM saveExternalIncome (ExternalIncomes ?e) t) = Inr t1"
    "snd (forM (saveInternalIncome lib ab) (InternalIncomes ?e) t1) = Inr t2"
    "snd (forM (applySendingConfirmations lib) (SendingConfirmations ?e) t2) = Inr t3"
    "snd (forM (updateInternalWithdrawal lib) (InternalWithdrawals ?e) t3) = Inr t4"
    "snd (forM (updateExternalWithdrawal lib) (ExternalWithdrawals ?e) t4) = Inr t5"
    "snd (forM applyJettonWithdrawalConfirmation (WithdrawalConfirmations ?e) t5) = Inr t6"
    and last: "snd (saveBlock (be_Block ev) t6) = Inr t'"
    unfolding parsed_block_tx_def Let_def andThen_success by blast
  have "block_data t1 = block_data t" by (rule forM_same[OF s(1)]) (rule block_data_steps)
  moreover have "block_data t2 = block_data t1" by (rule forM_same[OF s(2)]) (rule block_data_steps)
  moreover have "block_data t3 = block_data t2" by (rule forM_same[OF s(3)]) (rule block_data_steps)
  moreover have "block_data t4 = block_data t3" by (rule forM_same[OF s(4)]) (rule block_data_steps)
  moreover have "block_data t5 = block_data t4" by (rule forM_same[OF s(5)]) (rule block_data_steps)
  moreover have "block_data t6 = block_data t5" by (rule forM_same[OF s(6)]) (rule block_data_steps)
  ultimately have "block_data t6 = block_data t" by simp
  with last show "\<not> has_block (bid_Shard (sbh_BlockIDExt (be_Block ev))) (bid_SeqNo (sbh_BlockIDExt (be_Block ev))) t"
    "has_block (bid_Shard (sbh_BlockIDExt (be_Block ev))) (bid_SeqNo (sbh_BlockIDExt (be_Block ev))) t'"
    "set (block_data t) \<subseteq> set (block_data t')"
    by (auto simp: saveBlock_def has_block_def Let_def split: if_splits)
qed

lemma SetExpired_blocks: "block_data (SetExpired cfg now1 now2 t) = block_data t"
  by (simp add: SetExpired_def Let_def fold_reset_processing)

lemma create_loop_blocks:
  "CreateExternalWithdrawals tasks u e t = (t', res) \<Longrightarrow> block_data t' = block_data t"
  by (auto simp: CreateExternalWithdrawals_def create_external_withdrawal_def split: sum.splits if_splits
      dest!: forM_same[where g = block_data])

lemma other_blocks:
  "SaveWithdrawalRequest w t = (t', res) \<Longrightarrow> block_data t' = block_data t"
  "SaveInternalWithdrawalTask itask e memo t = Inr t' \<Longrightarrow> block_data t' = block_data t"
  "SaveServiceWithdrawalRequest memo swr t = Inr (t', m) \<Longrightarrow> block_data t' = block_data t"
  "block_data (UpdateServiceWithdrawalRequest stask amount e filled t) = block_data t"
  "insert_ton_wallet sub u ty a t = Inr t' \<Longrightarrow> block_data t' = block_data t"
  "insert_jetton_wallet wd t = Inr t' \<Longrightarrow> block_data t' = block_data t"
  by (auto simp: SaveWithdrawalRequest_def SaveInternalWithdrawalTask_def SaveServiceWithdrawalRequest_def
      UpdateServiceWithdrawalRequest_def insert_ton_wallet_def insert_jetton_wallet_def Let_def split: if_splits)

lemma wallet_blocks:
  "SaveTonWallet wd c = (c', r) \<Longrightarrow> block_data (conn_db c') = block_data (conn_db c)"
  "SaveJettonWallet owner wd b c = (c', r) \<Longrightarrow> block_data (conn_db c') = block_data (conn_db c)"
  by (auto simp: SaveTonWallet_def SaveJettonWallet_def Let_def andThenR_def other_blocks
      split: sum.splits prod.splits if_splits dest!: other_blocks(5,6) put_info_same)

lemma sys_step_blocks:
  assumes "sys_step lib cfg s s'" "has_block a b (conn_db (sys_conn s))"
  shows "has_block a b (conn_db (sys_conn s'))"
  using assms
proof (cases rule: sys_step.cases)
  case (block events c res)
  with assms(2) SaveParsedBlockData_db[OF block(2)] parsed_block_tx_blocks(3) show ?thesis
    by (fastforce simp: has_block_def)
next
  case (restart c r)
  then show ?thesis using assms(2) LoadAddressBook_same by (simp add: NewConnection_def)
qed (simp_all add: has_block_def other_blocks SaveLastMasterchainProvenBlock_def create_loop_blocks SetExpired_blocks wallet_blocks)

lemma sys_reach_blocks:
  "sys_reach lib cfg s s' \<Longrightarrow> has_block a b (conn_db (sys_conn s)) \<Longrightarrow> has_block a b (conn_db (sys_conn s'))"
  by (induction rule: sys_reach.induct) (auto intro: sys_step_blocks)

lemma SaveParsedBlockData_refused:
  assumes "\<exists>e. snd (parsed_block_tx lib (conn_addressBook c) ev (conn_db c)) = Inl e"
  shows "\<exists>logs e. SaveParsedBlockData lib ev c = (c, (logs, Inl e))"
  using assms by (auto simp: SaveParsedBlockData_def split: prod.splits sum.splits)

text \<open>
  C8.  A block is accounted at most once.  After a block was saved, in every state the service can
  reach from there (restarts included), saving a block with the same shard and sequence number is
  refused with an error and leaves tables and address book exactly as they were.
\<close>

theorem block_accounted_once:
  assumes "SaveParsedBlockData lib ev c = (c', (logs, Inr ()))"
    and "sys_reach lib cfg \<lparr>sys_conn = c', sys_picked = picked\<rparr> s"
    and "bid_Shard (sbh_BlockIDExt (be_Block ev2)) = bid_Shard (sbh_BlockIDExt (be_Block ev))"
    and "bid_SeqNo (sbh_BlockIDExt (be_Block ev2)) = bid_SeqNo (sbh_BlockIDExt (be_Block ev))"
  shows "\<exists>logs2 e. SaveParsedBlockData lib ev2 (sys_conn s) = (sys_conn s, (logs2, Inl e))"
proof -
  let ?a = "bid_Shard (sbh_BlockIDExt (be_Block ev))" and ?b = "bid_SeqNo (sbh_BlockIDExt (be_Block ev))"
  from assms(1) obtain t where "snd (parsed_block_tx lib (conn_addressBook c) ev (conn_db c)) = Inr t" "conn_db c' = t"
    by (auto simp: SaveParsedBlockData_def split: prod.splits sum.splits)
  then have "has_block ?a ?b (conn_db c')" using parsed_block_tx_blocks(2) by blast
  with sys_reach_blocks[OF assms(2)] have "has_block ?a ?b (conn_db (sys_conn s))" by simp
  then have "\<exists>e. snd (parsed_block_tx lib (conn_addressBook (sys_conn s)) ev2 (conn_db (sys_conn s))) = Inl e"
    using parsed_block_tx_blocks(1)[of lib "conn_addressBook (sys_conn s)" ev2 "conn_db (sys_conn s)"] assms(3,4)
    by (cases "snd (parsed_block_tx lib (conn_addressBook (sys_conn s)) ev2 (conn_db (sys_conn s)))") auto
  then show ?thesis by (rule SaveParsedBlockData_refused)
qed

lemma sample_block_saved:
  "SaveParsedBlockData sample_lib sample_block (NewConnection sample_db2) = (sample_conn3, ([], Inr ()))"
  by (simp add: sample_conn3_def SaveParsedBlockData_def parsed_block_tx_def sample_block_def
      sample_header_def sample_block_id_def sample_withdrawal_def updateExternalWithdrawal_def saveBlock_def
      NewConnection_def sample_db2_eval ok_def mark_processed_def time_Unix_def Second_def)

theorem block_accounted_once_witness:
  "\<exists>logs2 e. SaveParsedBlockData sample_lib sample_block sample_conn3 = (sample_conn3, (logs2, Inl e))"
  using block_accounted_once[OF sample_block_saved reach_start refl refl] by simp

section \<open>Late confirmations\<close>

definition given_up :: "uuid \<Rightarrow> Address \<Rightarrow> tables \<Rightarrow> bool" where
  "given_up u a t \<longleftrightarrow>
     wd_inv t \<and> (\<exists>x\<in>set (external_withdrawals t). xw_msg_uuid x = u \<and> xw_address x = a \<and> xw_failed x)"

lemma given_up_same: "same_withdrawals t t' \<Longrightarrow> given_up u a t \<Longrightarrow> given_up u a t'"
  using same_withdrawals_ok by (auto simp: given_up_def same_withdrawals_def)

lemma given_up_external:
  assumes "given_up u a t" "snd (updateExternalWithdrawal lib w t) = Inr t'"
  shows "given_up u a t'"
proof -
  from assms(1) obtain y where y: "y \<in> set (external_withdrawals t)" "xw_msg_uuid y = u" "xw_address y = a" "xw_failed y"
    and inv: "wd_inv t" by (auto simp: given_up_def)
  have inv': "wd_inv t'" by (rule updateExternalWithdrawal_inv[OF inv assms(2)])
  show ?thesis using assms(2)
  proof (cases rule: updateExternalWithdrawal_success)
    case (1 x f)
    have "distinct (map row_key (external_withdrawals t))" using inv by (simp add: wd_inv_def)
    then have "row_key y \<noteq> row_key x" using y(1,4) 1(1,2) by (metis distinct_map_unique)
    then have "y \<in> set (external_withdrawals t')"
      unfolding 1(9) by (simp add: mark_processed_def set_update_where y(1))
    with y inv' show ?thesis by (auto simp: given_up_def)
  qed
qed

lemma given_up_refused:
  assumes "given_up (ew_ExtMsgUuid w) (ew_To w) t"
  shows "\<exists>e. snd (updateExternalWithdrawal lib w t) = Inl e"
proof (cases "snd (updateExternalWithdrawal lib w t)")
  case (Inr t')
  from assms obtain y where y: "y \<in> set (external_withdrawals t)" "row_key y = (ew_ExtMsgUuid w, ew_To w)" "xw_failed y"
    and d: "distinct (map row_key (external_withdrawals t))" by (auto simp: given_up_def wd_inv_def row_key_def)
  from Inr show ?thesis
  proof (cases rule: updateExternalWithdrawal_success)
    case (1 x f)
    with y d show ?thesis by (metis distinct_map_unique)
  qed
qed simp

lemma loop_given_up:
  "snd (forM f xs t) = Inr t' \<Longrightarrow> (\<And>x u v. snd (f x u) = Inr v \<Longrightarrow> same_withdrawals u v)
    \<Longrightarrow> given_up u a t \<Longrightarrow> given_up u a t'"
  by (rule forM_invariant[where P = "given_up u a"]) (auto intro: given_up_same)

text \<open>
  C11.  No payment is recorded for a message that was given up.  In a reachable state, a block that
  confirms a message already marked failed (expired and possibly sent again) is refused as a whole:
  the scanner gets an error, and tables and address book stay as they were.
\<close>

theorem late_confirmation_refused:
  assumes "conn_db (sys_conn s0) = empty_tables" "sys_picked s0 = []" "sys_reach lib cfg s0 s"
    and "x \<in> set (external_withdrawals (conn_db (sys_conn s)))" "xw_failed x"
    and "w \<in> set (ExternalWithdrawals (be_Events ev))" "ew_ExtMsgUuid w = xw_msg_uuid x" "ew_To w = xw_address x"
  shows "\<exists>logs e. SaveParsedBlockData lib ev (sys_conn s) = (sys_conn s, (logs, Inl e))"
proof (rule SaveParsedBlockData_refused)
  let ?t = "conn_db (sys_conn s)" and ?e = "be_Events ev" and ?ab = "conn_addressBook (sys_conn s)"
  let ?G = "given_up (ew_ExtMsgUuid w) (ew_To w)"
  have g0: "?G ?t" using reachable_inv[OF assms(1-3)] assms(4,5,7,8) by (auto simp: given_up_def)
  have "False" if ok: "snd (parsed_block_tx lib ?ab ev ?t) = Inr t'" for t'
  proof -
    from ok obtain t1 t2 t3 t4 t5 where
      s: "snd (forM saveExternalIncome (ExternalIncomes ?e) ?t) = Inr t1"
      "snd (forM (saveInternalIncome lib ?ab) (InternalIncomes ?e) t1) = Inr t2"
      "snd (forM (applySendingConfirmations lib) (SendingConfirmations ?e) t2) = Inr t3"
      "snd (forM (updateInternalWithdrawal lib) (InternalWithdrawals ?e) t3) = Inr t4"
      and bad: "snd (forM (updateExternalWithdrawal lib) (ExternalWithdrawals ?e) t4) = Inr t5"
      unfolding parsed_block_tx_def Let_def andThen_success by blast
    from g0 have "?G t1" by (rule loop_given_up[OF s(1), rotated]) (rule saveExternalIncome_same)
    then have "?G t2" by (rule loop_given_up[OF s(2), rotated]) (rule saveInternalIncome_same)
    then have "?G t3" by (rule loop_given_up[OF s(3), rotated]) (rule applySendingConfirmations_same)
    then have "?G t4" by (rule loop_given_up[OF s(4), rotated]) (rule updateInternalWithdrawal_same)
    then have "\<exists>e. snd (forM (updateExternalWithdrawal lib) (ExternalWithdrawals ?e) t4) = Inl e"
      by (rule forM_fails[OF assms(6)]) (auto intro: given_up_refused given_up_external)
    with bad show False by simp
  qed
  then show "\<exists>e. snd (parsed_block_tx lib ?ab ev ?t) = Inl e"
    by (cases "snd (parsed_block_tx lib ?ab ev ?t)") auto
qed

definition sample_expired :: tables where
  "sample_expired = SetExpired sample_config 200 200 sample_db2"

lemma sample_expired_eval:
  "external_withdrawals sample_expired =
     [\<lparr>xw_msg_uuid = 3, xw_query_id = 1, xw_expired_at = Some 100, xw_processed_at = None,
       xw_processed_lt = None, xw_confirmed = False, xw_failed = True, xw_address = 7, xw_tx_hash = None\<rparr>]"
  by (simp add: sample_expired_def SetExpired_tables(2)[OF refl] sample_db2_eval sample_config_def xw_expired_def)

theorem late_confirmation_refused_witness:
  "\<exists>logs e. SaveParsedBlockData sample_lib sample_block (NewConnection sample_expired)
     = (NewConnection sample_expired, (logs, Inl e))"
proof -
  let ?s = "\<lparr>sys_conn = NewConnection sample_expired, sys_picked = []\<rparr>"
  have "sys_step sample_lib sample_config \<lparr>sys_conn = NewConnection sample_db2, sys_picked = []\<rparr> ?s"
    using sys_step.expire[of sample_lib sample_config "\<lparr>sys_conn = NewConnection sample_db2, sys_picked = []\<rparr>" 200 200]
    by (simp add: NewConnection_def sample_expired_def)
  with sample_run_sent have run: "sys_reach sample_lib sample_config sample_s0 ?s" by (rule reach_step)
  show ?thesis
    using late_confirmation_refused[OF _ _ run, of "hd (external_withdrawals sample_expired)" sample_withdrawal sample_block]
    by (simp add: sample_s0_def NewConnection_def sample_expired_eval sample_block_def sample_withdrawal_def)
qed

end
