(* ===== verification/Scanner_Blocks.thy ===== *)
theory Scanner_Blocks
  imports Scanner_Props Block_Safety
begin

text \<open>
  Jetton deposits add up, blocks are split by wallet without loss, and notifications follow what
  was saved.
\<close>

section \<open>Jetton deposits\<close>

definition income_sum :: "Events \<Rightarrow> Coins" where
  "income_sum ev = (\<Sum>i\<leftarrow>ExternalIncomes ev. ei_Amount i)"

lemma income_sum_Append [simp]: "income_sum (Events_Append e f) = income_sum e + income_sum f"
  by (simp add: income_sum_def)

lemma income_sum_none [simp]: "income_sum no_events = 0"
  by (simp add: income_sum_def)

text \<open>What a jetton deposit wallet sends away in a transaction: the amount of the transfer it was
  ordered to make, when the transaction succeeded.\<close>

definition jetton_sent :: "scanner \<Rightarrow> Transaction \<Rightarrow> int" where
  "jetton_sent s tx =
     (case tx_In tx of
        Some (MsgInternal m) \<Rightarrow>
          (case DecodeJettonTransfer (bs_lib s) m of
             Inr tr \<Rightarrow> if checkTxForSuccess (bs_lib s) tx = Inr True then lib_BigInt (bs_lib s) (jt_Amount tr) else 0
           | Inl e \<Rightarrow> 0)
      | _ \<Rightarrow> 0)"

lemma notification_amount:
  "BigInt_integral lib \<Longrightarrow> decodeJettonTransferNotification lib m = Inr n
    \<Longrightarrow> of_int (lib_BigInt lib (jtn_Amount n)) = jtn_Amount n"
  by (auto simp: decodeJettonTransferNotification_def andThenR_success BigInt_integral_def NewCoins_def
      split: option.splits)

lemma jetton_out_msg_sum:
  assumes "BigInt_integral (bs_lib s)" "snd (jetton_out_msg s tx m st) = Inr st'"
    and "income_sum (fst st) = of_int (fst (snd st))"
  shows "income_sum (fst st') = of_int (fst (snd st'))"
proof (cases m)
  case (MsgInternal outMsg)
  obtain ev known unk where st: "st = (ev, known, unk)" by (cases st)
  show ?thesis
  proof (cases "decodeJettonTransferNotification (bs_lib s) outMsg")
    case (Inl e)
    with assms(2,3) MsgInternal st show ?thesis by (auto simp: jetton_out_msg_def andThen_success)
  next
    case (Inr n)
    then have n: "of_int (lib_BigInt (bs_lib s) (jtn_Amount n)) = jtn_Amount n" using assms(1) notification_amount by blast
    show ?thesis
    proof (cases "GetWalletTypeByTonutilsAddress (bs_db s) (jtn_Sender n)")
      case None
      with assms(2,3) MsgInternal st Inr n show ?thesis
        by (auto simp: jetton_out_msg_def andThen_success income_sum_def split: option.splits if_splits)
    next
      case (Some t)
      with assms(2,3) MsgInternal st Inr show ?thesis by (auto simp: jetton_out_msg_def andThen_success)
    qed
  qed
qed (use assms in \<open>auto simp: jetton_out_msg_def split: prod.splits\<close>)

lemma out_msgs_sum:
  assumes "BigInt_integral (bs_lib s)" "snd (processJettonDepositOutMsgs s tx) = Inr (e, known, unk)"
  shows "income_sum e = of_int known"
proof -
  from assms(2) obtain ms where "snd (forM (jetton_out_msg s tx) ms (no_events, 0, False)) = Inr (e, known, unk)"
    by (auto simp: processJettonDepositOutMsgs_def andThen_success)
  then have "income_sum (fst (e, known, unk)) = of_int (fst (snd (e, known, unk)))"
    by (rule forM_invariant[where P = "\<lambda>st. income_sum (fst st) = of_int (fst (snd st))"])
      (auto intro: jetton_out_msg_sum[OF assms(1)])
  then show ?thesis by simp
qed

lemma in_msg_sent:
  assumes "snd (processJettonDepositInMsg s tx) = Inr (e, sent, unk)"
  shows "income_sum e = 0 \<and> sent = jetton_sent s tx"
proof (cases "tx_In tx")
  case None
  with assms show ?thesis by (simp add: processJettonDepositInMsg_def jetton_sent_def)
next
  case (Some m)
  show ?thesis
  proof (cases m)
    case (MsgInternal inMsg)
    with Some assms obtain success a where ok: "checkTxForSuccess (bs_lib s) tx = Inr success"
      "AddressFromTonutilsAddress (im_DstAddr inMsg) = Inr a"
      by (auto simp: processJettonDepositInMsg_def Let_def andThen_success)
    show ?thesis
    proof (cases "DecodeJettonTransfer (bs_lib s) inMsg")
      case (Inl err)
      with assms Some MsgInternal ok show ?thesis
        by (auto simp: processJettonDepositInMsg_def jetton_sent_def Let_def andThen_def)
    next
      case (Inr tr)
      with assms Some MsgInternal ok show ?thesis
        by (cases success)
          (auto simp: processJettonDepositInMsg_def jetton_sent_def Let_def andThen_def income_sum_def
            split: if_splits option.splits)
    qed
  qed (use assms Some in \<open>auto simp: processJettonDepositInMsg_def jetton_sent_def\<close>)
qed

lemma jetton_loop_sums:
  assumes "BigInt_integral (bs_lib s)"
  shows "snd (forM (jetton_deposit_tx s) txs st) = Inr st' \<Longrightarrow> income_sum (js_events st) = of_int (js_known st)
    \<Longrightarrow> income_sum (js_events st') = of_int (js_known st')
        \<and> js_withdrawn st' = js_withdrawn st + (\<Sum>tx\<leftarrow>txs. jetton_sent s tx)"
proof (induction txs arbitrary: st)
  case Nil
  then show ?case by simp
next
  case (Cons tx txs)
  then obtain st1 where st1: "snd (jetton_deposit_tx s tx st) = Inr st1"
    and rest: "snd (forM (jetton_deposit_tx s) txs st1) = Inr st'"
    unfolding forM_Cons_success by blast
  from st1 obtain e known u1 e' sent u2 where
    out: "snd (processJettonDepositOutMsgs s tx) = Inr (e, known, u1)"
    and inm: "snd (processJettonDepositInMsg s tx) = Inr (e', sent, u2)"
    and st1': "js_events st1 = Events_Append (Events_Append (js_events st) e) e'"
      "js_known st1 = js_known st + known" "js_withdrawn st1 = js_withdrawn st + sent"
    by (auto simp: jetton_deposit_tx_def andThen_success)
  from out_msgs_sum[OF assms out] in_msg_sent[OF inm] Cons.prems(2) st1'
  have "income_sum (js_events st1) = of_int (js_known st1)" "js_withdrawn st1 = js_withdrawn st + jetton_sent s tx"
    by simp_all
  with Cons.IH[OF rest] show ?case by simp
qed

lemma unknown_sum:
  "(\<Sum>i\<leftarrow>convertUnknownJettonTxs txs a n. ei_Amount i) = (if txs = [] then 0 else of_int n)"
  by (cases txs) (simp_all add: convertUnknownJettonTxs_def ZeroCoins_def NewCoins_def comp_def)


definition sample_jetton_scanner :: scanner where
  "sample_jetton_scanner = sample_scanner
     \<lparr>bs_GetJettonBalance := (\<lambda>a b. Inr (if bid_SeqNo b = 6 then 30 else 0))\<rparr>"

definition sample_unknown_tx :: Transaction where
  "sample_unknown_tx =
     \<lparr>tx_Hash = [7], tx_Now = 10, tx_LT = 11, tx_OutMsgCount = 0, tx_In = None, tx_OutToSlice = Inr [],
      tx_Description = 0\<rparr>"

definition sample_jetton_txs :: transactions where
  "sample_jetton_txs = \<lparr>t_Address = 4, t_WalletType = JettonDepositWallet, t_Transactions = [sample_unknown_tx]\<rparr>"

lemma sample_jetton_loop:
  "snd (forM (jetton_deposit_tx sample_jetton_scanner) (t_Transactions sample_jetton_txs)
     \<lparr>js_events = no_events, js_known = 0, js_withdrawn = 0, js_unknown = []\<rparr>)
   = Inr \<lparr>js_events = no_events, js_known = 0, js_withdrawn = 0, js_unknown = [sample_unknown_tx]\<rparr>"
  by (simp add: sample_jetton_txs_def jetton_deposit_tx_def processJettonDepositOutMsgs_def out_messages_def
      sample_unknown_tx_def processJettonDepositInMsg_def andThen_def)

lemma sample_jetton_events:
  "\<exists>ev. snd (processJettonDepositWalletTXs sample_jetton_scanner sample_jetton_txs (sample_block_id 6) (sample_block_id 5)) = Inr ev"
  using sample_jetton_loop
  by (simp add: processJettonDepositWalletTXs_def andThen_def calculateJettonAmounts_def sample_jetton_scanner_def
      sample_block_id_def)


section \<open>The transactions of a block\<close>

definition txs_of :: "(Address \<times> Transaction list) list \<Rightarrow> Address \<Rightarrow> Transaction list" where
  "txs_of m a = (case map_of m a of Some txs \<Rightarrow> txs | None \<Rightarrow> [])"

lemma map_append_keys: "set (map fst (map_append a tx m)) = insert a (set (map fst m))"
  by (induction a tx m rule: map_append.induct) auto

lemma map_append_distinct: "distinct (map fst m) \<Longrightarrow> distinct (map fst (map_append a tx m))"
proof (induction a tx m rule: map_append.induct)
  case (2 a tx b txs m)
  then show ?case using map_append_keys[of a tx m] by auto
qed simp

lemma map_append_of: "txs_of (map_append a tx m) b = (if b = a then txs_of m a @ [tx] else txs_of m b)"
  by (induction a tx m rule: map_append.induct) (auto simp: txs_of_def)

lemma fetch_txs_groups:
  assumes "fetch_txs s blockID ids m = Inr m'" "distinct (map fst m)"
  shows "distinct (map fst m')
    \<and> set (map fst m') = set (map fst m)
        \<union> {a. GetWalletType (bs_db s) a \<noteq> None \<and> (\<exists>i\<in>set ids. AddressFromBytes (tsi_Account i) = Inr a)}
    \<and> (\<forall>a. GetWalletType (bs_db s) a \<noteq> None \<longrightarrow> map Inr (txs_of m' a) = map Inr (txs_of m a)
          @ map (bs_GetTransactionFromBlock s blockID) (filter (\<lambda>i. AddressFromBytes (tsi_Account i) = Inr a) ids))"
  using assms
proof (induction ids arbitrary: m)
  case Nil
  then show ?case by simp
next
  case (Cons i ids)
  from Cons.prems(1) obtain a where a: "AddressFromBytes (tsi_Account i) = Inr a" by (auto simp: andThenR_success)
  show ?case
  proof (cases "GetWalletType (bs_db s) a")
    case None
    with Cons a have "fetch_txs s blockID ids m = Inr m'" by simp
    from Cons.IH[OF this Cons.prems(2)] None a show ?thesis by auto
  next
    case (Some t)
    with Cons.prems(1) a obtain tx where tx: "bs_GetTransactionFromBlock s blockID i = Inr tx"
      and rest: "fetch_txs s blockID ids (map_append a tx m) = Inr m'"
      by (auto simp: andThenR_success)
    from Cons.IH[OF rest map_append_distinct[OF Cons.prems(2)]] Some a tx map_append_keys[of a tx m]
    show ?thesis by (auto simp: map_append_of)
  qed
qed

text \<open>
  The transactions of a block are grouped without loss.  For every own wallet that occurs in
  the block there is exactly one group, labelled with its wallet type; it holds the transactions of
  that wallet, all of them and in the order of the block, whatever order the map is visited in.
\<close>

theorem filterTXs_groups:
  assumes "map_range (bs_range s)" "filterTXs s blockID ids = Inr gs"
  shows "distinct (map t_Address gs)
    \<and> t_Address ` set gs = {a. GetWalletType (bs_db s) a \<noteq> None \<and> (\<exists>i\<in>set ids. AddressFromBytes (tsi_Account i) = Inr a)}
    \<and> (\<forall>g\<in>set gs. GetWalletType (bs_db s) (t_Address g) = Some (t_WalletType g)
         \<and> map Inr (t_Transactions g) = map (bs_GetTransactionFromBlock s blockID)
             (filter (\<lambda>i. AddressFromBytes (tsi_Account i) = Inr (t_Address g)) ids))"
proof -
  from assms(2) obtain m where m: "fetch_txs s blockID ids [] = Inr m"
    and gs: "gs = map (\<lambda>a. \<lparr>t_Address = a,
                    t_WalletType = (case GetWalletType (bs_db s) a of Some t \<Rightarrow> t | None \<Rightarrow> JettonOwner),
                    t_Transactions = txs_of m a\<rparr>) (bs_range s (map fst m))"
    by (auto simp: filterTXs_def andThenR_success txs_of_def)
  note groups = fetch_txs_groups[OF m, simplified]
  have addrs: "map t_Address gs = bs_range s (map fst m)" by (simp add: gs comp_def)
  have "set (bs_range s (map fst m)) = set (map fst m)" by (rule map_range_set[OF assms(1)])
  moreover have "distinct (bs_range s (map fst m))" using map_range_distinct[OF assms(1)] groups by blast
  ultimately show ?thesis
    using groups addrs by (auto simp: gs txs_of_def[of "[]"] image_iff)
qed

definition sample_info :: AddressInfo where
  "sample_info = \<lparr>ai_Type = TonDepositWallet, ai_Owner = None, ai_UserID = ''u''\<rparr>"

definition sample_block_scanner :: scanner where
  "sample_block_scanner = sample_scanner
     \<lparr>bs_db := Some [4 \<mapsto> sample_info],
      bs_GetTransactionIDsFromBlock := (\<lambda>b. Inr [\<lparr>tsi_Account = Address_bytes 4, tsi_LT = 11\<rparr>]),
      bs_GetTransactionFromBlock := (\<lambda>b i. Inr sample_payment),
      bs_notificators := [\<lambda>n. Inr ()]\<rparr>"

lemma AddressFromBytes_bytes [simp]: "AddressFromBytes (Address_bytes a) = Inr a"
  by (simp add: AddressFromBytes_success)

lemma sample_filterTXs:
  "filterTXs (sample_block_scanner\<lparr>bs_db := Some [4 \<mapsto> sample_info]\<rparr>) b [\<lparr>tsi_Account = Address_bytes 4, tsi_LT = 11\<rparr>] =
     Inr [\<lparr>t_Address = 4, t_WalletType = TonDepositWallet, t_Transactions = [sample_payment]\<rparr>]"
  by (simp add: filterTXs_def sample_block_scanner_def sample_scanner_def GetWalletType_def addressBook_get_def sample_info_def)

theorem filterTXs_groups_witness:
  "\<exists>gs. filterTXs (sample_block_scanner\<lparr>bs_db := Some [4 \<mapsto> sample_info]\<rparr>) (sample_block_id 6)
          [\<lparr>tsi_Account = Address_bytes 4, tsi_LT = 11\<rparr>] = Inr gs \<and> distinct (map t_Address gs)"
proof -
  have "map_range (bs_range (sample_block_scanner\<lparr>bs_db := Some [4 \<mapsto> sample_info]\<rparr>))"
    by (simp add: map_range_def sample_block_scanner_def sample_scanner_def)
  from filterTXs_groups[OF this sample_filterTXs, of "sample_block_id 6"] sample_filterTXs show ?thesis
    by (intro exI conjI) (assumption, blast)
qed

section \<open>Saving and publishing\<close>

definition block_shard :: "ShardBlockHeader \<Rightarrow> u64" where
  "block_shard b = bid_Shard (sbh_BlockIDExt b)"

definition block_seqno :: "ShardBlockHeader \<Rightarrow> u32" where
  "block_seqno b = bid_SeqNo (sbh_BlockIDExt b)"

lemma processTXs_block: "snd (processTXs s txs block) = Inr ev \<Longrightarrow> be_Block ev = block"
  by (auto simp: processTXs_def andThen_success)

lemma SaveParsedBlockData_saved:
  assumes "SaveParsedBlockData lib ev c = (c', logs, Inr u)"
  shows "has_block (block_shard (be_Block ev)) (block_seqno (be_Block ev)) (conn_db c')"
  using assms parsed_block_tx_blocks(2)[of lib "conn_addressBook c" ev "conn_db c"]
  by (auto simp: SaveParsedBlockData_def block_shard_def block_seqno_def split: prod.splits sum.splits)

lemma SaveParsedBlockData_failed: "SaveParsedBlockData lib ev c = (c', logs, Inl e) \<Longrightarrow> c' = c"
  by (auto simp: SaveParsedBlockData_def split: prod.splits sum.splits)

text \<open>A block is either not saved, with nothing published and nothing changed, or saved.\<close>

lemma processBlock_cases:
  assumes "processBlock s block c = (c', logs, pubs, r)"
  shows "(c' = c \<and> pubs = [] \<and> (\<exists>e. r = Inl e)) \<or> has_block (block_shard block) (block_seqno block) (conn_db c')"
proof -
  let ?s = "s\<lparr>bs_db := conn_addressBook c\<rparr>"
  show ?thesis
  proof (cases "andThenR (bs_GetTransactionIDsFromBlock ?s (sbh_BlockIDExt block)) (filterTXs ?s (sbh_BlockIDExt block))")
    case (Inl e)
    with assms show ?thesis by (auto simp: processBlock_def Let_def)
  next
    case (Inr txs)
    show ?thesis
    proof (cases "snd (processTXs ?s txs block)")
      case e: (Inl e)
      with assms Inr show ?thesis by (auto simp: processBlock_def Let_def split: prod.splits)
    next
      case ev: (Inr ev)
      obtain c1 logs1 r1 where save: "SaveParsedBlockData (bs_lib ?s) ev c = (c1, logs1, r1)"
        by (cases "SaveParsedBlockData (bs_lib ?s) ev c") auto
      show ?thesis
      proof (cases r1)
        case l: (Inl e)
        with assms Inr ev save SaveParsedBlockData_failed show ?thesis
          by (auto simp: processBlock_def Let_def split: prod.splits)
      next
        case (Inr u)
        with assms \<open>andThenR _ _ = Inr txs\<close> ev save have "c' = c1"
          by (auto simp: processBlock_def Let_def split: prod.splits)
        with Inr save SaveParsedBlockData_saved processTXs_block[OF ev] show ?thesis by blast
      qed
    qed
  qed
qed

lemma processBlock_again:
  assumes "has_block (block_shard block) (block_seqno block) (conn_db c)"
  shows "\<exists>logs e. processBlock s block c = (c, logs, [], Inl e)"
proof -
  let ?s = "s\<lparr>bs_db := conn_addressBook c\<rparr>"
  show ?thesis
  proof (cases "andThenR (bs_GetTransactionIDsFromBlock ?s (sbh_BlockIDExt block)) (filterTXs ?s (sbh_BlockIDExt block))")
    case (Inl e)
    then show ?thesis by (simp add: processBlock_def Let_def)
  next
    case (Inr txs)
    show ?thesis
    proof (cases "snd (processTXs ?s txs block)")
      case e: (Inl e)
      with Inr show ?thesis by (auto simp: processBlock_def Let_def split: prod.splits)
    next
      case ev: (Inr ev)
      have "\<exists>e. snd (parsed_block_tx (bs_lib ?s) (conn_addressBook c) ev (conn_db c)) = Inl e"
        using assms parsed_block_tx_blocks(1)[of "bs_lib ?s" "conn_addressBook c" ev "conn_db c"] processTXs_block[OF ev]
        by (cases "snd (parsed_block_tx (bs_lib ?s) (conn_addressBook c) ev (conn_db c))")
          (auto simp: block_shard_def block_seqno_def)
      then obtain logs e where "SaveParsedBlockData (bs_lib ?s) ev c = (c, logs, Inl e)"
        using SaveParsedBlockData_refused by blast
      with Inr ev show ?thesis by (auto simp: processBlock_def Let_def split: prod.splits)
    qed
  qed
qed

text \<open>
  C18.  Incomes are published at most once.  If processing a block published anything, or succeeded,
  then in every state the service can reach afterwards, restarts included, processing a block with
  the same identifier publishes nothing, fails, and changes neither tables nor address book.
\<close>

theorem published_at_most_once:
  assumes "processBlock s block c = (c', logs, pubs, r)" "pubs \<noteq> [] \<or> r = Inr ()"
    and "sys_reach lib cfg \<lparr>sys_conn = c', sys_picked = picked\<rparr> st"
    and "block_shard block2 = block_shard block" "block_seqno block2 = block_seqno block"
  shows "\<exists>logs2 e. processBlock s2 block2 (sys_conn st) = (sys_conn st, logs2, [], Inl e)"
proof -
  have "has_block (block_shard block) (block_seqno block) (conn_db c')"
    using processBlock_cases[OF assms(1)] assms(2) by auto
  with sys_reach_blocks[OF assms(3)] have "has_block (block_shard block) (block_seqno block) (conn_db (sys_conn st))"
    by simp
  then show ?thesis using processBlock_again assms(4,5) by metis
qed

lemma publish_loop:
  "snd (forM (publish n) pubs ()) = Inr () \<Longrightarrow> fst (forM (publish n) pubs ()) = replicate (length pubs) n"
  by (induction pubs) (auto simp: publish_def andThen_def split: sum.splits)

lemma pushNotification_published:
  assumes "snd (pushNotification s a amount t src wc comment h) = Inr ()"
  shows "map ntf_TxHash (fst (pushNotification s a amount t src wc comment h))
    = replicate (length (bs_notificators s)) (hex h)"
proof (cases "GetOwner (bs_db s) a")
  case (Inl e)
  with assms show ?thesis by (simp add: pushNotification_def Let_def)
next
  case (Inr owner)
  with assms show ?thesis
    by (auto simp: pushNotification_def Let_def andThen_def publish_loop split: option.splits)
qed

lemma published_hashes:
  assumes "snd (forM (\<lambda>x _. f x) xs ()) = Inr ()"
    and "\<And>x. snd (f x) = Inr () \<Longrightarrow> map ntf_TxHash (fst (f x)) = replicate n (hex (h x))"
  shows "map ntf_TxHash (fst (forM (\<lambda>x _. f x) xs ())) = concat (map (\<lambda>x. replicate n (hex (h x))) xs)"
  using assms(1) by (induction xs) (auto simp: andThen_def assms(2) split: sum.splits)

text \<open>
  C19.  Every saved income is published to every notificator.  When publishing the events of a block
  succeeds, the notifications are, in order, one for each income of the configured side and each
  notificator, carrying the transaction hash of that income.
\<close>

theorem all_incomes_published:
  assumes "snd (pushNotifications s e) = Inr ()"
  shows "map ntf_TxHash (fst (pushNotifications s e)) =
     concat (map (\<lambda>h. replicate (length (bs_notificators s)) (hex h))
       (if cfg_IsDepositSideCalculation (bs_cfg s) then map ei_TxHash (ExternalIncomes (be_Events e))
        else map ii_TxHash (InternalIncomes (be_Events e))))"
proof (cases "bs_notificators s = []")
  case True
  then show ?thesis by (simp add: pushNotifications_def)
next
  case False
  with assms show ?thesis
    by (auto simp: pushNotifications_def comp_def intro!: published_hashes pushNotification_published split: if_splits)
qed

definition sample_income_events :: BlockEvents where
  "sample_income_events = \<lparr>be_Events = no_events\<lparr>ExternalIncomes :=
       [\<lparr>ei_Utime = 10, ei_Lt = 11, ei_From = Some (Address_bytes 3), ei_FromWorkchain = Some 0, ei_To = 4,
         ei_Amount = 70, ei_Comment = [], ei_TxHash = [5]\<rparr>]\<rparr>, be_Block = sample_header 6\<rparr>"

lemma sample_payment_events:
  "processTXs (sample_block_scanner\<lparr>bs_db := Some [4 \<mapsto> sample_info]\<rparr>)
     [\<lparr>t_Address = 4, t_WalletType = TonDepositWallet, t_Transactions = [sample_payment]\<rparr>] (sample_header 6) =
   ([], Inr sample_income_events)"
  by (simp add: processTXs_def wallet_txs_def processTonDepositWalletTXs_def ton_deposit_tx_def sample_payment_def
      sample_internal_def processTonDepositWalletInternalInMsg_def andThen_def sample_block_scanner_def
      sample_scanner_def GetWalletType_def addressBook_get_def NewCoins_def Events_Append_def no_events_def
      sample_income_events_def)

definition sample_conn :: Connection where
  "sample_conn = \<lparr>conn_db = empty_tables, conn_addressBook = Some [4 \<mapsto> sample_info]\<rparr>"

lemma sample_income_saved: "\<exists>c' logs. SaveParsedBlockData lib sample_income_events sample_conn = (c', logs, Inr ())"
  by (simp add: SaveParsedBlockData_def parsed_block_tx_def sample_income_events_def saveExternalIncome_def
      saveBlock_def empty_tables_def sample_conn_def ok_def Let_def)

lemma sample_income_pushed:
  "snd (pushNotifications (sample_block_scanner\<lparr>bs_db := Some [4 \<mapsto> sample_info]\<rparr>) sample_income_events) = Inr ()"
  "fst (pushNotifications (sample_block_scanner\<lparr>bs_db := Some [4 \<mapsto> sample_info]\<rparr>) sample_income_events) \<noteq> []"
  by (simp_all add: pushNotifications_def sample_block_scanner_def sample_scanner_def sample_config_def
      sample_income_events_def pushNotification_def GetOwner_def addressBook_get_def sample_info_def
      GetUserID_def publish_def andThen_def)

lemma sample_processBlock:
  "\<exists>c' logs pubs. processBlock sample_block_scanner (sample_header 6) sample_conn = (c', logs, pubs, Inr ()) \<and> pubs \<noteq> []"
proof -
  let ?s = "sample_block_scanner\<lparr>bs_db := Some [4 \<mapsto> sample_info]\<rparr>"
  have ids: "andThenR (bs_GetTransactionIDsFromBlock ?s (sbh_BlockIDExt (sample_header 6)))
      (filterTXs ?s (sbh_BlockIDExt (sample_header 6)))
    = Inr [\<lparr>t_Address = 4, t_WalletType = TonDepositWallet, t_Transactions = [sample_payment]\<rparr>]"
    using sample_filterTXs by (simp add: sample_block_scanner_def)
  have book: "conn_addressBook sample_conn = Some [4 \<mapsto> sample_info]" by (simp add: sample_conn_def)
  obtain c' logs where save: "SaveParsedBlockData (bs_lib ?s) sample_income_events sample_conn = (c', logs, Inr ())"
    using sample_income_saved by blast
  obtain pubs where push: "pushNotifications ?s sample_income_events = (pubs, Inr ())" and "pubs \<noteq> []"
    using sample_income_pushed by (metis prod.collapse)
  have "processBlock sample_block_scanner (sample_header 6) sample_conn = (c', [] @ logs, pubs, Inr ())"
    unfolding processBlock_def Let_def book ids sum.case sample_payment_events prod.case save push ..
  with \<open>pubs \<noteq> []\<close> show ?thesis by blast
qed

theorem published_at_most_once_witness:
  "\<exists>c' logs2 e. processBlock sample_block_scanner (sample_header 6) c' = (c', logs2, [], Inl e)"
proof -
  obtain c' logs pubs where p: "processBlock sample_block_scanner (sample_header 6) sample_conn = (c', logs, pubs, Inr ())"
    using sample_processBlock by blast
  have "pubs \<noteq> [] \<or> (Inr () :: error + unit) = Inr ()" by simp
  from published_at_most_once[OF p this reach_start refl refl, of sample_block_scanner]
  have "\<exists>logs2 e. processBlock sample_block_scanner (sample_header 6) c' = (c', logs2, [], Inl e)" by simp
  then show ?thesis by (rule exI)
qed

theorem all_incomes_published_witness:
  "map ntf_TxHash (fst (pushNotifications sample_block_scanner sample_income_events)) = [hex [5]]"
proof -
  have "sample_block_scanner\<lparr>bs_db := Some [4 \<mapsto> sample_info]\<rparr> = sample_block_scanner"
    by (simp add: sample_block_scanner_def)
  with sample_income_pushed(1) have "snd (pushNotifications sample_block_scanner sample_income_events) = Inr ()" by simp
  from all_incomes_published[OF this] show ?thesis
    by (simp add: sample_block_scanner_def sample_scanner_def sample_config_def sample_income_events_def)
qed

end
