(* ===== verification/Service.thy ===== *)
theory Service
  imports Api_Props Scanner_Blocks
begin

text \<open>
  The whole service: the start of \<open>src/cmd/processor/main.go\<close> and one step relation whose steps are
  complete rounds of the components (a start, a request, a block, a round of each processor, an
  expiration).  Every step is a run of the storage steps of \<open>Withdrawal_Steps\<close>, also when it ends in
  an error half-way; so what was proved of those holds of the service.
\<close>

section \<open>Start\<close>

definition start_wallets ::
  "tonlib \<Rightarrow> config \<Rightarrow> bcapi \<Rightarrow> error + bool \<Rightarrow> (string \<times> Jetton) list \<Rightarrow> (Wallets_rec \<times> BlockIDExt option) dbact" where
  "start_wallets lib cfg bc isTimeSynced jettons =
     bindA (fatalA ''get node time err'' (liftE isTimeSynced)) (\<lambda>synced.
     if \<not> synced then failA (Fatalf ''Service and Node time not synced'')
     else
       bindA (fatalA ''Wallets initialization error'' (InitWallets lib cfg bc (cfg_Seed cfg) jettons)) (\<lambda>wallets.
       bindA (read_db GetLastSavedBlockID) (\<lambda>block.
       case block of
         Inr b \<Rightarrow> retA (wallets, Some b)
       | Inl e \<Rightarrow> if e = ErrNotFound then retA (wallets, None) else failA (Fatalf ''Get last saved block error''))))"

definition main_start ::
  "tonlib \<Rightarrow> config \<Rightarrow> bcapi \<Rightarrow> error + bool \<Rightarrow> (string \<times> Jetton) list \<Rightarrow> (Wallets_rec \<times> BlockIDExt option) dbact" where
  "main_start lib cfg bc isTimeSynced jettons =
     bindA (fatalA ''address book loading error'' (connA LoadAddressBook)) (\<lambda>_.
     start_wallets lib cfg bc isTimeSynced jettons)"

section \<open>Steps\<close>

text \<open>The wallets the processor works with come from \<open>InitWallets\<close>, which files each jetton wallet
  under its currency.\<close>

definition filed_by_currency :: "(string \<times> JettonWallet) list \<Rightarrow> bool" where
  "filed_by_currency ws \<longleftrightarrow> (\<forall>(cur, w)\<in>set ws. jwl_Currency w = cur)"

lemma InitWallets_filed:
  assumes "runs (InitWallets lib cfg bc seed jettons) c c' w"
  shows "filed_by_currency (wl_JettonHotWallets w)"
proof -
  from assms obtain hot sub c1 ws where "runs (forA (init_jetton lib bc hot sub) jettons []) c1 c' ws" "ws = wl_JettonHotWallets w"
    by (auto simp: InitWallets_def runs_bindA)
  moreover from this(1) have "filed_by_currency ws"
    by (rule forA_invariant[where P = "\<lambda>_. filed_by_currency"])
      (auto simp: filed_by_currency_def runs_init_jetton dest!: initJettonHotWallet_ok)
  ultimately show ?thesis by simp
qed

inductive service_step :: "tonlib \<Rightarrow> config \<Rightarrow> Connection \<Rightarrow> Connection \<Rightarrow> bool" for lib cfg where
  start: "service_step lib cfg c (fst (main_start lib cfg bc synced jettons (NewConnection (conn_db c))))"
| http: "service_step lib cfg c (fst (serve h req c))"
| scan: "bs_lib s = lib \<Longrightarrow> service_step lib cfg c (fst (processBlock s block c))"
| withdraw: "filed_by_currency (wp_JettonHotWallets p) \<Longrightarrow> service_step lib cfg c (fst (withdrawals_round p n c))"
| collect: "service_step lib cfg c (fst (internal_ton_round p n c))"
| proven: "service_step lib cfg c (c\<lparr>conn_db := updateLastBlocks_round lastBlock (conn_db c)\<rparr>)"
| expiration: "service_step lib cfg c (c\<lparr>conn_db := SetExpired cfg now1 now2 (conn_db c)\<rparr>)"

inductive service_reach :: "tonlib \<Rightarrow> config \<Rightarrow> Connection \<Rightarrow> Connection \<Rightarrow> bool" for lib cfg c0 where
  here: "service_reach lib cfg c0 c0"
| further: "service_reach lib cfg c0 c \<Longrightarrow> service_step lib cfg c c' \<Longrightarrow> service_reach lib cfg c0 c'"

lemma service_reach_trans: "service_reach lib cfg a b \<Longrightarrow> service_reach lib cfg b c \<Longrightarrow> service_reach lib cfg a c"
  by (rotate_tac 1, induction rule: service_reach.induct) (auto intro: further)

lemma one_service_step: "service_step lib cfg c c' \<Longrightarrow> service_reach lib cfg c c'"
  by (rule further[OF here])

section \<open>Refinement\<close>

lemma reach_conn_eq: "preserves (=) m \<Longrightarrow> preserves (reach_conn lib cfg) m"
  by (simp add: preserves_def) (metis reaching.R_refl)

lemma reach_wallets:
  "preserves (reach_conn lib cfg) (connA (SaveTonWallet wd))"
  "preserves (reach_conn lib cfg) (connA (SaveJettonWallet owner jd b))"
proof -
  have "reach_conn lib cfg c (fst (connA (SaveTonWallet wd) c))" for c
    by (cases "SaveTonWallet wd c")
      (auto simp: connA_def intro!: one_step[OF new_ton_wallet[of wd "\<lparr>sys_conn = c, sys_picked = []\<rparr>"]])
  then show "preserves (reach_conn lib cfg) (connA (SaveTonWallet wd))" by (simp add: preserves_def)
  have "reach_conn lib cfg c (fst (connA (SaveJettonWallet owner jd b) c))" for c
    by (cases "SaveJettonWallet owner jd b c")
      (auto simp: connA_def intro!: one_step[OF new_jetton_wallet[of owner jd b "\<lparr>sys_conn = c, sys_picked = []\<rparr>"]])
  then show "preserves (reach_conn lib cfg) (connA (SaveJettonWallet owner jd b))" by (simp add: preserves_def)
qed

lemma reach_service_saved:
  "preserves (reach_conn lib cfg)
     (write_db_res (\<lambda>t. case SaveServiceWithdrawalRequest u w t of Inl e \<Rightarrow> (t, Inl e) | Inr (t', memo) \<Rightarrow> (t', Inr memo)))"
proof -
  have "reach_conn lib cfg c (c\<lparr>conn_db := fst (case SaveServiceWithdrawalRequest u w (conn_db c) of
      Inl e \<Rightarrow> (conn_db c, Inl e) | Inr (t', memo) \<Rightarrow> (t', Inr memo))\<rparr>)" for c
    by (cases "SaveServiceWithdrawalRequest u w (conn_db c)")
      (auto simp: reaching.R_refl intro!: one_step[OF service_request[of u w "\<lparr>sys_conn = c, sys_picked = []\<rparr>"]])
  then show ?thesis by (simp add: preserves_def write_db_res_def)
qed

lemma reach_read_book: "preserves (reach_conn lib cfg) (read_book f)" "preserves (reach_conn lib cfg) (writeHttpError st msg)"
  by (intro reach_conn_eq unchanged_reads)+

lemmas reach_api_rules = reach_rules reach_read_book reach_wallets reach_service_saved
  preserves_orError[where R = "reach_conn lib cfg" for lib cfg, OF reaching.R_trans]

lemma reach_save_service: "preserves (reach_conn lib cfg) (save_service_request h w)"
  unfolding save_service_request_def by (intro reach_api_rules)

lemma reach_posts:
  "preserves (reach_conn lib cfg) (handle_sendWithdrawal h req)"
  unfolding handle_sendWithdrawal_def by (intro reach_api_rules)

lemma reach_new_address: "preserves (reach_conn lib cfg) (handle_getNewAddress h req)"
  unfolding handle_getNewAddress_def generateAddress_def by (intro reach_api_rules)

lemma reach_service_posts:
  "preserves (reach_conn lib cfg) (handle_serviceTonWithdrawal h req)"
  unfolding handle_serviceTonWithdrawal_def by (intro reach_api_rules reach_save_service)

lemma reach_service_jetton_posts:
  "preserves (reach_conn lib cfg) (handle_serviceJettonWithdrawal h req)"
  unfolding handle_serviceJettonWithdrawal_def by (intro reach_api_rules reach_save_service)

text \<open>The routes and the middleware keep what the handlers that write keep.\<close>

lemma eq_preserves: "(\<And>c. R c c) \<Longrightarrow> preserves (=) m \<Longrightarrow> preserves R m"
  unfolding preserves_def by metis

lemma middleware_preserves:
  assumes "\<And>c. R c c" "preserves R (f h req)"
  shows "preserves R (recoverMiddleware (authMiddleware (post_only f)) h req)"
    "preserves R (recoverMiddleware (authMiddleware (get_only f)) h req)" "preserves R (recoverMiddleware (get_only f) h req)"
  using assms
  by (auto simp: preserves_def recover_state authMiddleware_def post_only_def get_only_def writeHttpError_def retA_def)

lemma serve_preserves:
  assumes "\<And>c. R c c" "preserves R (handle_getNewAddress h req)" "preserves R (handle_sendWithdrawal h req)"
    and "preserves R (handle_serviceTonWithdrawal h req)" "preserves R (handle_serviceJettonWithdrawal h req)"
  shows "preserves R (serve h req)"
proof -
  have "\<forall>(path, f)\<in>set RegisterHandlers. preserves R (f h req)"
    using assms by (simp add: RegisterHandlers_def middleware_preserves eq_preserves[OF assms(1)] unchanged_getters)
  moreover have "preserves R (retA x)" for x :: response using assms(1) by (simp add: preserves_def retA_def)
  ultimately show ?thesis by (auto simp: serve_def split: option.splits dest!: map_of_SomeD)
qed

lemma reach_serve: "preserves (reach_conn lib cfg) (serve h req)"
  by (rule serve_preserves)
    (rule reaching.R_refl reach_posts reach_new_address reach_service_posts reach_service_jetton_posts)+

lemma reach_init_jetton: "preserves (reach_conn lib cfg) (init_jetton l bc hot sub x ws)"
  unfolding init_jetton_def initJettonHotWallet_def Let_def by (intro reach_api_rules)

lemma reach_check_saved: "preserves (reach_conn lib cfg) (check_saved l hot a r)"
  unfolding check_saved_def by (cases r) (auto intro!: reach_api_rules)

lemma reach_save_hot: "preserves (reach_conn lib cfg) (save_hot l bc hot a b st)"
  unfolding save_hot_def by (intro reach_api_rules)

lemma reach_init: "preserves (reach_conn lib cfg) (InitWallets l g bc seed jettons)"
  unfolding InitWallets_def check_cold_wallet_def initTonHotWallet_def
  by (intro reach_api_rules reach_init_jetton reach_check_saved reach_save_hot)

lemma preserves_case_sum:
  "(\<And>e. preserves R (f e)) \<Longrightarrow> (\<And>x. preserves R (g x)) \<Longrightarrow> preserves R (case r of Inl e \<Rightarrow> f e | Inr x \<Rightarrow> g x)"
  by (cases r) simp_all

lemma reach_start_wallets: "preserves (reach_conn lib cfg) (start_wallets l g bc synced jettons)"
  unfolding start_wallets_def by (intro reach_api_rules reach_init preserves_case_sum)

lemma reach_restart: "reach_conn lib cfg c (fst (LoadAddressBook (NewConnection (conn_db c))))"
  by (rule one_step[OF restart[of "\<lparr>sys_conn = c, sys_picked = []\<rparr>" "fst (LoadAddressBook (NewConnection (conn_db c)))"
        "snd (LoadAddressBook (NewConnection (conn_db c)))"]]) simp_all

text \<open>The start replaces the connection, then works on the new one.\<close>

lemma main_start_preserves:
  assumes "\<And>s t u. R s t \<Longrightarrow> R t u \<Longrightarrow> R s u" "R c (fst (LoadAddressBook (NewConnection (conn_db c))))"
    and "preserves R (start_wallets lib cfg bc synced jettons)"
  shows "R c (fst (main_start lib cfg bc synced jettons (NewConnection (conn_db c))))"
proof -
  let ?c = "NewConnection (conn_db c)" and ?m = "fatalA ''address book loading error'' (connA LoadAddressBook) :: unit dbact"
  have "fst (?m ?c) = fst (LoadAddressBook ?c)" by (simp add: fatalA_state connA_def split_beta)
  with assms(2) have m: "R c (fst (?m ?c))" by simp
  have "fst (main_start lib cfg bc synced jettons ?c) = fst (?m ?c)
      \<or> fst (main_start lib cfg bc synced jettons ?c) = fst (start_wallets lib cfg bc synced jettons (fst (?m ?c)))"
    unfolding main_start_def bindA_def by (auto split: prod.splits sum.splits)
  then show ?thesis using m assms(1)[OF m preservesD[OF assms(3)]] by metis
qed

lemma processBlock_state:
  "fst (processBlock s block c) = c \<or> (\<exists>ev. fst (processBlock s block c) = fst (SaveParsedBlockData (bs_lib s) ev c))"
  unfolding processBlock_def Let_def
  by (auto split: sum.splits prod.splits simp: eq_fst_iff)

lemma reach_scan: "reach_conn lib cfg c (fst (processBlock s block c))" if "bs_lib s = lib"
proof -
  have "reach_conn lib cfg c (fst (SaveParsedBlockData lib ev c))" for ev
    by (rule one_step[OF block[of lib ev "\<lparr>sys_conn = c, sys_picked = []\<rparr>" "fst (SaveParsedBlockData lib ev c)"
          "snd (SaveParsedBlockData lib ev c)"]]) simp_all
  then show ?thesis using processBlock_state[of s block c] that by (metis reaching.R_refl)
qed

lemma reach_proven: "reach_conn lib cfg c (c\<lparr>conn_db := updateLastBlocks_round lastBlock (conn_db c)\<rparr>)"
  using one_step[OF sys_step.proven[of lib cfg "\<lparr>sys_conn = c, sys_picked = []\<rparr>"]]
  by (cases lastBlock) (simp_all add: updateLastBlocks_round_def reaching.R_refl)

lemma service_reach_conn: "service_reach lib cfg c c' \<Longrightarrow> reach_conn lib cfg c c'"
proof (induction rule: service_reach.induct)
  case here
  then show ?case by (rule reaching.R_refl)
next
  case (further c' c'')
  have "reach_conn lib cfg c' c''" using further(2)
  proof (cases rule: service_step.cases)
    case (start bc synced jettons)
    then show ?thesis
      using main_start_preserves[OF reaching.R_trans reach_restart reach_start_wallets] by simp
  next
    case (expiration now1 now2)
    then show ?thesis using one_step[OF expire[of lib cfg "\<lparr>sys_conn = c', sys_picked = []\<rparr>" now1 now2]] by simp
  qed (simp_all add: preservesD[OF reach_serve] reach_scan reach_proven preservesD[OF reach_round] preservesD[OF reach_deposits])
  with further.IH show ?case by (rule reaching.R_trans)
qed

text \<open>
  C23.  The service refines its storage steps.  Whatever sequence of starts, HTTP requests, scanned
  blocks, processor rounds and expirations happened, each as a whole and each also when it failed
  half-way, the connection is one that the storage steps reach; so all that is proved of them (no
  double payment, payments that stay, blocks accounted once) holds of the running service.
\<close>

theorem service_refines_storage:
  assumes "service_reach lib cfg c c'"
  shows "sys_reach lib cfg \<lparr>sys_conn = c, sys_picked = []\<rparr> \<lparr>sys_conn = c', sys_picked = []\<rparr>"
  using service_reach_conn[OF assms] by (simp add: reach_conn_def)

theorem service_refines_storage_witness:
  "sys_reach sample_lib sample_config \<lparr>sys_conn = sample_conn0, sys_picked = []\<rparr>
     \<lparr>sys_conn = fst (serve sample_api sample_http sample_conn0), sys_picked = []\<rparr>"
  by (rule service_refines_storage) (rule further[OF here http])

end
