(* ===== verification/Cold_Wallet.thy ===== *)
theory Cold_Wallet
  imports Service
begin

text \<open>
  Transfers to the cold wallet.  The withdrawal processor stores them as internal requests; while one
  is on its way no other of the same currency is made, whatever the other parts of the service do in
  between.
\<close>

section \<open>Transfers under way\<close>

definition cold_key :: "withdrawal_requests_row \<Rightarrow> Address \<times> string" where
  "cold_key r = (rq_dest_address r, rq_currency r)"

definition under_way :: "withdrawal_requests_row \<Rightarrow> bool" where
  "under_way r \<longleftrightarrow> rq_is_internal r \<and> \<not> rq_processed r"

definition cold_inv :: "tables \<Rightarrow> bool" where
  "cold_inv t \<longleftrightarrow> distinct (map cold_key (filter under_way (withdrawal_requests t)))"

definition cold_rel :: "Connection \<Rightarrow> Connection \<Rightarrow> bool" where
  "cold_rel c c' \<longleftrightarrow> (cold_inv (conn_db c) \<longrightarrow> cold_inv (conn_db c'))"

interpretation cold: run_relation cold_rel
  by unfold_locales (auto simp: cold_rel_def)

lemma cold_key_same: "same_or_done r r' \<Longrightarrow> cold_key r' = cold_key r"
  by (simp add: cold_key_def same_or_done_fields)

lemma under_way_before: "same_or_done r r' \<Longrightarrow> under_way r' \<Longrightarrow> under_way r"
  by (auto simp: under_way_def same_or_done_fields)

lemma under_way_shrinks:
  "list_all2 same_or_done rs ys \<Longrightarrow> distinct (map cold_key (filter under_way rs)) \<Longrightarrow>
     distinct (map cold_key (filter under_way ys))
     \<and> cold_key ` set (filter under_way ys) \<subseteq> cold_key ` set (filter under_way rs)"
proof (induction rule: list_all2_induct)
  case Nil
  then show ?case by simp
next
  case (Cons r rs y ys)
  then show ?case
    using cold_key_same[of r y] under_way_before[of r y] by (cases "under_way r"; cases "under_way y") auto
qed

text \<open>What appends no internal request keeps the invariant.\<close>

lemma cold_grows:
  assumes "grows (\<lambda>r. \<not> rq_is_internal r) t t'" "cold_inv t"
  shows "cold_inv t'"
proof -
  from assms(1) obtain ys new where t': "withdrawal_requests t' = ys @ new" "list_all2 same_or_done (withdrawal_requests t) ys"
    "\<forall>r\<in>set new. \<not> rq_is_internal r" unfolding grows_def by blast
  have "filter under_way new = []" using t'(3) by (auto simp: filter_empty_conv under_way_def)
  then show ?thesis using under_way_shrinks[OF t'(2)] assms(2) t'(1) by (simp add: cold_inv_def)
qed

lemma cold_never: "grows never (conn_db c) (conn_db c') \<Longrightarrow> cold_rel c c'"
  using cold_grows[OF never_weaken] by (auto simp: cold_rel_def)

text \<open>A transfer may be stored when none to that place in that currency is under way.\<close>

lemma cold_request:
  assumes "\<not> IsInProgressInternalWithdrawalRequest (wr_Destination w) (wr_Currency w) t" "cold_inv t"
  shows "cold_inv (fst (SaveWithdrawalRequest w t))"
  using assms
  by (auto simp: SaveWithdrawalRequest_def Let_def cold_inv_def IsInProgressInternalWithdrawalRequest_def under_way_def cold_key_def)

lemma cold_external: "\<not> wr_IsInternal w \<Longrightarrow> cold_inv t \<Longrightarrow> cold_inv (fst (SaveWithdrawalRequest w t))"
  by (auto simp: SaveWithdrawalRequest_def Let_def cold_inv_def under_way_def)

section \<open>The parts of the service\<close>

lemma cold_db:
  "preserves cold_rel (read_db f)" "preserves cold_rel (liftE r)" "preserves cold_rel (auditA a)"
  "preserves cold_rel (read_book g)" "preserves cold_rel (writeHttpError st msg)"
  by (simp_all add: preserves_def read_db_def liftE_def liftA_def auditA_def read_book_def writeHttpError_def retA_def cold.R_refl)

lemma cold_fatalA: "preserves cold_rel m \<Longrightarrow> preserves cold_rel (fatalA msg m)"
  by (simp add: preserves_def fatalA_state)

lemma cold_write: "(\<And>t. grows never t (g t)) \<Longrightarrow> preserves cold_rel (write_db g)"
  by (simp add: preserves_def write_db_def cold_never)

lemma cold_write_res: "(\<And>t. grows never t (fst (g t))) \<Longrightarrow> preserves cold_rel (write_db_res g)"
  by (simp add: preserves_def write_db_res_def cold_never)

lemma cold_connA: "(\<And>c. grows never (conn_db c) (conn_db (fst (g c)))) \<Longrightarrow> preserves cold_rel (connA g)"
  by (auto simp: preserves_def connA_def split_beta intro!: cold_never)

lemma cold_writes:
  "preserves cold_rel (write_db (UpdateServiceWithdrawalRequest task am e filled))"
  "preserves cold_rel (write_db_res (CreateExternalWithdrawals us u e))"
  "preserves cold_rel (write_db_res (\<lambda>t. case SaveInternalWithdrawalTask itask e memo t of Inl x \<Rightarrow> (t, Inl x) | Inr t' \<Rightarrow> (t', Inr ())))"
  "preserves cold_rel (write_db_res (\<lambda>t. case SaveServiceWithdrawalRequest u w t of Inl x \<Rightarrow> (t, Inl x) | Inr (t', m) \<Rightarrow> (t', Inr m)))"
  "preserves cold_rel (connA (SaveTonWallet wd))" "preserves cold_rel (connA (SaveJettonWallet owner jd b))"
  by (auto intro!: cold_write cold_write_res cold_connA grows_recorded[OF prod.collapse[symmetric]]
      intro: grows_other grows_same[OF refl] grows_wallets(1,2)[OF prod.collapse[symmetric]] split: sum.splits prod.splits)

lemmas cold_rules = cold.rules cold.loop cold_db cold_fatalA cold_writes
  preserves_orError[where R = cold_rel, OF cold.R_trans] preserves_case_sum

lemma cold_rounds:
  "preserves cold_rel (service_round p t b)" "preserves cold_rel (internal_round p it b)" "preserves cold_rel (external_round p et b)"
  unfolding service_round_def internal_round_def external_round_def by (intro cold_rules; fail)+

lemma cold_build: "preserves cold_rel (buildWithdrawalMessages p n)"
  unfolding buildWithdrawalMessages_def by (intro cold_rules cold_rounds)

lemma cold_collect: "preserves cold_rel (internal_ton_round p n)"
  unfolding internal_ton_round_def service_deposit_step_def ton_deposit_step_def withdrawTONsFromDeposit_def
    serviceWithdrawJettons_def by (intro cold_rules)

lemma cold_init: "preserves cold_rel (start_wallets lib cfg bc synced jettons)"
  unfolding start_wallets_def InitWallets_def check_cold_wallet_def initTonHotWallet_def init_jetton_def initJettonHotWallet_def
    check_saved_def save_hot_def Let_def by (intro cold_rules)

lemma cold_request_internal:
  "\<not> IsInProgressInternalWithdrawalRequest (wr_Destination w) (wr_Currency w) (conn_db c)
    \<Longrightarrow> cold_rel c (fst (bindA (write_db_res (SaveWithdrawalRequest w)) (\<lambda>_. retA x) c))"
  using cold_request by (auto simp: cold_rel_def bindA_def write_db_res_def retA_def ok_def split: sum.splits prod.splits)

lemma cold_after_call:
  "(\<And>x. cold_rel c (fst (f x c))) \<Longrightarrow> cold_rel c (fst (bindA (liftE r) f c))"
  by (cases r) (auto simp: bindA_def liftE_def liftA_def lift_res_def cold.R_refl split: prod.splits)

lemma cold_after_read:
  "(cold_rel c (fst (f (q (conn_db c)) c))) \<Longrightarrow> cold_rel c (fst (bindA (read_db q) f c))"
  by (auto simp: bindA_def read_db_def ok_def split: prod.splits)

lemma cold_jettons:
  assumes "jwl_Currency (snd x) = fst x"
  shows "preserves cold_rel (cold_jetton_round p dest x st)"
proof -
  obtain cur jw bal n where x: "x = (cur, jw)" "st = (bal, n)" by (cases x; cases st)
  have "cold_rel c (fst (cold_jetton_round p dest x st c))" for c
    unfolding cold_jetton_round_def x Let_def prod.case
  proof (rule cold_after_read)
    show "cold_rel c (fst ((if IsInProgressInternalWithdrawalRequest dest cur (conn_db c) then retA (bal, n)
      else
        bindA (liftE (wp_GetLastJettonBalance p (jwl_Address jw))) (\<lambda>jettonBalance.
        case cfg_Jettons (wp_cfg p) cur of
          None \<Rightarrow> failA nil_pointer
        | Some j \<Rightarrow>
            if \<not> jettonBalance > j_HotWalletMaxCutoff j then retA (bal, n)
            else
              bindA (liftE (wp_NewV4 p n)) (\<lambda>u.
              bindA (write_db_res (SaveWithdrawalRequest
                \<lparr>wr_QueryID = lib_UuidString (wp_lib p) u, wr_UserID = [], wr_Currency = jwl_Currency jw,
                 wr_Amount = NewCoins (jettonBalance - j_HotWalletResidual j), wr_Bounceable = True,
                 wr_IsInternal = True, wr_Destination = dest, wr_Comment = [], wr_BinaryComment = []\<rparr>)) (\<lambda>_.
              retA (bal - JettonTransferTonAmount, Suc n))))) c))"
      using assms x
      by (cases "cfg_Jettons (wp_cfg p) cur")
        (auto simp: retA_def failA_def cold.R_refl intro!: cold_after_call cold_request_internal)
  qed
  then show ?thesis by (simp add: preserves_def)
qed

lemma cold_ton: "preserves cold_rel (cold_ton_request p dest w st)"
proof -
  obtain bal n where st: "st = (bal, n)" by (cases st)
  have "cold_rel c (fst (cold_ton_request p dest w st c))" for c
    unfolding cold_ton_request_def st Let_def prod.case
    by (rule cold_after_read) (auto simp: retA_def cold.R_refl intro!: cold_after_call cold_request_internal)
  then show ?thesis by (simp add: preserves_def)
qed

lemma cold_make:
  assumes "filed_by_currency (wp_JettonHotWallets p)"
  shows "preserves cold_rel (makeColdWalletWithdrawals p n)"
  unfolding makeColdWalletWithdrawals_def
  by (intro cold_rules cold_ton cold_jettons) (use assms in \<open>auto simp: filed_by_currency_def\<close>)

lemma cold_round: "filed_by_currency (wp_JettonHotWallets p) \<Longrightarrow> preserves cold_rel (withdrawals_round p n)"
  unfolding withdrawals_round_def update_service_def save_internal_def
  by (intro cold_rules cold_make cold_build)

lemma cold_external_write: "\<not> wr_IsInternal w \<Longrightarrow> preserves cold_rel (write_db_res (SaveWithdrawalRequest w))"
  by (simp add: preserves_def write_db_res_def cold_rel_def cold_external)

lemma cold_send: "preserves cold_rel (handle_sendWithdrawal h req)"
proof (cases "req_Withdrawal req")
  case (Inl e)
  then show ?thesis by (simp add: handle_sendWithdrawal_def cold_rules)
next
  case body: (Inr body)
  show ?thesis
  proof (cases "convertWithdrawal h body")
    case (Inl e)
    with body show ?thesis by (simp add: handle_sendWithdrawal_def cold_rules)
  next
    case (Inr w)
    then have "\<not> wr_IsInternal w" using convertWithdrawal_ok by fastforce
    then show ?thesis unfolding handle_sendWithdrawal_def body Inr orError_liftE
      by (intro cold_rules cold_external_write)
  qed
qed

lemma cold_serve: "preserves cold_rel (serve h req)"
proof (rule serve_preserves)
  show "preserves cold_rel (handle_getNewAddress h req)"
    unfolding handle_getNewAddress_def generateAddress_def by (intro cold_rules)
  show "preserves cold_rel (handle_serviceTonWithdrawal h req)"
    unfolding handle_serviceTonWithdrawal_def save_service_request_def by (intro cold_rules)
  show "preserves cold_rel (handle_serviceJettonWithdrawal h req)"
    unfolding handle_serviceJettonWithdrawal_def save_service_request_def by (intro cold_rules)
qed (rule cold.R_refl cold_send)+

lemma cold_scan: "cold_rel c (fst (processBlock s block c))"
  using processBlock_state[of s block c] grows_parsed[OF prod.collapse[symmetric]] by (metis cold.R_refl cold_never)

lemma cold_step: "service_step lib cfg c c' \<Longrightarrow> cold_rel c c'"
proof (induction rule: service_step.induct)
  case (start c bc synced jettons)
  have "cold_rel c (fst (LoadAddressBook (NewConnection (conn_db c))))"
    by (rule cold_never) (rule grows_wallets(3)[OF prod.collapse[symmetric]])
  then show ?case
    by (rule main_start_preserves[where R = cold_rel, rotated, OF _ cold_init]) (rule cold.R_trans)
next
  case (proven c lastBlock)
  then show ?case by (cases lastBlock) (simp_all add: updateLastBlocks_round_def cold.R_refl cold_never grows_other(4))
next
  case (expiration c now1 now2)
  then show ?case by (simp add: cold_never grows_expired)
qed (simp_all add: preservesD[OF cold_serve] cold_scan preservesD[OF cold_round] preservesD[OF cold_collect])

text \<open>
  C24.  One transfer to the cold wallet at a time.  From a state with at most one unprocessed internal
  request for each destination and currency (an empty database, for one), every sequence of starts,
  requests, blocks, rounds and expirations leads to such a state again: the hot wallet is never
  drained twice for the same excess.
\<close>

theorem one_cold_transfer:
  assumes "service_reach lib cfg c c'"
    and "distinct (map cold_key (filter under_way (withdrawal_requests (conn_db c))))"
  shows "distinct (map cold_key (filter under_way (withdrawal_requests (conn_db c'))))"
proof -
  have "cold_rel c c'" using assms(1)
    by (induction rule: service_reach.induct) (auto intro: cold.R_refl cold.R_trans cold_step)
  then show ?thesis using assms(2) by (simp add: cold_rel_def cold_inv_def)
qed

definition sample_cold :: Connection where
  "sample_cold = sample_conn0\<lparr>conn_db := fst (SaveWithdrawalRequest (sample_request\<lparr>wr_IsInternal := True\<rparr>) empty_tables)\<rparr>"

theorem one_cold_transfer_witness:
  "length (filter under_way (withdrawal_requests (conn_db sample_cold))) = 1
   \<and> distinct (map cold_key (filter under_way (withdrawal_requests (conn_db (fst (serve sample_api sample_http sample_cold))))))"
proof -
  have "length (filter under_way (withdrawal_requests (conn_db sample_cold))) = 1"
    "distinct (map cold_key (filter under_way (withdrawal_requests (conn_db sample_cold))))"
    by (simp_all add: sample_cold_def SaveWithdrawalRequest_def Let_def empty_tables_def under_way_def sample_request_def)
  with one_cold_transfer[OF further[OF here http[of sample_lib sample_config _ sample_api sample_http]] this(2)]
  show ?thesis by simp
qed

end
