(* ===== verification/Api_Deposits.thy ===== *)
theory Api_Deposits
  imports Api_Props
begin

text \<open>
  New deposit addresses: the handler relies on the search for an identifier that
  \<open>src/blockchain/blockchain.go\<close> provides.  \<open>id_source\<close> is what it promises; the connection is an
  instance.
\<close>

locale id_source =
  fixes next_ton :: "string \<Rightarrow> byte \<Rightarrow> u32 \<Rightarrow> error + (taddress \<times> u32)"
    and next_jetton :: "byte \<Rightarrow> taddress \<Rightarrow> taddress \<Rightarrow> u32 \<Rightarrow> error + (JettonProxy \<times> taddress)"
  assumes ton_range: "next_ton seed shard start = Inr (w, i) \<Longrightarrow> start \<le> i \<and> i < - 1"
    and jetton_range: "next_jetton shard owner master start = Inr (p, a) \<Longrightarrow> start \<le> prx_SubwalletID p \<and> prx_SubwalletID p < - 1"
    and ton_shard: "next_ton seed shard start = Inr (w, i) \<Longrightarrow> AddressFromTonutilsAddress (Some w) = Inr b \<Longrightarrow> Address_bytes b ! 0 = shard"
definition ids_ok :: "tonlib \<Rightarrow> tables \<Rightarrow> bool" where
  "ids_ok lib t \<longleftrightarrow> lib_DefaultSubwallet lib < - 1 \<and> (\<forall>tw\<in>set (ton_wallets t). tw_subwallet_id tw < - 1)"

lemma last_id_below: "ids_ok lib t \<Longrightarrow> GetLastSubwalletID lib t < - 1"
  by (auto simp: ids_ok_def GetLastSubwalletID_def split: option.splits dest: max_key_in)

text \<open>An identifier searched from the one after the last is larger than all stored ones.\<close>

lemma next_id_fresh:
  assumes "ids_ok lib t" "GetLastSubwalletID lib t + 1 \<le> i" "tw \<in> set (ton_wallets t)"
  shows "tw_subwallet_id tw < i"
proof -
  have "GetLastSubwalletID lib t < i" using word_succ_le[OF last_id_below[OF assms(1)]] assms(2) by simp
  moreover have "tw_subwallet_id tw \<le> GetLastSubwalletID lib t"
    using max_key_ge[OF assms(3), of tw_subwallet_id] by (auto simp: GetLastSubwalletID_def split: option.splits)
  ultimately show ?thesis by simp
qed

lemma put_info_ok:
  assumes "put_info a info c = (c', Inr u)"
  shows "conn_db c' = conn_db c" "addressBook_get (conn_addressBook c') a = Some info"
    "b \<noteq> a \<Longrightarrow> addressBook_get (conn_addressBook c') b = addressBook_get (conn_addressBook c) b"
  using assms by (auto simp: put_info_def addressBook_put_def addressBook_get_def split: sum.splits option.splits)

lemma SaveTonWallet_ok:
  assumes "SaveTonWallet wd c = (c', Inr u)"
  shows "conn_db c' = (conn_db c)\<lparr>ton_wallets := ton_wallets (conn_db c) @
      [\<lparr>tw_subwallet_id = wd_SubwalletID wd, tw_user_id = wd_UserID wd, tw_type = wd_Type wd, tw_address = wd_Address wd\<rparr>]\<rparr>"
    and "addressBook_get (conn_addressBook c') (wd_Address wd) =
      Some \<lparr>ai_Type = wd_Type wd, ai_Owner = None, ai_UserID = wd_UserID wd\<rparr>"
  using assms
  by (auto simp: SaveTonWallet_def insert_ton_wallet_def split: sum.splits if_splits dest: put_info_ok)

lemma SaveJettonWallet_ok:
  assumes "SaveJettonWallet owner wd False c = (c', Inr u)" "wd_Type wd = JettonDepositWallet"
  shows "conn_db c' = (conn_db c)\<lparr>ton_wallets := ton_wallets (conn_db c) @
      [\<lparr>tw_subwallet_id = wd_SubwalletID wd, tw_user_id = wd_UserID wd, tw_type = JettonOwner, tw_address = owner\<rparr>],
      jetton_wallets := jetton_wallets (conn_db c) @
      [\<lparr>jw_subwallet_id = wd_SubwalletID wd, jw_user_id = wd_UserID wd, jw_currency = wd_Currency wd,
        jw_type = wd_Type wd, jw_address = wd_Address wd\<rparr>]\<rparr>"
    and "addressBook_get (conn_addressBook c') (wd_Address wd) =
      Some \<lparr>ai_Type = JettonDepositWallet, ai_Owner = Some owner, ai_UserID = wd_UserID wd\<rparr>"
proof -
  from assms obtain c1 where
    c1: "put_info owner \<lparr>ai_Type = JettonOwner, ai_Owner = None, ai_UserID = wd_UserID wd\<rparr>
      (c\<lparr>conn_db := (conn_db c)\<lparr>ton_wallets := ton_wallets (conn_db c) @
      [\<lparr>tw_subwallet_id = wd_SubwalletID wd, tw_user_id = wd_UserID wd, tw_type = JettonOwner, tw_address = owner\<rparr>],
      jetton_wallets := jetton_wallets (conn_db c) @
      [\<lparr>jw_subwallet_id = wd_SubwalletID wd, jw_user_id = wd_UserID wd, jw_currency = wd_Currency wd,
        jw_type = wd_Type wd, jw_address = wd_Address wd\<rparr>]\<rparr>\<rparr>) = (c1, Inr ())"
    and c': "put_info (wd_Address wd) \<lparr>ai_Type = wd_Type wd, ai_Owner = Some owner, ai_UserID = wd_UserID wd\<rparr> c1 = (c', Inr u)"
    by (auto simp: SaveJettonWallet_def insert_ton_wallet_def insert_jetton_wallet_def Let_def split: sum.splits if_splits prod.splits)
  show "conn_db c' = (conn_db c)\<lparr>ton_wallets := ton_wallets (conn_db c) @
      [\<lparr>tw_subwallet_id = wd_SubwalletID wd, tw_user_id = wd_UserID wd, tw_type = JettonOwner, tw_address = owner\<rparr>],
      jetton_wallets := jetton_wallets (conn_db c) @
      [\<lparr>jw_subwallet_id = wd_SubwalletID wd, jw_user_id = wd_UserID wd, jw_currency = wd_Currency wd,
        jw_type = wd_Type wd, jw_address = wd_Address wd\<rparr>]\<rparr>"
    using put_info_ok(1)[OF c1] put_info_ok(1)[OF c'] by simp
  show "addressBook_get (conn_addressBook c') (wd_Address wd) =
      Some \<lparr>ai_Type = JettonDepositWallet, ai_Owner = Some owner, ai_UserID = wd_UserID wd\<rparr>"
    using put_info_ok(2)[OF c'] assms(2) by simp
qed

text \<open>The two branches of \<open>generateAddress\<close>.\<close>

lemma generateAddress_ton:
  assumes "runs (generateAddress h user TonSymbol) c c' addr"
  obtains w i a where
    "bc_GenerateSubWallet (h_bc h) (cfg_Seed (h_cfg h)) (h_shard h) (GetLastSubwalletID (h_lib h) (conn_db c) + 1) = Inr (w, i)"
    "AddressFromTonutilsAddress (Some w) = Inr a" "addr = Address_ToUserFormat (h_lib h) (h_cfg h) a"
    "SaveTonWallet \<lparr>wd_SubwalletID = i, wd_UserID = user, wd_Currency = TonSymbol, wd_Type = TonDepositWallet, wd_Address = a\<rparr> c = (c', Inr ())"
  using assms by (auto simp: generateAddress_def runs_bind_last)

lemma generateAddress_jetton:
  assumes "runs (generateAddress h user cur) c c' addr" "cur \<noteq> TonSymbol"
  obtains jetton proxy ja a owner where "cfg_Jettons (h_cfg h) cur = Some jetton"
    "bc_GenerateDepositJettonWalletForProxy (h_bc h) (h_shard h) (h_hotWalletAddress h) (j_Master jetton)
       (GetLastSubwalletID (h_lib h) (conn_db c) + 1) = Inr (proxy, ja)"
    "AddressFromTonutilsAddress (Some ja) = Inr a" "AddressFromTonutilsAddress (Some (prx_address proxy)) = Inr owner"
    "addr = Address_ToUserFormat (h_lib h) (h_cfg h) owner"
    "SaveJettonWallet owner \<lparr>wd_SubwalletID = prx_SubwalletID proxy, wd_UserID = user, wd_Currency = cur,
       wd_Type = JettonDepositWallet, wd_Address = a\<rparr> False c = (c', Inr ())"
  using assms by (auto simp: generateAddress_def runs_bind_last split: option.splits)

text \<open>What a new address leaves behind: one wallet with a number above all others, and its book entry.\<close>

definition new_deposit :: "api \<Rightarrow> string \<Rightarrow> string \<Rightarrow> string \<Rightarrow> Connection \<Rightarrow> Connection \<Rightarrow> bool" where
  "new_deposit h user cur addr c c' \<longleftrightarrow>
     (\<exists>row. ton_wallets (conn_db c') = ton_wallets (conn_db c) @ [row]
        \<and> tw_user_id row = user \<and> addr = Address_ToUserFormat (h_lib h) (h_cfg h) (tw_address row)
        \<and> (\<forall>tw\<in>set (ton_wallets (conn_db c)). tw_subwallet_id tw < tw_subwallet_id row)
        \<and> (if cur = TonSymbol then
             tw_type row = TonDepositWallet \<and> Address_bytes (tw_address row) ! 0 = h_shard h
             \<and> jetton_wallets (conn_db c') = jetton_wallets (conn_db c)
             \<and> addressBook_get (conn_addressBook c') (tw_address row) =
                 Some \<lparr>ai_Type = TonDepositWallet, ai_Owner = None, ai_UserID = user\<rparr>
           else
             tw_type row = JettonOwner
             \<and> (\<exists>jw. jetton_wallets (conn_db c') = jetton_wallets (conn_db c) @ [jw]
                  \<and> jw_subwallet_id jw = tw_subwallet_id row \<and> jw_user_id jw = user \<and> jw_currency jw = cur
                  \<and> jw_type jw = JettonDepositWallet
                  \<and> addressBook_get (conn_addressBook c') (jw_address jw) =
                      Some \<lparr>ai_Type = JettonDepositWallet, ai_Owner = Some (tw_address row), ai_UserID = user\<rparr>)))"

context id_source
begin

lemma generated:
  assumes bc: "bc_GenerateSubWallet (h_bc h) = next_ton" "bc_GenerateDepositJettonWalletForProxy (h_bc h) = next_jetton"
    and ok: "ids_ok (h_lib h) (conn_db c)" and run: "runs (generateAddress h user cur) c c' addr"
  shows "new_deposit h user cur addr c c' \<and> ids_ok (h_lib h) (conn_db c')"
proof (cases "cur = TonSymbol")
  case True
  obtain w i a where g: "next_ton (cfg_Seed (h_cfg h)) (h_shard h) (GetLastSubwalletID (h_lib h) (conn_db c) + 1) = Inr (w, i)"
    "AddressFromTonutilsAddress (Some w) = Inr a" "addr = Address_ToUserFormat (h_lib h) (h_cfg h) a"
    and s: "SaveTonWallet \<lparr>wd_SubwalletID = i, wd_UserID = user, wd_Currency = TonSymbol, wd_Type = TonDepositWallet, wd_Address = a\<rparr> c = (c', Inr ())"
    using run unfolding True by (rule generateAddress_ton[where h = h, unfolded bc])
  note ids = ton_range[OF g(1)]
  from SaveTonWallet_ok[OF s] g(3) next_id_fresh[OF ok] ids ton_shard[OF g(1,2)] ok True show ?thesis
    by (auto simp: new_deposit_def ids_ok_def)
next
  case False
  obtain jetton :: Jetton and proxy ja a owner where
    g: "next_jetton (h_shard h) (h_hotWalletAddress h) (j_Master jetton)
       (GetLastSubwalletID (h_lib h) (conn_db c) + 1) = Inr (proxy, ja)"
    "addr = Address_ToUserFormat (h_lib h) (h_cfg h) owner"
    and s: "SaveJettonWallet owner \<lparr>wd_SubwalletID = prx_SubwalletID proxy, wd_UserID = user, wd_Currency = cur,
       wd_Type = JettonDepositWallet, wd_Address = a\<rparr> False c = (c', Inr ())"
    using run False by (rule generateAddress_jetton[where h = h, unfolded bc]) blast
  note ids = jetton_range[OF g(1)]
  from SaveJettonWallet_ok[OF s] g(2) next_id_fresh[OF ok] ids ok False show ?thesis
    by (auto simp: new_deposit_def ids_ok_def)
qed

end

lemma GenerateSubWallet_ids:
  assumes "GenerateSubWallet nd seed shard start = Inr (w, i)"
  shows "start \<le> i \<and> i < - 1" "AddressFromTonutilsAddress (Some w) = Inr b \<Longrightarrow> Address_bytes b ! 0 = shard"
  using assms
  by (auto simp: GenerateSubWallet_def andThenR_success inShard_def dest!: for_ids_found split: if_splits)

lemma GenerateDeposit_ids:
  assumes "GenerateDepositJettonWalletForProxy lib cb cfg nd shard owner master start = Inr (p, a)"
  shows "start \<le> prx_SubwalletID p \<and> prx_SubwalletID p < - 1"
  using assms
  by (auto simp: GenerateDepositJettonWalletForProxy_def NewJettonProxy_def andThenR_success dest!: for_ids_found
      split: if_splits sum.splits)

interpretation ids: id_source "GenerateSubWallet nd" "GenerateDepositJettonWalletForProxy lib cb cfg nd" for lib cb cfg nd
  by unfold_locales (auto dest: GenerateSubWallet_ids GenerateDeposit_ids)


definition sample_deposits :: api where
  "sample_deposits = sample_api\<lparr>h_lib := sample_lib\<lparr>lib_DefaultSubwallet := 6\<rparr>, h_cfg := sample_config\<lparr>cfg_Seed := ''a b''\<rparr>,
     h_shard := 9, h_bc := sample_bc\<lparr>bc_GenerateSubWallet := GenerateSubWallet sample_node,
       bc_GenerateDepositJettonWalletForProxy := GenerateDepositJettonWalletForProxy sample_lib sample_cells sample_config sample_node\<rparr>\<rparr>"

lemma sample_subwallet: "GenerateSubWallet sample_node ''a b'' 9 7 = Inr (sample_taddress (push_bit 248 9), 9)"
  by (simp add: GenerateSubWallet_def sample_node_def sample_wallet_def for_ids.simps[of _ _ 7] for_ids.simps[of _ _ 8]
      for_ids.simps[of _ _ 9] inShard_def nth_Address_bytes)

lemma sample_generated:
  "snd (snd (generateAddress sample_deposits ''u'' TonSymbol sample_conn0)) = Inr []"
  by (simp add: generateAddress_def sample_deposits_def sample_api_def bindA_def read_db_def GetLastSubwalletID_def
      max_key_def sample_conn0_def empty_tables_def liftE_def liftA_def lift_res_def sample_config_def sample_subwallet
      connA_def SaveTonWallet_def insert_ton_wallet_def put_info_def addressBook_put_def retA_def ok_def
      Address_ToUserFormat_def sample_lib_def Let_def)


end
