(* ===== verification/Api_Reports.thy ===== *)
theory Api_Reports
  imports Api_Props
begin

text \<open>
  The reports: a transaction hash that was printed finds its income again, pages of the history fit
  together, and the totals of a user are the sums over the recorded incomes.
\<close>

section \<open>Hashes\<close>

lemma hex_digit_value: "n < 16 \<Longrightarrow> hex_value (hex_digit n) = Some n"
  by (auto simp: hex_value_def hex_digit_def Let_def)

lemma hex_digit_lower: "n < 16 \<Longrightarrow> strings_ToLower [hex_digit n] = [hex_digit n]"
  by (auto simp: strings_ToLower_def hex_digit_def)

lemma ToLower_append: "strings_ToLower (s @ u) = strings_ToLower s @ strings_ToLower u"
  by (simp add: strings_ToLower_def)

lemma hex_Cons: "hex (b # bs) = [hex_digit (unat b div 16)] @ [hex_digit (unat b mod 16)] @ hex bs"
  by (simp add: hex_def)

lemma byte_nibbles: "unat b div 16 < 16" "unat b mod 16 < 16" for b :: byte
proof -
  have "unat b < 256" by (rule order.strict_trans2[OF unsigned_less]) simp
  then show "unat b div 16 < 16" "unat b mod 16 < 16" by (auto simp: less_mult_imp_div_less)
qed

lemma hex_lower: "strings_ToLower (hex bs) = hex bs"
proof (induction bs)
  case Nil
  show ?case by (simp add: hex_def strings_ToLower_def)
next
  case (Cons b bs)
  then show ?case unfolding hex_Cons ToLower_append by (simp only: hex_digit_lower byte_nibbles)
qed

lemma hex_roundtrip: "hex_DecodeString (hex bs) = Inr bs"
proof (induction bs)
  case Nil
  show ?case by (simp add: hex_def)
next
  case (Cons b bs)
  have "16 * (unat b div 16) + unat b mod 16 = unat b" by simp
  then have "of_nat (16 * (unat b div 16) + unat b mod 16) = b" by (metis of_nat_unat ucast_id)
  then show ?case using Cons by (simp add: hex_Cons hex_digit_value byte_nibbles del: of_nat_add of_nat_mult)
qed


definition sample_reports :: Connection where
  "sample_reports = sample_conn0\<lparr>conn_db := empty_tables\<lparr>
     ton_wallets := [\<lparr>tw_subwallet_id = 1, tw_user_id = ''u'', tw_type = TonDepositWallet, tw_address = 7\<rparr>],
     external_incomes := [\<lparr>xin_lt = 3, xin_utime = 0, xin_payer_workchain = None, xin_deposit_address = 7, xin_payer_address = None,
        xin_amount = 5, xin_comment = [], xin_tx_hash = replicate 32 0xAB\<rparr>,
       \<lparr>xin_lt = 4, xin_utime = 0, xin_payer_workchain = None, xin_deposit_address = 7, xin_payer_address = None,
        xin_amount = 6, xin_comment = [], xin_tx_hash = replicate 32 0xCD\<rparr>]\<rparr>\<rparr>"


section \<open>Pages\<close>

text \<open>
  Pages of the history fit together: reading a page and then the page after it gives what one
  larger page gives, in both sort orders, and the incomes of a page are ordered by logical time.
\<close>

theorem history_pages:
  assumes "0 \<le> offset" "0 \<le> a" "0 \<le> b"
    and "GetIncomeHistory user cur a offset asc t = Inr xs" "GetIncomeHistory user cur b (offset + a) asc t = Inr ys"
  shows "GetIncomeHistory user cur (a + b) offset asc t = Inr (xs @ ys)
    \<and> (\<exists>rows. set rows \<subseteq> set (external_incomes t) \<and> xs @ ys = map income_of_row rows
         \<and> (if asc then sorted (map xin_lt rows) else sorted (rev (map xin_lt rows))))"
proof -
  define raw where "raw = (if cur = TonSymbol
     then map fst (filter (\<lambda>(i, tw). case tw of None \<Rightarrow> False
                             | Some w \<Rightarrow> tw_type w = TonDepositWallet \<and> tw_user_id w = user)
                    (left_join (\<lambda>i tw. xin_deposit_address i = tw_address tw) (external_incomes t) (ton_wallets t)))
     else map fst (filter (\<lambda>(i, jw). case jw of None \<Rightarrow> False
                             | Some w \<Rightarrow> jw_type w = JettonDepositWallet \<and> jw_user_id w = user \<and> jw_currency w = cur)
                    (left_join (\<lambda>i jw. xin_deposit_address i = jw_address jw) (external_incomes t) (jetton_wallets t))))"
  define rs where "rs = (if asc then sort_key xin_lt raw else sort_key (\<lambda>r. - xin_lt r) raw)"
  have page: "GetIncomeHistory user cur n m asc t = Inr (map income_of_row (take (nat n) (drop (nat m) rs)))"
    if "0 \<le> n" "0 \<le> m" for n m
    using that by (simp add: GetIncomeHistory_def rs_def raw_def)
  have both: "xs @ ys = map income_of_row (take (nat (a + b)) (drop (nat offset) rs))"
    using assms page by (simp add: nat_add_distrib take_add drop_drop add.commute)
  have sub: "set rs \<subseteq> set (external_incomes t)"
    by (auto simp: rs_def raw_def in_left_join_Some split: option.splits if_splits)
  have sorted: "if asc then sorted (map xin_lt rs) else sorted (rev (map xin_lt rs))"
    using sorted_sort_key[of "\<lambda>r. - xin_lt r" raw] sorted_sort_key[of xin_lt raw]
    by (cases asc) (simp_all add: rs_def sorted_wrt_rev sorted_wrt_map)
  let ?page = "take (nat (a + b)) (drop (nat offset) rs)"
  have "if asc then sorted (map xin_lt ?page) else sorted (rev (map xin_lt ?page))"
    using sorted by (cases asc) (simp_all add: take_map[symmetric] drop_map[symmetric] sorted_wrt_take sorted_wrt_drop sorted_wrt_rev)
  moreover have "set ?page \<subseteq> set (external_incomes t)"
    using sub by (meson in_set_dropD in_set_takeD subset_iff)
  ultimately show ?thesis using both page assms(1-3) by (intro conjI exI[of _ ?page]) simp_all
qed

theorem history_pages_witness:
  "\<exists>xs ys. GetIncomeHistory ''u'' TonSymbol 1 0 False (conn_db sample_reports) = Inr xs \<and> xs \<noteq> []
     \<and> GetIncomeHistory ''u'' TonSymbol 1 1 False (conn_db sample_reports) = Inr ys \<and> ys \<noteq> []
     \<and> GetIncomeHistory ''u'' TonSymbol 2 0 False (conn_db sample_reports) = Inr (xs @ ys)"
proof -
  let ?t = "conn_db sample_reports"
  let ?rs = "external_incomes ?t"
  have "GetIncomeHistory ''u'' TonSymbol 1 0 False ?t = Inr [income_of_row (?rs ! 1)]"
    "GetIncomeHistory ''u'' TonSymbol 1 (0 + 1) False ?t = Inr [income_of_row (?rs ! 0)]"
    by (simp_all add: GetIncomeHistory_def sample_reports_def left_join_def)
  from history_pages[OF _ _ _ this] this show ?thesis by simp
qed

section \<open>Totals\<close>

text \<open>Rows that come in groups, one key per group: \<open>GROUP BY\<close> returns the groups.\<close>

lemma filter_group:
  assumes "\<And>x y. x \<in> set xs \<Longrightarrow> y \<in> set (g x) \<Longrightarrow> key y = k x" "distinct (map k xs)" "x \<in> set xs"
  shows "filter (\<lambda>y. key y = k x) (concat (map g xs)) = g x"
  using assms
proof (induction xs)
  case Nil
  then show ?case by simp
next
  case (Cons z zs)
  show ?case
  proof (cases "x = z")
    case True
    then have "k x \<notin> k ` set zs" using Cons.prems(2) by simp
    moreover have "key y \<in> k ` set zs" if "y \<in> set (concat (map g zs))" for y
    proof -
      from that obtain w where "w \<in> set zs" "y \<in> set (g w)" by auto
      then show ?thesis using Cons.prems(1)[of w y] by simp
    qed
    ultimately have "filter (\<lambda>y. key y = k x) (concat (map g zs)) = []" unfolding filter_empty_conv by metis
    moreover have "filter (\<lambda>y. key y = k x) (g z) = g z"
      using Cons.prems(1)[of z] True by (simp add: filter_id_conv)
    ultimately show ?thesis using True by simp
  next
    case False
    then have x: "x \<in> set zs" using Cons.prems(3) by simp
    then have "k x \<noteq> k z" using Cons.prems(2) by (metis distinct.simps(2) imageI list.set_map list.simps(9))
    then have "filter (\<lambda>y. key y = k x) (g z) = []"
      using Cons.prems(1)[of z] by (fastforce simp: filter_empty_conv)
    then show ?thesis using Cons.IH[OF _ _ x] Cons.prems by simp
  qed
qed

lemma distinct_on_drop_key:
  assumes "\<And>y. y \<in> set ys \<Longrightarrow> key y = key r"
  shows "distinct_on key (r # ys @ zs) = r # distinct_on key (filter (\<lambda>x. key x \<noteq> key r) zs)"
proof -
  have "filter (\<lambda>x. key x \<noteq> key r) ys = []" using assms by (simp add: filter_empty_conv)
  then show ?thesis by simp
qed

lemma distinct_on_groups:
  assumes "\<And>x y. x \<in> set xs \<Longrightarrow> y \<in> set (g x) \<Longrightarrow> key y = k x" "distinct (map k xs)"
    and "\<And>x. x \<in> set xs \<Longrightarrow> g x \<noteq> []"
  shows "distinct_on key (concat (map g xs)) = map (\<lambda>x. hd (g x)) xs"
  using assms
proof (induction xs)
  case Nil
  then show ?case by simp
next
  case (Cons z zs)
  obtain r ys where g: "g z = r # ys" using Cons.prems(3)[of z] by (cases "g z") auto
  have r: "key r = k z" and ys: "\<And>y. y \<in> set ys \<Longrightarrow> key y = key r" using Cons.prems(1)[of z] g by auto
  have "filter (\<lambda>x. key x \<noteq> key r) (concat (map g zs)) = concat (map g zs)"
    unfolding filter_id_conv
  proof
    fix y assume "y \<in> set (concat (map g zs))"
    then obtain x where "x \<in> set zs" "y \<in> set (g x)" by auto
    then have "key y \<in> k ` set zs" using Cons.prems(1)[of x y] by simp
    then show "key y \<noteq> key r" using Cons.prems(2) r by auto
  qed
  moreover have "distinct_on key (concat (map g zs)) = map (\<lambda>x. hd (g x)) zs" using Cons by simp
  ultimately show ?case using distinct_on_drop_key[of ys key r "concat (map g zs)"] ys g by simp
qed

definition matches :: "('a \<Rightarrow> 'b \<Rightarrow> bool) \<Rightarrow> 'b list \<Rightarrow> 'a \<Rightarrow> ('a \<times> 'b option) list" where
  "matches c bs a = (case filter (c a) bs of [] \<Rightarrow> [(a, None)] | ms \<Rightarrow> map (\<lambda>b. (a, Some b)) ms)"

lemma left_join_matches: "left_join c as bs = concat (map (matches c bs) as)"
  by (simp add: left_join_def matches_def[abs_def])

lemma matches_first: "y \<in> set (matches c bs a) \<Longrightarrow> fst y = a" "matches c bs a \<noteq> []" "fst (hd (matches c bs a)) = a"
  by (auto simp: matches_def split: list.splits)

lemma matches_sum:
  "(\<Sum>z\<leftarrow>matches c bs a. case snd z of None \<Rightarrow> 0 | Some b \<Rightarrow> f b) = (\<Sum>b\<leftarrow>filter (c a) bs. (f b :: 'c::monoid_add))"
  by (auto simp: matches_def comp_def split: list.splits)

lemma distinct_left_join:
  assumes "distinct as" "distinct bs"
  shows "distinct (left_join c as bs)"
  unfolding left_join_matches using assms(1)
proof (induction as)
  case Nil
  then show ?case by simp
next
  case (Cons a as)
  have "distinct (matches c bs a)"
    using distinct_filter[OF assms(2), of "c a"] by (auto simp: matches_def distinct_map inj_on_def split: list.splits)
  moreover have "set (matches c bs a) \<inter> set (concat (map (matches c bs) as)) = {}"
  proof (rule ccontr)
    assume "set (matches c bs a) \<inter> set (concat (map (matches c bs) as)) \<noteq> {}"
    then obtain y b where "y \<in> set (matches c bs a)" "b \<in> set as" "y \<in> set (matches c bs b)" by auto
    then show False using matches_first(1) Cons.prems by (metis distinct.simps(2))
  qed
  ultimately show ?case using Cons by simp
qed

definition wallet_key :: "(ton_wallets_row \<times> jetton_wallets_row option) \<Rightarrow> Address \<times> Address \<times> string option" where
  "wallet_key x = (wallet_deposit x, tw_address (fst x), map_option jw_currency (snd x))"

lemma user_wallets_keys:
  assumes "distinct (map tw_address (ton_wallets t))" "distinct (map jw_address (jetton_wallets t))"
  shows "distinct (map wallet_key (user_wallets userID t))"
proof -
  have "distinct (user_wallets userID t)"
    unfolding user_wallets_def using assms by (intro distinct_left_join distinct_filter) (auto simp: distinct_map)
  moreover have "x = y" if m: "x \<in> set (user_wallets userID t)" "y \<in> set (user_wallets userID t)" "wallet_key x = wallet_key y" for x y
  proof -
    obtain a b a' b' where xy: "x = (a, b)" "y = (a', b')" by (cases x; cases y)
    have tw: "a \<in> set (ton_wallets t)" "a' \<in> set (ton_wallets t)"
      using m xy by (cases b; cases b'; auto simp: user_wallets_def in_left_join_Some in_left_join_None)+
    then have "a = a'" using m(3) xy distinct_map_unique[OF assms(1)] by (simp add: wallet_key_def)
    moreover have "b = b'"
    proof (cases b)
      case None
      then show ?thesis using m(3) xy by (cases b') (auto simp: wallet_key_def)
    next
      case (Some j)
      then obtain j' where j': "b' = Some j'" using m(3) xy by (cases b') (auto simp: wallet_key_def)
      have "j \<in> set (jetton_wallets t)" "j' \<in> set (jetton_wallets t)"
        using m(1,2) xy Some j' by (auto simp: user_wallets_def in_left_join_Some)
      then show ?thesis
        using m(3) xy Some j' distinct_map_unique[OF assms(2)] by (simp add: wallet_key_def wallet_deposit_def)
    qed
    ultimately show ?thesis using xy by simp
  qed
  ultimately show ?thesis by (simp add: distinct_map inj_on_def)
qed

text \<open>
  C33.  The totals of a user are exact.  When no two wallets share an address, the report has one entry
  for each deposit of the user, in their order, with its currency, and its amount is the sum of all
  incomes recorded for that deposit on the counting side, zero when there are none.
\<close>

theorem income_totals_exact:
  assumes "distinct (map tw_address (ton_wallets t))" "distinct (map jw_address (jetton_wallets t))"
  shows "GetIncome userID side t =
    map (\<lambda>x. \<lparr>ti_Deposit = wallet_deposit x,
              ti_Amount = (\<Sum>i\<leftarrow>filter (\<lambda>i. fst i = wallet_deposit x) (side_incomes side t). snd i),
              ti_Currency = wallet_currency x\<rparr>) (user_wallets userID t)"
proof -
  define rows where "rows = left_join (\<lambda>x i. fst i = wallet_deposit x) (user_wallets userID t) (side_incomes side t)"
  define key where "key = (\<lambda>(x, i :: (Address \<times> Coins) option). (wallet_deposit x, tw_address (fst x), map_option jw_currency (snd x)))"
  let ?g = "matches (\<lambda>x i. fst i = wallet_deposit x) (side_incomes side t)"
  have rows: "rows = concat (map ?g (user_wallets userID t))" by (simp add: rows_def left_join_matches)
  have key: "key y = wallet_key x" if "y \<in> set (?g x)" for x y
    using matches_first(1)[OF that] by (cases y) (simp add: key_def wallet_key_def)
  note keys = user_wallets_keys[OF assms, of userID]
  have "distinct_on key rows = map (\<lambda>x. hd (?g x)) (user_wallets userID t)"
    unfolding rows by (rule distinct_on_groups[OF key keys]) (auto simp: matches_first)
  moreover have "filter (\<lambda>z. key z = key (hd (?g x))) rows = ?g x" if "x \<in> set (user_wallets userID t)" for x
    using filter_group[where k = wallet_key and key = key and g = ?g, OF key keys that] key[OF hd_in_set[OF matches_first(2)]]
    unfolding rows by simp
  moreover have "GetIncome userID side t =
      map (\<lambda>y. \<lparr>ti_Deposit = wallet_deposit (fst y),
                   ti_Amount = (\<Sum>z\<leftarrow>filter (\<lambda>z. key z = key y) rows. case snd z of None \<Rightarrow> 0 | Some i \<Rightarrow> snd i),
                   ti_Currency = wallet_currency (fst y)\<rparr>) (distinct_on key rows)"
    by (simp add: GetIncome_def rows_def key_def Let_def)
  ultimately show ?thesis by (simp add: matches_first(3) matches_sum)
qed

theorem income_totals_exact_witness:
  "map ti_Amount (GetIncome ''u'' True (conn_db sample_reports)) = [11]"
  by (subst income_totals_exact)
    (simp_all add: sample_reports_def sample_conn0_def empty_tables_def user_wallets_def left_join_def side_incomes_def
      wallet_deposit_def)

end
