(* ===== verification/Book_Props.thy ===== *)
theory Book_Props
  imports Api_Deposits Api_Reports
begin

text \<open>
  The address book is kept in memory and updated wallet by wallet; a restart builds it from the
  tables.  Both ways give the same book.
\<close>

section \<open>Loading\<close>

definition join_owner :: "jetton_wallets_row \<Rightarrow> ton_wallets_row \<Rightarrow> bool" where
  "join_owner jw tw \<longleftrightarrow> jw_subwallet_id jw = tw_subwallet_id tw"

definition load_tables :: "tables \<Rightarrow> error + (Address \<rightharpoonup> AddressInfo)" where
  "load_tables t = load_jetton_rows (left_join join_owner (jetton_wallets t) (ton_wallets t)) (load_ton_rows (ton_wallets t) Map.empty)"

lemma LoadAddressBook_tables:
  "LoadAddressBook (NewConnection (conn_db c)) = (c, Inr ()) \<longleftrightarrow>
     (\<exists>m. conn_addressBook c = Some m \<and> load_tables (conn_db c) = Inr m)"
proof -
  have "join_owner = (\<lambda>jw tw. jw_subwallet_id jw = tw_subwallet_id tw)" by (intro ext) (simp add: join_owner_def)
  then show ?thesis
    by (cases c) (auto simp: LoadAddressBook_def load_tables_def NewConnection_def Let_def split: sum.splits)
qed

lemma load_ton_snoc:
  "load_ton_rows (xs @ [r]) res = (load_ton_rows xs res)(tw_address r \<mapsto> \<lparr>ai_Type = tw_type r, ai_Owner = None, ai_UserID = tw_user_id r\<rparr>)"
  by (induction xs arbitrary: res) simp_all

lemma load_jetton_append: "load_jetton_rows (xs @ ys) res = andThenR (load_jetton_rows xs res) (load_jetton_rows ys)"
  by (induction xs arbitrary: res) (auto simp: andThenR_def split: sum.splits)

lemma Address_Scan_bytes [simp]: "Address_Scan (Some (Address_bytes a)) = Inr a" "\<exists>e. Address_Scan None = Inl e"
  by (simp_all add: Address_Scan_def word_rcat_Address_bytes)

text \<open>An entry for another address commutes with the jetton rows; a row without owner is refused.\<close>

lemma load_jetton_other:
  "load_jetton_rows xs res = Inr m \<Longrightarrow> a \<notin> (jw_address \<circ> fst) ` set xs \<Longrightarrow> load_jetton_rows xs (res(a \<mapsto> i)) = Inr (m(a \<mapsto> i))"
proof (induction xs arbitrary: res)
  case Nil
  then show ?case by simp
next
  case (Cons x xs)
  from Cons.prems(1) obtain owner where scan: "Address_Scan (map_option (\<lambda>w. Address_bytes (tw_address w)) (snd x)) = Inr owner"
    and rest: "load_jetton_rows xs (res(jw_address (fst x) \<mapsto>
       \<lparr>ai_Type = jw_type (fst x), ai_Owner = Some owner, ai_UserID = jw_user_id (fst x)\<rparr>)) = Inr m"
    by (auto simp: andThenR_success)
  have "a \<noteq> jw_address (fst x)" "a \<notin> (jw_address \<circ> fst) ` set xs" using Cons.prems(2) by auto
  then show ?case using Cons.IH[OF rest] scan by (simp add: fun_upd_twist[of a "jw_address (fst x)"] del: fun_upd_apply)
qed

lemma scan_owner: "Address_Scan (map_option f x) = Inr a \<Longrightarrow> x \<noteq> None"
  by (cases x) (simp_all add: Address_Scan_def)

lemma load_jetton_owned: "load_jetton_rows xs res = Inr m \<Longrightarrow> x \<in> set xs \<Longrightarrow> snd x \<noteq> None"
  by (induction xs arbitrary: res) (auto simp: andThenR_success dest: scan_owner)

lemma left_join_keys: "fst ` set (left_join c as bs) = set as"
proof -
  have "fst ` set (matches c bs a) = {a}" for a
    using matches_first(1)[of _ c bs a] matches_first(2,3)[of c bs a] by (force simp: image_iff intro!: bexI[OF _ hd_in_set])
  then show ?thesis by (simp add: left_join_matches image_UN)
qed

lemma left_join_more:
  assumes "\<And>a. a \<in> set as \<Longrightarrow> \<not> c a b"
  shows "left_join c as (bs @ [b]) = left_join c as bs"
proof -
  have "matches c (bs @ [b]) a = matches c bs a" if "a \<in> set as" for a using assms[OF that] by (simp add: matches_def)
  then show ?thesis by (simp add: left_join_matches cong: map_cong)
qed

section \<open>A wallet more\<close>

lemma loaded_new_row:
  assumes "load_tables t = Inr m" "tw_subwallet_id row \<notin> tw_subwallet_id ` set (ton_wallets t)"
    and "tw_address row \<notin> jw_address ` set (jetton_wallets t)"
  shows "load_jetton_rows (left_join join_owner (jetton_wallets t) (ton_wallets t @ [row])) (load_ton_rows (ton_wallets t @ [row]) Map.empty)
    = Inr (m(tw_address row \<mapsto> \<lparr>ai_Type = tw_type row, ai_Owner = None, ai_UserID = tw_user_id row\<rparr>))"
proof -
  have "\<not> join_owner jw row" if "jw \<in> set (jetton_wallets t)" for jw
  proof -
    from that left_join_keys[of join_owner "jetton_wallets t" "ton_wallets t"] obtain x where
      x: "x \<in> set (left_join join_owner (jetton_wallets t) (ton_wallets t))" "fst x = jw" by force
    obtain tw where "snd x = Some tw"
      using load_jetton_owned[OF assms(1)[unfolded load_tables_def] x(1)] by auto
    then have "(jw, Some tw) \<in> set (left_join join_owner (jetton_wallets t) (ton_wallets t))"
      using x by (metis prod.collapse)
    then have "tw \<in> set (ton_wallets t)" "jw_subwallet_id jw = tw_subwallet_id tw"
      by (auto simp: in_left_join_Some join_owner_def)
    then show ?thesis using assms(2) by (metis imageI join_owner_def)
  qed
  then have "left_join join_owner (jetton_wallets t) (ton_wallets t @ [row]) = left_join join_owner (jetton_wallets t) (ton_wallets t)"
    by (rule left_join_more)
  moreover have "tw_address row \<notin> (jw_address \<circ> fst) ` set (left_join join_owner (jetton_wallets t) (ton_wallets t))"
    using assms(3) unfolding image_comp[symmetric] left_join_keys .
  ultimately show ?thesis
    using load_jetton_other[OF assms(1)[unfolded load_tables_def]] by (simp add: load_ton_snoc del: fun_upd_apply)
qed

lemma put_info_book:
  "put_info a i c = (c', Inr u) \<Longrightarrow> conn_addressBook c = Some m \<Longrightarrow> conn_addressBook c' = Some (m(a \<mapsto> i))"
  by (auto simp: put_info_def addressBook_put_def split: sum.splits)

lemma SaveTonWallet_loaded:
  assumes "LoadAddressBook (NewConnection (conn_db c)) = (c, Inr ())" "SaveTonWallet wd c = (c', Inr u)"
    and "wd_Address wd \<notin> jw_address ` set (jetton_wallets (conn_db c))"
  shows "LoadAddressBook (NewConnection (conn_db c')) = (c', Inr ())"
proof -
  obtain m where m: "conn_addressBook c = Some m" "load_tables (conn_db c) = Inr m"
    using assms(1) by (auto simp: LoadAddressBook_tables)
  let ?row = "\<lparr>tw_subwallet_id = wd_SubwalletID wd, tw_user_id = wd_UserID wd, tw_type = wd_Type wd, tw_address = wd_Address wd\<rparr>"
  let ?t = "(conn_db c)\<lparr>ton_wallets := ton_wallets (conn_db c) @ [?row]\<rparr>"
  from assms(2) have fresh: "wd_SubwalletID wd \<notin> tw_subwallet_id ` set (ton_wallets (conn_db c))"
    and put: "put_info (wd_Address wd) \<lparr>ai_Type = wd_Type wd, ai_Owner = None, ai_UserID = wd_UserID wd\<rparr> (c\<lparr>conn_db := ?t\<rparr>) = (c', Inr u)"
    by (auto simp: SaveTonWallet_def insert_ton_wallet_def split: if_splits)
  have "conn_db c' = ?t" "conn_addressBook c' = Some (m(wd_Address wd \<mapsto> \<lparr>ai_Type = wd_Type wd, ai_Owner = None, ai_UserID = wd_UserID wd\<rparr>))"
    using put_info_ok(1)[OF put] put_info_book[OF put] m(1) by auto
  then show ?thesis unfolding LoadAddressBook_tables load_tables_def
    using loaded_new_row[OF m(2), of ?row] fresh assms(3) by simp
qed

lemma SaveJettonWallet_loaded:
  assumes "LoadAddressBook (NewConnection (conn_db c)) = (c, Inr ())" "SaveJettonWallet owner wd False c = (c', Inr u)"
    and "wd_Type wd = JettonDepositWallet" "owner \<notin> jw_address ` set (jetton_wallets (conn_db c))"
  shows "LoadAddressBook (NewConnection (conn_db c')) = (c', Inr ())"
proof -
  obtain m where m: "conn_addressBook c = Some m" "load_tables (conn_db c) = Inr m"
    using assms(1) by (auto simp: LoadAddressBook_tables)
  let ?row = "\<lparr>tw_subwallet_id = wd_SubwalletID wd, tw_user_id = wd_UserID wd, tw_type = JettonOwner, tw_address = owner\<rparr>"
  let ?jw = "\<lparr>jw_subwallet_id = wd_SubwalletID wd, jw_user_id = wd_UserID wd, jw_currency = wd_Currency wd,
        jw_type = wd_Type wd, jw_address = wd_Address wd\<rparr>"
  let ?t = "(conn_db c)\<lparr>ton_wallets := ton_wallets (conn_db c) @ [?row], jetton_wallets := jetton_wallets (conn_db c) @ [?jw]\<rparr>"
  let ?m = "m(owner \<mapsto> \<lparr>ai_Type = JettonOwner, ai_Owner = None, ai_UserID = wd_UserID wd\<rparr>)"
  let ?i = "\<lparr>ai_Type = JettonDepositWallet, ai_Owner = Some owner, ai_UserID = wd_UserID wd\<rparr>"
  from assms(2,3) obtain c1 where fresh: "wd_SubwalletID wd \<notin> tw_subwallet_id ` set (ton_wallets (conn_db c))"
    and c1: "put_info owner \<lparr>ai_Type = JettonOwner, ai_Owner = None, ai_UserID = wd_UserID wd\<rparr> (c\<lparr>conn_db := ?t\<rparr>) = (c1, Inr ())"
    and c': "put_info (wd_Address wd) ?i c1 = (c', Inr u)"
    by (auto simp: SaveJettonWallet_def insert_ton_wallet_def insert_jetton_wallet_def Let_def split: sum.splits if_splits prod.splits)
  have book: "conn_db c' = ?t" "conn_addressBook c' = Some (?m(wd_Address wd \<mapsto> ?i))"
    using put_info_ok(1)[OF c1] put_info_ok(1)[OF c'] put_info_book[OF c' put_info_book[OF c1]] m(1) by auto
  have "filter (join_owner ?jw) (ton_wallets (conn_db c)) = []"
    using fresh by (auto simp: filter_empty_conv join_owner_def)
  then have "left_join join_owner [?jw] (ton_wallets (conn_db c) @ [?row]) = [(?jw, Some ?row)]"
    by (simp add: left_join_def join_owner_def)
  then have "load_tables ?t = Inr (?m(wd_Address wd \<mapsto> ?i))"
    using loaded_new_row[OF m(2), of ?row] fresh assms(3,4)
    by (simp add: load_tables_def left_join_matches load_jetton_append del: fun_upd_apply)
  then show ?thesis unfolding LoadAddressBook_tables using book by simp
qed

text \<open>
  C31.  A restart finds the same address book.  If the book in memory is the one that loading the tables
  gives (as it is after a start), it still is after a new deposit address was generated, provided the
  new address is not one of the service's jetton wallets: lookups answer the same before and after
  a restart.
\<close>

theorem restart_finds_book:
  assumes "LoadAddressBook (NewConnection (conn_db c)) = (c, Inr ())" "runs (generateAddress h user cur) c c' addr"
    and "\<forall>row. ton_wallets (conn_db c') = ton_wallets (conn_db c) @ [row] \<longrightarrow> tw_address row \<notin> jw_address ` set (jetton_wallets (conn_db c))"
  shows "LoadAddressBook (NewConnection (conn_db c')) = (c', Inr ())"
proof (cases "cur = TonSymbol")
  case True
  obtain w i a where s: "SaveTonWallet \<lparr>wd_SubwalletID = i, wd_UserID = user, wd_Currency = TonSymbol,
      wd_Type = TonDepositWallet, wd_Address = a\<rparr> c = (c', Inr ())"
    using assms(2) unfolding True by (rule generateAddress_ton) blast
  show ?thesis by (rule SaveTonWallet_loaded[OF assms(1) s]) (use SaveTonWallet_ok(1)[OF s] assms(3) in simp)
next
  case False
  obtain jetton :: Jetton and proxy :: JettonProxy and a owner where s: "SaveJettonWallet owner \<lparr>wd_SubwalletID = prx_SubwalletID proxy, wd_UserID = user,
      wd_Currency = cur, wd_Type = JettonDepositWallet, wd_Address = a\<rparr> False c = (c', Inr ())"
    using assms(2) False by (rule generateAddress_jetton) blast
  show ?thesis by (rule SaveJettonWallet_loaded[OF assms(1) s]) (use SaveJettonWallet_ok(1)[OF s] assms(3) in simp_all)
qed

theorem restart_finds_book_witness:
  "LoadAddressBook (NewConnection (conn_db (fst (generateAddress sample_deposits ''u'' TonSymbol sample_conn0))))
     = (fst (generateAddress sample_deposits ''u'' TonSymbol sample_conn0), Inr ())"
proof (rule restart_finds_book)
  show "LoadAddressBook (NewConnection (conn_db sample_conn0)) = (sample_conn0, Inr ())"
    by (simp add: LoadAddressBook_def NewConnection_def sample_conn0_def empty_tables_def left_join_def)
  show "runs (generateAddress sample_deposits ''u'' TonSymbol) sample_conn0
      (fst (generateAddress sample_deposits ''u'' TonSymbol sample_conn0)) []"
    by (simp add: runs_def sample_generated)
qed (simp add: sample_conn0_def empty_tables_def)

end
