(* ===== verification/Text_Props.thy ===== *)
theory Text_Props
  imports Storage
begin

text \<open>
  \<open>stripInvalidUTF8\<close> of \<open>src/db/db.go\<close>: what is stored as a comment is well-formed UTF-8 without NUL,
  whatever bytes the sender put into the message.
\<close>

section \<open>Characters\<close>

text \<open>A character: bytes that decode to one rune and are used up by it.  A lone byte that decodes to
  \<open>RuneError\<close> is not one.\<close>

definition utf8_char :: "string \<Rightarrow> bool" where
  "utf8_char c \<longleftrightarrow> c \<noteq> [] \<and> (case DecodeRune c of (r, n) \<Rightarrow> n = length c \<and> (r \<noteq> RuneError \<or> n > 1))"

definition utf8 :: "string \<Rightarrow> bool" where
  "utf8 s \<longleftrightarrow> (\<exists>cs. s = concat cs \<and> list_all utf8_char cs)"

text \<open>Decoding looks at the bytes of the character only.\<close>

lemma decode2_cases: "decode2 b0 bs = (r, n) \<Longrightarrow>
    (\<exists>b1 bs'. bs = b1 # bs' \<and> cont b1 \<and> n = 2 \<and> (\<forall>ys. decode2 b0 (b1 # ys) = (r, n))) \<or> (r, n) = (RuneError, 1)"
  by (cases "(b0, bs)" rule: decode2.cases) (auto split: if_splits)

lemma decode3_cases: "decode3 b0 bs = (r, n) \<Longrightarrow>
    (\<exists>b1 b2 bs'. bs = b1 # b2 # bs' \<and> 0x80 \<le> b1 \<and> cont b2 \<and> n = 3 \<and> (\<forall>ys. decode3 b0 (b1 # b2 # ys) = (r, n)))
    \<or> (r, n) = (RuneError, 1)"
  by (cases "(b0, bs)" rule: decode3.cases) (auto split: if_splits)

lemma decode4_cases: "decode4 b0 bs = (r, n) \<Longrightarrow>
    (\<exists>b1 b2 b3 bs'. bs = b1 # b2 # b3 # bs' \<and> 0x80 \<le> b1 \<and> cont b2 \<and> cont b3 \<and> n = 4
      \<and> (\<forall>ys. decode4 b0 (b1 # b2 # b3 # ys) = (r, n)))
    \<or> (r, n) = (RuneError, 1)"
  by (cases "(b0, bs)" rule: decode4.cases) (auto split: if_splits)

lemma decode_first_good:
  assumes "decode_first b0 bs = (r, n)" "r \<noteq> RuneError \<or> n > 1"
  shows "decode_first b0 (take (n - 1) bs @ ys) = (r, n) \<and> (\<forall>b\<in>set (take (n - 1) bs). 0x80 \<le> b)
    \<and> (n > 1 \<longrightarrow> 0x80 \<le> b0)"
proof -
  consider "b0 < 0x80" | "0xC2 \<le> b0 \<and> b0 \<le> 0xDF" | "0xE0 \<le> b0 \<and> b0 \<le> 0xEF" | "0xF0 \<le> b0 \<and> b0 \<le> 0xF4"
    using assms by (auto simp: decode_first_def split: if_splits)
  then show ?thesis
  proof cases
    case 1
    then show ?thesis using assms by (auto simp: decode_first_def)
  next
    case 2
    then have "decode2 b0 bs = (r, n)" using assms by (simp add: decode_first_def)
    from decode2_cases[OF this] assms(2) 2 show ?thesis by (auto simp: decode_first_def cont_def)
  next
    case 3
    then have "decode3 b0 bs = (r, n)" using assms by (simp add: decode_first_def)
    from decode3_cases[OF this] assms(2) 3 show ?thesis by (auto simp: decode_first_def cont_def numeral_2_eq_2)
  next
    case 4
    then have "decode4 b0 bs = (r, n)" using assms by (simp add: decode_first_def)
    from decode4_cases[OF this] assms(2) 4 show ?thesis by (auto simp: decode_first_def cont_def eval_nat_numeral)
  qed
qed

lemma DecodeRune_good:
  assumes "s \<noteq> []" "DecodeRune s = (r, n)" "r \<noteq> RuneError \<or> n > 1"
  shows "DecodeRune (take n s @ ys) = (r, n)" "n > 1 \<Longrightarrow> \<forall>c\<in>set (take n s). 0x80 \<le> (of_char c :: nat)"
proof -
  obtain c cs where s: "s = c # cs" using assms(1) by (cases s) auto
  have n: "0 < n" using DecodeRune_size[OF assms(1)] assms(2) by simp
  then have take: "take n s = c # take (n - 1) cs" by (cases n) (simp_all add: s)
  have "decode_first (of_char c) (map of_char cs) = (r, n)" using assms(2) s by simp
  note good = decode_first_good[OF this assms(3)]
  show "DecodeRune (take n s @ ys) = (r, n)" using good[of "map of_char ys"] by (simp add: take take_map)
  show "n > 1 \<Longrightarrow> \<forall>c\<in>set (take n s). 0x80 \<le> (of_char c :: nat)" using good by (simp add: take take_map)
qed

lemma utf8_char_prefix:
  assumes "utf8_char c"
  shows "\<exists>r. DecodeRune (c @ ys) = (r, length c) \<and> (r \<noteq> RuneError \<or> length c > 1)"
  using assms DecodeRune_good(1)[of c] by (auto simp: utf8_char_def split: prod.splits)

lemma nul_iff [simp]: "0 < (of_char x :: nat) \<longleftrightarrow> x \<noteq> CHR 0x00"
proof -
  have "of_char x = (of_char (CHR 0x00) :: nat) \<longleftrightarrow> x = CHR 0x00" by (rule of_char_eq_iff)
  then have "of_char x = (0 :: nat) \<longleftrightarrow> x = CHR 0x00" by simp
  then show ?thesis by (metis gr0I less_irrefl)
qed

lemma utf8_char_nul: "utf8_char c \<Longrightarrow> filter (\<lambda>x. x \<noteq> CHR 0x00) c = (if c = [CHR 0x00] then [] else c)"
proof (cases "length c > 1")
  case True
  assume "utf8_char c"
  then have "\<forall>x\<in>set c. 0x80 \<le> (of_char x :: nat)"
    using True DecodeRune_good(2)[of c _ "length c"] by (auto simp: utf8_char_def split: prod.splits)
  then have "filter (\<lambda>x. x \<noteq> CHR 0x00) c = c" by (fastforce simp: filter_id_conv)
  moreover have "c \<noteq> [CHR 0x00]" using True by auto
  ultimately show ?thesis by simp
next
  case False
  assume "utf8_char c"
  then obtain x where c: "c = [x]" using False by (cases c) (auto simp: utf8_char_def)
  then show ?thesis by simp
qed

lemma strip_char:
  assumes "utf8_char c"
  shows "strip_loop (c @ s) = c @ strip_loop s"
proof -
  from utf8_char_prefix[OF assms] obtain r where "DecodeRune (c @ s) = (r, length c)" "r \<noteq> RuneError \<or> length c > 1" by blast
  moreover have "c \<noteq> []" using assms by (simp add: utf8_char_def)
  ultimately show ?thesis by (simp add: strip_loop.simps[of "c @ s"])
qed

lemma strip_chars: "list_all utf8_char cs \<Longrightarrow> strip_loop (concat cs) = concat cs"
  by (induction cs) (simp_all add: strip_char, simp add: strip_loop.simps)

lemma utf8_Nil: "utf8 []"
  unfolding utf8_def by (rule exI[of _ "[]"]) simp

lemma utf8_Cons: "utf8_char c \<Longrightarrow> utf8 s \<Longrightarrow> utf8 (c @ s)"
  unfolding utf8_def by (metis concat.simps(2) list.pred_inject(2))

lemma strip_utf8: "utf8 (strip_loop s)"
proof (induction s rule: strip_loop.induct)
  case (1 b)
  show ?case
  proof (cases "b = []")
    case True
    then show ?thesis by (simp add: strip_loop.simps utf8_Nil)
  next
    case False
    obtain r n where rn: "DecodeRune b = (r, n)" by (cases "DecodeRune b")
    have rest: "utf8 (strip_loop (drop n b))" using "1.IH"[OF False refl rn[symmetric]] .
    have "utf8_char (take n b)" if "r \<noteq> RuneError \<or> n > 1"
      using DecodeRune_good(1)[OF False rn that, of "[]"] that DecodeRune_size[OF False] False rn
      by (auto simp: utf8_char_def)
    then show ?thesis using rest False rn by (auto simp: strip_loop.simps[of b] utf8_Cons)
  qed
qed

lemma nul_filter: "list_all utf8_char cs \<Longrightarrow>
    filter (\<lambda>x. x \<noteq> CHR 0x00) (concat cs) = concat (filter (\<lambda>c. c \<noteq> [CHR 0x00]) cs)"
  by (induction cs) (simp_all add: utf8_char_nul)

lemma stripped: "utf8 (stripInvalidUTF8 s)"
proof -
  obtain cs where cs: "strip_loop s = concat cs" "list_all utf8_char cs" using strip_utf8[of s] by (auto simp: utf8_def)
  then have "stripInvalidUTF8 s = concat (filter (\<lambda>c. c \<noteq> [CHR 0x00]) cs)" by (simp add: stripInvalidUTF8_def nul_filter)
  moreover have "list_all utf8_char (filter (\<lambda>c. c \<noteq> [CHR 0x00]) cs)" using cs(2) by (auto simp: list_all_iff)
  ultimately show ?thesis unfolding utf8_def by blast
qed

lemma strip_valid: "utf8 s \<Longrightarrow> CHR 0x00 \<notin> set s \<Longrightarrow> stripInvalidUTF8 s = s"
proof -
  assume "utf8 s" and nul: "CHR 0x00 \<notin> set s"
  then have "strip_loop s = s" by (auto simp: utf8_def strip_chars)
  then show ?thesis using nul by (auto simp: stripInvalidUTF8_def filter_id_conv)
qed

lemma stripped_nul: "CHR 0x00 \<notin> set (stripInvalidUTF8 s)"
  by (simp add: stripInvalidUTF8_def)

text \<open>
  C37.  Stored comments are clean.  Whatever bytes a comment has, what is stored is well-formed UTF-8
  without NUL; cleaning it again changes nothing, and exactly the well-formed comments without NUL
  are stored as they are.
\<close>

theorem comment_sanitised:
  "utf8 (stripInvalidUTF8 s) \<and> CHR 0x00 \<notin> set (stripInvalidUTF8 s)
   \<and> stripInvalidUTF8 (stripInvalidUTF8 s) = stripInvalidUTF8 s
   \<and> (stripInvalidUTF8 s = s \<longleftrightarrow> utf8 s \<and> CHR 0x00 \<notin> set s)"
  using stripped stripped_nul strip_valid by metis

end
