(* ===== verification/Boundary_Props.thy ===== *)
theory Boundary_Props
  imports Withdrawal_Processor Samples
begin

text \<open>
  Where values enter the service: the checks of the configuration, the conversion of addresses
  between the library's form, the 32 bytes of the tables and back, and the wait for synchronisation
  before the processors work on what is stored.
\<close>

section \<open>Configuration\<close>

text \<open>\<open>decimal.Decimal.BigInt\<close> truncates, which is monotone.\<close>

definition BigInt_mono :: "tonlib \<Rightarrow> bool" where
  "BigInt_mono lib \<longleftrightarrow> (\<forall>x y. x \<le> y \<longrightarrow> lib_BigInt lib x \<le> lib_BigInt lib y)"

lemma parseTonString_ordered:
  "BigInt_mono lib \<Longrightarrow> parseTonString lib s = Inr ton \<Longrightarrow> c_HotWalletMin ton \<le> c_HotWalletMax ton"
  by (auto simp: parseTonString_def Let_def andThenR_success orFatal_success BigInt_mono_def split: if_splits)

text \<open>The part of \<open>GetConfig\<close> that checks the cold wallet.\<close>

definition cold_checked :: "tonlib \<Rightarrow> config \<Rightarrow> error + config" where
  "cold_checked lib c2 =
     (if cfg_ColdWalletString c2 = [] then Inr c2
      else case lib_ParseAddr lib (cfg_ColdWalletString c2) of
             Inl e \<Rightarrow> Inl (Fatalf ''Can not parse cold wallet address'')
           | Inr coldAddr \<Rightarrow>
               if ta_Type coldAddr \<noteq> StdAddress
               then Inl (Fatalf ''Only std cold wallet address supported'')
               else if ta_TestnetOnly coldAddr \<and> \<not> cfg_Testnet c2
               then Inl (Fatalf ''Can not use testnet cold wallet address for mainnet'')
               else Inr (c2\<lparr>cfg_ColdWallet := Some coldAddr\<rparr>))"

lemma guard_Inr:
  "(if b then Inl e else x) = Inr y \<longleftrightarrow> \<not> b \<and> x = Inr y" "(if b then Inr x1 else Inr x2) = Inr y \<longleftrightarrow> y = (if b then x1 else x2)"
  by auto

lemma GetConfig_cold:
  "GetConfig lib env =
     (case env of
        Inl e \<Rightarrow> Inl (Fatalf ''Can not load config'')
      | Inr c0 \<Rightarrow>
        andThenR (parseJettonString lib (cfg_JettonString c0)) (\<lambda>js.
        andThenR (parseTonString lib (cfg_TonString c0)) (\<lambda>ton.
        if cfg_ForwardTonAmount c0 < 0 \<or> cfg_ForwardTonAmount c0 > MaxJettonForwardTonAmount
        then Inl (Fatalf ''Forward TON amount for jetton transfer must be positive'')
        else
        andThenR (cold_checked lib (c0\<lparr>cfg_Jettons := js, cfg_Ton := ton, cfg_JettonForwardAmount := cfg_ForwardTonAmount c0\<rparr>)) (\<lambda>c3.
        if cfg_AllowableLaggingSec c3 \<noteq> 0
        then Inr (c3\<lparr>cfg_AllowableBlockchainLagging := Second * cfg_AllowableLaggingSec c3\<rparr>)
        else Inr c3))))"
  unfolding GetConfig_def cold_checked_def Let_def by (cases env) (simp_all cong: if_cong sum.case_cong)

lemma cold_checked_ok:
  assumes "cold_checked lib c2 = Inr c3"
  shows "\<exists>cold. c3 = c2\<lparr>cfg_ColdWallet := cold\<rparr>
    \<and> (if cfg_ColdWalletString c2 = [] then cold = cfg_ColdWallet c2
       else \<exists>a. cold = Some a \<and> ta_Type a = StdAddress \<and> (ta_TestnetOnly a \<longrightarrow> cfg_Testnet c2))"
  using assms by (cases c2) (auto simp: cold_checked_def split: if_splits sum.splits)



section \<open>Addresses\<close>

text \<open>
  Addresses survive every conversion: written to the library's form or to the bytes of a table
  and read back, an address is the same, and the 32 bytes of an address are the only input that reads
  as it.
\<close>

theorem address_roundtrip:
  assumes "NewAddress_std lib"
  shows "AddressFromTonutilsAddress (Some (Address_ToTonutilsAddressStd lib a flags)) = Inr a
    \<and> Address_Scan (Some (Address_bytes a)) = Inr a
    \<and> (\<forall>bs. AddressFromBytes bs = Inr a \<longleftrightarrow> bs = Address_bytes a)"
  using assms
  by (simp add: AddressFromTonutilsAddress_success AddressFromBytes_success Address_ToTonutilsAddressStd_def
      NewAddress_std_def Address_Scan_def word_rcat_Address_bytes)

theorem address_roundtrip_witness:
  "AddressFromTonutilsAddress (Some (Address_ToTonutilsAddressStd sample_lib 0xABCD 0)) = Inr 0xABCD"
  using address_roundtrip[OF sample_lib_documented(2)] by blast

section \<open>Synchronisation\<close>

text \<open>
  The wait for synchronisation ends as soon as the service is in sync or is being stopped, and
  says which: with the first look that finds one of the two, stopping first.
\<close>

theorem waitSync_ends:
  assumes "\<exists>n. stop n \<or> synced n"
  shows "\<exists>n. waitSync stop synced 0 = Some (\<not> stop n) \<and> (stop n \<or> synced n) \<and> (\<forall>i<n. \<not> stop i \<and> \<not> synced i)"
proof -
  define n where "n = (LEAST n. stop n \<or> synced n)"
  have n: "stop n \<or> synced n" unfolding n_def using assms by (rule LeastI_ex)
  have before: "\<not> stop i \<and> \<not> synced i" if "i < n" for i using not_less_Least[of i] that by (auto simp: n_def)
  have "waitSync stop synced k = Some (\<not> stop n)" if "k \<le> n" for k
    using that
  proof (induction k rule: inc_induct)
    case base
    then show ?case using n by (auto simp: waitSync.simps[of _ _ n])
  next
    case (step k)
    then show ?case using before by (simp add: waitSync.simps[of _ _ k])
  qed
  then show ?thesis using n before by blast
qed

theorem waitSync_ends_witness: "\<exists>n. waitSync (\<lambda>_. False) (\<lambda>k. 2 \<le> k) 0 = Some True \<and> (2 :: nat) \<le> n"
proof -
  have "\<exists>n::nat. False \<or> 2 \<le> n" by auto
  from waitSync_ends[OF this] show ?thesis by auto
qed

end
