(* ===== verification/Storage_Frame.thy ===== *)
theory Storage_Frame
  imports Service
begin

text \<open>
  What the parts of the service that do not save blocks leave alone.  The locale \<open>storage_frame\<close> states
  for a relation between connections that every single write of the storage layer, saving a block
  excepted, respects it; requests, rounds of the processors and the start then respect it as wholes,
  and a step of the service respects it unless it processes a block.
\<close>

locale storage_frame = run_relation R for R :: "Connection \<Rightarrow> Connection \<Rightarrow> bool" +
  assumes frame_request: "R c (c\<lparr>conn_db := fst (SaveWithdrawalRequest w (conn_db c))\<rparr>)"
    and frame_recorded: "R c (c\<lparr>conn_db := fst (CreateExternalWithdrawals us u e (conn_db c))\<rparr>)"
    and frame_internal: "SaveInternalWithdrawalTask task e memo (conn_db c) = Inr t \<Longrightarrow> R c (c\<lparr>conn_db := t\<rparr>)"
    and frame_service: "SaveServiceWithdrawalRequest memo sw (conn_db c) = Inr (t, m) \<Longrightarrow> R c (c\<lparr>conn_db := t\<rparr>)"
    and frame_service_sent: "R c (c\<lparr>conn_db := UpdateServiceWithdrawalRequest st am e filled (conn_db c)\<rparr>)"
    and frame_ton_wallet: "R c (fst (SaveTonWallet wd c))"
    and frame_jetton_wallet: "R c (fst (SaveJettonWallet owner wd b c))"
    and frame_book: "R c (fst (LoadAddressBook (NewConnection (conn_db c))))"
    and frame_expired: "R c (c\<lparr>conn_db := SetExpired cfg now1 now2 (conn_db c)\<rparr>)"
    and frame_proven: "R c (c\<lparr>conn_db := SaveLastMasterchainProvenBlock pb (conn_db c)\<rparr>)"
begin

lemma frame_reads:
  "preserves R (read_db f)" "preserves R (liftE r)" "preserves R (auditA a)" "preserves R (read_book g)"
  "preserves R (writeHttpError n msg)"
  by (simp_all add: preserves_def read_db_def liftE_def liftA_def auditA_def read_book_def writeHttpError_def retA_def R_refl)

lemma frame_fatalA: "preserves R m \<Longrightarrow> preserves R (fatalA msg m)"
  by (simp add: preserves_def fatalA_state)

lemma frame_writes:
  "preserves R (write_db_res (SaveWithdrawalRequest w))"
  "preserves R (write_db_res (CreateExternalWithdrawals us u e))"
  "preserves R (write_db_res (\<lambda>t. case SaveInternalWithdrawalTask itask e memo t of Inl x \<Rightarrow> (t, Inl x) | Inr t' \<Rightarrow> (t', Inr ())))"
  "preserves R (write_db_res (\<lambda>t. case SaveServiceWithdrawalRequest u sw t of Inl x \<Rightarrow> (t, Inl x) | Inr (t', m) \<Rightarrow> (t', Inr m)))"
  "preserves R (write_db (UpdateServiceWithdrawalRequest st am e filled))"
  "preserves R (connA (SaveTonWallet wd))" "preserves R (connA (SaveJettonWallet owner wd b))"
  by (auto simp: preserves_def write_db_res_def write_db_def connA_def split_beta R_refl frame_request frame_recorded
      frame_service_sent frame_ton_wallet frame_jetton_wallet intro: frame_internal frame_service split: sum.splits prod.splits)

lemmas frame_rules = rules loop frame_reads frame_fatalA frame_writes preserves_orError[where R = R, OF R_trans] preserves_case_sum

lemma frame_cold: "preserves R (makeColdWalletWithdrawals p n)"
proof -
  have "preserves R (cold_jetton_round p dest x st)" "preserves R (cold_ton_request p dest w st)" for dest x st w and st' :: "int \<times> nat"
    unfolding cold_jetton_round_def cold_ton_request_def by (cases x; cases st) (auto intro!: frame_rules)
  then show ?thesis unfolding makeColdWalletWithdrawals_def by (intro frame_rules)
qed

lemma frame_build: "preserves R (buildWithdrawalMessages p n)"
proof -
  have "preserves R (service_round p t b)" "preserves R (internal_round p it b)" "preserves R (external_round p et b)" for t b it et
    unfolding service_round_def internal_round_def external_round_def by (intro frame_rules; fail)+
  then show ?thesis unfolding buildWithdrawalMessages_def by (intro frame_rules)
qed

lemma frame_withdrawals: "preserves R (withdrawals_round p n)"
  unfolding withdrawals_round_def update_service_def save_internal_def by (intro frame_rules frame_cold frame_build)

lemma frame_collect: "preserves R (internal_ton_round p n)"
  unfolding internal_ton_round_def service_deposit_step_def ton_deposit_step_def withdrawTONsFromDeposit_def
    serviceWithdrawJettons_def by (intro frame_rules)

lemma frame_start: "preserves R (start_wallets lib cfg bc synced jettons)"
  unfolding start_wallets_def InitWallets_def check_cold_wallet_def initTonHotWallet_def init_jetton_def initJettonHotWallet_def
    check_saved_def save_hot_def Let_def by (intro frame_rules)

lemma frame_serve: "preserves R (serve h req)"
proof (rule serve_preserves)
  show "preserves R (handle_getNewAddress h req)"
    unfolding handle_getNewAddress_def generateAddress_def by (intro frame_rules)
  show "preserves R (handle_sendWithdrawal h req)"
    unfolding handle_sendWithdrawal_def by (intro frame_rules)
  show "preserves R (handle_serviceTonWithdrawal h req)"
    unfolding handle_serviceTonWithdrawal_def save_service_request_def by (intro frame_rules)
  show "preserves R (handle_serviceJettonWithdrawal h req)"
    unfolding handle_serviceJettonWithdrawal_def save_service_request_def by (intro frame_rules)
qed (rule R_refl)

lemma frame_main: "R c (fst (main_start lib cfg bc synced jettons (NewConnection (conn_db c))))"
  by (rule main_start_preserves[where R = R, OF R_trans frame_book frame_start])

lemma frame_last_block: "R c (c\<lparr>conn_db := updateLastBlocks_round b (conn_db c)\<rparr>)"
  by (cases b) (simp_all add: updateLastBlocks_round_def R_refl frame_proven)

text \<open>A step of the service that is not a block keeps the relation.\<close>

lemma frame_step:
  assumes "service_step lib cfg c c'"
  shows "R c c' \<or> (\<exists>s block. c' = fst (processBlock s block c))"
  using assms
proof (cases rule: service_step.cases)
  case (scan s block)
  then show ?thesis by blast
qed (simp_all add: frame_main frame_expired frame_last_block preservesD[OF frame_serve] preservesD[OF frame_withdrawals] preservesD[OF frame_collect])

lemma frame_reach:
  assumes "service_reach lib cfg c c'" "\<And>s block c. R c (fst (processBlock s block c))"
  shows "R c c'"
  using assms(1)
proof (induction rule: service_reach.induct)
  case here
  then show ?case by (rule R_refl)
next
  case (further c' c'')
  have "R c' c''" using frame_step[OF further(2)] assms(2) by auto
  with further.IH show ?case by (rule R_trans)
qed

end

end
