(* ===== verification/Ledger.thy ===== *)
theory Ledger
  imports Storage_Frame "HOL-Library.Sublist"
begin

text \<open>
  The records of the service are append-only.  Incomes and blocks are written by saved blocks only, and
  wallets, incomes and blocks are never changed or removed again, whatever the service does.  Both are
  interpretations of \<open>storage_frame\<close>.
\<close>

section \<open>Only blocks write incomes and blocks\<close>

definition chain_tables :: "tables \<Rightarrow> block_data_row list \<times> external_incomes_row list \<times> internal_incomes_row list" where
  "chain_tables t = (block_data t, external_incomes t, internal_incomes t)"

definition wallet_tables :: "tables \<Rightarrow> ton_wallets_row list \<times> jetton_wallets_row list" where
  "wallet_tables t = (ton_wallets t, jetton_wallets t)"

lemma request_tables:
  "chain_tables (fst (SaveWithdrawalRequest w t)) = chain_tables t" "wallet_tables (fst (SaveWithdrawalRequest w t)) = wallet_tables t"
  "SaveInternalWithdrawalTask itask e memo t = Inr t' \<Longrightarrow> chain_tables t' = chain_tables t \<and> wallet_tables t' = wallet_tables t"
  "SaveServiceWithdrawalRequest memo swr t = Inr (t', m) \<Longrightarrow> chain_tables t' = chain_tables t \<and> wallet_tables t' = wallet_tables t"
  "chain_tables (UpdateServiceWithdrawalRequest stask amount e filled t) = chain_tables t"
  "wallet_tables (UpdateServiceWithdrawalRequest stask amount e filled t) = wallet_tables t"
  "chain_tables (SaveLastMasterchainProvenBlock b t) = chain_tables t" "wallet_tables (SaveLastMasterchainProvenBlock b t) = wallet_tables t"
  "chain_tables (SetExpired cfg now1 now2 t) = chain_tables t" "wallet_tables (SetExpired cfg now1 now2 t) = wallet_tables t"
  by (auto simp: chain_tables_def wallet_tables_def SaveWithdrawalRequest_def SaveInternalWithdrawalTask_def
      SaveServiceWithdrawalRequest_def UpdateServiceWithdrawalRequest_def SaveLastMasterchainProvenBlock_def
      SetExpired_def fold_reset_processing Let_def split: if_splits)

lemma recorded_tables:
  "chain_tables (fst (CreateExternalWithdrawals us u e t)) = chain_tables t"
  "wallet_tables (fst (CreateExternalWithdrawals us u e t)) = wallet_tables t"
  by (auto simp: CreateExternalWithdrawals_def create_external_withdrawal_def chain_tables_def wallet_tables_def
      split: sum.splits if_splits dest!: forM_same[where g = "\<lambda>t. (chain_tables t, wallet_tables t)"])

lemma put_info_db [simp]: "conn_db (fst (put_info a i c)) = conn_db c"
  by (simp add: put_info_def split: sum.split)

lemma insert_tables:
  "insert_ton_wallet sub u ty a t = Inr t' \<Longrightarrow>
     chain_tables t' = chain_tables t \<and> prefix (ton_wallets t) (ton_wallets t') \<and> jetton_wallets t' = jetton_wallets t"
  "insert_jetton_wallet wd t = Inr t' \<Longrightarrow>
     chain_tables t' = chain_tables t \<and> prefix (jetton_wallets t) (jetton_wallets t') \<and> ton_wallets t' = ton_wallets t"
  by (auto simp: insert_ton_wallet_def insert_jetton_wallet_def chain_tables_def Let_def split: if_splits)

definition wallets_grow :: "tables \<Rightarrow> tables \<Rightarrow> bool" where
  "wallets_grow t t' \<longleftrightarrow> prefix (ton_wallets t) (ton_wallets t') \<and> prefix (jetton_wallets t) (jetton_wallets t')"

text \<open>What the two operations leave in the tables.\<close>

lemma SaveTonWallet_db:
  "conn_db (fst (SaveTonWallet wd c)) =
     (case insert_ton_wallet (wd_SubwalletID wd) (wd_UserID wd) (wd_Type wd) (wd_Address wd) (conn_db c) of Inl e \<Rightarrow> conn_db c | Inr t \<Rightarrow> t)"
  by (simp add: SaveTonWallet_def split: sum.split)

lemma SaveJettonWallet_db:
  "conn_db (fst (SaveJettonWallet owner wd b c)) =
     (case andThenR (if b then Inr (conn_db c) else insert_ton_wallet (wd_SubwalletID wd) (wd_UserID wd) JettonOwner owner (conn_db c))
             (insert_jetton_wallet wd) of Inl e \<Rightarrow> conn_db c | Inr t \<Rightarrow> t)"
  by (simp add: SaveJettonWallet_def Let_def split_beta split: sum.split)

lemma wallet_op_tables:
  "chain_tables (conn_db (fst (SaveTonWallet wd c))) = chain_tables (conn_db c)
     \<and> wallets_grow (conn_db c) (conn_db (fst (SaveTonWallet wd c)))"
  "chain_tables (conn_db (fst (SaveJettonWallet owner wd b c))) = chain_tables (conn_db c)
     \<and> wallets_grow (conn_db c) (conn_db (fst (SaveJettonWallet owner wd b c)))"
proof -
  show "chain_tables (conn_db (fst (SaveTonWallet wd c))) = chain_tables (conn_db c)
     \<and> wallets_grow (conn_db c) (conn_db (fst (SaveTonWallet wd c)))"
    by (auto simp: SaveTonWallet_db wallets_grow_def split: sum.splits dest!: insert_tables)
  show "chain_tables (conn_db (fst (SaveJettonWallet owner wd b c))) = chain_tables (conn_db c)
     \<and> wallets_grow (conn_db c) (conn_db (fst (SaveJettonWallet owner wd b c)))"
  proof (cases "andThenR (if b then Inr (conn_db c) else insert_ton_wallet (wd_SubwalletID wd) (wd_UserID wd) JettonOwner owner (conn_db c))
             (insert_jetton_wallet wd)")
    case (Inr t)
    then have "conn_db (fst (SaveJettonWallet owner wd b c)) = t" unfolding SaveJettonWallet_db by simp
    with Inr show ?thesis by (auto simp: andThenR_success wallets_grow_def split: if_splits dest!: insert_tables)
  next
    case (Inl e)
    then have "conn_db (fst (SaveJettonWallet owner wd b c)) = conn_db c" unfolding SaveJettonWallet_db by simp
    then show ?thesis by (simp add: wallets_grow_def)
  qed
qed

lemma book_tables: "conn_db (fst (LoadAddressBook (NewConnection t))) = t"
  using LoadAddressBook_same[OF prod.collapse[symmetric], of "NewConnection t"] by (simp add: NewConnection_def)

interpretation chain: storage_frame "\<lambda>c c'. chain_tables (conn_db c') = chain_tables (conn_db c)"
  by unfold_locales (simp_all add: request_tables recorded_tables wallet_op_tables book_tables)

lemma wallets_grow_same: "wallet_tables t' = wallet_tables t \<Longrightarrow> wallets_grow t t'"
  by (simp add: wallets_grow_def wallet_tables_def)

interpretation wallets: storage_frame "\<lambda>c c'. wallets_grow (conn_db c) (conn_db c')"
  by unfold_locales
    (auto simp: wallets_grow_same request_tables recorded_tables wallet_op_tables book_tables
      intro: wallets_grow_same, auto simp: wallets_grow_def)

section \<open>What a block writes\<close>

definition block_row :: "ShardBlockHeader \<Rightarrow> block_data_row" where
  "block_row h = (let b = sbh_BlockIDExt h in
     \<lparr>bd_shard = bid_Shard b, bd_seqno = bid_SeqNo b, bd_gen_utime = time_Unix (sbh_GenUtime h),
      bd_root_hash = bid_RootHash b, bd_file_hash = bid_FileHash b\<rparr>)"

definition income_row :: "ExternalIncome \<Rightarrow> external_incomes_row" where
  "income_row inc =
     \<lparr>xin_lt = uint (ei_Lt inc), xin_utime = time_Unix (ei_Utime inc), xin_payer_workchain = ei_FromWorkchain inc,
      xin_deposit_address = ei_To inc, xin_payer_address = ei_From inc, xin_amount = ei_Amount inc,
      xin_comment = stripInvalidUTF8 (ei_Comment inc), xin_tx_hash = ei_TxHash inc\<rparr>"

lemma forM_incomes:
  "snd (forM saveExternalIncome incs t) = Inr t' \<Longrightarrow> external_incomes t' = external_incomes t @ map income_row incs
     \<and> internal_incomes t' = internal_incomes t"
  by (induction incs arbitrary: t) (auto simp: saveExternalIncome_def income_row_def)

lemma income_table_steps:
  "snd (saveExternalIncome i t) = Inr t' \<Longrightarrow> wallet_tables t' = wallet_tables t"
  "snd (saveInternalIncome lib ab ii t) = Inr t' \<Longrightarrow>
     wallet_tables t' = wallet_tables t \<and> external_incomes t' = external_incomes t \<and> prefix (internal_incomes t) (internal_incomes t')"
  "snd (applySendingConfirmations lib sc t) = Inr t' \<Longrightarrow>
     (wallet_tables t', external_incomes t', internal_incomes t') = (wallet_tables t, external_incomes t, internal_incomes t)"
  "snd (updateInternalWithdrawal lib iw t) = Inr t' \<Longrightarrow>
     (wallet_tables t', external_incomes t', internal_incomes t') = (wallet_tables t, external_incomes t, internal_incomes t)"
  "snd (updateExternalWithdrawal lib ew t) = Inr t' \<Longrightarrow>
     (wallet_tables t', external_incomes t', internal_incomes t') = (wallet_tables t, external_incomes t, internal_incomes t)"
  "snd (applyJettonWithdrawalConfirmation jc t) = Inr t' \<Longrightarrow>
     (wallet_tables t', external_incomes t', internal_incomes t') = (wallet_tables t, external_incomes t, internal_incomes t)"
  by (auto simp: saveExternalIncome_def saveInternalIncome_def applySendingConfirmations_def wallet_tables_def
      updateInternalWithdrawal_def updateExternalWithdrawal_def applyJettonWithdrawalConfirmation_def
      mark_processed_def andThen_success Let_def split: if_splits option.splits)

lemma saveBlock_row:
  "snd (saveBlock h t) = Inr t' \<Longrightarrow> t' = t\<lparr>block_data := block_data t @ [block_row h]\<rparr>"
  by (auto simp: saveBlock_def block_row_def Let_def split: if_splits)

lemma parsed_block_tables:
  assumes "snd (parsed_block_tx lib ab ev t) = Inr t'"
  shows "block_data t' = block_data t @ [block_row (be_Block ev)]"
    and "external_incomes t' = external_incomes t @ map income_row (ExternalIncomes (be_Events ev))"
    and "prefix (internal_incomes t) (internal_incomes t')" and "wallet_tables t' = wallet_tables t"
proof -
  let ?e = "be_Events ev"
  from assms obtain t1 t2 t3 t4 t5 t6 where
    s: "snd (forM saveExternalIncome (ExternalIncomes ?e) t) = Inr t1"
    "snd (forM (saveInternalIncome lib ab) (InternalIncomes ?e) t1) = Inr t2"
    "snd (forM (applySendingConfirmations lib) (SendingConfirmations ?e) t2) = Inr t3"
    "snd (forM (updateInternalWithdrawal lib) (InternalWithdrawals ?e) t3) = Inr t4"
    "snd (forM (updateExternalWithdrawal lib) (ExternalWithdrawals ?e) t4) = Inr t5"
    "snd (forM applyJettonWithdrawalConfirmation (WithdrawalConfirmations ?e) t5) = Inr t6"
    and last: "snd (saveBlock (be_Block ev) t6) = Inr t'"
    unfolding parsed_block_tx_def Let_def andThen_success by blast
  let ?g = "\<lambda>t. (wallet_tables t, external_incomes t, internal_incomes t)"
  have blocks: "block_data t6 = block_data t"
    using forM_same[OF s(1), of block_data] forM_same[OF s(2), of block_data] forM_same[OF s(3), of block_data]
      forM_same[OF s(4), of block_data] forM_same[OF s(5), of block_data] forM_same[OF s(6), of block_data]
      block_data_steps by metis
  have incomes: "external_incomes t1 = external_incomes t @ map income_row (ExternalIncomes ?e)" "internal_incomes t1 = internal_incomes t"
    "wallet_tables t1 = wallet_tables t"
    using forM_incomes[OF s(1)] forM_same[OF s(1), of wallet_tables] income_table_steps(1) by auto
  have grown: "wallet_tables t2 = wallet_tables t1 \<and> external_incomes t2 = external_incomes t1 \<and> prefix (internal_incomes t1) (internal_incomes t2)"
    using s(2) by (rule forM_invariant[where P = "\<lambda>u. wallet_tables u = wallet_tables t1 \<and> external_incomes u = external_incomes t1
      \<and> prefix (internal_incomes t1) (internal_incomes u)"]) (auto dest!: income_table_steps(2))
  have "?g t3 = ?g t2" by (rule forM_same[OF s(3), where g = ?g]) (rule income_table_steps)
  moreover have "?g t4 = ?g t3" by (rule forM_same[OF s(4), where g = ?g]) (rule income_table_steps)
  moreover have "?g t5 = ?g t4" by (rule forM_same[OF s(5), where g = ?g]) (rule income_table_steps)
  moreover have "?g t6 = ?g t5" by (rule forM_same[OF s(6), where g = ?g]) (rule income_table_steps)
  ultimately have rest: "?g t6 = ?g t2" by simp
  from saveBlock_row[OF last] blocks show "block_data t' = block_data t @ [block_row (be_Block ev)]" by simp
  from saveBlock_row[OF last] rest grown incomes show
    "external_incomes t' = external_incomes t @ map income_row (ExternalIncomes ?e)"
    "prefix (internal_incomes t) (internal_incomes t')" "wallet_tables t' = wallet_tables t"
    by (simp_all add: wallet_tables_def)
qed

text \<open>Processing a block saves it, or changes nothing and fails.\<close>

lemma processBlock_rows:
  assumes "processBlock s block c = (c', logs, pubs, r)"
  shows "c' = c \<and> (\<exists>e. r = Inl e)
    \<or> (\<exists>ev. be_Block ev = block \<and> snd (parsed_block_tx (bs_lib s) (conn_addressBook c) ev (conn_db c)) = Inr (conn_db c'))"
proof -
  let ?s = "s\<lparr>bs_db := conn_addressBook c\<rparr>"
  show ?thesis
  proof (cases "andThenR (bs_GetTransactionIDsFromBlock ?s (sbh_BlockIDExt block)) (filterTXs ?s (sbh_BlockIDExt block))")
    case (Inl e)
    with assms show ?thesis by (auto simp: processBlock_def Let_def)
  next
    case txs: (Inr txs)
    obtain l x where tx: "processTXs ?s txs block = (l, x)" by (cases "processTXs ?s txs block")
    show ?thesis
    proof (cases x)
      case (Inl e)
      with assms txs tx show ?thesis by (auto simp: processBlock_def Let_def)
    next
      case (Inr ev)
      obtain l2 y where par: "parsed_block_tx (bs_lib s) (conn_addressBook c) ev (conn_db c) = (l2, y)"
        by (cases "parsed_block_tx (bs_lib s) (conn_addressBook c) ev (conn_db c)")
      from assms txs tx Inr par processTXs_block[of ?s txs block ev] show ?thesis
        by (cases y) (auto simp: processBlock_def SaveParsedBlockData_def Let_def split: prod.splits intro!: exI[of _ ev])
    qed
  qed
qed

lemma processBlock_block_data:
  assumes "processBlock s block c = (c', logs, pubs, r)"
  shows "block_data (conn_db c') = block_data (conn_db c) \<and> (\<exists>e. r = Inl e)
    \<or> block_data (conn_db c') = block_data (conn_db c) @ [block_row block]"
  using processBlock_rows[OF assms] parsed_block_tables(1) by blast

section \<open>Append-only records\<close>

definition ledger_grows :: "tables \<Rightarrow> tables \<Rightarrow> bool" where
  "ledger_grows t t' \<longleftrightarrow> wallets_grow t t' \<and> prefix (external_incomes t) (external_incomes t')
     \<and> prefix (internal_incomes t) (internal_incomes t') \<and> prefix (block_data t) (block_data t')"

lemma ledger_grows_frame: "chain_tables t' = chain_tables t \<Longrightarrow> wallets_grow t t' \<Longrightarrow> ledger_grows t t'"
  by (simp add: ledger_grows_def chain_tables_def)

interpretation ledger: storage_frame "\<lambda>c c'. ledger_grows (conn_db c) (conn_db c')"
proof
  show "ledger_grows (conn_db c) (conn_db c)" for c by (simp add: ledger_grows_def wallets_grow_def)
  show "ledger_grows (conn_db c) (conn_db c'') " if "ledger_grows (conn_db c) (conn_db c')" "ledger_grows (conn_db c') (conn_db c'')" for c c' c''
    using that by (auto simp: ledger_grows_def wallets_grow_def)
qed (rule ledger_grows_frame, simp add: request_tables recorded_tables wallet_op_tables book_tables,
    simp add: wallets_grow_same request_tables recorded_tables wallet_op_tables book_tables)+

lemma block_ledger: "ledger_grows (conn_db c) (conn_db (fst (processBlock s block c)))"
proof -
  have "ledger_grows (conn_db c) (conn_db (fst (SaveParsedBlockData lib ev c)))" for lib ev
  proof (cases "snd (parsed_block_tx lib (conn_addressBook c) ev (conn_db c))")
    case (Inl e)
    then show ?thesis by (auto simp: SaveParsedBlockData_def ledger.R_refl split: prod.splits)
  next
    case (Inr t)
    then have "fst (SaveParsedBlockData lib ev c) = c\<lparr>conn_db := t\<rparr>" by (auto simp: SaveParsedBlockData_def split: prod.splits)
    then show ?thesis using parsed_block_tables[OF Inr] by (simp add: ledger_grows_def wallets_grow_def wallet_tables_def)
  qed
  then show ?thesis using processBlock_state[of s block c] by (metis ledger.R_refl)
qed

text \<open>
  C7.  The records are append-only.  Whatever sequence of starts, requests, blocks, rounds and
  expirations the service goes through, failed ones included, no wallet, no income and no block that
  was recorded is ever changed, reordered or removed: the later tables continue the earlier ones.
\<close>

theorem ledger_append_only:
  assumes "service_reach lib cfg c c'"
  shows "prefix (ton_wallets (conn_db c)) (ton_wallets (conn_db c')) \<and> prefix (jetton_wallets (conn_db c)) (jetton_wallets (conn_db c'))
    \<and> prefix (external_incomes (conn_db c)) (external_incomes (conn_db c'))
    \<and> prefix (internal_incomes (conn_db c)) (internal_incomes (conn_db c')) \<and> prefix (block_data (conn_db c)) (block_data (conn_db c'))"
  using ledger.frame_reach[OF assms block_ledger] by (simp add: ledger_grows_def wallets_grow_def)

theorem ledger_append_only_witness:
  "\<exists>c'. service_reach sample_hw_lib sample_config sample_conn c' \<and> block_data (conn_db c') \<noteq> []
     \<and> prefix (external_incomes (conn_db sample_conn)) (external_incomes (conn_db c'))"
proof -
  obtain c' logs pubs where p: "processBlock sample_block_scanner (sample_header 6) sample_conn = (c', logs, pubs, Inr ())"
    using sample_processBlock by blast
  have "service_step sample_hw_lib sample_config sample_conn (fst (processBlock sample_block_scanner (sample_header 6) sample_conn))"
    by (rule scan) (simp add: sample_block_scanner_def sample_scanner_def)
  then have r: "service_reach sample_hw_lib sample_config sample_conn c'" using further[OF here] p by simp
  have "block_data (conn_db c') \<noteq> []" using processBlock_block_data[OF p] by auto
  with r ledger_append_only[OF r] show ?thesis by blast
qed

end
