(* ===== verification/Tracker_Start.thy ===== *)
theory Tracker_Start
  imports Shard_Tracker
begin

text \<open>
  The tracker of \<open>src/blockchain/shard_tracker.go\<close> as the process uses it: started at the last saved
  block, or at the node's head when nothing was saved yet.  \<open>tracker_ok\<close> relates a tracker to the block
  it delivered last (or was started at); every call of \<open>NextBlock\<close> keeps it, and the block it delivers
  continues that block and has a larger sequence number.
\<close>

definition younger :: "ShardBlockHeader \<Rightarrow> bool" where
  "younger h \<longleftrightarrow> bid_SeqNo (sbh_Parent h) < bid_SeqNo (sbh_BlockIDExt h)"

definition fresh :: "ShardTracker \<Rightarrow> bool" where
  "fresh s \<longleftrightarrow> st_lastKnownShardBlock s = None \<and> st_buffer s = []"

definition tracker_ok :: "BlockIDExt option \<Rightarrow> ShardTracker \<Rightarrow> bool" where
  "tracker_ok delivered s \<longleftrightarrow> list_all younger (st_buffer s)
     \<and> (case delivered of Some b \<Rightarrow> tracker_inv b s | None \<Rightarrow> fresh s \<or> (\<exists>b. tracker_inv b s))"

lemma NewShardTracker_ok: "tracker_ok start (NewShardTracker shard start)"
  by (simp add: tracker_ok_def NewShardTracker_def tracker_inv_def fresh_def split: option.splits)

lemma getShardBlocksHeader_younger:
  "parents_older cl \<Longrightarrow> getShardBlocksHeader cfg cl i shard = Some (Inr h) \<Longrightarrow> younger h"
  using getShardBlocksHeader_parent getShardBlocksHeader_id by (metis younger_def)

lemma shard_loop_younger:
  "shard_loop cfg cl shard stops known k batch i = Some y \<Longrightarrow> snd y = Inr (res, q) \<Longrightarrow> parents_older cl
    \<Longrightarrow> list_all younger batch \<Longrightarrow> list_all younger res"
proof (induction rule: shard_loop.raw_induct[rotated, consumes 1, case_names step])
  case (step rec cfg cl shard stops known k batch i y)
  define kn where "kn = (case known of None \<Rightarrow> i | Some b \<Rightarrow> b)"
  note body = step(2)[unfolded Let_def kn_def[symmetric]]
  show ?case
  proof (cases "stops k \<or> same_block kn i \<or> bid_SeqNo i < bid_SeqNo kn")
    case True
    with body step(3,5) show ?thesis by (auto split: if_splits)
  next
    case False
    with body step(3) obtain h where h: "getShardBlocksHeader cfg cl i shard = Some (Inr h)"
      "rec cfg cl shard stops (Some kn) (Suc k) (batch @ [h]) (sbh_Parent h) = Some y"
      by (auto split: option.splits sum.splits if_splits)
    have "list_all younger (batch @ [h])" using step(5) getShardBlocksHeader_younger[OF step(4) h(1)] by simp
    with step(1)[OF h(2) step(3,4)] show ?thesis by blast
  qed
qed

text \<open>A batch loaded by a tracker that knows no block only makes it know the head.\<close>

lemma shard_loop_unknown:
  "shard_loop cfg cl shard stops None 0 [] i =
     Some (if stops 0 then None else Some i, Inr ([], stops 0))"
  by (subst shard_loop.simps) simp

lemma loadShardBlocksBatch_cases:
  assumes "loadShardBlocksBatch cfg cl st s m = Some (s', q)"
  obtains (kept) "s' = s"
  | (loaded) i known r where "shard_loop cfg cl (st_shard s) st (st_lastKnownShardBlock s) 0 [] i = Some (known, r)"
      "s' = (case r of Inr (h # hs, False) \<Rightarrow>
               s\<lparr>st_lastKnownShardBlock := Some (sbh_BlockIDExt h), st_buffer := st_buffer s @ rev (h # hs)\<rparr>
             | _ \<Rightarrow> s\<lparr>st_lastKnownShardBlock := known\<rparr>)"
  using assms
  by (auto simp: loadShardBlocksBatch_def getShardBlocks_def split: option.splits sum.splits prod.splits bool.splits list.splits)

lemma loadShardBlocksBatch_ok:
  assumes "tracker_ok b s" "loadShardBlocksBatch cfg cl st s m = Some (s', q)" "parents_older cl"
  shows "tracker_ok b s'"
proof -
  have buffer: "list_all younger (st_buffer s')"
    using assms(2)
  proof (cases rule: loadShardBlocksBatch_cases)
    case kept
    with assms(1) show ?thesis by (simp add: tracker_ok_def)
  next
    case (loaded i known r)
    have "list_all younger (rev res)" if "r = Inr (res, x)" for res x
      using shard_loop_younger[OF loaded(1) _ assms(3), of res x] that by (simp add: list_all_iff)
    then show ?thesis using assms(1) loaded(2)
      by (auto simp: tracker_ok_def split: sum.splits prod.splits list.splits bool.splits)
  qed
  moreover have "fresh s' \<or> (\<exists>b. tracker_inv b s')" if "fresh s"
    using assms(2)
  proof (cases rule: loadShardBlocksBatch_cases)
    case kept
    with that show ?thesis by simp
  next
    case (loaded i known r)
    with that have "known = (if st 0 then None else Some i)" "r = Inr ([], st 0)"
      by (simp_all add: fresh_def shard_loop_unknown)
    with that loaded(2) show ?thesis by (auto simp: fresh_def tracker_inv_def intro: same_block_refl)
  qed
  ultimately show ?thesis
    using assms(1) loadShardBlocksBatch_inv[OF _ assms(2)] by (auto simp: tracker_ok_def split: option.splits)
qed

lemma tracker_ok_cong:
  "tracker_ok b s \<Longrightarrow> st_lastKnownShardBlock s' = st_lastKnownShardBlock s \<Longrightarrow> st_buffer s' = st_buffer s \<Longrightarrow> tracker_ok b s'"
  by (cases b) (simp_all add: tracker_ok_def tracker_inv_def fresh_def)

lemma NextBlock_ok:
  assumes "NextBlock cfg cl stops k s = Some (k', s', r)" "tracker_ok b s" "parents_older cl"
  shows "r = Inr (Some h) \<Longrightarrow> tracker_ok (Some (sbh_BlockIDExt h)) s' \<and> younger h
           \<and> (\<forall>p. b = Some p \<longrightarrow> same_block (sbh_Parent h) p)"
    "\<forall>h. r \<noteq> Inr (Some h) \<Longrightarrow> tracker_ok b s'"
proof -
  have rule: "case r of Inr (Some h) \<Rightarrow> \<exists>t hs. tracker_ok b t \<and> st_buffer t = h # hs \<and> s' = t\<lparr>st_buffer := hs\<rparr>
      | _ \<Rightarrow> tracker_ok b s'"
  proof -
    have "case snd (snd (k', s', r)) of
        Inr (Some h) \<Rightarrow> \<exists>t hs. tracker_ok b t \<and> st_buffer t = h # hs \<and> fst (snd (k', s', r)) = t\<lparr>st_buffer := hs\<rparr>
      | _ \<Rightarrow> tracker_ok b (fst (snd (k', s', r)))"
      using assms(1,2)
      by (rule NextBlock_rule[where P = "tracker_ok b"]) (erule tracker_ok_cong, assumption+, rule loadShardBlocksBatch_ok[OF _ _ assms(3)])
    then show ?thesis unfolding fst_conv snd_conv .
  qed
  then show "\<forall>h. r \<noteq> Inr (Some h) \<Longrightarrow> tracker_ok b s'" by (auto split: sum.splits option.splits)
  assume "r = Inr (Some h)"
  with rule obtain t hs where t: "tracker_ok b t" "st_buffer t = h # hs" "s' = t\<lparr>st_buffer := hs\<rparr>" by auto
  then show "tracker_ok (Some (sbh_BlockIDExt h)) s' \<and> younger h \<and> (\<forall>p. b = Some p \<longrightarrow> same_block (sbh_Parent h) p)"
    by (auto simp: tracker_ok_def tracker_inv_def fresh_def split: option.splits)
qed

end
