(* ===== verification/Notification_Json.thy ===== *)
theory Notification_Json
  imports Text_Props Api_Reports Scanner_Blocks
begin

text \<open>
  What the notification clients send: \<open>json.Marshal\<close> of the structure \<open>incomeNotification\<close> of
  \<open>src/core/block_scanner.go\<close>, byte for byte, with the field names and the \<open>omitempty\<close> tags of the
  structure.  \<open>read_notification\<close> is a reader of such objects as a receiver has it; what it reads back
  is what was sent.
\<close>

section \<open>Strings\<close>

text \<open>A string of \<open>encoding/json\<close>: quote, backslash and control characters are escaped, and so are the
  characters that HTML treats specially and the line separators; a byte that starts no character is
  replaced by \<open>U+FFFD\<close>.\<close>

definition quote :: char where
  "quote = CHR 0x22"

definition backslash :: char where
  "backslash = CHR 0x5C"

definition json_ascii :: "char \<Rightarrow> string" where
  "json_ascii c =
     (if c = quote \<or> c = backslash then [backslash, c]
      else if c = CHR 0x08 then [backslash, CHR ''b'']
      else if c = CHR 0x0C then [backslash, CHR ''f'']
      else if c = CHR 0x0A then [backslash, CHR ''n'']
      else if c = CHR 0x0D then [backslash, CHR ''r'']
      else if c = CHR 0x09 then [backslash, CHR ''t'']
      else if of_char c < (0x20 :: nat) \<or> c = CHR ''<'' \<or> c = CHR ''>'' \<or> c = CHR ''&''
      then [backslash, CHR ''u'', CHR ''0'', CHR ''0'', hex_digit (of_char c div 16), hex_digit (of_char c mod 16)]
      else [c])"

function json_chars :: "string \<Rightarrow> string" where
  "json_chars s =
     (if s = [] then []
      else if of_char (hd s) < (0x80 :: nat) then json_ascii (hd s) @ json_chars (tl s)
      else
        (let (r, size) = DecodeRune s in
         (if r = RuneError \<and> size = 1 then [backslash] @ ''ufffd''
          else if r = 0x2028 \<or> r = 0x2029 then [backslash] @ ''u202'' @ [hex_digit (r mod 16)]
          else take size s) @ json_chars (drop size s)))"
  by pat_completeness auto
termination
proof (relation "measure length")
  fix s r size and x :: "nat \<times> nat"
  assume a: "s \<noteq> []" "x = DecodeRune s" "(r, size) = x"
  then have "size = snd (DecodeRune s)" by (metis snd_conv)
  with DecodeRune_size[OF a(1)] a(1) show "(drop size s, s) \<in> measure length" by simp
qed simp_all

declare json_chars.simps [simp del]

definition json_string :: "string \<Rightarrow> string" where
  "json_string s = [quote] @ json_chars s @ [quote]"

section \<open>Notifications\<close>

definition json_field :: "string \<Rightarrow> string \<Rightarrow> string" where
  "json_field name val = json_string name @ '':'' @ val"

text \<open>A field with \<open>omitempty\<close> is left out when it is empty.\<close>

definition omitempty :: "string \<Rightarrow> string \<Rightarrow> string list" where
  "omitempty name s = (if s = [] then [] else [json_field name (json_string s)])"

fun commas :: "string list \<Rightarrow> string" where
  "commas [] = []"
| "commas [f] = f"
| "commas (f # fs) = f @ '','' @ commas fs"

definition Marshal_notification :: "incomeNotification \<Rightarrow> string" where
  "Marshal_notification n =
     ''{'' @ commas
       ([json_field ''deposit_address'' (json_string (ntf_Deposit n)),
         json_field ''time'' (show_int (ntf_Timestamp n)),
         json_field ''amount'' (json_string (ntf_Amount n))]
        @ omitempty ''source_address'' (ntf_Source n)
        @ omitempty ''comment'' (ntf_Comment n)
        @ [json_field ''user_id'' (json_string (ntf_UserID n)),
           json_field ''tx_hash'' (json_string (ntf_TxHash n))]) @ ''}''"

section \<open>A reader\<close>

text \<open>The bytes of a code point below \<open>U+10000\<close>.\<close>

definition encode_rune :: "nat \<Rightarrow> string" where
  "encode_rune n =
     (if n < 0x80 then [char_of n]
      else if n < 0x800 then [char_of (0xC0 + n div 64), char_of (0x80 + n mod 64)]
      else [char_of (0xE0 + n div 4096), char_of (0x80 + n div 64 mod 64), char_of (0x80 + n mod 64)])"

definition simple_escape :: "char \<Rightarrow> char option" where
  "simple_escape e =
     map_of [(quote, quote), (backslash, backslash), (CHR ''/'', CHR ''/''), (CHR ''b'', CHR 0x08), (CHR ''f'', CHR 0x0C),
             (CHR ''n'', CHR 0x0A), (CHR ''r'', CHR 0x0D), (CHR ''t'', CHR 0x09)] e"

fun hex4 :: "char \<Rightarrow> char \<Rightarrow> char \<Rightarrow> char \<Rightarrow> nat option" where
  "hex4 a b c d =
     (case (hex_value a, hex_value b, hex_value c, hex_value d) of
        (Some i, Some j, Some k, Some l) \<Rightarrow> Some (((i * 16 + j) * 16 + k) * 16 + l)
      | _ \<Rightarrow> None)"

text \<open>The rest of a string after its opening quote: the characters it stands for and what follows it.\<close>

fun unquote :: "string \<Rightarrow> (string \<times> string) option" where
  "unquote [] = None"
| "unquote (x # xs) =
     (if x = quote then Some ([], xs)
      else if x = backslash then
        (case xs of
           [] \<Rightarrow> None
         | e # ys \<Rightarrow>
             if e = CHR ''u'' then
               (case ys of
                  a # b # c # d # zs \<Rightarrow>
                    (case hex4 a b c d of
                       None \<Rightarrow> None
                     | Some n \<Rightarrow> map_option (\<lambda>(s, r). (encode_rune n @ s, r)) (unquote zs))
                | _ \<Rightarrow> None)
             else
               (case simple_escape e of
                  None \<Rightarrow> None
                | Some y \<Rightarrow> map_option (\<lambda>(s, r). (y # s, r)) (unquote ys)))
      else map_option (\<lambda>(s, r). (x # s, r)) (unquote xs))"

fun read_string :: "string \<Rightarrow> (string \<times> string) option" where
  "read_string [] = None"
| "read_string (x # xs) = (if x = quote then unquote xs else None)"

definition read_number :: "string \<Rightarrow> (int \<times> string) option" where
  "read_number s =
     (case ParseInt (takeWhile (\<lambda>c. is_digit c \<or> c = CHR ''-'') s) of
        Inl e \<Rightarrow> None
      | Inr n \<Rightarrow> Some (n, dropWhile (\<lambda>c. is_digit c \<or> c = CHR ''-'') s))"

text \<open>The rest of an object after \<open>{\<close> or a comma: its members, each value a string or a number.\<close>

function read_members :: "string \<Rightarrow> (string \<times> (int + string)) list option" where
  "read_members s =
     (case read_string s of
        Some (name, CHR '':'' # v) \<Rightarrow>
          (case (case read_string v of
                   Some (x, r) \<Rightarrow> Some (Inr x, r)
                 | None \<Rightarrow> map_option (\<lambda>(n, r). (Inl n, r)) (read_number v)) of
             Some (x, CHR '','' # r) \<Rightarrow>
               if length r < length s then map_option (\<lambda>ms. (name, x) # ms) (read_members r) else None
           | Some (x, [c]) \<Rightarrow> if c = CHR ''}'' then Some [(name, x)] else None
           | _ \<Rightarrow> None)
      | _ \<Rightarrow> None)"
  by pat_completeness auto
termination by (relation "measure length") auto

declare read_members.simps [simp del]

definition member_string :: "(string \<times> (int + string)) list \<Rightarrow> string \<Rightarrow> string" where
  "member_string ms name = (case map_of ms name of Some (Inr s) \<Rightarrow> s | _ \<Rightarrow> [])"

definition read_notification :: "string \<Rightarrow> incomeNotification option" where
  "read_notification s =
     (case s of
        [] \<Rightarrow> None
      | c # cs \<Rightarrow>
          if c \<noteq> CHR ''{'' then None
          else map_option (\<lambda>ms.
            \<lparr>ntf_Deposit = member_string ms ''deposit_address'',
             ntf_Timestamp = (case map_of ms ''time'' of Some (Inl n) \<Rightarrow> n | _ \<Rightarrow> 0),
             ntf_Amount = member_string ms ''amount'', ntf_Source = member_string ms ''source_address'',
             ntf_Comment = member_string ms ''comment'', ntf_UserID = member_string ms ''user_id'',
             ntf_TxHash = member_string ms ''tx_hash''\<rparr>) (read_members cs))"

section \<open>Strings are read back\<close>

lemma quote_nat [simp]: "of_char quote = (0x22 :: nat)" "of_char backslash = (0x5C :: nat)" "quote \<noteq> backslash" "backslash \<noteq> quote"
  by (simp_all add: quote_def backslash_def)

lemma high_byte: "0x80 \<le> (of_char x :: nat) \<Longrightarrow> x \<noteq> quote \<and> x \<noteq> backslash"
  by (auto simp: quote_def backslash_def)

lemma unquote_plain: "x \<noteq> quote \<Longrightarrow> x \<noteq> backslash \<Longrightarrow> unquote (x # xs) = map_option (\<lambda>(s, r). (x # s, r)) (unquote xs)"
  by simp

lemma unquote_high:
  "\<forall>x\<in>set c. 0x80 \<le> (of_char x :: nat) \<Longrightarrow> unquote (c @ xs) = map_option (\<lambda>(s, r). (c @ s, r)) (unquote xs)"
proof (induction c)
  case Nil
  show ?case by (simp add: option.map_id0[unfolded id_def] case_prod_eta)
next
  case (Cons x c)
  then have "x \<noteq> quote" "x \<noteq> backslash" using high_byte[of x] by simp_all
  then show ?case using Cons by (simp add: unquote_plain option.map_comp comp_def case_prod_beta' del: unquote.simps)
qed

lemma unquote_u:
  "hex4 a b c d = Some n \<Longrightarrow>
     unquote (backslash # CHR ''u'' # a # b # c # d # xs) = map_option (\<lambda>(s, r). (encode_rune n @ s, r)) (unquote xs)"
  by simp

lemma hex_digit_char: "hex_value (CHR ''0'') = Some 0" "hex_value (CHR ''2'') = Some 2"
  by (simp_all add: hex_value_def)

lemma unquote_ascii:
  assumes "of_char x < (0x80 :: nat)"
  shows "unquote (json_ascii x @ xs) = map_option (\<lambda>(s, r). (x # s, r)) (unquote xs)"
proof -
  let ?n = "of_char x :: nat"
  have "hex4 (CHR ''0'') (CHR ''0'') (hex_digit (?n div 16)) (hex_digit (?n mod 16)) = Some ?n"
    using assms by (simp add: hex_digit_char hex_digit_value)
  note u = unquote_u[OF this, of xs]
  have enc: "encode_rune ?n = [x]" using assms by (simp add: encode_rune_def)
  have "unquote (backslash # e # xs) = map_option (\<lambda>(s, r). (y # s, r)) (unquote xs)"
    if "simple_escape e = Some y" "e \<noteq> CHR ''u''" for e y using that by simp
  note esc = this
  have simple: "simple_escape quote = Some quote" "simple_escape backslash = Some backslash"
    "simple_escape (CHR ''b'') = Some (CHR 0x08)" "simple_escape (CHR ''f'') = Some (CHR 0x0C)"
    "simple_escape (CHR ''n'') = Some (CHR 0x0A)" "simple_escape (CHR ''r'') = Some (CHR 0x0D)"
    "simple_escape (CHR ''t'') = Some (CHR 0x09)"
    by (simp_all add: simple_escape_def quote_def backslash_def)
  have ne: "quote \<noteq> CHR ''u''" "backslash \<noteq> CHR ''u''" by (simp_all add: quote_def backslash_def)
  show ?thesis
    unfolding json_ascii_def
    using u enc esc simple ne by (simp del: unquote.simps hex4.simps add: unquote_plain)
qed

lemma decode_separator:
  assumes "DecodeRune s = (r, n)" "r = 0x2028 \<or> r = 0x2029"
  shows "n = 3 \<and> take n s = encode_rune r"
proof -
  obtain x xs where s: "s = x # xs" using assms by (cases s) (auto simp: RuneError_def)
  let ?b = "of_char x :: nat"
  have d: "decode_first ?b (map of_char xs) = (r, n)" using assms(1) s by simp
  have "\<not> ?b < 0x80" using d assms(2) by (auto simp: decode_first_def)
  moreover have "\<not> (0xC2 \<le> ?b \<and> ?b \<le> 0xDF)"
    using d assms(2) by (cases "(?b, map of_char xs :: nat list)" rule: decode2.cases)
      (auto simp: decode_first_def RuneError_def cont_def split: if_splits)
  moreover have "\<not> (0xF0 \<le> ?b \<and> ?b \<le> 0xF4)"
    using d assms(2) by (cases "(?b, map of_char xs :: nat list)" rule: decode4.cases)
      (auto simp: decode_first_def RuneError_def cont_def split: if_splits)
  ultimately have b: "0xE0 \<le> ?b" "?b \<le> 0xEF" and d3: "decode3 ?b (map of_char xs) = (r, n)"
    using d assms(2) by (auto simp: decode_first_def RuneError_def split: if_splits)
  from decode3_cases[OF d3] assms(2) obtain y z zs where xs: "xs = y # z # zs" and n: "n = 3"
    by (auto simp: RuneError_def map_eq_Cons_conv)
  from d3 xs n assms(2) have r: "r = (?b - 0xE0) * 4096 + (of_char y - 0x80) * 64 + (of_char z - 0x80)"
    and yz: "0x80 \<le> (of_char y :: nat)" "of_char y \<le> (0xBF :: nat)" "0x80 \<le> (of_char z :: nat)" "of_char z \<le> (0xBF :: nat)"
    by (auto simp: RuneError_def cont_def split: if_splits)
  have "x = char_of (0xE0 + r div 4096)" "y = char_of (0x80 + r div 64 mod 64)" "z = char_of (0x80 + r mod 64)"
  proof -
    define i j k where ijk: "i = ?b - 0xE0" "j = of_char y - (0x80 :: nat)" "k = of_char z - (0x80 :: nat)"
    then have lt: "j < 64" "k < 64" using yz by simp_all
    have "r = i * 4096 + j * 64 + k" unfolding ijk by (rule r)
    then have r': "r = k + (j + i * 64) * 64" by simp
    have mod: "r mod 64 = k" unfolding r' using lt mod_mult_self1[of k "j + i * 64" 64] by simp
    have div64: "r div 64 = j + i * 64" unfolding r' using lt div_mult_self1[of 64 k "j + i * 64"] by simp
    have "r div 4096 = r div 64 div 64" by (simp add: div_mult2_eq [symmetric])
    then have "r div 4096 = i" "r div 64 mod 64 = j" "r mod 64 = k" using mod lt unfolding div64 by simp_all
    then have "r div 4096 = ?b - 0xE0" "r div 64 mod 64 = of_char y - 0x80" "r mod 64 = of_char z - 0x80"
      unfolding ijk by simp_all
    then show "x = char_of (0xE0 + r div 4096)" "y = char_of (0x80 + r div 64 mod 64)" "z = char_of (0x80 + r mod 64)"
      using b yz by simp_all
  qed
  moreover have "\<not> r < 0x800" using assms(2) by auto
  ultimately show ?thesis by (simp add: s xs n encode_rune_def)
qed

lemma json_chars_char:
  assumes "utf8_char c"
  shows "unquote (json_chars (c @ s) @ xs) = map_option (\<lambda>(t, r). (c @ t, r)) (unquote (json_chars s @ xs))"
proof (cases "of_char (hd c) < (0x80 :: nat)")
  case True
  obtain x cs where c: "c = x # cs" using assms by (cases c) (auto simp: utf8_char_def)
  have "cs = []" using assms True by (auto simp: c utf8_char_def decode_first_def)
  then show ?thesis using True unquote_ascii[of x "json_chars s @ xs"]
    by (simp add: c json_chars.simps[of "x # s"] del: unquote.simps)
next
  case False
  from utf8_char_prefix[OF assms, of s] obtain r where d: "DecodeRune (c @ s) = (r, length c)"
    and good: "r \<noteq> RuneError \<or> length c > 1" by blast
  have ne: "c \<noteq> []" using assms by (simp add: utf8_char_def)
  have "1 < length c"
    using assms False ne by (cases c) (auto simp: utf8_char_def decode_first_def RuneError_def split: prod.splits if_splits)
  have high: "\<forall>x\<in>set c. 0x80 \<le> (of_char x :: nat)"
    using DecodeRune_good(2)[of "c @ s", OF _ d good \<open>1 < length c\<close>] ne by simp
  show ?thesis
  proof (cases "r = 0x2028 \<or> r = 0x2029")
    case True
    have hex: "hex4 (CHR ''2'') (CHR ''0'') (CHR ''2'') (hex_digit (r mod 16)) = Some r"
      using True by (auto simp: hex_digit_char hex_digit_value)
    have c: "c = encode_rune r" using decode_separator[OF d True] by simp
    have "json_chars (c @ s) = backslash # CHR ''u'' # CHR ''2'' # CHR ''0'' # CHR ''2'' # hex_digit (r mod 16) # json_chars s"
      using True False d ne by (auto simp: json_chars.simps[of "c @ s"] RuneError_def)
    then show ?thesis using unquote_u[OF hex, of "json_chars s @ xs"] c by (simp del: unquote.simps hex4.simps)
  next
    case r: False
    then have "json_chars (c @ s) = c @ json_chars s"
      using False d ne good \<open>1 < length c\<close> by (simp add: json_chars.simps[of "c @ s"])
    then show ?thesis using unquote_high[OF high, of "json_chars s @ xs"] by simp
  qed
qed

lemma unquote_json_chars: "utf8 s \<Longrightarrow> unquote (json_chars s @ quote # xs) = Some (s, xs)"
proof -
  have "list_all utf8_char cs \<Longrightarrow> unquote (json_chars (concat cs) @ quote # xs) = Some (concat cs, xs)" for cs
    by (induction cs) (simp add: json_chars.simps, simp add: json_chars_char del: unquote.simps)
  then show "utf8 s \<Longrightarrow> ?thesis" by (auto simp: utf8_def)
qed

lemma read_json_string: "utf8 s \<Longrightarrow> read_string (json_string s @ xs) = Some (s, xs)"
  by (simp add: json_string_def unquote_json_chars del: unquote.simps)

section \<open>Numbers are read back\<close>

lemma digits_value_snoc: "digits_value (ds @ [c]) = digits_value ds * 10 + (int (of_char c) - 48)"
  by (simp add: digits_value_def)

lemma show_nat_digits: "show_nat n \<noteq> [] \<and> list_all is_digit (show_nat n) \<and> digits_value (show_nat n) = int n"
proof (induction n rule: show_nat.induct)
  case (1 n)
  show ?case
  proof (cases "n < 10")
    case True
    then show ?thesis by (simp add: show_nat.simps[of n] is_digit_def digits_value_def)
  next
    case False
    have "int n = int (n div 10) * 10 + int (n mod 10)" by (simp add: zdiv_int zmod_int)
    with 1[OF False] False show ?thesis
      by (simp add: show_nat.simps[of n] is_digit_def digits_value_snoc)
  qed
qed

lemma ParseInt_show_int:
  assumes "0 \<le> n" "n < 2 ^ 63"
  shows "ParseInt (show_int n) = Inr n"
proof -
  note d = show_nat_digits[of "nat n"]
  obtain c cs where s: "show_nat (nat n) = c # cs" using d by (cases "show_nat (nat n)") auto
  have "is_digit c" using d s by simp
  then have "c \<noteq> CHR ''-''" "c \<noteq> CHR ''+''" by (auto simp: is_digit_def)
  with d s assms show ?thesis by (auto simp: ParseInt_def show_int_def Let_def)
qed

lemma read_number_show_int:
  assumes "0 \<le> n" "n < 2 ^ 63"
  shows "read_number (show_int n @ CHR '','' # xs) = Some (n, CHR '','' # xs)"
proof -
  have "\<forall>c\<in>set (show_int n). is_digit c \<or> c = CHR ''-''"
    using show_nat_digits[of "nat n"] assms by (auto simp: show_int_def list_all_iff)
  moreover have "\<not> is_digit (CHR '','')" by (simp add: is_digit_def)
  ultimately show ?thesis using ParseInt_show_int[OF assms]
    by (simp add: read_number_def takeWhile_append dropWhile_append)
qed

section \<open>Objects are read back\<close>

lemma read_number_quote: "read_string (show_int n @ xs) = None"
proof -
  obtain c cs where s: "show_int n = c # cs" and c: "is_digit c \<or> c = CHR ''-''"
    using show_nat_digits[of "nat n"] by (cases "show_nat (nat n)"; cases "n < 0") (auto simp: show_int_def)
  have "c \<noteq> quote" using c by (auto simp: is_digit_def quote_def)
  then show ?thesis by (simp add: s)
qed

text \<open>Names are ASCII, so they are well-formed.\<close>

lemma utf8_ascii: "list_all (\<lambda>c. of_char c < (0x80 :: nat)) s \<Longrightarrow> utf8 s"
proof (induction s)
  case Nil
  show ?case by (rule utf8_Nil)
next
  case (Cons c s)
  then have "utf8_char [c]" by (simp add: utf8_char_def decode_first_def RuneError_def)
  with Cons show ?case using utf8_Cons[of "[c]" s] by simp
qed

lemma read_string_member:
  assumes "utf8 name" "utf8 v"
  shows "read_members (json_field name (json_string v) @ CHR '','' # xs) = map_option (\<lambda>ms. (name, Inr v) # ms) (read_members xs)"
    "read_members (json_field name (json_string v) @ ''}'') = Some [(name, Inr v)]"
  unfolding json_field_def using assms
  by (subst read_members.simps, simp add: read_json_string)+

lemma read_number_member:
  assumes "utf8 name" "0 \<le> n" "n < 2 ^ 63"
  shows "read_members (json_field name (show_int n) @ CHR '','' # xs) = map_option (\<lambda>ms. (name, Inl n) # ms) (read_members xs)"
  unfolding json_field_def using assms
  by (subst read_members.simps) (simp add: read_json_string read_number_show_int read_number_quote)

lemma commas_Cons: "fs \<noteq> [] \<Longrightarrow> commas (f # fs) = f @ CHR '','' # commas fs"
  by (cases fs) simp_all

text \<open>A notification as the service builds it: text is well-formed and the time is a block's.\<close>

definition notification_text :: "incomeNotification \<Rightarrow> bool" where
  "notification_text n \<longleftrightarrow> utf8 (ntf_Deposit n) \<and> utf8 (ntf_Amount n) \<and> utf8 (ntf_Source n) \<and> utf8 (ntf_Comment n)
     \<and> utf8 (ntf_UserID n) \<and> utf8 (ntf_TxHash n) \<and> 0 \<le> ntf_Timestamp n \<and> ntf_Timestamp n < 2 ^ 63"

lemmas names_utf8 = utf8_ascii[of "''deposit_address''", simplified] utf8_ascii[of "''time''", simplified]
  utf8_ascii[of "''amount''", simplified] utf8_ascii[of "''source_address''", simplified]
  utf8_ascii[of "''comment''", simplified] utf8_ascii[of "''user_id''", simplified] utf8_ascii[of "''tx_hash''", simplified]

lemma read_marshalled: "notification_text n \<Longrightarrow> read_notification (Marshal_notification n) = Some n"
  unfolding notification_text_def
  by (cases "ntf_Source n = []"; cases "ntf_Comment n = []")
    (auto simp: Marshal_notification_def read_notification_def omitempty_def commas_Cons read_string_member
      read_number_member names_utf8 member_string_def)


definition sample_notification :: incomeNotification where
  "sample_notification = \<lparr>ntf_Deposit = ''EQ'', ntf_Timestamp = 1700000000, ntf_Amount = ''10'', ntf_Source = [],
     ntf_Comment = [quote] @ ''<&'' @ encode_rune 0x2028 @ encode_rune 0xE9 @ newline, ntf_UserID = ''u'', ntf_TxHash = ''0a''\<rparr>"

lemma utf8_encode_rune: "utf8 (encode_rune 0x2028)" "utf8 (encode_rune 0xE9)"
  using utf8_Cons[of "encode_rune 0x2028" "[]"] utf8_Cons[of "encode_rune 0xE9" "[]"]
  by (simp_all add: utf8_Nil utf8_char_def encode_rune_def decode_first_def cont_def RuneError_def)

lemma utf8_append: "utf8 s \<Longrightarrow> utf8 t \<Longrightarrow> utf8 (s @ t)"
  unfolding utf8_def by (metis concat_append list_all_append)


end
