(* ===== verification/Notify_Clients.thy ===== *)
theory Notify_Clients
  imports Notification_Json
begin

text \<open>
  The clients that carry notifications away, \<open>src/queue/queue.go\<close> and \<open>src/webhook/webhook.go\<close>, their
  creation in \<open>src/cmd/processor/main.go\<close>, and the listener \<open>src/cmd/testwebhook/main.go\<close>.

  A client returns what it brought to the other side, in order, with its result.  The AMQP package is
  the parameter \<open>amqp_server\<close>.  Of \<open>net/http\<close> the model has what the program depends on: the body of
  a request is a buffer that sending drains; a request whose body is shorter than its declared length
  is refused before anything is written, unless it goes out on a connection kept from an earlier
  exchange, where the transport rewinds the body itself and sends it again.  What the network does
  with each attempt is a parameter.

  The locale \<open>notificator\<close> is the interface \<open>Notificator\<close> of \<open>src/core/models.go\<close> with the contract
  the block scanner relies on; both clients are interpretations of it.
\<close>

section \<open>The interface\<close>

locale notificator =
  fixes publish_to :: "'n \<Rightarrow> ('m, unit) logged"
    and carries :: "'n \<Rightarrow> 'm \<Rightarrow> bool"
  assumes delivered: "snd (publish_to n) = Inr () \<Longrightarrow> fst (publish_to n) \<noteq> []"
    and only_payload: "m \<in> set (fst (publish_to n)) \<Longrightarrow> carries n m"
begin

lemma reaches: "snd (publish_to n) = Inr () \<Longrightarrow> \<exists>m\<in>set (fst (publish_to n)). carries n m"
  using delivered only_payload by (metis ex_in_conv set_empty)

text \<open>Several notifications in a row: each of them arrives, and nothing else does.\<close>

lemma all_reach:
  "snd (forM (\<lambda>n _. publish_to n) ns ()) = Inr () \<Longrightarrow> n \<in> set ns \<Longrightarrow>
     \<exists>m\<in>set (fst (forM (\<lambda>n _. publish_to n) ns ())). carries n m"
proof (induction ns)
  case Nil
  then show ?case by simp
next
  case (Cons x ns)
  then have x: "snd (publish_to x) = Inr ()" by (auto simp: andThen_success)
  with Cons show ?case using reaches[OF x] by auto
qed

lemma nothing_else: "m \<in> set (fst (forM (\<lambda>n _. publish_to n) ns ())) \<Longrightarrow> \<exists>n\<in>set ns. carries n m"
  by (induction ns) (auto simp: andThen_def dest: only_payload split: sum.splits)

end

section \<open>Queue\<close>

record AmqpClient =
  amqp_exchange :: string
  amqp_enabled :: bool

record Publishing =
  pub_ContentType :: string
  pub_Body :: string

record amqp_server =
  aq_Dial :: "string \<Rightarrow> error + unit"
  aq_Channel :: "error + unit"
  aq_ExchangeDeclare :: "string \<Rightarrow> string \<Rightarrow> error + unit"
  aq_Publish :: "string \<Rightarrow> Publishing \<Rightarrow> error + unit"

definition declareExchange :: "amqp_server \<Rightarrow> AmqpClient \<Rightarrow> string \<Rightarrow> error + AmqpClient" where
  "declareExchange srv c exchangeName =
     andThenR (aq_ExchangeDeclare srv exchangeName ''fanout'') (\<lambda>_.
     Inr (c\<lparr>amqp_exchange := exchangeName\<rparr>))"

definition NewAmqpClient :: "amqp_server \<Rightarrow> string \<Rightarrow> bool \<Rightarrow> string \<Rightarrow> error + AmqpClient" where
  "NewAmqpClient srv uri enabled queueName =
     (if \<not> enabled then Inr \<lparr>amqp_exchange = [], amqp_enabled = False\<rparr>
      else
        andThenR (aq_Dial srv uri) (\<lambda>_.
        andThenR (aq_Channel srv) (\<lambda>_.
        declareExchange srv \<lparr>amqp_exchange = [], amqp_enabled = enabled\<rparr> queueName)))"

text \<open>\<open>Publish\<close> on a payload that marshals to \<open>body\<close>: the message the channel accepted, if any.\<close>

definition amqp_Publish ::
  "amqp_server \<Rightarrow> AmqpClient \<Rightarrow> error + string \<Rightarrow> (string \<times> Publishing, unit) logged" where
  "amqp_Publish srv c marshalled =
     (if \<not> amqp_enabled c then ok ()
      else if amqp_exchange c = [] then fail (Errorf ''exchange not init'')
      else
        case marshalled of
          Inl e \<Rightarrow> fail e
        | Inr body \<Rightarrow>
            let msg = \<lparr>pub_ContentType = ''application/json'', pub_Body = body\<rparr> in
            (case aq_Publish srv (amqp_exchange c) msg of
               Inl e \<Rightarrow> fail e
             | Inr _ \<Rightarrow> noting (amqp_exchange c, msg) (ok ())))"

section \<open>Webhook\<close>

record webhook_Client =
  wc_uri :: string
  wc_token :: string

definition NewWebhookClient :: "string \<Rightarrow> string \<Rightarrow> error + webhook_Client" where
  "NewWebhookClient uri token =
     (if uri = [] then Inl (Errorf ''emty uri'') else Inr \<lparr>wc_uri = uri, wc_token = token\<rparr>)"

text \<open>An outgoing request: \<open>or_GetBody\<close> is the body it was made with, \<open>or_Body\<close> what is left of it to
  read.  \<open>http_message\<close> is a request as the server receives it.\<close>

record http_message =
  hm_Method :: string
  hm_URL :: string
  hm_Header :: "(string \<times> string) list"
  hm_Body :: string

record out_request =
  or_message :: http_message
  or_Body :: string

definition http_NewRequest :: "string \<Rightarrow> string \<Rightarrow> string \<Rightarrow> out_request" where
  "http_NewRequest meth url body =
     \<lparr>or_message = \<lparr>hm_Method = meth, hm_URL = url, hm_Header = [], hm_Body = body\<rparr>, or_Body = body\<rparr>"

definition header_Set :: "string \<Rightarrow> string \<Rightarrow> out_request \<Rightarrow> out_request" where
  "header_Set k v r = r\<lparr>or_message := (or_message r)\<lparr>hm_Header := filter (\<lambda>(k', _). k' \<noteq> k) (hm_Header (or_message r)) @ [(k, v)]\<rparr>\<rparr>"

definition header_Add :: "string \<Rightarrow> string \<Rightarrow> out_request \<Rightarrow> out_request" where
  "header_Add k v r = r\<lparr>or_message := (or_message r)\<lparr>hm_Header := hm_Header (or_message r) @ [(k, v)]\<rparr>\<rparr>"

text \<open>What the network makes of an attempt: no connection, no answer to a request that was written, or
  an answer with its status, where closing the body of the answer may fail.\<close>

datatype net_outcome =
    NotSent error
  | NoAnswer error
  | Answer nat bool

record attempt =
  at_kept :: bool
  at_outcome :: net_outcome

definition http_Do :: "attempt \<Rightarrow> out_request \<Rightarrow> out_request \<times> http_message list \<times> (error + (nat \<times> bool))" where
  "http_Do a r =
     (case at_outcome a of
        NotSent e \<Rightarrow> (r, [], Inl e)
      | out \<Rightarrow>
          let r' = r\<lparr>or_Body := []\<rparr> in
          if length (or_Body r) \<noteq> length (hm_Body (or_message r)) \<and> \<not> at_kept a
          then (r', [], Inl (LibError ''http: ContentLength with Body length''))
          else
            (r', [or_message r],
             case out of Answer status closes \<Rightarrow> Inr (status, closes) | NoAnswer e \<Rightarrow> Inl e | NotSent e \<Rightarrow> Inl e))"

definition send :: "attempt \<Rightarrow> out_request \<Rightarrow> out_request \<times> http_message list \<times> (error + unit)" where
  "send a r =
     (case http_Do a r of
        (r', ms, Inl e) \<Rightarrow> (r', ms, Inl (Errorf ''webhook sending error''))
      | (r', ms, Inr (status, closes)) \<Rightarrow>
          (r', ms,
           if \<not> closes then Inl (Fatalf ''response body close error'')
           else if status = 200 then Inr ()
           else Inl (Errorf ''webhook response status'')))"

text \<open>\<open>for i := 0; i < 3; i++\<close>; \<open>net i\<close> is what happens to attempt \<open>i\<close>.\<close>

function publish_attempts :: "(nat \<Rightarrow> attempt) \<Rightarrow> nat \<Rightarrow> out_request \<Rightarrow> (http_message, unit) logged" where
  "publish_attempts net i r =
     (if i < 3 then
        (case send (net i) r of
           (r', ms, Inr _) \<Rightarrow> (ms, Inr ())
         | (r', ms, Inl e) \<Rightarrow>
             if crashes e then (ms, Inl e)
             else (ms @ fst (publish_attempts net (Suc i) r'), snd (publish_attempts net (Suc i) r')))
      else fail (Errorf ''attempts to send a webhook ended''))"
  by pat_completeness auto
termination by (relation "measure (\<lambda>(_, i, _). 3 - i)") auto

declare publish_attempts.simps [simp del]

text \<open>The request \<open>Publish\<close> builds; \<open>validURL\<close> is the outcome of \<open>http.NewRequest\<close>.\<close>

definition webhook_request :: "webhook_Client \<Rightarrow> string \<Rightarrow> out_request" where
  "webhook_request s jsonData =
     (let r = header_Set ''Content-Type'' ''application/json; charset=UTF-8'' (http_NewRequest ''POST'' (wc_uri s) jsonData)
      in if wc_token s \<noteq> [] then header_Add ''Authorization'' (''Bearer '' @ wc_token s) r else r)"

definition webhook_Publish ::
  "(string \<Rightarrow> error + unit) \<Rightarrow> (nat \<Rightarrow> attempt) \<Rightarrow> webhook_Client \<Rightarrow> error + string \<Rightarrow> (http_message, unit) logged" where
  "webhook_Publish validURL net s marshalled =
     (case marshalled of
        Inl e \<Rightarrow> fail e
      | Inr jsonData \<Rightarrow>
          (case validURL (wc_uri s) of
             Inl e \<Rightarrow> fail e
           | Inr _ \<Rightarrow> publish_attempts net 0 (webhook_request s jsonData)))"

section \<open>The webhook listener for tests\<close>

text \<open>\<open>checkToken\<close> and \<open>getNotification\<close>: the lines printed, and the status, which is 200 whenever the
  body could be read: the token is reported, not enforced.\<close>

definition header_Get :: "string \<Rightarrow> (string \<times> string) list \<Rightarrow> string" where
  "header_Get k hs = (case map_of hs k of None \<Rightarrow> [] | Some v \<Rightarrow> v)"

definition listener_checkToken :: "http_message \<Rightarrow> string \<Rightarrow> string list" where
  "listener_checkToken req token =
     (let header = header_Get ''Authorization'' (hm_Header req); auth = strings_Split header (CHR '' '') in
      if header = [] then [''no authorization header'' @ newline]
      else if length auth \<noteq> 2 \<or> auth ! 0 \<noteq> ''Bearer'' then [''not Bearer token'' @ newline]
      else if auth ! 1 = token then []
      else [''invalid token'' @ newline])"

definition getNotification :: "error + unit \<Rightarrow> http_message \<Rightarrow> string list \<times> nat" where
  "getNotification reading req =
     (let printed = (if hm_Method req \<noteq> ''POST'' then [''Not a post request!'' @ newline] else [])
                    @ listener_checkToken req ''123''
      in case reading of
           Inl e \<Rightarrow> (printed @ [''notification read error''], 200)
         | Inr _ \<Rightarrow> (printed @ [''Notification: '' @ hm_Body req @ newline], 200))"

section \<open>Attempts\<close>

lemma header_ops [simp]:
  "or_Body (header_Set k v r) = or_Body r" "or_Body (header_Add k v r) = or_Body r"
  "hm_Body (or_message (header_Set k v r)) = hm_Body (or_message r)"
  "hm_Body (or_message (header_Add k v r)) = hm_Body (or_message r)"
  by (simp_all add: header_Set_def header_Add_def)

lemma send_message:
  assumes "send a r = (r', ms, x)"
  shows "or_message r' = or_message r" "set ms \<subseteq> {or_message r}" "length ms \<le> 1" "x = Inr () \<Longrightarrow> ms = [or_message r]"
    "x = Inl e \<Longrightarrow> crashes e \<Longrightarrow> e = Fatalf ''response body close error''"
  using assms
  by (auto simp: send_def http_Do_def Let_def crashes_def split: net_outcome.splits if_splits prod.splits sum.splits)

text \<open>Every request of a publication is the same complete message, there are at most three, and success
  means that one arrived.\<close>

lemma publish_attempts_messages:
  "set (fst (publish_attempts net i r)) \<subseteq> {or_message r} \<and> length (fst (publish_attempts net i r)) \<le> 3 - i
   \<and> (snd (publish_attempts net i r) = Inr () \<longrightarrow> fst (publish_attempts net i r) \<noteq> [])
   \<and> snd (publish_attempts net i r) \<in> {Inr (), Inl (Errorf ''attempts to send a webhook ended''), Inl (Fatalf ''response body close error'')}"
proof (induction net i r rule: publish_attempts.induct)
  case (1 net i r)
  obtain r' ms x where s: "send (net i) r = (r', ms, x)" by (cases "send (net i) r") auto
  note m = send_message[OF s]
  show ?case
  proof (cases "i < 3")
    case False
    then show ?thesis by (simp add: publish_attempts.simps[of net i r])
  next
    case i: True
    show ?thesis
    proof (cases x)
      case (Inr u)
      then show ?thesis using i s m by (auto simp: publish_attempts.simps[of net i r])
    next
      case (Inl e)
      show ?thesis
      proof (cases "crashes e")
        case True
        then show ?thesis using i s m Inl by (auto simp: publish_attempts.simps[of net i r])
      next
        case False
        then show ?thesis using i s m Inl "1.IH"[OF i s[symmetric] refl Inl False]
          by (auto simp: publish_attempts.simps[of net i r])
      qed
    qed
  qed
qed

lemma webhook_Publish_messages:
  "set (fst (webhook_Publish url net s (Inr j))) \<subseteq> {or_message (webhook_request s j)}"
  "length (fst (webhook_Publish url net s (Inr j))) \<le> 3"
  "snd (webhook_Publish url net s (Inr j)) = Inr () \<Longrightarrow> fst (webhook_Publish url net s (Inr j)) \<noteq> []"
  using publish_attempts_messages[of net 0 "webhook_request s j"]
  by (auto simp: webhook_Publish_def split: sum.splits)

interpretation hook: notificator
  "\<lambda>n. webhook_Publish url net s (Inr (Marshal_notification n))"
  "\<lambda>n m. m = or_message (webhook_request s (Marshal_notification n))" for url net s
  using webhook_Publish_messages by unfold_locales blast+

interpretation queue: notificator
  "\<lambda>n. amqp_Publish srv \<lparr>amqp_exchange = q, amqp_enabled = True\<rparr> (Inr (Marshal_notification n))"
  "\<lambda>n m. m = (q, \<lparr>pub_ContentType = ''application/json'', pub_Body = Marshal_notification n\<rparr>)" for srv q
  by unfold_locales (auto simp: amqp_Publish_def Let_def split: if_splits sum.splits)

section \<open>Creation\<close>

record clients_config =
  cc_QueueEnabled :: bool
  cc_QueueURI :: string
  cc_QueueName :: string
  cc_WebhookEndpoint :: string
  cc_WebhookToken :: string

datatype Notificator = QueueClient AmqpClient | WebhookClient webhook_Client

definition main_notificators :: "amqp_server \<Rightarrow> clients_config \<Rightarrow> error + Notificator list" where
  "main_notificators srv cc =
     andThenR (if cc_QueueEnabled cc
               then andThenR (orFatal ''new queue client creating error''
                      (NewAmqpClient srv (cc_QueueURI cc) (cc_QueueEnabled cc) (cc_QueueName cc))) (\<lambda>c.
                    Inr [QueueClient c])
               else Inr []) (\<lambda>ns.
     if cc_WebhookEndpoint cc \<noteq> []
     then andThenR (orFatal ''new webhook client creating error''
            (NewWebhookClient (cc_WebhookEndpoint cc) (cc_WebhookToken cc))) (\<lambda>c.
          Inr (ns @ [WebhookClient c]))
     else Inr ns)"

text \<open>What a notificator brings to the other side.  \<open>net n i\<close> is attempt \<open>i\<close> for notification \<open>n\<close>.\<close>

datatype wire = Queued string Publishing | Posted http_message

definition Notificator_Publish ::
  "amqp_server \<Rightarrow> (string \<Rightarrow> error + unit) \<Rightarrow> (incomeNotification \<Rightarrow> nat \<Rightarrow> attempt) \<Rightarrow> Notificator
    \<Rightarrow> incomeNotification \<Rightarrow> (wire, unit) logged" where
  "Notificator_Publish srv url net nt n =
     (case nt of
        QueueClient c \<Rightarrow> apfst (map (\<lambda>(q, m). Queued q m)) (amqp_Publish srv c (Inr (Marshal_notification n)))
      | WebhookClient c \<Rightarrow> apfst (map Posted) (webhook_Publish url (net n) c (Inr (Marshal_notification n))))"

lemma main_notificators_clients:
  assumes "main_notificators srv cc = Inr nts"
  shows "cc_QueueEnabled cc \<Longrightarrow> QueueClient \<lparr>amqp_exchange = cc_QueueName cc, amqp_enabled = True\<rparr> \<in> set nts"
    "cc_WebhookEndpoint cc \<noteq> [] \<Longrightarrow>
       WebhookClient \<lparr>wc_uri = cc_WebhookEndpoint cc, wc_token = cc_WebhookToken cc\<rparr> \<in> set nts"
  using assms
  by (auto simp: main_notificators_def andThenR_success orFatal_success NewAmqpClient_def declareExchange_def
      NewWebhookClient_def split: if_splits)

section \<open>From block to client\<close>

lemma published_to_all:
  "snd (forM (publish n) pubs ()) = Inr () \<Longrightarrow> pub \<in> set pubs \<Longrightarrow> pub n = Inr ()"
  by (induction pubs) (auto simp: publish_def andThen_success split: sum.splits)

lemma pushNotification_to_all:
  assumes "snd (pushNotification s a amount t src wc comment h) = Inr ()"
    and "n \<in> set (fst (pushNotification s a amount t src wc comment h))" "pub \<in> set (bs_notificators s)"
  shows "pub n = Inr ()"
proof -
  obtain m where "fst (pushNotification s a amount t src wc comment h) = fst (forM (publish m) (bs_notificators s) ())"
    and m: "snd (forM (publish m) (bs_notificators s) ()) = Inr ()"
    using assms(1) by (auto simp: pushNotification_def Let_def andThen_def split: sum.splits option.splits)
  with assms(2) have "n = m" using publish_loop[OF m] by (simp split: if_splits)
  with published_to_all[OF m assms(3)] show ?thesis by simp
qed

lemma forM_accepted:
  assumes "\<And>x. x \<in> set xs \<Longrightarrow> snd (f x) = Inr () \<Longrightarrow> n \<in> set (fst (f x)) \<Longrightarrow> P"
    and "snd (forM (\<lambda>x _. f x) xs ()) = Inr ()" "n \<in> set (fst (forM (\<lambda>x _. f x) xs ()))"
  shows P
  using assms
proof (induction xs)
  case Nil
  then show ?case by simp
next
  case (Cons x xs)
  then have x: "snd (f x) = Inr ()" by (auto simp: andThen_success)
  with Cons.prems(2,3) have "snd (forM (\<lambda>x _. f x) xs ()) = Inr ()"
    "n \<in> set (fst (f x)) \<or> n \<in> set (fst (forM (\<lambda>x _. f x) xs ()))" by auto
  then show ?case using Cons.IH Cons.prems(1) x by auto
qed

lemma pushNotifications_to_all:
  assumes "snd (pushNotifications s e) = Inr ()" "n \<in> set (fst (pushNotifications s e))" "pub \<in> set (bs_notificators s)"
  shows "pub n = Inr ()"
proof (cases "bs_notificators s = []")
  case True
  then show ?thesis using assms(3) by simp
next
  case False
  then show ?thesis using assms
    by (cases "cfg_IsDepositSideCalculation (bs_cfg s)")
      (auto simp: pushNotifications_def elim!: forM_accepted[rotated] intro: pushNotification_to_all)
qed

lemma processBlock_to_all:
  assumes "processBlock s block c = (c', logs, pubs, Inr ())" "n \<in> set pubs" "pub \<in> set (bs_notificators s)"
  shows "pub n = Inr ()"
proof -
  let ?s = "s\<lparr>bs_db := conn_addressBook c\<rparr>"
  from assms(1) obtain ev where "pushNotifications ?s ev = (pubs, Inr ())"
    by (auto simp: processBlock_def Let_def split: sum.splits prod.splits)
  with pushNotifications_to_all[of ?s ev n pub] assms(2,3) show ?thesis by simp
qed

text \<open>
  C20.  A processed block has told every configured client of every income.  When the block scanner
  works with the notificators that the program creates from its configuration and processes a block
  successfully, then for each notification it published, the queue (when it is enabled) accepted a
  message on the configured exchange, and the webhook endpoint (when one is configured) received a
  \<open>POST\<close> with the configured token, each with the complete JSON text of the notification as its body.
\<close>

theorem notifications_delivered:
  assumes "main_notificators srv cc = Inr nts"
    and "bs_notificators s = map (\<lambda>nt n. snd (Notificator_Publish srv url net nt n)) nts"
    and "processBlock s block c = (c', logs, pubs, Inr ())" "n \<in> set pubs"
  shows "(cc_QueueEnabled cc \<longrightarrow>
       (\<exists>nt\<in>set nts. Queued (cc_QueueName cc) \<lparr>pub_ContentType = ''application/json'', pub_Body = Marshal_notification n\<rparr>
          \<in> set (fst (Notificator_Publish srv url net nt n))))
    \<and> (cc_WebhookEndpoint cc \<noteq> [] \<longrightarrow>
       (\<exists>nt\<in>set nts. \<exists>m. Posted m \<in> set (fst (Notificator_Publish srv url net nt n))
          \<and> hm_Method m = ''POST'' \<and> hm_URL m = cc_WebhookEndpoint cc \<and> hm_Body m = Marshal_notification n
          \<and> (cc_WebhookToken cc \<noteq> [] \<longrightarrow> (''Authorization'', ''Bearer '' @ cc_WebhookToken cc) \<in> set (hm_Header m))))"
proof (intro conjI impI)
  have ok: "snd (Notificator_Publish srv url net nt n) = Inr ()" if "nt \<in> set nts" for nt
    using processBlock_to_all[OF assms(3,4), of "\<lambda>n. snd (Notificator_Publish srv url net nt n)"] assms(2) that by simp
  {
    let ?c = "\<lparr>amqp_exchange = cc_QueueName cc, amqp_enabled = True\<rparr>"
    assume "cc_QueueEnabled cc"
    with main_notificators_clients(1)[OF assms(1)] have q: "QueueClient ?c \<in> set nts" by blast
    have "snd (amqp_Publish srv ?c (Inr (Marshal_notification n))) = Inr ()"
      using ok[OF q] by (simp add: Notificator_Publish_def)
    from queue.reaches[OF this]
    have "Queued (cc_QueueName cc) \<lparr>pub_ContentType = ''application/json'', pub_Body = Marshal_notification n\<rparr>
        \<in> set (fst (Notificator_Publish srv url net (QueueClient ?c) n))"
      by (force simp: Notificator_Publish_def)
    with q show "\<exists>nt\<in>set nts. Queued (cc_QueueName cc) \<lparr>pub_ContentType = ''application/json'', pub_Body = Marshal_notification n\<rparr>
        \<in> set (fst (Notificator_Publish srv url net nt n))" by blast
  }
  {
    let ?c = "\<lparr>wc_uri = cc_WebhookEndpoint cc, wc_token = cc_WebhookToken cc\<rparr>"
    assume "cc_WebhookEndpoint cc \<noteq> []"
    with main_notificators_clients(2)[OF assms(1)] have w: "WebhookClient ?c \<in> set nts" by blast
    have "snd (webhook_Publish url (net n) ?c (Inr (Marshal_notification n))) = Inr ()"
      using ok[OF w] by (simp add: Notificator_Publish_def)
    from hook.reaches[OF this]
    have "Posted (or_message (webhook_request ?c (Marshal_notification n)))
        \<in> set (fst (Notificator_Publish srv url net (WebhookClient ?c) n))"
      by (force simp: Notificator_Publish_def)
    moreover have "hm_Method (or_message (webhook_request ?c j)) = ''POST'' \<and> hm_URL (or_message (webhook_request ?c j)) = cc_WebhookEndpoint cc
        \<and> hm_Body (or_message (webhook_request ?c j)) = j
        \<and> (cc_WebhookToken cc \<noteq> [] \<longrightarrow>
            (''Authorization'', ''Bearer '' @ cc_WebhookToken cc) \<in> set (hm_Header (or_message (webhook_request ?c j))))" for j
      by (simp add: webhook_request_def header_Set_def header_Add_def http_NewRequest_def Let_def)
    ultimately show "\<exists>nt\<in>set nts. \<exists>m. Posted m \<in> set (fst (Notificator_Publish srv url net nt n))
          \<and> hm_Method m = ''POST'' \<and> hm_URL m = cc_WebhookEndpoint cc \<and> hm_Body m = Marshal_notification n
          \<and> (cc_WebhookToken cc \<noteq> [] \<longrightarrow> (''Authorization'', ''Bearer '' @ cc_WebhookToken cc) \<in> set (hm_Header m))"
      using w by blast
  }
qed

definition sample_clients :: clients_config where
  "sample_clients = \<lparr>cc_QueueEnabled = False, cc_QueueURI = [], cc_QueueName = [], cc_WebhookEndpoint = ''http://host'', cc_WebhookToken = ''123''\<rparr>"

definition sample_hook :: webhook_Client where
  "sample_hook = \<lparr>wc_uri = ''http://host'', wc_token = ''123''\<rparr>"

definition sample_answers :: "nat \<Rightarrow> attempt" where
  "sample_answers i = \<lparr>at_kept = False, at_outcome = (if i = 0 then NotSent (LibError ''dial'') else Answer 200 True)\<rparr>"

lemma sample_hook_accepts: "snd (Notificator_Publish srv (\<lambda>_. Inr ()) (\<lambda>_. sample_answers) (WebhookClient sample_hook) n) = Inr ()"
proof -
  have "json_string s \<noteq> []" for s by (simp add: json_string_def)
  then show ?thesis
    by (simp add: Notificator_Publish_def webhook_Publish_def publish_attempts.simps[of _ 0] publish_attempts.simps[of _ "Suc 0"]
        sample_answers_def send_def http_Do_def webhook_request_def http_NewRequest_def Let_def crashes_def)
qed

definition sample_amqp :: amqp_server where
  "sample_amqp = \<lparr>aq_Dial = \<lambda>_. Inr (), aq_Channel = Inr (), aq_ExchangeDeclare = \<lambda>_ _. Inr (), aq_Publish = \<lambda>_ _. Inr ()\<rparr>"

theorem notifications_delivered_witness:
  "\<exists>n c' logs pubs m. processBlock sample_block_scanner (sample_header 6) sample_conn = (c', logs, pubs, Inr ()) \<and> n \<in> set pubs
     \<and> Posted m \<in> set (fst (Notificator_Publish sample_amqp (\<lambda>_. Inr ()) (\<lambda>_. sample_answers) (WebhookClient sample_hook) n))
     \<and> hm_Body m = Marshal_notification n"
proof -
  have nts: "main_notificators sample_amqp sample_clients = Inr [WebhookClient sample_hook]"
    by (simp add: main_notificators_def sample_clients_def NewWebhookClient_def sample_hook_def)
  have bs: "bs_notificators sample_block_scanner =
      map (\<lambda>nt n. snd (Notificator_Publish sample_amqp (\<lambda>_. Inr ()) (\<lambda>_. sample_answers) nt n)) [WebhookClient sample_hook]"
    by (simp add: sample_block_scanner_def sample_hook_accepts)
  obtain c' logs n ns where p: "processBlock sample_block_scanner (sample_header 6) sample_conn = (c', logs, n # ns, Inr ())"
    using sample_processBlock by (metis neq_Nil_conv)
  have "cc_WebhookEndpoint sample_clients \<noteq> []" by (simp add: sample_clients_def)
  with notifications_delivered[OF nts bs p, of n] p show ?thesis by fastforce
qed

section \<open>Repeated attempts\<close>

lemma attempt_drained:
  assumes "or_Body r = []" "hm_Body (or_message r) \<noteq> []" "\<And>i. \<not> at_kept (net i)"
  shows "publish_attempts net i r = ([], Inl (Errorf ''attempts to send a webhook ended''))"
  using assms
proof (induction net i r rule: publish_attempts.induct)
  case (1 net i r)
  have s: "send (net i) r = (r, [], Inl (Errorf ''webhook sending error''))"
    using "1.prems" by (cases r) (simp add: send_def http_Do_def split: net_outcome.split)
  show ?case
    using "1.IH"[OF _ s[symmetric] refl refl] "1.prems"
    by (cases "i < 3") (simp_all add: publish_attempts.simps[of net i r] s crashes_def fail_def)
qed

lemma attempt_full:
  assumes "or_Body r = hm_Body (or_message r)" "hm_Body (or_message r) \<noteq> []" "\<And>i. \<not> at_kept (net i)" "i < 3"
  shows "publish_attempts net i r =
     (case at_outcome (net i) of
        NotSent e \<Rightarrow> publish_attempts net (Suc i) r
      | NoAnswer e \<Rightarrow> ([or_message r], Inl (Errorf ''attempts to send a webhook ended''))
      | Answer status closes \<Rightarrow>
          ([or_message r], if \<not> closes then Inl (Fatalf ''response body close error'')
             else if status = 200 then Inr () else Inl (Errorf ''attempts to send a webhook ended'')))"
proof -
  have "publish_attempts net (Suc i) (r\<lparr>or_Body := []\<rparr>) = ([], Inl (Errorf ''attempts to send a webhook ended''))"
    using assms by (intro attempt_drained) simp_all
  then show ?thesis using assms
    by (cases "at_outcome (net i)") (simp_all add: publish_attempts.simps[of net i r] send_def http_Do_def crashes_def)
qed

lemma full_request: "or_Body (webhook_request s j) = j" "hm_Body (or_message (webhook_request s j)) = j"
  by (simp_all add: webhook_request_def Let_def http_NewRequest_def)



text \<open>The listener for tests accepts every complete request and prints what was sent.\<close>

lemma listener_prints:
  assumes "m \<in> set (fst (webhook_Publish url net s (Inr j)))" "wc_token s = ''123''"
  shows "getNotification (Inr ()) m = ([''Notification: '' @ j @ newline], 200)"
proof -
  have "m = or_message (webhook_request s j)" using webhook_Publish_messages(1) assms(1) by blast
  moreover have "strings_Split ''Bearer 123'' (CHR '' '') = [''Bearer'', ''123'']" by simp
  ultimately show ?thesis using assms(2)
    by (simp add: getNotification_def listener_checkToken_def header_Get_def webhook_request_def header_Set_def
        header_Add_def http_NewRequest_def)
qed

end
