(* ===== verification/Connection_Start.thy ===== *)
theory Connection_Start
  imports Trust
begin

text \<open>
  \<open>NewConnection\<close> of \<open>src/blockchain/blockchain.go\<close> as a whole: the connection to the lite server, the
  rate limit of \<open>src/blockchain/limited_client.go\<close> around it, what the connection trusts
  (\<open>connection_trust\<close>), and the network configuration it reads: \<open>getConfigData\<close> and
  \<open>getBlockchainConfig\<close>, which checks the proof of the configuration.  Cells, proofs and the limiter
  are third-party code and appear as parameters.
\<close>

section \<open>The limited client\<close>

text \<open>A lite client; a context is a handle.\<close>

record ('q, 'r) LiteClient =
  lc_QueryLiteserver :: "'q \<Rightarrow> error + 'r"
  lc_StickyContext :: "nat \<Rightarrow> nat"
  lc_StickyNodeID :: "nat \<Rightarrow> u32"
  lc_StickyContextNextNode :: "nat \<Rightarrow> error + nat"
  lc_StickyContextNextNodeBalanced :: "nat \<Rightarrow> error + nat"

definition limited_QueryLiteserver :: "error + unit \<Rightarrow> ('q, 'r) LiteClient \<Rightarrow> 'q \<Rightarrow> error + 'r" where
  "limited_QueryLiteserver wait original payload =
     (case wait of
        Inl e \<Rightarrow> Inl (Errorf ''limiter err'')
      | Inr _ \<Rightarrow> lc_QueryLiteserver original payload)"

text \<open>\<open>wait q\<close> is what the limiter answers before query \<open>q\<close>; every other call is handed on.\<close>

definition newLimitedClient :: "('q \<Rightarrow> error + unit) \<Rightarrow> ('q, 'r) LiteClient \<Rightarrow> ('q, 'r) LiteClient" where
  "newLimitedClient wait lc = lc\<lparr>lc_QueryLiteserver := (\<lambda>q. limited_QueryLiteserver (wait q) lc q)\<rparr>"

section \<open>The configuration of the network\<close>

datatype lite_response = ConfigAll "byte list" "byte list" | LSError error | OtherResponse

record chain_lib =
  gl_FromBOC :: "byte list \<Rightarrow> error + cell"
  gl_CheckShardMcStateExtraProof :: "BlockIDExt \<Rightarrow> cell list \<Rightarrow> error + dictionary"
  gl_CurrentMasterchainInfo :: "error + BlockIDExt"
  gl_GetBlockchainConfig :: "BlockIDExt \<Rightarrow> nat \<Rightarrow> error + (nat \<Rightarrow> cell option)"
  gl_ToCell :: "dictionary \<Rightarrow> error + cell"
  gl_ToBOC :: "cell \<Rightarrow> byte list"
  gl_DeserializeBoc :: "byte list \<Rightarrow> error + cell list"
  gl_LoadSlice :: "slice \<Rightarrow> nat \<Rightarrow> error + byte list"

text \<open>The query \<open>GetConfigAll\<close> is the block it asks about, with all mode bits.\<close>

definition getBlockchainConfig :: "chain_lib \<Rightarrow> (BlockIDExt, lite_response) LiteClient \<Rightarrow> BlockIDExt \<Rightarrow> error + dictionary" where
  "getBlockchainConfig gl client block =
     andThenR (lc_QueryLiteserver client block) (\<lambda>resp.
     case resp of
       ConfigAll stateProof configProof \<Rightarrow>
         andThenR (gl_FromBOC gl stateProof) (\<lambda>sp.
         andThenR (gl_FromBOC gl configProof) (\<lambda>cp.
         case gl_CheckShardMcStateExtraProof gl block [sp, cp] of
           Inl e \<Rightarrow> Inl (Errorf ''incorrect proof'')
         | Inr params \<Rightarrow> Inr params))
     | LSError e \<Rightarrow> Inl e
     | OtherResponse \<Rightarrow> Inl (Errorf ''unexpected response from node''))"

definition wrapf :: "string \<Rightarrow> error + 'a \<Rightarrow> error + 'a" where
  "wrapf msg r = (case r of Inl e \<Rightarrow> Inl (Errorf msg) | Inr x \<Rightarrow> Inr x)"

definition getConfigData ::
  "tonlib \<Rightarrow> chain_lib \<Rightarrow> (BlockIDExt, lite_response) LiteClient \<Rightarrow> error + (taddress \<times> cell)" where
  "getConfigData lib gl client =
     andThenR (wrapf ''failed to get masterchain info'' (gl_CurrentMasterchainInfo gl)) (\<lambda>b.
     andThenR (wrapf ''failed to get blockchain config'' (gl_GetBlockchainConfig gl b 4)) (\<lambda>cfg.
     andThenR (wrapf ''failed to get config dict'' (getBlockchainConfig gl client b)) (\<lambda>cfgDict.
     andThenR (wrapf ''failed to serialize blockchain config'' (gl_ToCell gl cfgDict)) (\<lambda>cfgCell.
     andThenR (wrapf ''failed to deserialize blockchain config'' (gl_DeserializeBoc gl (gl_ToBOC gl cfgCell))) (\<lambda>configCell.
     if length configCell \<noteq> 1 then Inl (Errorf ''blockchain config must conatins only one cell'')
     else
       (case cfg 4 of
          None \<Rightarrow> Inl (Errorf ''failed to get root address from blockchain config'')
        | Some dat \<Rightarrow>
            andThenR (wrapf ''failed to get root address from blockchain config 2'' (lib_BeginParse lib dat)) (\<lambda>sl.
            andThenR (wrapf ''failed to get root address from blockchain config 4, failed to load hash''
                       (gl_LoadSlice gl sl 256)) (\<lambda>hash.
            Inr (lib_NewAddress lib 0 255 hash, configCell ! 0)))))))))"

section \<open>The connection\<close>

text \<open>\<open>added\<close> is the outcome of \<open>AddConnection\<close>.  The result is what the connection trusts, the root of
  the DNS and the configuration cell, which becomes \<open>config.Config.BlockchainConfig\<close>.\<close>

definition blockchain_NewConnection ::
  "tonlib \<Rightarrow> chain_lib \<Rightarrow> error + unit \<Rightarrow> (BlockIDExt \<Rightarrow> error + unit) \<Rightarrow> (BlockIDExt, lite_response) LiteClient
    \<Rightarrow> bool \<Rightarrow> string \<Rightarrow> error + BlockIDExt \<Rightarrow> (BlockIDExt \<Rightarrow> error + unit) list \<Rightarrow> error + nat
    \<Rightarrow> tables \<Rightarrow> tables \<times> (error + (trusted \<times> taddress \<times> cell))" where
  "blockchain_NewConnection lib gl added wait client proofCheckEnabled networkConfigUrl head sourcesOfTrust configFromUrl t =
     (case added of
        Inl e \<Rightarrow> (t, Inl (Errorf ''connection err''))
      | Inr _ \<Rightarrow>
          (case connection_trust proofCheckEnabled networkConfigUrl head sourcesOfTrust configFromUrl
                  (gl_CurrentMasterchainInfo gl) t of
             (t', Inl e) \<Rightarrow> (t', Inl e)
           | (t', Inr tr) \<Rightarrow>
               (case getConfigData lib gl (newLimitedClient wait client) of
                  Inl e \<Rightarrow> (t', Inl (Errorf ''get config data err''))
                | Inr (rootDNS, bcConfig) \<Rightarrow> (t', Inr (tr, rootDNS, bcConfig)))))"

section \<open>What the connection writes and trusts\<close>

text \<open>The only thing the connection writes is the trusted block.\<close>

lemma connection_trust_tables:
  "fst (connection_trust pc url head ts cu current t) = t
   \<or> (\<exists>b. fst (connection_trust pc url head ts cu current t) = SaveLastMasterchainProvenBlock b t)"
  by (auto simp: connection_trust_def split: sum.splits prod.splits if_splits)

lemma blockchain_NewConnection_tables:
  "fst (blockchain_NewConnection lib gl added wait client pc url head ts cu t) = t
   \<or> (\<exists>b. fst (blockchain_NewConnection lib gl added wait client pc url head ts cu t) = SaveLastMasterchainProvenBlock b t)"
  using connection_trust_tables[of pc url head ts cu "gl_CurrentMasterchainInfo gl" t]
  by (auto simp: blockchain_NewConnection_def split: sum.splits prod.splits)

lemma wrapf_success: "wrapf msg r = Inr x \<longleftrightarrow> r = Inr x"
  by (simp add: wrapf_def split: sum.splits)

text \<open>The configuration of a connection was proven against the block it was read at.\<close>

lemma getBlockchainConfig_proven:
  "getBlockchainConfig gl client b = Inr params \<Longrightarrow>
     \<exists>s c sp cp. lc_QueryLiteserver client b = Inr (ConfigAll s c) \<and> gl_FromBOC gl s = Inr sp \<and> gl_FromBOC gl c = Inr cp
       \<and> gl_CheckShardMcStateExtraProof gl b [sp, cp] = Inr params"
  by (cases "lc_QueryLiteserver client b"; cases "projr (lc_QueryLiteserver client b)")
    (auto simp: getBlockchainConfig_def andThenR_def split: sum.splits)

text \<open>A query goes to the server only after the limiter let it pass, and every other call unchanged.\<close>

lemma limited_query:
  "lc_QueryLiteserver (newLimitedClient wait lc) q = Inr r \<longleftrightarrow> wait q = Inr () \<and> lc_QueryLiteserver lc q = Inr r"
  by (auto simp: newLimitedClient_def limited_QueryLiteserver_def split: sum.splits)

end
