(* ===== verification/Process.thy ===== *)
theory Process
  imports Ledger Tracker_Start Notify_Clients Connection_Start
begin

text \<open>
  The running process: \<open>main\<close> of \<open>src/cmd/processor/main.go\<close>, the goroutines it starts and its shutdown.

  A state holds the connection, the tracker, the phase of every goroutine and the counter of the
  \<open>sync.WaitGroup\<close>.  The three loops of \<open>src/core/withdrawal_processor.go\<close> are \<open>Waiting\<close> in
  \<open>waitSync\<close>, then \<open>Checking\<close> the shutdown flag, then \<open>Working\<close> on a round; the loop of the block
  scanner is \<open>Fetching\<close> (about to call \<open>NextBlock\<close>), \<open>Loading\<close> (inside it) or \<open>Scanning\<close> a block.
  Steps of different goroutines interleave freely; a round is one step.  A goroutine that ends with
  \<open>log.Fatalf\<close> or an unrecovered panic ends the process, as does the failure of the HTTP listener or a
  kill (\<open>Crashed\<close>); the process can then be started again.

  The signal handler stops the scanner first and the processors second.  A call of \<open>NextBlock\<close> that
  was under way when the tracker was stopped may still return a block.  \<open>pr_saved\<close> is a record for the
  proofs only: the headers of the blocks that were saved, over all runs of the process.
\<close>

section \<open>State\<close>

datatype worker = External | Internal | Expiration

datatype phase = Waiting | Checking | Working | Finished

datatype scan_phase = Fetching | Loading | Scanning ShardBlockHeader | Ended

datatype signal_phase = NoSignal | Received | ScannerStopped | AllStopped

record process =
  pr_conn :: Connection
  pr_tracker :: ShardTracker
  pr_polls :: nat
  pr_gracefulShutdown :: bool
  pr_signal :: signal_phase
  pr_phase :: "worker \<Rightarrow> phase"
  pr_scan :: scan_phase
  pr_wg :: nat
  pr_fatal :: bool
  pr_saved :: "ShardBlockHeader list"

definition alive :: "process \<Rightarrow> bool" where
  "alive p \<longleftrightarrow> \<not> pr_fatal p \<and> pr_wg p \<noteq> 0"

text \<open>No process over the given database.\<close>

definition no_process :: "Connection \<Rightarrow> process" where
  "no_process c =
     \<lparr>pr_conn = c, pr_tracker = NewShardTracker 0 None, pr_polls = 0, pr_gracefulShutdown = False, pr_signal = NoSignal,
      pr_phase = (\<lambda>_. Finished), pr_scan = Ended, pr_wg = 0, pr_fatal = False, pr_saved = []\<rparr>"

section \<open>Start\<close>

text \<open>What \<open>main\<close> finds outside: the database and the lite server answer or not, the clock, the
  explorers, and the configuration of the clients.\<close>

record start_env =
  se_dial :: "error + unit"
  se_chain :: chain_lib
  se_added :: "error + unit"
  se_wait :: "BlockIDExt \<Rightarrow> error + unit"
  se_client :: "(BlockIDExt, lite_response) LiteClient"
  se_ProofCheckEnabled :: bool
  se_NetworkConfigUrl :: string
  se_head :: "error + BlockIDExt"
  se_sourcesOfTrust :: "(BlockIDExt \<Rightarrow> error + unit) list"
  se_configFromUrl :: "error + nat"
  se_bc :: bcapi
  se_isTimeSynced :: "error + bool"
  se_jettons :: "(string \<times> Jetton) list"
  se_amqp :: amqp_server
  se_clients :: clients_config

text \<open>\<open>NewBlockScanner\<close> and \<open>Start\<close> add one and three to the wait group and start their goroutines.\<close>

definition NewBlockScanner :: "ShardTracker \<Rightarrow> process \<Rightarrow> process" where
  "NewBlockScanner tracker p = p\<lparr>pr_tracker := tracker, pr_scan := Fetching, pr_wg := pr_wg p + 1\<rparr>"

definition WithdrawalsProcessor_Start :: "process \<Rightarrow> process" where
  "WithdrawalsProcessor_Start p = p\<lparr>pr_phase := (\<lambda>_. Waiting), pr_wg := pr_wg p + 3\<rparr>"

definition WithdrawalsProcessor_Stop :: "process \<Rightarrow> process" where
  "WithdrawalsProcessor_Stop p = p\<lparr>pr_gracefulShutdown := True\<rparr>"

definition BlockScanner_Stop :: "process \<Rightarrow> process" where
  "BlockScanner_Stop p = p\<lparr>pr_tracker := Stop (pr_tracker p)\<rparr>"

text \<open>A process that ends while starting leaves what it wrote to the database.  The source creates the
  notificators before it reads the last saved block; reading it changes nothing.\<close>

definition main_process :: "tonlib \<Rightarrow> config \<Rightarrow> start_env \<Rightarrow> process \<Rightarrow> process" where
  "main_process lib cfg env p =
     (case se_dial env of
        Inl e \<Rightarrow> p\<lparr>pr_fatal := True\<rparr>
      | Inr _ \<Rightarrow>
          (case blockchain_NewConnection lib (se_chain env) (se_added env) (se_wait env) (se_client env)
                  (se_ProofCheckEnabled env) (se_NetworkConfigUrl env) (se_head env) (se_sourcesOfTrust env)
                  (se_configFromUrl env) (conn_db (pr_conn p)) of
             (t, Inl e) \<Rightarrow> p\<lparr>pr_conn := (pr_conn p)\<lparr>conn_db := t\<rparr>, pr_fatal := True\<rparr>
           | (t, Inr _) \<Rightarrow>
               (case main_start lib cfg (se_bc env) (se_isTimeSynced env) (se_jettons env) (NewConnection t) of
                  (c, logs, Inl e) \<Rightarrow> p\<lparr>pr_conn := c, pr_fatal := True\<rparr>
                | (c, logs, Inr (wallets, block)) \<Rightarrow>
                    (case main_notificators (se_amqp env) (se_clients env) of
                       Inl e \<Rightarrow> p\<lparr>pr_conn := c, pr_fatal := True\<rparr>
                     | Inr notificators \<Rightarrow>
                         WithdrawalsProcessor_Start
                           (NewBlockScanner (NewShardTracker (wl_Shard wallets) block)
                             (p\<lparr>pr_conn := c, pr_gracefulShutdown := False, pr_signal := NoSignal, pr_wg := 0,
                                pr_fatal := False\<rparr>))))))"

section \<open>Steps\<close>

datatype label =
    Started | Request | Proven | Signalled | StopScanner | StopProcessors
  | Sync worker | Check worker | Round worker | Fetch | Load | Scan | Crashed

definition died :: "error + 'a \<Rightarrow> bool" where
  "died r = (case r of Inl e \<Rightarrow> True | Inr x \<Rightarrow> False)"

text \<open>The header of a block whose row was added.\<close>

definition saved_now :: "ShardBlockHeader \<Rightarrow> Connection \<Rightarrow> Connection \<Rightarrow> ShardBlockHeader list" where
  "saved_now h c c' = (if block_data (conn_db c') = block_data (conn_db c) then [] else [h])"

inductive process_step :: "tonlib \<Rightarrow> config \<Rightarrow> client \<Rightarrow> process \<Rightarrow> label \<Rightarrow> process \<Rightarrow> bool" for lib cfg cl where
  start: "\<not> alive p \<Longrightarrow> process_step lib cfg cl p Started (main_process lib cfg env p)"
| request: "alive p \<Longrightarrow> serve h req (pr_conn p) = (c, logs, r) \<Longrightarrow>
    process_step lib cfg cl p Request (p\<lparr>pr_conn := c, pr_fatal := died r\<rparr>)"
| proven: "alive p \<Longrightarrow>
    process_step lib cfg cl p Proven (p\<lparr>pr_conn := (pr_conn p)\<lparr>conn_db := updateLastBlocks_round lastBlock (conn_db (pr_conn p))\<rparr>\<rparr>)"
| signal: "alive p \<Longrightarrow> pr_signal p = NoSignal \<Longrightarrow> process_step lib cfg cl p Signalled (p\<lparr>pr_signal := Received\<rparr>)"
| stop_scanner: "alive p \<Longrightarrow> pr_signal p = Received \<Longrightarrow>
    process_step lib cfg cl p StopScanner (BlockScanner_Stop (p\<lparr>pr_signal := ScannerStopped\<rparr>))"
| stop_processors: "alive p \<Longrightarrow> pr_signal p = ScannerStopped \<Longrightarrow>
    process_step lib cfg cl p StopProcessors (WithdrawalsProcessor_Stop (p\<lparr>pr_signal := AllStopped\<rparr>))"
| synced: "alive p \<Longrightarrow> pr_phase p w = Waiting \<Longrightarrow>
    pr_gracefulShutdown p \<or> fst (IsActualBlockData cfg now (conn_db (pr_conn p))) \<Longrightarrow>
    process_step lib cfg cl p (Sync w) (p\<lparr>pr_phase := (pr_phase p)(w := Checking)\<rparr>)"
| quit: "alive p \<Longrightarrow> pr_phase p w = Checking \<Longrightarrow> pr_gracefulShutdown p \<Longrightarrow>
    process_step lib cfg cl p (Check w) (p\<lparr>pr_phase := (pr_phase p)(w := Finished), pr_wg := pr_wg p - 1\<rparr>)"
| go: "alive p \<Longrightarrow> pr_phase p w = Checking \<Longrightarrow> \<not> pr_gracefulShutdown p \<Longrightarrow>
    process_step lib cfg cl p (Check w) (p\<lparr>pr_phase := (pr_phase p)(w := Working)\<rparr>)"
| round_external: "alive p \<Longrightarrow> pr_phase p External = Working \<Longrightarrow> filed_by_currency (wp_JettonHotWallets q) \<Longrightarrow>
    withdrawals_round q n (pr_conn p) = (c, logs, r) \<Longrightarrow>
    process_step lib cfg cl p (Round External) (p\<lparr>pr_conn := c, pr_phase := (pr_phase p)(External := Waiting), pr_fatal := died r\<rparr>)"
| round_internal: "alive p \<Longrightarrow> pr_phase p Internal = Working \<Longrightarrow> internal_ton_round q n (pr_conn p) = (c, logs, r) \<Longrightarrow>
    process_step lib cfg cl p (Round Internal) (p\<lparr>pr_conn := c, pr_phase := (pr_phase p)(Internal := Waiting), pr_fatal := died r\<rparr>)"
| round_expiration: "alive p \<Longrightarrow> pr_phase p Expiration = Working \<Longrightarrow>
    process_step lib cfg cl p (Round Expiration)
      (p\<lparr>pr_conn := (pr_conn p)\<lparr>conn_db := SetExpired cfg now1 now2 (conn_db (pr_conn p))\<rparr>,
         pr_phase := (pr_phase p)(Expiration := Waiting)\<rparr>)"
| fetch_stopped: "alive p \<Longrightarrow> pr_scan p = Fetching \<Longrightarrow> st_gracefulShutdown (pr_tracker p) \<Longrightarrow>
    process_step lib cfg cl p Fetch (p\<lparr>pr_scan := Ended, pr_wg := pr_wg p - 1\<rparr>)"
| fetch: "alive p \<Longrightarrow> pr_scan p = Fetching \<Longrightarrow> \<not> st_gracefulShutdown (pr_tracker p) \<Longrightarrow>
    process_step lib cfg cl p Fetch (p\<lparr>pr_scan := Loading\<rparr>)"
| load: "alive p \<Longrightarrow> pr_scan p = Loading \<Longrightarrow>
    NextBlock cfg cl (\<lambda>_ _. False) (pr_polls p) ((pr_tracker p)\<lparr>st_gracefulShutdown := False\<rparr>) = Some (k, s, Inr (Some h)) \<Longrightarrow>
    process_step lib cfg cl p Load
      (p\<lparr>pr_tracker := s\<lparr>st_gracefulShutdown := st_gracefulShutdown (pr_tracker p)\<rparr>, pr_polls := k, pr_scan := Scanning h\<rparr>)"
| load_error: "alive p \<Longrightarrow> pr_scan p = Loading \<Longrightarrow>
    NextBlock cfg cl (\<lambda>_ _. False) (pr_polls p) ((pr_tracker p)\<lparr>st_gracefulShutdown := False\<rparr>) = Some (k, s, Inl e) \<Longrightarrow>
    process_step lib cfg cl p Load (p\<lparr>pr_polls := k, pr_fatal := True\<rparr>)"
| load_stopped: "alive p \<Longrightarrow> pr_scan p = Loading \<Longrightarrow> st_gracefulShutdown (pr_tracker p) \<Longrightarrow> st_buffer (pr_tracker p) = [] \<Longrightarrow>
    getNextMasterBlockID cl (pr_polls p) (pr_tracker p) = Some (k, s, Inr m) \<Longrightarrow>
    process_step lib cfg cl p Load (p\<lparr>pr_tracker := s, pr_polls := k, pr_scan := Ended, pr_wg := pr_wg p - 1\<rparr>)"
| scan: "alive p \<Longrightarrow> pr_scan p = Scanning h \<Longrightarrow> bs_lib s = lib \<Longrightarrow> processBlock s h (pr_conn p) = (c, logs, pubs, r) \<Longrightarrow>
    process_step lib cfg cl p Scan
      (p\<lparr>pr_conn := c, pr_scan := Fetching, pr_fatal := died r, pr_saved := pr_saved p @ saved_now h (pr_conn p) c\<rparr>)"
| crash: "alive p \<Longrightarrow> process_step lib cfg cl p Crashed (p\<lparr>pr_fatal := True\<rparr>)"

inductive process_run :: "tonlib \<Rightarrow> config \<Rightarrow> client \<Rightarrow> process \<Rightarrow> label list \<Rightarrow> process \<Rightarrow> bool" for lib cfg cl where
  run_none: "process_run lib cfg cl p [] p"
| run_more: "process_run lib cfg cl p ls p' \<Longrightarrow> process_step lib cfg cl p' l p'' \<Longrightarrow> process_run lib cfg cl p (ls @ [l]) p''"

section \<open>The process refines the service\<close>

lemma proven_reach:
  assumes "t = conn_db c \<or> (\<exists>b. t = SaveLastMasterchainProvenBlock b (conn_db c))"
  shows "service_reach lib cfg c (c\<lparr>conn_db := t\<rparr>)"
  using assms
proof
  assume "t = conn_db c"
  then show ?thesis by (simp add: here)
next
  assume "\<exists>b. t = SaveLastMasterchainProvenBlock b (conn_db c)"
  then obtain b where "t = updateLastBlocks_round (Inr b) (conn_db c)" by (auto simp: updateLastBlocks_round_def)
  then show ?thesis using one_service_step[OF service_step.proven] by metis
qed

lemma process_parts_conn [simp]:
  "pr_conn (NewBlockScanner tr p) = pr_conn p" "pr_conn (WithdrawalsProcessor_Start p) = pr_conn p"
  "pr_conn (WithdrawalsProcessor_Stop p) = pr_conn p" "pr_conn (BlockScanner_Stop p) = pr_conn p"
  by (simp_all add: NewBlockScanner_def WithdrawalsProcessor_Start_def WithdrawalsProcessor_Stop_def BlockScanner_Stop_def)

text \<open>The three ways a start leaves the connection.\<close>

lemma main_process_conn:
  obtains (nothing) "pr_conn (main_process lib cfg env p) = pr_conn p"
  | (connected) t where "t = conn_db (pr_conn p) \<or> (\<exists>b. t = SaveLastMasterchainProvenBlock b (conn_db (pr_conn p)))"
      "pr_conn (main_process lib cfg env p) = (pr_conn p)\<lparr>conn_db := t\<rparr>"
  | (started) t where "t = conn_db (pr_conn p) \<or> (\<exists>b. t = SaveLastMasterchainProvenBlock b (conn_db (pr_conn p)))"
      "pr_conn (main_process lib cfg env p) =
         fst (main_start lib cfg (se_bc env) (se_isTimeSynced env) (se_jettons env) (NewConnection t))"
proof -
  let ?n = "blockchain_NewConnection lib (se_chain env) (se_added env) (se_wait env) (se_client env)
    (se_ProofCheckEnabled env) (se_NetworkConfigUrl env) (se_head env) (se_sourcesOfTrust env)
    (se_configFromUrl env) (conn_db (pr_conn p))"
  let ?m = "\<lambda>t. main_start lib cfg (se_bc env) (se_isTimeSynced env) (se_jettons env) (NewConnection t)"
  obtain t r where n: "?n = (t, r)" by (cases ?n)
  have t: "t = conn_db (pr_conn p) \<or> (\<exists>b. t = SaveLastMasterchainProvenBlock b (conn_db (pr_conn p)))"
    using blockchain_NewConnection_tables[of lib "se_chain env" "se_added env" "se_wait env" "se_client env"
        "se_ProofCheckEnabled env" "se_NetworkConfigUrl env" "se_head env" "se_sourcesOfTrust env" "se_configFromUrl env"
        "conn_db (pr_conn p)"] n by simp
  show thesis
  proof (cases "se_dial env")
    case (Inl e)
    then have "pr_conn (main_process lib cfg env p) = pr_conn p" by (simp add: main_process_def)
    then show thesis by (rule nothing)
  next
    case d: (Inr u)
    show thesis
    proof (cases r)
      case (Inl e)
      then have "pr_conn (main_process lib cfg env p) = (pr_conn p)\<lparr>conn_db := t\<rparr>" using d n by (simp add: main_process_def)
      with t show thesis by (rule connected)
    next
      case (Inr x)
      then have "pr_conn (main_process lib cfg env p) = fst (?m t)"
        using d n by (cases "?m t") (auto simp: main_process_def split: sum.splits prod.splits)
      with t show thesis by (rule started)
    qed
  qed
qed

lemma process_step_service:
  assumes "process_step lib cfg cl p l p'"
  shows "service_reach lib cfg (pr_conn p) (pr_conn p')"
  using assms
proof (cases rule: process_step.cases)
  case (start env)
  show ?thesis
  proof (cases rule: main_process_conn[of lib cfg env p])
    case nothing
    with start show ?thesis by (simp add: here)
  next
    case (connected t)
    with start proven_reach[OF connected(1)] show ?thesis by simp
  next
    case (started t)
    have "service_reach lib cfg ((pr_conn p)\<lparr>conn_db := t\<rparr>) (pr_conn p')"
      using one_service_step[OF service_step.start[of lib cfg "(pr_conn p)\<lparr>conn_db := t\<rparr>" "se_bc env" "se_isTimeSynced env" "se_jettons env"]]
        started(2) start(2) by simp
    with proven_reach[OF started(1)] show ?thesis by (rule service_reach_trans)
  qed
next
  case (request h req c logs r)
  then show ?thesis using one_service_step[OF http[of lib cfg "pr_conn p" h req]] by simp
next
  case (round_external q n c logs r)
  then show ?thesis using one_service_step[OF withdraw[of q lib cfg "pr_conn p" n]] by simp
next
  case (round_internal q n c logs r)
  then show ?thesis using one_service_step[OF collect[of lib cfg "pr_conn p" q n]] by simp
next
  case (scan h s c logs pubs r)
  then show ?thesis using one_service_step[OF service_step.scan[of s lib cfg "pr_conn p" h]] by simp
qed (simp_all add: here one_service_step[OF service_step.proven] one_service_step[OF expiration])

lemma process_run_service:
  assumes "process_run lib cfg cl p ls p'"
  shows "service_reach lib cfg (pr_conn p) (pr_conn p')"
  using assms
proof (induction rule: process_run.induct)
  case run_none
  show ?case by (rule here)
next
  case run_more
  then show ?case using process_step_service service_reach_trans by blast
qed

end
