(* ===== verification/Process_Blocks.thy ===== *)
theory Process_Blocks
  imports Process
begin

text \<open>
  The blocks of the chain reach the database without a gap, over crashes and restarts of the process:
  the tracker delivers each block after its parent, the scanner saves it or the process ends, and a new
  process starts its tracker at the last saved block.
\<close>

section \<open>The last saved block\<close>

definition last_id :: "ShardBlockHeader list \<Rightarrow> BlockIDExt option" where
  "last_id hs = (if hs = [] then None else Some (sbh_BlockIDExt (last hs)))"

text \<open>Each block is the child of the block before it.\<close>

definition child_of :: "ShardBlockHeader \<Rightarrow> ShardBlockHeader \<Rightarrow> bool" where
  "child_of a b \<longleftrightarrow> same_block (sbh_Parent b) (sbh_BlockIDExt a) \<and> younger b"

lemma child_seqno: "child_of a b \<Longrightarrow> bid_SeqNo (sbh_BlockIDExt a) < bid_SeqNo (sbh_BlockIDExt b)"
  by (auto simp: child_of_def younger_def same_block_def)

lemma chain_increasing: "successively child_of hs \<Longrightarrow> sorted_wrt (<) (map (bid_SeqNo \<circ> sbh_BlockIDExt) hs)"
proof -
  have "successively (<) (map (bid_SeqNo \<circ> sbh_BlockIDExt) hs)" if "successively child_of hs"
    using that by (induction hs rule: induct_list012) (auto dest: child_seqno)
  then show "successively child_of hs \<Longrightarrow> ?thesis" by (simp add: successively_conv_sorted_wrt)
qed

lemma last_block_row_chain:
  assumes "block_data t = map block_row (hs @ [h])" "successively child_of (hs @ [h])"
  shows "last_block_row t = Some (block_row h)"
proof -
  let ?k = "\<lambda>r. - uint (bd_seqno r)" and ?xs = "map block_row (hs @ [h])"
  obtain r rs where s: "sort_key ?k ?xs = r # rs" by (cases "sort_key ?k ?xs") (auto dest: arg_cong[where f = length])
  have sorted: "sorted (map ?k (r # rs))" using sorted_sort_key[of ?k ?xs] unfolding s .
  have set: "set (r # rs) = set ?xs" using set_sort[of ?k ?xs] unfolding s by simp
  have least: "?k r \<le> ?k x" if "x \<in> set ?xs" for x
  proof -
    have "x \<in> set (r # rs)" using that set by blast
    then show ?thesis using sorted by auto
  qed
  have incr: "bid_SeqNo (sbh_BlockIDExt x) < bid_SeqNo (sbh_BlockIDExt h)" if "x \<in> set hs" for x
    using chain_increasing[OF assms(2)] that by (auto simp: sorted_wrt_append)
  have "r \<in> set ?xs" using set by auto
  then consider "r = block_row h" | x where "x \<in> set hs" "r = block_row x" by auto
  then have "r = block_row h"
  proof cases
    case (2 x)
    with incr[of x] least[of "block_row h"] show ?thesis by (simp add: block_row_def Let_def word_less_def)
  qed
  with s show ?thesis by (simp add: last_block_row_def assms(1))
qed

text \<open>The tracker of a new process starts where the saved blocks end.\<close>

lemma GetLastSavedBlockID_chain:
  assumes "block_data t = map block_row hs" "successively child_of hs"
  shows "(case last_id hs of None \<Rightarrow> GetLastSavedBlockID t = Inl ErrNotFound
     | Some b \<Rightarrow> \<exists>b'. GetLastSavedBlockID t = Inr b' \<and> same_block b' b)"
proof (cases hs rule: rev_cases)
  case Nil
  then show ?thesis using assms(1) by (simp add: last_id_def GetLastSavedBlockID_def last_block_row_def)
next
  case (snoc ys h)
  then show ?thesis using assms last_block_row_chain[of t ys h]
    by (simp add: last_id_def GetLastSavedBlockID_def block_row_def Let_def same_block_def)
qed

lemma tracker_ok_same: "same_block a b \<Longrightarrow> tracker_ok (Some a) s \<longleftrightarrow> tracker_ok (Some b) s"
  using linked_same[of a b] by (simp add: tracker_ok_def tracker_inv_def)

lemma main_start_block:
  assumes "main_start lib cfg bc synced jettons c = (c', logs, Inr (w, blk))"
  shows "GetLastSavedBlockID (conn_db c') = (case blk of Some b \<Rightarrow> Inr b | None \<Rightarrow> Inl ErrNotFound)"
proof -
  have "runs (main_start lib cfg bc synced jettons) c c' (w, blk)" using assms by (simp add: runs_def)
  then obtain c1 w' where "runs ((case GetLastSavedBlockID (conn_db c1) of
        Inr b \<Rightarrow> retA (w', Some b)
      | Inl e \<Rightarrow> if e = ErrNotFound then retA (w', None) else failA (Fatalf ''Get last saved block error'')) :: (Wallets_rec \<times> BlockIDExt option) dbact) c1 c' (w, blk)"
    by (auto simp: main_start_def start_wallets_def runs_bindA split: if_split_asm)
  then show ?thesis by (cases "GetLastSavedBlockID (conn_db c1)") (auto split: if_splits)
qed

section \<open>The invariant\<close>

definition scan_ok :: "process \<Rightarrow> bool" where
  "scan_ok p = (case pr_scan p of
      Scanning h \<Rightarrow> tracker_ok (Some (sbh_BlockIDExt h)) (pr_tracker p) \<and> younger h
        \<and> (\<forall>b. last_id (pr_saved p) = Some b \<longrightarrow> same_block (sbh_Parent h) b)
    | Ended \<Rightarrow> True
    | _ \<Rightarrow> tracker_ok (last_id (pr_saved p)) (pr_tracker p))"

definition block_inv :: "process \<Rightarrow> bool" where
  "block_inv p \<longleftrightarrow> block_data (conn_db (pr_conn p)) = map block_row (pr_saved p) \<and> successively child_of (pr_saved p)
     \<and> (alive p \<longrightarrow> scan_ok p)"

lemma tracker_ok_flag [simp]: "tracker_ok b (s\<lparr>st_gracefulShutdown := f\<rparr>) = tracker_ok b s"
  by (cases b) (simp_all add: tracker_ok_def tracker_inv_def fresh_def)

lemma same_chain_blocks: "chain_tables t' = chain_tables t \<Longrightarrow> block_data t' = block_data t"
  by (simp add: chain_tables_def)

text \<open>A step that leaves the table, the tracker and the scanner alone.\<close>

lemma block_inv_other:
  assumes "block_inv p" "alive p" "chain_tables (conn_db (pr_conn p')) = chain_tables (conn_db (pr_conn p))"
    and "pr_saved p' = pr_saved p" "pr_scan p' = pr_scan p" "pr_tracker p' = pr_tracker p"
  shows "block_inv p'"
proof -
  have "scan_ok p' = scan_ok p" unfolding scan_ok_def assms(4-6) ..
  then show ?thesis using assms same_chain_blocks[OF assms(3)] by (simp add: block_inv_def)
qed

lemma main_process_block_inv:
  assumes "block_inv p" "\<not> alive p"
  shows "block_inv (main_process lib cfg env p)"
proof -
  let ?p' = "main_process lib cfg env p"
  have saved: "pr_saved ?p' = pr_saved p"
    by (auto simp: main_process_def NewBlockScanner_def WithdrawalsProcessor_Start_def split: sum.splits prod.splits)
  have chain: "chain_tables (conn_db (pr_conn ?p')) = chain_tables (conn_db (pr_conn p))"
  proof (cases rule: main_process_conn[of lib cfg env p])
    case (started t)
    then have "chain_tables (conn_db (pr_conn ?p')) = chain_tables t"
      using chain.frame_main[where c = "(pr_conn p)\<lparr>conn_db := t\<rparr>"] by simp
    with started(1) request_tables(7) show ?thesis by auto
  qed (auto simp: request_tables(7))
  have rows: "block_data (conn_db (pr_conn ?p')) = map block_row (pr_saved p)"
    using assms(1) same_chain_blocks[OF chain] by (simp add: block_inv_def)
  have "scan_ok ?p'" if "alive ?p'"
  proof -
    from that assms(2) obtain t c logs w blk where
      m: "main_start lib cfg (se_bc env) (se_isTimeSynced env) (se_jettons env) (NewConnection t) = (c, logs, Inr (w, blk))"
      and p': "pr_conn ?p' = c" "pr_scan ?p' = Fetching" "pr_tracker ?p' = NewShardTracker (wl_Shard w) blk"
      by (auto simp: main_process_def alive_def NewBlockScanner_def WithdrawalsProcessor_Start_def split: sum.splits prod.splits)
    have "case last_id (pr_saved p) of None \<Rightarrow> blk = None | Some b \<Rightarrow> \<exists>b'. blk = Some b' \<and> same_block b' b"
      using GetLastSavedBlockID_chain[OF rows] main_start_block[OF m] assms(1) p'(1)
      by (auto simp: block_inv_def split: option.splits)
    then show ?thesis using NewShardTracker_ok[of blk "wl_Shard w"] p' saved tracker_ok_same
      by (auto simp: scan_ok_def split: option.splits)
  qed
  then show ?thesis using assms(1) rows saved by (simp add: block_inv_def)
qed

lemma scan_block_inv:
  assumes "block_inv p" "alive p" "pr_scan p = Scanning h" "processBlock s h (pr_conn p) = (c, logs, pubs, r)"
  shows "block_inv (p\<lparr>pr_conn := c, pr_scan := Fetching, pr_fatal := died r, pr_saved := pr_saved p @ saved_now h (pr_conn p) c\<rparr>)"
proof -
  have h: "tracker_ok (Some (sbh_BlockIDExt h)) (pr_tracker p)" "younger h"
    "\<forall>b. last_id (pr_saved p) = Some b \<longrightarrow> same_block (sbh_Parent h) b"
    using assms(1-3) by (simp_all add: block_inv_def scan_ok_def)
  have chained: "successively child_of (pr_saved p @ [h])"
    using assms(1) h(2,3) by (cases "pr_saved p = []") (simp_all add: block_inv_def successively_append_iff last_id_def child_of_def)
  from processBlock_block_data[OF assms(4)] show ?thesis
  proof
    assume "block_data (conn_db c) = block_data (conn_db (pr_conn p)) \<and> (\<exists>e. r = Inl e)"
    then show ?thesis using assms(1) by (auto simp: block_inv_def saved_now_def died_def alive_def)
  next
    assume "block_data (conn_db c) = block_data (conn_db (pr_conn p)) @ [block_row h]"
    then show ?thesis using assms(1) h(1) chained by (auto simp: block_inv_def saved_now_def scan_ok_def last_id_def)
  qed
qed

lemma process_step_block_inv:
  assumes "process_step lib cfg cl p l p'" "block_inv p" "parents_older cl"
  shows "block_inv p'"
  using assms(1)
proof (cases rule: process_step.cases)
  case (start env)
  then show ?thesis using main_process_block_inv[OF assms(2)] by simp
next
  case (request h req c logs r)
  then show ?thesis using block_inv_other[OF assms(2) request(3)] preservesD[OF chain.frame_serve, of h req "pr_conn p"] by simp
next
  case (round_external q n c logs r)
  then show ?thesis
    using block_inv_other[OF assms(2) round_external(3)] preservesD[OF chain.frame_withdrawals, of q n "pr_conn p"] by simp
next
  case (round_internal q n c logs r)
  then show ?thesis
    using block_inv_other[OF assms(2) round_internal(3)] preservesD[OF chain.frame_collect, of q n "pr_conn p"] by simp
next
  case (stop_scanner)
  then show ?thesis using assms(2)
    by (auto simp: block_inv_def scan_ok_def BlockScanner_Stop_def Stop_def alive_def split: scan_phase.splits)
next
  case (load k s h)
  have "tracker_ok (last_id (pr_saved p)) ((pr_tracker p)\<lparr>st_gracefulShutdown := False\<rparr>)"
    using assms(2) load by (simp add: block_inv_def scan_ok_def)
  from NextBlock_ok(1)[OF load(5) this assms(3)] show ?thesis
    using assms(2) load by (auto simp: block_inv_def scan_ok_def)
next
  case (scan h s c logs pubs r)
  then show ?thesis using scan_block_inv[OF assms(2)] by simp
next
  case (proven lastBlock)
  then show ?thesis using block_inv_other[OF assms(2) proven(3)] chain.frame_last_block by simp
next
  case (round_expiration now1 now2)
  then show ?thesis using block_inv_other[OF assms(2) round_expiration(3)] chain.frame_expired by simp
next
  case (stop_processors)
  then show ?thesis using block_inv_other[OF assms(2) stop_processors(3)] by (simp add: WithdrawalsProcessor_Stop_def)
next
  case (fetch)
  then show ?thesis using assms(2) by (simp add: block_inv_def scan_ok_def alive_def)
qed (use assms(2) in \<open>simp_all add: block_inv_other, simp_all add: block_inv_def scan_ok_def alive_def\<close>)

text \<open>
  C3.  No block is lost or repeated, over crashes and restarts.  From a database without blocks,
  however the goroutines of the process interleave and however often it ends and starts again, the
  table of blocks holds exactly the blocks that were saved, in order, and each of them is the child of
  the block saved before it.
\<close>

theorem saved_blocks_chain:
  assumes "process_run lib cfg cl (no_process c) ls p" "block_data (conn_db c) = []" "parents_older cl"
  shows "block_data (conn_db (pr_conn p)) = map block_row (pr_saved p)
    \<and> successively (\<lambda>a b. same_block (sbh_Parent b) (sbh_BlockIDExt a)) (pr_saved p)"
proof -
  have "block_inv (no_process c)" using assms(2) by (simp add: block_inv_def no_process_def alive_def)
  moreover have "block_inv p" if "process_run lib cfg cl q ls p" "block_inv q" for q
    using that by (induction rule: process_run.induct) (auto intro: process_step_block_inv[OF _ _ assms(3)])
  ultimately have "block_inv p" using assms(1) by blast
  then show ?thesis by (auto simp: block_inv_def child_of_def elim: successively_mono)
qed

section \<open>A sample run\<close>

text \<open>A node whose shard grows with every masterchain block, and a start where everything answers.\<close>

definition growing_client :: client where
  "growing_client = sample_client\<lparr>cl_GetBlockShardsInfo := (\<lambda>m k i. Inr [sample_block_id (5 + bid_SeqNo m)])\<rparr>"

lemma growing_client_documented: "parents_older growing_client"
  using sample_client_documented(2) by (simp add: parents_older_def growing_client_def)

definition sample_env :: start_env where
  "sample_env =
     \<lparr>se_dial = Inr (),
      se_chain = \<lparr>gl_FromBOC = (\<lambda>_. Inr 0), gl_CheckShardMcStateExtraProof = (\<lambda>_ _. Inr 0),
                  gl_CurrentMasterchainInfo = Inr (sample_block_id 0), gl_GetBlockchainConfig = (\<lambda>_ _. Inr (\<lambda>_. Some 0)),
                  gl_ToCell = Inr, gl_ToBOC = (\<lambda>_. []), gl_DeserializeBoc = (\<lambda>_. Inr [0]), gl_LoadSlice = (\<lambda>_ _. Inr [])\<rparr>,
      se_added = Inr (), se_wait = (\<lambda>_. Inr ()),
      se_client = \<lparr>lc_QueryLiteserver = (\<lambda>_. Inr (ConfigAll [] [])), lc_StickyContext = id, lc_StickyNodeID = (\<lambda>_. 0),
                   lc_StickyContextNextNode = Inr, lc_StickyContextNextNodeBalanced = Inr\<rparr>,
      se_ProofCheckEnabled = False, se_NetworkConfigUrl = [], se_head = Inr (sample_block_id 0), se_sourcesOfTrust = [],
      se_configFromUrl = Inr 0, se_bc = sample_bc, se_isTimeSynced = Inr True, se_jettons = sample_jettons,
      se_amqp = sample_amqp, se_clients = sample_clients\<rparr>"

lemma sample_connected:
  "blockchain_NewConnection sample_lib (se_chain sample_env) (se_added sample_env) (se_wait sample_env) (se_client sample_env)
     (se_ProofCheckEnabled sample_env) (se_NetworkConfigUrl sample_env) (se_head sample_env) (se_sourcesOfTrust sample_env)
     (se_configFromUrl sample_env) t = (t, Inr (Unchecked, lib_NewAddress sample_lib 0 255 [], 0))"
  by (simp add: sample_env_def blockchain_NewConnection_def connection_trust_def getConfigData_def wrapf_def
      getBlockchainConfig_def newLimitedClient_def limited_QueryLiteserver_def sample_lib_def)

lemma sample_book: "LoadAddressBook (NewConnection empty_tables) = (sample_conn0, Inr ())"
  by (simp add: LoadAddressBook_def NewConnection_def empty_tables_def left_join_def sample_conn0_def Let_def)

lemma sample_main_start:
  obtains c logs w where
    "main_start sample_lib sample_config sample_bc (Inr True) sample_jettons (NewConnection empty_tables) = (c, logs, Inr (w, None))"
    "wl_Shard w = 0" "conn_addressBook c \<noteq> None" "block_data (conn_db c) = []"
proof -
  obtain c logs w where i: "InitWallets sample_lib sample_config sample_bc [] sample_jettons sample_conn0 = (c, logs, Inr w)"
    "wl_Shard w = 0"
    using sample_init by (metis prod.collapse Wallets_rec.select_convs(1))
  have c: "conn_addressBook c \<noteq> None" "block_data (conn_db c) = []"
    using i(1) by (simp_all add: InitWallets_def bindA_def check_cold_wallet_def retA_def sample_config_def initTonHotWallet_def
      sample_bc_def liftE_def liftA_def AddressMustFromTonutilsAddress_def sample_hot_def read_db_def
      GetTonHotWalletAddress_def sample_conn0_def empty_tables_def check_saved_def save_hot_def connA_def
      SaveTonWallet_def insert_ton_wallet_def put_info_def addressBook_put_def sample_jettons_def
      init_jetton_def initJettonHotWallet_def GetJettonWallet_def SaveJettonWallet_def insert_jetton_wallet_def
      ok_def fail_def lift_res_def Let_def, auto)
  have "cfg_Seed sample_config = []" by (simp add: sample_config_def)
  then have "main_start sample_lib sample_config sample_bc (Inr True) sample_jettons (NewConnection empty_tables) = (c, logs, Inr (w, None))"
    using i(1) c(2) by (simp add: main_start_def start_wallets_def bindA_def fatalA_def connA_def sample_book liftE_def liftA_def
      read_db_def GetLastSavedBlockID_def retA_def lift_res_def
      last_block_row_def ok_def)
  then show thesis using i(2) c that by blast
qed

lemma sample_next:
  obtains s where "NextBlock sample_config growing_client (\<lambda>_ _. False) 0 (NewShardTracker 0 None) = Some (2, s, Inr (Some (sample_header 6)))"
proof -
  let ?s0 = "NewShardTracker 0 None"
  let ?s1 = "?s0\<lparr>st_lastMasterBlock := Some (sample_block_id 0)\<rparr>"
  let ?s2 = "?s1\<lparr>st_lastKnownShardBlock := Some (sample_block_id 5)\<rparr>"
  let ?s3 = "?s2\<lparr>st_lastMasterBlock := Some (sample_block_id 1)\<rparr>"
  let ?s4 = "?s3\<lparr>st_lastKnownShardBlock := Some (sample_block_id 6), st_buffer := [sample_header 6]\<rparr>"
  have m: "getNextMasterBlockID growing_client 0 ?s0 = Some (1, ?s1, Inr (sample_block_id 0))"
    "getNextMasterBlockID growing_client 1 ?s2 = Some (2, ?s3, Inr (sample_block_id 1))"
    by (simp_all add: getNextMasterBlockID.simps growing_client_def sample_client_def NewShardTracker_def sample_block_id_def)
  have shards: "poll (\<lambda>k. retry sample_config (cl_GetBlockShardsInfo growing_client m k)) 0 = Some (Inr [sample_block_id (5 + bid_SeqNo m)])" for m
    by (simp add: poll.simps retry_def sample_config_def growing_client_def)
  have f: "filterByShard [sample_block_id n] 0 = Inr (sample_block_id n)" for n by (simp add: sample_block_id_def)
  have seq: "bid_SeqNo (sample_block_id n) = n" for n by (simp add: sample_block_id_def)
  have hd: "getShardBlocksHeader sample_config growing_client (sample_block_id 6) 0 = Some (Inr (sample_header 6))"
    using sample_client_header[of 0] by (simp add: getShardBlocksHeader_def growing_client_def)
  have l1: "loadShardBlocksBatch sample_config growing_client (\<lambda>_. False) ?s1 (sample_block_id 0) = Some (?s2, Inr False)"
    by (simp add: loadShardBlocksBatch_def shards f seq getShardBlocks_def NewShardTracker_def shard_loop.simps same_block_def del: filterByShard.simps)
  have "shard_loop sample_config growing_client 0 (\<lambda>_. False) (Some (sample_block_id 5)) 0 [] (sample_block_id 6)
      = Some (Some (sample_block_id 5), Inr ([sample_header 6], False))"
    using shard_loop_complete[OF growing_client_documented, of "sample_block_id 6" "[sample_header 6]" "sample_block_id 5"
        "sample_block_id 5" sample_config 0 0 "[]"] hd by (simp add: sample_header_def)
  then have l2: "loadShardBlocksBatch sample_config growing_client (\<lambda>_. False) ?s3 (sample_block_id 1) = Some (?s4, Inr False)"
    by (simp add: loadShardBlocksBatch_def shards f seq getShardBlocks_def NewShardTracker_def del: filterByShard.simps) (simp add: sample_header_def)
  have g: "getNext ?s0 = (?s0, None)" "getNext ?s2 = (?s2, None)" "getNext ?s4 = (?s4\<lparr>st_buffer := []\<rparr>, Some (sample_header 6))"
    by (simp_all add: getNext_def NewShardTracker_def)
  have n: "\<not> st_gracefulShutdown ?s0" "\<not> st_gracefulShutdown ?s2" "\<not> st_gracefulShutdown ?s4" by (simp_all add: NewShardTracker_def)
  have "NextBlock sample_config growing_client (\<lambda>_ _. False) 0 ?s0 = NextBlock sample_config growing_client (\<lambda>_ _. False) 1 ?s2"
    by (subst NextBlock.simps) (simp only: n g m l1 prod.case option.case sum.case if_False)
  also have "\<dots> = NextBlock sample_config growing_client (\<lambda>_ _. False) 2 ?s4"
    by (subst NextBlock.simps) (simp only: n g m l2 prod.case option.case sum.case if_False)
  also have "\<dots> = Some (2, ?s4\<lparr>st_buffer := []\<rparr>, Inr (Some (sample_header 6)))"
    by (subst NextBlock.simps) (simp only: n g prod.case option.case if_False)
  finally show thesis by (rule that)
qed

definition sample_quiet_scanner :: scanner where
  "sample_quiet_scanner = sample_scanner\<lparr>bs_lib := sample_lib\<rparr>"

lemma sample_quiet:
  assumes "conn_addressBook c = Some b" "block_data (conn_db c) = []"
  obtains c' logs where "processBlock sample_quiet_scanner (sample_header 6) c = (c', logs, [], Inr ())"
    "block_data (conn_db c') = [block_row (sample_header 6)]"
proof -
  have "\<exists>c' logs. processBlock sample_quiet_scanner (sample_header 6) c = (c', logs, [], Inr ())"
    using assms by (auto simp: sample_quiet_scanner_def sample_scanner_def processBlock_def andThenR_def filterTXs_def processTXs_def
      SaveParsedBlockData_def parsed_block_tx_def saveBlock_def ok_def Let_def pushNotifications_def no_events_def)
  then obtain c' logs where p: "processBlock sample_quiet_scanner (sample_header 6) c = (c', logs, [], Inr ())" by blast
  with processBlock_block_data[OF p] assms(2) that show thesis by auto
qed

text \<open>The process starts, loads block 6 and saves it.\<close>

lemma sample_process_run:
  obtains p where "process_run sample_lib sample_config growing_client (no_process (NewConnection empty_tables)) [Started, Fetch, Load, Scan] p"
    "pr_saved p = [sample_header 6]" "alive p" "pr_signal p = NoSignal" "pr_scan p = Fetching" "pr_wg p = 4"
proof -
  let ?p0 = "no_process (NewConnection empty_tables)"
  let ?p1 = "main_process sample_lib sample_config sample_env ?p0"
  obtain c logs w where m: "main_start sample_lib sample_config sample_bc (Inr True) sample_jettons (NewConnection empty_tables)
      = (c, logs, Inr (w, None))" "wl_Shard w = 0" "conn_addressBook c \<noteq> None" "block_data (conn_db c) = []"
    by (rule sample_main_start)
  obtain nts where nts: "main_notificators sample_amqp sample_clients = Inr nts"
    by (simp add: main_notificators_def sample_clients_def NewWebhookClient_def)
  have env: "se_dial sample_env = Inr ()" "se_bc sample_env = sample_bc" "se_isTimeSynced sample_env = Inr True"
    "se_jettons sample_env = sample_jettons" "se_amqp sample_env = sample_amqp" "se_clients sample_env = sample_clients"
    by (simp_all add: sample_env_def)
  have db: "conn_db (pr_conn ?p0) = empty_tables" "pr_saved ?p0 = []" "pr_polls ?p0 = 0"
    by (simp_all add: no_process_def NewConnection_def)
  have p1: "pr_conn ?p1 = c" "pr_tracker ?p1 = NewShardTracker 0 None" "pr_scan ?p1 = Fetching" "alive ?p1" "pr_saved ?p1 = []"
      "pr_polls ?p1 = 0" "pr_signal ?p1 = NoSignal" "pr_wg ?p1 = 4"
    using m db nts by (simp_all add: main_process_def env sample_connected NewBlockScanner_def WithdrawalsProcessor_Start_def alive_def)
  have r1: "process_run sample_lib sample_config growing_client ?p0 ([] @ [Started]) ?p1"
    by (intro run_more[OF run_none] process_step.start) (simp add: alive_def no_process_def)
  let ?p2 = "?p1\<lparr>pr_scan := Loading\<rparr>"
  have r2: "process_run sample_lib sample_config growing_client ?p0 (([] @ [Started]) @ [Fetch]) ?p2"
    by (rule run_more[OF r1], rule process_step.fetch) (simp_all add: p1 NewShardTracker_def)
  have a2: "alive ?p2" using p1(4) by (simp add: alive_def)
  obtain s where "NextBlock sample_config growing_client (\<lambda>_ _. False) 0 (NewShardTracker 0 None) = Some (2, s, Inr (Some (sample_header 6)))"
    by (rule sample_next)
  then have found: "NextBlock sample_config growing_client (\<lambda>_ _. False) (pr_polls ?p2) ((pr_tracker ?p2)\<lparr>st_gracefulShutdown := False\<rparr>)
      = Some (2, s, Inr (Some (sample_header 6)))"
    by (simp add: p1 NewShardTracker_def)
  let ?p3 = "?p2\<lparr>pr_tracker := s\<lparr>st_gracefulShutdown := st_gracefulShutdown (pr_tracker ?p2)\<rparr>, pr_polls := 2, pr_scan := Scanning (sample_header 6)\<rparr>"
  have r3: "process_run sample_lib sample_config growing_client ?p0 ((([] @ [Started]) @ [Fetch]) @ [Load]) ?p3"
    by (rule run_more[OF r2], rule process_step.load[OF a2 _ found]) simp
  have a3: "alive ?p3" using p1(4) by (simp add: alive_def)
  obtain c' logs' where q: "processBlock sample_quiet_scanner (sample_header 6) (pr_conn ?p3) = (c', logs', [], Inr ())"
    "block_data (conn_db c') = [block_row (sample_header 6)]"
    using sample_quiet[of c] m(3,4) p1(1) by auto
  let ?p4 = "?p3\<lparr>pr_conn := c', pr_scan := Fetching, pr_fatal := died (Inr ()), pr_saved := pr_saved ?p3 @ saved_now (sample_header 6) (pr_conn ?p3) c'\<rparr>"
  have "process_run sample_lib sample_config growing_client ?p0 (((([] @ [Started]) @ [Fetch]) @ [Load]) @ [Scan]) ?p4"
    by (rule run_more[OF r3], rule process_step.scan[OF a3 _ _ q(1)]) (simp_all add: sample_quiet_scanner_def)
  moreover have "pr_saved ?p4 = [sample_header 6]" "alive ?p4" "pr_signal ?p4 = NoSignal" "pr_scan ?p4 = Fetching" "pr_wg ?p4 = 4"
    using q(2) m(4) p1 by (simp_all add: saved_now_def died_def alive_def)
  ultimately show thesis using that by simp
qed

theorem saved_blocks_chain_witness:
  "\<exists>p :: process. pr_saved p = [sample_header 6] \<and> block_data (conn_db (pr_conn p)) = [block_row (sample_header 6)]"
proof -
  obtain p where p: "process_run sample_lib sample_config growing_client (no_process (NewConnection empty_tables)) [Started, Fetch, Load, Scan] p"
    "pr_saved p = [sample_header 6]" by (rule sample_process_run)
  have "block_data (conn_db (NewConnection empty_tables)) = []" by (simp add: NewConnection_def empty_tables_def)
  from saved_blocks_chain[OF p(1) this growing_client_documented] p(2) show ?thesis by (intro exI[of _ p]) simp
qed



end
