(* ===== verification/Shutdown.thy ===== *)
theory Shutdown
  imports Process_Blocks
begin

text \<open>
  The graceful shutdown of the process: the flags set by the signal handler of
  \<open>src/cmd/processor/main.go\<close> end every goroutine after at most one more round, and the wait group
  counts exactly the goroutines that have not ended.
\<close>

section \<open>What is left to do\<close>

primrec phase_left :: "phase \<Rightarrow> nat" where
  "phase_left Finished = 0"
| "phase_left Checking = 1"
| "phase_left Waiting = 2"
| "phase_left Working = 3"

primrec scan_left :: "scan_phase \<Rightarrow> nat" where
  "scan_left Ended = 0"
| "scan_left Fetching = 1"
| "scan_left (Scanning h) = 2"
| "scan_left Loading = 3"

definition work_left :: "(worker \<Rightarrow> phase) \<Rightarrow> nat" where
  "work_left f = phase_left (f External) + phase_left (f Internal) + phase_left (f Expiration)"

definition left :: "process \<Rightarrow> nat" where
  "left p = (if alive p then work_left (pr_phase p) + scan_left (pr_scan p) else 0)"

text \<open>The goroutines that have not ended.\<close>

definition busy :: "(worker \<Rightarrow> phase) \<Rightarrow> nat" where
  "busy f = length (filter (\<lambda>w. f w \<noteq> Finished) [External, Internal, Expiration])"

definition running :: "process \<Rightarrow> nat" where
  "running p = busy (pr_phase p) + (if pr_scan p = Ended then 0 else 1)"

lemma busy_update [simp]:
  "ph \<noteq> Finished \<Longrightarrow> f w \<noteq> Finished \<Longrightarrow> busy (f(w := ph)) = busy f"
  "f w \<noteq> Finished \<Longrightarrow> busy (f(w := Finished)) = busy f - 1"
  "busy (\<lambda>_. Finished) = 0" "busy (\<lambda>_. Waiting) = 3"
  "f w \<noteq> Finished \<Longrightarrow> 0 < busy f"
  by (cases w; simp add: busy_def)+

lemma all_workers: "(\<forall>w. P w) \<longleftrightarrow> P External \<and> P Internal \<and> P Expiration"
  using worker.exhaust by metis

lemma busy_none: "busy f = 0 \<longleftrightarrow> (\<forall>w. f w = Finished)"
  by (simp add: busy_def all_workers)

lemma work_left_update: "work_left (f(w := ph)) + phase_left (f w) = work_left f + phase_left ph"
  by (cases w) (simp_all add: work_left_def)

lemma left_bound: "left p \<le> 12"
proof -
  have "phase_left ph \<le> 3" "scan_left sp \<le> 3" for ph sp by (cases ph; simp) (cases sp; simp)
  from this(1)[of "pr_phase p External"] this(1)[of "pr_phase p Internal"] this(1)[of "pr_phase p Expiration"] this(2)[of "pr_scan p"]
  show ?thesis by (simp add: left_def work_left_def)
qed

text \<open>The steps of the goroutines, as opposed to requests, signals and the proof of blocks.\<close>

definition of_goroutine :: "label \<Rightarrow> bool" where
  "of_goroutine l = (case l of Sync w \<Rightarrow> True | Check w \<Rightarrow> True | Round w \<Rightarrow> True | Fetch \<Rightarrow> True | Load \<Rightarrow> True | Scan \<Rightarrow> True | _ \<Rightarrow> False)"

lemma of_goroutine_simps [simp]:
  "of_goroutine (Sync w)" "of_goroutine (Check w)" "of_goroutine (Round w)" "of_goroutine Fetch" "of_goroutine Load" "of_goroutine Scan"
  "\<not> of_goroutine Started" "\<not> of_goroutine Request" "\<not> of_goroutine Proven" "\<not> of_goroutine Signalled"
  "\<not> of_goroutine StopScanner" "\<not> of_goroutine StopProcessors" "\<not> of_goroutine Crashed"
  by (simp_all add: of_goroutine_def)

section \<open>The flags\<close>

definition stopped :: "process \<Rightarrow> bool" where
  "stopped p \<longleftrightarrow> pr_gracefulShutdown p \<and> (pr_scan p \<noteq> Ended \<longrightarrow> st_gracefulShutdown (pr_tracker p))"

definition shutdown_inv :: "process \<Rightarrow> bool" where
  "shutdown_inv p \<longleftrightarrow> (\<not> pr_fatal p \<longrightarrow> pr_wg p = running p \<and> (pr_signal p = AllStopped \<longrightarrow> stopped p)
     \<and> (pr_signal p = ScannerStopped \<longrightarrow> pr_scan p \<noteq> Ended \<longrightarrow> st_gracefulShutdown (pr_tracker p)))"

lemmas process_ops = NewBlockScanner_def WithdrawalsProcessor_Start_def WithdrawalsProcessor_Stop_def BlockScanner_Stop_def Stop_def

lemma shutdown_inv_start: "shutdown_inv p \<Longrightarrow> \<not> alive p \<Longrightarrow> shutdown_inv (main_process lib cfg env p)"
  by (auto simp: shutdown_inv_def main_process_def process_ops running_def split: sum.splits prod.splits)

lemma shutdown_inv_step:
  assumes "process_step lib cfg cl p l p'" "shutdown_inv p"
  shows "shutdown_inv p'"
  using assms(1)
proof (cases rule: process_step.cases)
  case (start env)
  with assms(2) show ?thesis by (simp add: shutdown_inv_start)
next
  case (quit w)
  then have "0 < busy (pr_phase p)" by (intro busy_update(5)[of _ w]) simp
  with quit show ?thesis using assms(2) by (auto simp: shutdown_inv_def alive_def stopped_def running_def)
qed (use assms(2) in \<open>simp_all add: shutdown_inv_def alive_def stopped_def running_def process_ops\<close>)

lemma shutdown_inv_run: "process_run lib cfg cl p ls p' \<Longrightarrow> shutdown_inv p \<Longrightarrow> shutdown_inv p'"
  by (induction rule: process_run.induct) (auto intro: shutdown_inv_step)

section \<open>Every step is one less\<close>

lemma stopped_keeps:
  assumes "process_step lib cfg cl p l p'" "stopped p" "l \<noteq> Started"
  shows "stopped p'"
  using assms by (cases rule: process_step.cases) (auto simp: stopped_def process_ops)

lemma stopped_left:
  assumes "process_step lib cfg cl p l p'" "stopped p" "l \<noteq> Started"
  shows "left p' + (if of_goroutine l then 1 else 0) \<le> left p"
  using assms(1)
proof (cases rule: process_step.cases)
  case (synced w now)
  then show ?thesis using work_left_update[of "pr_phase p" w Checking] by (auto simp: left_def alive_def)
next
  case (quit w)
  then show ?thesis using work_left_update[of "pr_phase p" w Finished] by (auto simp: left_def alive_def)
next
  case (go w)
  then show ?thesis using assms(2) by (simp add: stopped_def)
next
  case (round_external q n c logs r)
  then show ?thesis using work_left_update[of "pr_phase p" External Waiting] by (auto simp: left_def alive_def)
next
  case (round_internal q n c logs r)
  then show ?thesis using work_left_update[of "pr_phase p" Internal Waiting] by (auto simp: left_def alive_def)
next
  case (round_expiration now1 now2)
  then show ?thesis using work_left_update[of "pr_phase p" Expiration Waiting] by (auto simp: left_def alive_def)
qed (use assms(2,3) in \<open>auto simp: left_def alive_def stopped_def process_ops\<close>)

text \<open>The rounds and blocks still to come.\<close>

definition rounds_left :: "worker \<Rightarrow> process \<Rightarrow> nat" where
  "rounds_left w p = (if pr_phase p w = Working then 1 else 0)"

definition blocks_left :: "process \<Rightarrow> nat" where
  "blocks_left p = (case pr_scan p of Loading \<Rightarrow> 1 | Scanning h \<Rightarrow> 1 | _ \<Rightarrow> 0)"

lemma stopped_rounds:
  assumes "process_step lib cfg cl p l p'" "stopped p" "l \<noteq> Started"
  shows "rounds_left w p' + (if l = Round w then 1 else 0) \<le> rounds_left w p"
    "blocks_left p' + (if l = Scan then 1 else 0) \<le> blocks_left p"
  using assms by (cases rule: process_step.cases; auto simp: rounds_left_def blocks_left_def stopped_def process_ops)+

lemma count_run:
  assumes "process_run lib cfg cl p ls p'" "Started \<notin> set ls" "stopped p"
    and "\<And>q l q'. process_step lib cfg cl q l q' \<Longrightarrow> stopped q \<Longrightarrow> l \<noteq> Started \<Longrightarrow> m q' + (if P l then 1 else 0) \<le> (m q :: nat)"
  shows "stopped p' \<and> m p' + length (filter P ls) \<le> m p"
  using assms(1-3)
proof (induction rule: process_run.induct)
  case (run_more p ls p' l p'')
  then have "stopped p'" "m p' + length (filter P ls) \<le> m p" "l \<noteq> Started" by auto
  with run_more(2) stopped_keeps[OF run_more(2)] assms(4)[OF run_more(2)] show ?case by auto
qed simp

section \<open>Progress\<close>

text \<open>The masterchain keeps growing: whatever the last known block, the node answers with another one
  (or with an error) sooner or later.\<close>

definition masterchain_grows :: "client \<Rightarrow> bool" where
  "masterchain_grows cl \<longleftrightarrow>
     (\<forall>k n. \<exists>j\<ge>k. case cl_GetMasterchainInfo cl j of Inl e \<Rightarrow> True | Inr m \<Rightarrow> bid_SeqNo m \<noteq> n)"

lemma getNextMasterBlockID_returns:
  assumes "masterchain_grows cl"
  shows "\<exists>k' s' r. getNextMasterBlockID cl k s = Some (k', s', r)"
proof (cases "st_lastMasterBlock s")
  case None
  then show ?thesis by (subst getNextMasterBlockID.simps) (auto split: sum.splits)
next
  case (Some b)
  obtain j where "j \<ge> k" and j: "case cl_GetMasterchainInfo cl j of Inl e \<Rightarrow> True | Inr m \<Rightarrow> bid_SeqNo m \<noteq> bid_SeqNo b"
    using assms by (auto simp: masterchain_grows_def)
  from \<open>j \<ge> k\<close> show ?thesis
  proof (induction k rule: inc_induct)
    case base
    with j Some show ?case by (subst getNextMasterBlockID.simps) (auto split: sum.splits)
  next
    case (step i)
    with Some show ?case by (subst getNextMasterBlockID.simps) (auto split: sum.splits)
  qed
qed

lemma getNextMasterBlockID_flag:
  "getNextMasterBlockID cl k s = Some y \<Longrightarrow> y = (k', s', r)
    \<Longrightarrow> getNextMasterBlockID cl k (s\<lparr>st_gracefulShutdown := b\<rparr>) = Some (k', s'\<lparr>st_gracefulShutdown := b\<rparr>, r)"
proof (induction rule: getNextMasterBlockID.raw_induct[rotated, consumes 1, case_names step])
  case (step rec cl k s y)
  from step(2) step(3) show ?case
    by (subst getNextMasterBlockID.simps) (auto split: sum.splits option.splits if_splits dest!: step(1))
qed

lemma load_progress:
  assumes "alive p" "pr_scan p = Loading" "st_gracefulShutdown (pr_tracker p)" "masterchain_grows cl"
  shows "\<exists>p'. process_step lib cfg cl p Load p'"
proof (cases "st_buffer (pr_tracker p)")
  case (Cons h hs)
  let ?s = "(pr_tracker p)\<lparr>st_gracefulShutdown := False\<rparr>"
  have "NextBlock cfg cl (\<lambda>_ _. False) (pr_polls p) ?s = Some (pr_polls p, ?s\<lparr>st_buffer := hs\<rparr>, Inr (Some h))"
    using Cons by (subst NextBlock.simps) (simp add: getNext_def)
  from process_step.load[OF assms(1,2) this] show ?thesis by blast
next
  case Nil
  let ?s = "(pr_tracker p)\<lparr>st_gracefulShutdown := False\<rparr>"
  obtain k s r where g: "getNextMasterBlockID cl (pr_polls p) (pr_tracker p) = Some (k, s, r)"
    using getNextMasterBlockID_returns[OF assms(4)] by blast
  show ?thesis
  proof (cases r)
    case (Inr m)
    then show ?thesis using process_step.load_stopped[OF assms(1,2,3) Nil] g by blast
  next
    case (Inl e)
    have "NextBlock cfg cl (\<lambda>_ _. False) (pr_polls p) ?s = Some (k, s\<lparr>st_gracefulShutdown := False\<rparr>, Inl e)"
      using Nil getNextMasterBlockID_flag[OF g refl, of False] Inl by (subst NextBlock.simps) (simp add: getNext_def)
    from process_step.load_error[OF assms(1,2) this] show ?thesis by blast
  qed
qed

lemma worker_progress:
  assumes "alive p" "pr_gracefulShutdown p" "pr_phase p w \<noteq> Finished"
  shows "\<exists>l p'. of_goroutine l \<and> process_step lib cfg cl p l p'"
proof (cases "pr_phase p w")
  case Waiting
  then show ?thesis using process_step.synced[OF assms(1)] assms(2) of_goroutine_simps(1) by blast
next
  case Checking
  then show ?thesis using process_step.quit[OF assms(1)] assms(2) of_goroutine_simps(2) by blast
next
  case Working
  have filed: "filed_by_currency (wp_JettonHotWallets (undefined\<lparr>wp_JettonHotWallets := []\<rparr>))" by (simp add: filed_by_currency_def)
  have "\<exists>p'. process_step lib cfg cl p (Round w) p'"
  proof (cases w)
    case External
    with Working process_step.round_external[OF assms(1) _ filed] prod_cases3 show ?thesis by metis
  next
    case Internal
    with Working process_step.round_internal[OF assms(1)] prod_cases3 show ?thesis by metis
  next
    case Expiration
    with Working process_step.round_expiration[OF assms(1)] show ?thesis by blast
  qed
  then show ?thesis using of_goroutine_simps(3) by blast
qed (use assms(3) in simp)

lemma scanner_progress:
  assumes "alive p" "st_gracefulShutdown (pr_tracker p)" "pr_scan p \<noteq> Ended" "masterchain_grows cl"
  shows "\<exists>l p'. of_goroutine l \<and> process_step lib cfg cl p l p'"
proof (cases "pr_scan p")
  case Fetching
  then show ?thesis using process_step.fetch_stopped[OF assms(1)] assms(2) of_goroutine_simps(4) by blast
next
  case Loading
  then show ?thesis using load_progress[OF assms(1) _ assms(2,4)] of_goroutine_simps(5) by blast
next
  case (Scanning h)
  have "bs_lib (undefined\<lparr>bs_lib := lib\<rparr>) = lib" by simp
  moreover obtain c logs pubs r where "processBlock (undefined\<lparr>bs_lib := lib\<rparr>) h (pr_conn p) = (c, logs, pubs, r)"
    by (rule prod_cases4)
  ultimately show ?thesis using process_step.scan[OF assms(1) Scanning] of_goroutine_simps(6) by blast
qed (use assms(3) in simp)

lemma shutdown_progress:
  assumes "alive p" "stopped p" "shutdown_inv p" "masterchain_grows cl"
  shows "\<exists>l p'. of_goroutine l \<and> process_step lib cfg cl p l p'"
proof -
  have "running p \<noteq> 0" using assms(1,3) by (simp add: alive_def shutdown_inv_def)
  then consider "busy (pr_phase p) \<noteq> 0" | "pr_scan p \<noteq> Ended" by (auto simp: running_def split: if_splits)
  then show ?thesis
  proof cases
    case 1
    then obtain w where "pr_phase p w \<noteq> Finished" by (auto simp: busy_none)
    then show ?thesis using worker_progress assms(1,2) by (simp add: stopped_def)
  next
    case 2
    then show ?thesis using scanner_progress assms by (simp add: stopped_def)
  qed
qed

text \<open>
  C4.  The graceful shutdown ends.  Once the signal handler has stopped the scanner and the
  processors, every goroutine is done after at most 12 more steps of the goroutines, whatever requests
  arrive meanwhile: a processor runs at most one more round and the scanner saves at most one more
  block.  As long as the process is alive one of its goroutines can go on (if the masterchain grows),
  so none of them hangs; and when the wait group releases \<open>main\<close> without an error, all of them have ended.
\<close>

theorem shutdown_ends:
  assumes "process_run lib cfg cl (no_process c) ls p" "alive p" "pr_signal p = AllStopped" "masterchain_grows cl"
    and "process_run lib cfg cl p ls' q" "Started \<notin> set ls'"
  shows "length (filter of_goroutine ls') \<le> 12
    \<and> length (filter (\<lambda>l. l = Round w) ls') \<le> 1 \<and> length (filter (\<lambda>l. l = Scan) ls') \<le> 1
    \<and> (alive q \<longrightarrow> (\<exists>l q'. of_goroutine l \<and> process_step lib cfg cl q l q'))
    \<and> (\<not> alive q \<and> \<not> pr_fatal q \<longrightarrow> (\<forall>w. pr_phase q w = Finished) \<and> pr_scan q = Ended)"
proof -
  have "shutdown_inv (no_process c)" by (simp add: shutdown_inv_def no_process_def running_def)
  then have inv: "shutdown_inv p" "shutdown_inv q" using shutdown_inv_run assms(1,5) by blast+
  then have st: "stopped p" using assms(2,3) by (simp add: shutdown_inv_def alive_def)
  note count = count_run[OF assms(5,6) st]
  have "length (filter of_goroutine ls') \<le> 12" "stopped q"
    using count[of left of_goroutine] stopped_left left_bound[of p] by (auto intro: order_trans)
  moreover have "length (filter (\<lambda>l. l = Round w) ls') \<le> 1"
    using count[of "rounds_left w" "\<lambda>l. l = Round w"] stopped_rounds(1) by (auto simp: rounds_left_def split: if_splits)
  moreover have "blocks_left p \<le> 1" by (simp add: blocks_left_def split: scan_phase.splits)
  then have "length (filter (\<lambda>l. l = Scan) ls') \<le> 1"
    using count[of blocks_left "\<lambda>l. l = Scan"] stopped_rounds(2) by auto
  moreover have "(\<forall>w. pr_phase q w = Finished) \<and> pr_scan q = Ended" if "\<not> alive q" "\<not> pr_fatal q"
    using that inv(2) by (auto simp: shutdown_inv_def alive_def running_def busy_none split: if_splits)
  ultimately show ?thesis using shutdown_progress[OF _ _ inv(2) assms(4)] by blast
qed

lemma growing_masterchain: "masterchain_grows growing_client"
  unfolding masterchain_grows_def
proof (intro allI)
  fix k :: nat and n :: u32
  show "\<exists>j\<ge>k. case cl_GetMasterchainInfo growing_client j of Inl e \<Rightarrow> True | Inr m \<Rightarrow> bid_SeqNo m \<noteq> n"
    by (cases "of_nat k = n"; intro exI[of _ "if of_nat k = n then Suc k else k"])
      (auto simp: growing_client_def sample_client_def sample_block_id_def)
qed

theorem shutdown_ends_witness:
  "\<exists>(p :: process) q. alive p \<and> pr_signal p = AllStopped \<and> process_run sample_lib sample_config growing_client p [Fetch] q
     \<and> pr_scan q = Ended \<and> alive q \<and> (\<exists>l q'. of_goroutine l \<and> process_step sample_lib sample_config growing_client q l q')"
proof -
  let ?run = "process_run sample_lib sample_config growing_client" and ?p0 = "no_process (NewConnection empty_tables)"
  obtain p where p: "?run ?p0 [Started, Fetch, Load, Scan] p" "alive p" "pr_signal p = NoSignal" "pr_scan p = Fetching" "pr_wg p = 4"
    by (rule sample_process_run)
  let ?p1 = "p\<lparr>pr_signal := Received\<rparr>"
  let ?p2 = "BlockScanner_Stop (?p1\<lparr>pr_signal := ScannerStopped\<rparr>)"
  let ?p3 = "WithdrawalsProcessor_Stop (?p2\<lparr>pr_signal := AllStopped\<rparr>)"
  let ?q = "?p3\<lparr>pr_scan := Ended, pr_wg := pr_wg ?p3 - 1\<rparr>"
  note r1 = run_more[OF p(1) process_step.signal[OF p(2,3)]]
  have a: "alive ?p1" "pr_signal ?p1 = Received" "alive ?p2" "pr_signal ?p2 = ScannerStopped"
    using p(2) by (simp_all add: alive_def process_ops)
  note r2 = run_more[OF run_more[OF r1 process_step.stop_scanner[OF a(1,2)]] process_step.stop_processors[OF a(3,4)]]
  have a: "alive ?p3" "pr_signal ?p3 = AllStopped" "alive ?q" using p(2,5) by (simp_all add: alive_def process_ops)
  have "process_step sample_lib sample_config growing_client ?p3 Fetch ?q"
    by (rule process_step.fetch_stopped[OF a(1)]) (simp_all add: process_ops p(4))
  then have q: "?run ?p3 [Fetch] ?q" using run_more[OF run_none] by fastforce
  from shutdown_ends[OF r2 a(1,2) growing_masterchain q] a(3)
  have "\<exists>l q'. of_goroutine l \<and> process_step sample_lib sample_config growing_client ?q l q'" by simp
  then show ?thesis using a q by (intro exI[of _ ?p3] exI[of _ ?q]) (simp add: process_ops)
qed

end
