(* ===== verification/Test_Client.thy ===== *)
theory Test_Client
  imports Ledger "HOL-Library.AList"
begin

text \<open>
  \<open>src/cmd/testutil/http.go\<close>: the HTTP client of the payment test, which talks to two instances of the
  service (sides A and B).

  What is outside the program is the record \<open>outside\<close>, over a state \<open>'w\<close> of the world that every call
  may change: the network, the generator of UUIDs, the context of the calls (\<open>o_WithTimeout\<close> makes a
  new one, \<open>o_cancel\<close> ends it) and the blockchain connection of \<open>src/blockchain/blockchain.go\<close> as it
  answers at that moment; a nil pointer argument is \<open>None\<close>.  A request is the one of the API
  (\<open>Api_Handlers\<close>) with the host it is sent to: the fields for the decoded bodies hold what the JSON
  decoder of the service makes of the structure the client encodes.  A reply is the status, the
  body or the error of reading it, and whether closing the body succeeds.

  The values a function hands to the Prometheus gauges of \<open>src/cmd/testutil/metrics.go\<close> are its log.
\<close>

section \<open>The outside\<close>

type_synonym int64 = "64 word"

record reply =
  rp_StatusCode :: nat
  rp_Body :: "error + body"
  rp_closes :: bool

text \<open>\<open>tlb.Transaction\<close> with the references to the account's previous transaction.\<close>

record account_tx = Transaction +
  tx_PrevTxLT :: u64
  tx_PrevTxHash :: "byte list"

record TxID =
  ti_Lt :: u64
  ti_Hash :: "byte list"

record 'w outside =
  o_validURL :: "string \<Rightarrow> error + unit"
  o_Do :: "string \<Rightarrow> http_request \<Rightarrow> 'w \<Rightarrow> 'w \<times> (error + reply)"
  o_NewV4 :: "'w \<Rightarrow> 'w \<times> (error + uuid)"
  o_GetAccountCurrentState :: "taddress option \<Rightarrow> 'w \<Rightarrow> 'w \<times> (error + (int \<times> AccountStatus))"
  o_GetLastJettonBalance :: "taddress option \<Rightarrow> 'w \<Rightarrow> 'w \<times> (error + int)"
  o_GetJettonWalletAddress :: "taddress option \<Rightarrow> taddress option \<Rightarrow> 'w \<Rightarrow> 'w \<times> (error + taddress)"
  o_GetMasterchainInfo :: "'w \<Rightarrow> 'w \<times> (error + BlockIDExt)"
  o_GetAccount :: "BlockIDExt \<Rightarrow> taddress option \<Rightarrow> 'w \<Rightarrow> 'w \<times> (error + TxID)"
  o_ListTransactions :: "taddress option \<Rightarrow> nat \<Rightarrow> u64 \<Rightarrow> byte list \<Rightarrow> 'w \<Rightarrow> 'w \<times> (error + account_tx list)"
  o_BitsSize :: "cell \<Rightarrow> nat"
  o_WithTimeout :: "'w \<Rightarrow> 'w"
  o_cancel :: "'w \<Rightarrow> 'w"

datatype gauge =
    HotWalletBalance string string int64
  | DepositWalletBalance string string string int64
  | TotalBalance string int64
  | TotalLosses string int64
  | PredictedTonLoss string
  | ProcessedSet string int64
  | ProcessedAdd string int64

type_synonym ('w, 'a) wact = "('w, gauge, 'a) action"

definition callA :: "('w \<Rightarrow> 'w \<times> (error + 'a)) \<Rightarrow> ('w, 'a) wact" where
  "callA f w = (case f w of (w', r) \<Rightarrow> (w', [], r))"

definition liftW :: "error + 'a \<Rightarrow> ('w, 'a) wact" where
  "liftW r w = (w, [], r)"

definition gaugeA :: "gauge \<Rightarrow> ('w, unit) wact" where
  "gaugeA g w = (w, [g], Inr ())"

text \<open>\<open>if err != nil { log.Fatalf(...) }\<close>\<close>

definition orFatalA :: "string \<Rightarrow> ('w, 'a) wact \<Rightarrow> ('w, 'a) wact" where
  "orFatalA msg m w =
     (case m w of
        (w', g, Inl e) \<Rightarrow> (w', g, Inl (if crashes e then e else Fatalf msg))
      | (w', g, Inr x) \<Rightarrow> (w', g, Inr x))"

lemma runs_callA [simp]: "runs (callA f) w w' x \<longleftrightarrow> f w = (w', Inr x)"
  by (auto simp: runs_def callA_def split: prod.splits)

lemma runs_liftW [simp]: "runs (liftW r) w w' x \<longleftrightarrow> w' = w \<and> r = Inr x"
  by (auto simp: runs_def liftW_def)

lemma runs_gaugeA [simp]: "runs (gaugeA g) w w' x \<longleftrightarrow> w' = w"
  by (auto simp: runs_def gaugeA_def)

lemma runs_orFatalA [simp]: "runs (orFatalA msg m) w w' x \<longleftrightarrow> runs m w w' x"
  by (auto simp: runs_def orFatalA_def split: prod.splits sum.splits)

section \<open>Requests\<close>

record test_Client =
  tc_urlA :: string
  tc_urlB :: string
  tc_token :: string
  tc_userID :: string

definition NewClient :: "string \<Rightarrow> string \<Rightarrow> string \<Rightarrow> string \<Rightarrow> test_Client" where
  "NewClient urlA urlB token userID = \<lparr>tc_urlA = urlA, tc_urlB = urlB, tc_token = token, tc_userID = userID\<rparr>"

text \<open>\<open>net/url\<close> on the addresses the client builds, which have no escapes: the host ends at the first
  slash, the path at the question mark; \<open>Query().Get\<close> is the first value of the key.\<close>

definition url_Host :: "string \<Rightarrow> string" where
  "url_Host url = takeWhile (\<lambda>c. c \<noteq> CHR ''/'') (drop (length ''http://'') url)"

definition url_RequestURI :: "string \<Rightarrow> string" where
  "url_RequestURI url = dropWhile (\<lambda>c. c \<noteq> CHR ''/'') (drop (length ''http://'') url)"

definition url_Path :: "string \<Rightarrow> string" where
  "url_Path url = takeWhile (\<lambda>c. c \<noteq> CHR ''?'') (url_RequestURI url)"

definition url_Query :: "string \<Rightarrow> string \<Rightarrow> string" where
  "url_Query url k =
     (let q = drop 1 (dropWhile (\<lambda>c. c \<noteq> CHR ''?'') (url_RequestURI url));
          pairs = map (\<lambda>s. (takeWhile (\<lambda>c. c \<noteq> CHR ''='') s, drop 1 (dropWhile (\<lambda>c. c \<noteq> CHR ''='') s)))
                    (strings_Split q (CHR ''&''))
      in case map_of pairs k of None \<Rightarrow> [] | Some v \<Rightarrow> v)"

text \<open>A request without a body: every decoder of the service finds the end of the input.\<close>

definition get_request :: "string \<Rightarrow> string \<Rightarrow> http_request" where
  "get_request url token =
     \<lparr>req_Method = ''GET'', req_Path = url_Path url, req_Authorization = ''Bearer '' @ token, req_Query = url_Query url,
      req_NewAddress = Inl (LibError ''EOF''), req_Withdrawal = Inl (LibError ''EOF''), req_ServiceTon = Inl (LibError ''EOF''),
      req_ServiceJetton = Inl (LibError ''EOF'')\<rparr>"

text \<open>A request whose body is a structure with (at least) the fields \<open>user_id\<close> and \<open>currency\<close>; fields that
  are absent decode to their zero values.\<close>

definition post_request :: "string \<Rightarrow> string \<Rightarrow> WithdrawalBody \<Rightarrow> http_request" where
  "post_request url token b =
     \<lparr>req_Method = ''POST'', req_Path = url_Path url, req_Authorization = ''Bearer '' @ token, req_Query = url_Query url,
      req_NewAddress = Inr (wb_UserID b, wb_Currency b), req_Withdrawal = Inr b, req_ServiceTon = Inr [],
      req_ServiceJetton = Inr \<lparr>sjb_Owner = [], sjb_JettonMaster = []\<rparr>\<rparr>"

text \<open>What the four methods do with the reply: a status of 300 and above is an error; a body that
  cannot be closed ends the process.\<close>

definition reply_body :: "reply \<Rightarrow> error + body" where
  "reply_body r =
     (if \<not> rp_closes r then Inl (Fatalf ''response body close error'')
      else if 300 \<le> rp_StatusCode r then Inl (Errorf ''response status'')
      else rp_Body r)"

definition client_Do :: "'w outside \<Rightarrow> string \<Rightarrow> http_request \<Rightarrow> ('w, body) wact" where
  "client_Do ou url req =
     bindA (liftW (o_validURL ou url)) (\<lambda>_.
     bindA (callA (o_Do ou (url_Host url) req)) (\<lambda>r.
     liftW (reply_body r)))"

text \<open>\<open>json.Unmarshal\<close> into the structure a method expects.  A body of another kind that is a JSON object
  without the expected field leaves the zero value.\<close>

definition no_json :: "body \<Rightarrow> bool" where
  "no_json b \<longleftrightarrow> (case b of NoBody \<Rightarrow> True | TextBody s \<Rightarrow> True | _ \<Rightarrow> False)"

definition Unmarshal_body :: "'a \<Rightarrow> (body \<Rightarrow> 'a option) \<Rightarrow> body \<Rightarrow> error + 'a" where
  "Unmarshal_body zero read b =
     (if no_json b then Inl (LibError ''unexpected end of JSON input'')
      else case read b of None \<Rightarrow> Inr zero | Some x \<Rightarrow> Inr x)"

definition addresses_of :: "body \<Rightarrow> WalletAddress list option" where
  "addresses_of b = (case b of AddressesBody ws \<Rightarrow> Some ws | _ \<Rightarrow> None)"

definition id_of :: "body \<Rightarrow> int option" where
  "id_of b = (case b of WithdrawalResponse i \<Rightarrow> Some i | _ \<Rightarrow> None)"

definition address_of :: "body \<Rightarrow> string option" where
  "address_of b = (case b of NewAddressBody a \<Rightarrow> Some a | ResolveBody a \<Rightarrow> Some a | _ \<Rightarrow> None)"

text \<open>The status as the text it is on the wire.\<close>

primrec WithdrawalStatus_string :: "WithdrawalStatus \<Rightarrow> string" where
  "WithdrawalStatus_string PendingStatus = ''pending''"
| "WithdrawalStatus_string ProcessingStatus = ''processing''"
| "WithdrawalStatus_string ProcessedStatus = ''processed''"
| "WithdrawalStatus_string FailedStatus = ''failed''"

definition status_of :: "body \<Rightarrow> string option" where
  "status_of b =
     (case b of
        StatusBody u q st tx \<Rightarrow> Some (WithdrawalStatus_string st)
      | BalanceBody r \<Rightarrow> Some (gbr_Status r)
      | _ \<Rightarrow> None)"

section \<open>Methods\<close>

definition GetAllAddresses :: "'w outside \<Rightarrow> test_Client \<Rightarrow> string \<Rightarrow> ('w, WalletAddress list) wact" where
  "GetAllAddresses ou s host =
     (let url = ''http://'' @ host @ ''/v1/address/all?user_id='' @ tc_userID s in
      bindA (client_Do ou url (get_request url (tc_token s))) (\<lambda>content.
      liftW (Unmarshal_body [] addresses_of content)))"

definition SendWithdrawal ::
  "tonlib \<Rightarrow> 'w outside \<Rightarrow> test_Client \<Rightarrow> string \<Rightarrow> string \<Rightarrow> string \<Rightarrow> int64 \<Rightarrow> ('w, int \<times> uuid) wact" where
  "SendWithdrawal lib ou s host currency destination amount =
     (let url = ''http://'' @ host @ ''/v1/withdrawal/send'' in
      bindA (callA (o_NewV4 ou)) (\<lambda>u.
      let reqData = \<lparr>wb_UserID = tc_userID s, wb_QueryID = lib_UuidString lib u, wb_Currency = currency,
                     wb_Amount = of_int (sint amount), wb_Destination = destination,
                     wb_Comment = lib_UuidString lib u, wb_BinaryComment = []\<rparr>
      in bindA (client_Do ou url (post_request url (tc_token s) reqData)) (\<lambda>content.
         bindA (liftW (Unmarshal_body 0 id_of content)) (\<lambda>i. retA (i, u)))))"

definition GetNewAddress :: "'w outside \<Rightarrow> test_Client \<Rightarrow> string \<Rightarrow> string \<Rightarrow> ('w, string) wact" where
  "GetNewAddress ou s host currency =
     (let url = ''http://'' @ host @ ''/v1/address/new'';
          reqData = \<lparr>wb_UserID = tc_userID s, wb_QueryID = [], wb_Currency = currency, wb_Amount = 0, wb_Destination = [],
                     wb_Comment = [], wb_BinaryComment = []\<rparr>
      in bindA (client_Do ou url (post_request url (tc_token s) reqData)) (\<lambda>content.
         liftW (Unmarshal_body [] address_of content)))"

definition GetWithdrawalStatus :: "'w outside \<Rightarrow> test_Client \<Rightarrow> string \<Rightarrow> int \<Rightarrow> ('w, string) wact" where
  "GetWithdrawalStatus ou s host i =
     (let url = ''http://'' @ host @ ''/v1/withdrawal/status?id='' @ show_int i in
      bindA (client_Do ou url (get_request url (tc_token s))) (\<lambda>content.
      liftW (Unmarshal_body [] status_of content)))"

text \<open>The deposits of each currency: \<open>deposits[cur] = append(deposits[cur], addr)\<close>.\<close>

type_synonym deposits = "(string \<times> string list) list"

definition add_deposit :: "string \<Rightarrow> string \<Rightarrow> deposits \<Rightarrow> deposits" where
  "add_deposit cur addr ds = AList.update cur ((case map_of ds cur of None \<Rightarrow> [] | Some as \<Rightarrow> as) @ [addr]) ds"

definition depositsQty :: nat where
  "depositsQty = 10"

definition new_deposit :: "'w outside \<Rightarrow> test_Client \<Rightarrow> string \<Rightarrow> string \<Rightarrow> deposits \<Rightarrow> ('w, deposits) wact" where
  "new_deposit ou s host cur ds = bindA (GetNewAddress ou s host cur) (\<lambda>addr. retA (add_deposit cur addr ds))"

text \<open>\<open>jettons\<close> are the keys of \<open>config.Config.Jettons\<close>, in the order the loop visits them.\<close>

definition InitDeposits :: "'w outside \<Rightarrow> test_Client \<Rightarrow> string list \<Rightarrow> string \<Rightarrow> ('w, deposits) wact" where
  "InitDeposits ou s jettons host =
     bindA (GetAllAddresses ou s host) (\<lambda>addr.
     if addr \<noteq> [] then retA (fold (\<lambda>wa. add_deposit (wa_Currency wa) (wa_Address wa)) addr [])
     else
       bindA (forA (\<lambda>_. new_deposit ou s host TonSymbol) [0..<depositsQty] []) (\<lambda>ds.
       forA (\<lambda>_ ds. forA (new_deposit ou s host) jettons ds) [0..<depositsQty] ds))"

end
