(* ===== verification/Payer.thy ===== *)
theory Payer
  imports Test_Client
begin

text \<open>
  \<open>src/cmd/testutil/utils.go\<close> and \<open>main.go\<close>: the payment test.  Two services pay each other's deposits
  in rounds; after every round the test waits until the service reports all withdrawals as processed,
  reads the transactions of the paying hot wallet from the blockchain and checks that every
  withdrawal was paid and that no identifier was ever paid twice.  A monitor adds up the balances.

  An \<open>int64\<close> is a 64-bit word read with \<open>sint\<close>; a \<open>map[uuid.UUID]struct{}\<close> is a list without duplicates
  of its keys; the gauges hold integers here (the source converts them to \<open>float64\<close>), and the
  floating-point estimate of \<open>predictLoss\<close> is only named.  The loops over \<open>config.Config.Jettons\<close> take
  the entries in the order the loop visits them.
\<close>

section \<open>State\<close>

type_synonym PaymentSide = string

definition SideA :: PaymentSide where "SideA = ''A''"

definition SideB :: PaymentSide where "SideB = ''B''"

record Deposit =
  dp_Address :: "taddress option"
  dp_JettonWallet :: "taddress option"
  dp_Currency :: string

record hotBalances =
  hb_A :: "string \<rightharpoonup> int64"
  hb_B :: "string \<rightharpoonup> int64"

definition newHotBalances :: hotBalances where
  "newHotBalances = \<lparr>hb_A = Map.empty, hb_B = Map.empty\<rparr>"

definition ReadBalance :: "PaymentSide \<Rightarrow> string \<Rightarrow> hotBalances \<Rightarrow> error + int64" where
  "ReadBalance walletSide currency h =
     (if walletSide = SideA then Inr (case hb_A h currency of Some b \<Rightarrow> b | None \<Rightarrow> 0)
      else if walletSide = SideB then Inr (case hb_B h currency of Some b \<Rightarrow> b | None \<Rightarrow> 0)
      else Inl (Fatalf ''invalid payment side''))"

definition WriteBalance :: "PaymentSide \<Rightarrow> string \<Rightarrow> int64 \<Rightarrow> hotBalances \<Rightarrow> error + hotBalances" where
  "WriteBalance walletSide currency balance h =
     (if walletSide = SideA then Inr (h\<lparr>hb_A := (hb_A h)(currency \<mapsto> balance)\<rparr>)
      else if walletSide = SideB then Inr (h\<lparr>hb_B := (hb_B h)(currency \<mapsto> balance)\<rparr>)
      else Inl (Fatalf ''invalid payment side''))"

record PayerProcessor =
  pp_client :: test_Client
  pp_depositsA :: "Deposit list"
  pp_depositsB :: "Deposit list"
  pp_hotWalletsAddrA :: "string \<rightharpoonup> taddress"
  pp_hotWalletsAddrB :: "string \<rightharpoonup> taddress"
  pp_lastTxIDA :: TxID
  pp_lastTxIDB :: TxID
  pp_balances :: hotBalances
  pp_knownUUIDsA :: "uuid list"
  pp_knownUUIDsB :: "uuid list"

section \<open>Creation\<close>

definition getLastTxID :: "'w outside \<Rightarrow> taddress option \<Rightarrow> ('w, TxID) wact" where
  "getLastTxID ou address =
     bindA (callA (o_GetMasterchainInfo ou)) (\<lambda>b.
     callA (o_GetAccount ou b address))"

definition addr_String :: "tonlib \<Rightarrow> taddress option \<Rightarrow> error + string" where
  "addr_String lib a = (case a of None \<Rightarrow> Inl nil_pointer | Some a \<Rightarrow> Inr (lib_AddrString lib a))"

text \<open>An address of a jetton deposit that cannot be parsed is passed on as nil.\<close>

definition convert_deposit ::
  "tonlib \<Rightarrow> 'w outside \<Rightarrow> (string \<rightharpoonup> Jetton) \<Rightarrow> string \<Rightarrow> string \<Rightarrow> Deposit list \<Rightarrow> ('w, Deposit list) wact" where
  "convert_deposit lib ou jettons cur a dep =
     (if cur \<noteq> TonSymbol then
        let addr = (case lib_ParseAddr lib a of Inl e \<Rightarrow> None | Inr x \<Rightarrow> Some x) in
        bindA (orFatalA ''get jetton wallet error''
                 (callA (o_GetJettonWalletAddress ou addr (map_option j_Master (jettons cur))))) (\<lambda>jw.
        retA (dep @ [\<lparr>dp_Address = addr, dp_JettonWallet = Some jw, dp_Currency = cur\<rparr>]))
      else
        bindA (orFatalA ''parse deposit address error'' (liftW (lib_ParseAddr lib a))) (\<lambda>addr.
        retA (dep @ [\<lparr>dp_Address = Some addr, dp_JettonWallet = None, dp_Currency = cur\<rparr>])))"

definition convertDeposits :: "tonlib \<Rightarrow> 'w outside \<Rightarrow> (string \<rightharpoonup> Jetton) \<Rightarrow> deposits \<Rightarrow> ('w, Deposit list) wact" where
  "convertDeposits lib ou jettons deposits =
     forA (\<lambda>(cur, addresses) dep. forA (convert_deposit lib ou jettons cur) addresses dep) deposits []"

definition hot_jetton_wallets ::
  "'w outside \<Rightarrow> taddress \<Rightarrow> taddress \<Rightarrow> string \<times> Jetton \<Rightarrow> (string \<rightharpoonup> taddress) \<times> (string \<rightharpoonup> taddress)
    \<Rightarrow> ('w, (string \<rightharpoonup> taddress) \<times> (string \<rightharpoonup> taddress)) wact" where
  "hot_jetton_wallets ou hotA hotB x addrs =
     (case (x, addrs) of ((cur, jetton), (addrA, addrB)) \<Rightarrow>
        bindA (orFatalA ''get hot jetton wallet A error''
                 (callA (o_GetJettonWalletAddress ou (Some hotA) (Some (j_Master jetton))))) (\<lambda>jwA.
        bindA (orFatalA ''get hot jetton wallet B error''
                 (callA (o_GetJettonWalletAddress ou (Some hotB) (Some (j_Master jetton))))) (\<lambda>jwB.
        bindA (gaugeA (ProcessedSet cur 0)) (\<lambda>_.
        retA (addrA(cur \<mapsto> jwA), addrB(cur \<mapsto> jwB))))))"

definition NewPayerProcessor ::
  "tonlib \<Rightarrow> 'w outside \<Rightarrow> (string \<times> Jetton) list \<Rightarrow> test_Client \<Rightarrow> deposits \<Rightarrow> deposits \<Rightarrow> taddress \<Rightarrow> taddress
    \<Rightarrow> ('w, PayerProcessor) wact" where
  "NewPayerProcessor lib ou jettons client depositsA depositsB hotA hotB =
     bindA (orFatalA ''get last TX ID A error'' (getLastTxID ou (Some hotA))) (\<lambda>lastTxIDA.
     bindA (orFatalA ''get last TX ID B error'' (getLastTxID ou (Some hotB))) (\<lambda>lastTxIDB.
     bindA (forA (hot_jetton_wallets ou hotA hotB) jettons ([TonSymbol \<mapsto> hotA], [TonSymbol \<mapsto> hotB])) (\<lambda>(addrA, addrB).
     bindA (gaugeA (ProcessedSet TonSymbol 0)) (\<lambda>_.
     bindA (convertDeposits lib ou (map_of jettons) depositsA) (\<lambda>depA.
     bindA (convertDeposits lib ou (map_of jettons) depositsB) (\<lambda>depB.
     retA \<lparr>pp_client = client, pp_depositsA = depA, pp_depositsB = depB, pp_hotWalletsAddrA = addrA, pp_hotWalletsAddrB = addrB,
           pp_lastTxIDA = lastTxIDA, pp_lastTxIDB = lastTxIDB, pp_balances = newHotBalances,
           pp_knownUUIDsA = [], pp_knownUUIDsB = []\<rparr>))))))"

section \<open>Balance monitor\<close>

text \<open>Actions on the world and the processor.\<close>

definition onWorld :: "('w, 'a) wact \<Rightarrow> ('w \<times> 'p, 'a) wact" where
  "onWorld m s = (case m (fst s) of (w', g, r) \<Rightarrow> ((w', snd s), g, r))"

definition worldA :: "('w \<Rightarrow> 'w) \<Rightarrow> ('w \<times> 'p, unit) wact" where
  "worldA f s = ((f (fst s), snd s), [], Inr ())"

definition writeA :: "PaymentSide \<Rightarrow> string \<Rightarrow> int64 \<Rightarrow> ('w \<times> PayerProcessor, unit) wact" where
  "writeA side cur b s =
     (case WriteBalance side cur b (pp_balances (snd s)) of
        Inl e \<Rightarrow> (s, [], Inl e)
      | Inr h \<Rightarrow> ((fst s, (snd s)\<lparr>pp_balances := h\<rparr>), [], Inr ()))"

text \<open>\<open>big.Int.Int64\<close>: the low 64 bits.\<close>

definition Int64 :: "int \<Rightarrow> int64" where
  "Int64 n = word_of_int n"

type_synonym totals = "(string \<times> int64) list"

definition total_of :: "totals \<Rightarrow> string \<Rightarrow> int64" where
  "total_of tot cur = (case map_of tot cur of None \<Rightarrow> 0 | Some t \<Rightarrow> t)"

definition set_hot_balances :: "string \<Rightarrow> int64 \<Rightarrow> int64 \<Rightarrow> totals \<Rightarrow> ('w \<times> PayerProcessor, totals) wact" where
  "set_hot_balances cur bA bB tot =
     bindA (gaugeA (HotWalletBalance SideA cur bA)) (\<lambda>_.
     bindA (gaugeA (HotWalletBalance SideB cur bB)) (\<lambda>_.
     bindA (writeA SideA cur bA) (\<lambda>_.
     bindA (writeA SideB cur bB) (\<lambda>_.
     retA (AList.update cur (bA + bB) tot)))))"

definition update_jetton_balance ::
  "'w outside \<Rightarrow> PayerProcessor \<Rightarrow> string \<Rightarrow> totals \<Rightarrow> ('w \<times> PayerProcessor, totals) wact" where
  "update_jetton_balance ou p cur tot =
     bindA (onWorld (callA (o_GetLastJettonBalance ou (pp_hotWalletsAddrA p cur)))) (\<lambda>bA.
     bindA (onWorld (callA (o_GetLastJettonBalance ou (pp_hotWalletsAddrB p cur)))) (\<lambda>bB.
     set_hot_balances cur (Int64 bA) (Int64 bB) tot))"

definition updateHotWalletBalances ::
  "'w outside \<Rightarrow> PayerProcessor \<Rightarrow> string list \<Rightarrow> ('w \<times> PayerProcessor, totals) wact" where
  "updateHotWalletBalances ou p jettons =
     bindA (onWorld (callA (o_GetAccountCurrentState ou (pp_hotWalletsAddrA p TonSymbol)))) (\<lambda>(bA, _).
     bindA (onWorld (callA (o_GetAccountCurrentState ou (pp_hotWalletsAddrB p TonSymbol)))) (\<lambda>(bB, _).
     bindA (set_hot_balances TonSymbol (Int64 bA) (Int64 bB) []) (\<lambda>tot.
     forA (update_jetton_balance ou p) jettons tot)))"

definition getDepositBalance :: "'w outside \<Rightarrow> Deposit \<Rightarrow> ('w, int64) wact" where
  "getDepositBalance ou d =
     (if dp_Currency d = TonSymbol then
        bindA (callA (o_GetAccountCurrentState ou (dp_Address d))) (\<lambda>(b, _). retA (Int64 b))
      else
        bindA (callA (o_GetLastJettonBalance ou (dp_JettonWallet d))) (\<lambda>b. retA (Int64 b)))"

text \<open>\<open>if err != nil { log; ...; continue }\<close>: an error that is not a crash is a value.\<close>

definition tryA :: "('w, 'a) wact \<Rightarrow> ('w, error + 'a) wact" where
  "tryA m w =
     (case m w of
        (w', g, Inl e) \<Rightarrow> (w', g, if crashes e then Inl e else Inr (Inl e))
      | (w', g, Inr x) \<Rightarrow> (w', g, Inr (Inr x)))"

text \<open>A deposit whose balance cannot be read is left out of the total: the \<open>continue\<close> is that of the loop
  over the deposits.\<close>

definition monitor_deposit ::
  "tonlib \<Rightarrow> 'w outside \<Rightarrow> PaymentSide \<Rightarrow> Deposit \<Rightarrow> totals \<Rightarrow> ('w \<times> PayerProcessor, totals) wact" where
  "monitor_deposit lib ou side d tot =
     bindA (tryA (onWorld (getDepositBalance ou d))) (\<lambda>r.
     case r of
       Inl e \<Rightarrow> bindA (worldA (o_cancel ou)) (\<lambda>_. retA tot)
     | Inr b \<Rightarrow>
         bindA (liftW (addr_String lib (dp_Address d))) (\<lambda>a.
         bindA (gaugeA (DepositWalletBalance side (dp_Currency d) a b)) (\<lambda>_.
         retA (AList.update (dp_Currency d) (total_of tot (dp_Currency d) + b) tot))))"

definition monitor_total :: "string \<times> int64 \<Rightarrow> totals \<Rightarrow> ('w, totals) wact" where
  "monitor_total x startTotal =
     (case x of (c, t) \<Rightarrow>
        bindA (gaugeA (TotalBalance c t)) (\<lambda>_.
        let startTotal' = (case map_of startTotal c of None \<Rightarrow> AList.update c t startTotal | Some _ \<Rightarrow> startTotal) in
        bindA (gaugeA (TotalLosses c (t - total_of startTotal' c))) (\<lambda>_.
        retA startTotal')))"

text \<open>One round of \<open>balanceMonitor\<close>; the result is \<open>startTotal\<close>.\<close>

definition balanceMonitor_round ::
  "tonlib \<Rightarrow> 'w outside \<Rightarrow> PayerProcessor \<Rightarrow> string list \<Rightarrow> totals \<Rightarrow> ('w \<times> PayerProcessor, totals) wact" where
  "balanceMonitor_round lib ou p jettons startTotal =
     bindA (worldA (o_WithTimeout ou)) (\<lambda>_.
     bindA (tryA (updateHotWalletBalances ou p jettons)) (\<lambda>r.
     case r of
       Inl e \<Rightarrow> bindA (worldA (o_cancel ou)) (\<lambda>_. retA startTotal)
     | Inr tot \<Rightarrow>
         bindA (forA (monitor_deposit lib ou SideA) (pp_depositsA p) tot) (\<lambda>tot.
         bindA (forA (monitor_deposit lib ou SideB) (pp_depositsB p) tot) (\<lambda>tot.
         bindA (forA monitor_total tot startTotal) (\<lambda>startTotal'.
         bindA (worldA (o_cancel ou)) (\<lambda>_. retA startTotal'))))))"

section \<open>Payments\<close>

definition tonWithdrawAmount :: int64 where "tonWithdrawAmount = 550000000"

definition jettonWithdrawAmount :: int64 where "jettonWithdrawAmount = 550000000"

definition tonMinCutoff :: int64 where "tonMinCutoff = 10000000000"

fun check_jettons :: "PaymentSide \<Rightarrow> hotBalances \<Rightarrow> string list \<Rightarrow> int64 \<Rightarrow> error + bool" where
  "check_jettons side h [] tonRemained = Inr True"
| "check_jettons side h (cur # cs) tonRemained =
     andThenR (ReadBalance side cur h) (\<lambda>b.
     let jettonRemained = b - jettonWithdrawAmount * of_nat depositsQty;
         tonRemained' = tonRemained - of_nat depositsQty * Int64 JettonTransferTonAmount
     in if sint jettonRemained < 0 \<or> sint tonRemained' < sint tonMinCutoff then Inr False
        else check_jettons side h cs tonRemained')"

definition checkBalances :: "PaymentSide \<Rightarrow> hotBalances \<Rightarrow> string list \<Rightarrow> error + bool" where
  "checkBalances side h jettons =
     andThenR (ReadBalance side TonSymbol h) (\<lambda>b.
     let tonRemained = b - tonWithdrawAmount * of_nat depositsQty in
     if sint tonRemained < sint tonMinCutoff then Inr False else check_jettons side h jettons tonRemained)"

record withdrawal =
  pw_To :: "taddress option"
  pw_Amount :: int64
  pw_UUID :: uuid

definition withdraw_deposit ::
  "tonlib \<Rightarrow> 'w outside \<Rightarrow> test_Client \<Rightarrow> string \<Rightarrow> Deposit \<Rightarrow> int list \<times> withdrawal list
    \<Rightarrow> ('w, int list \<times> withdrawal list) wact" where
  "withdraw_deposit lib ou client url d acc =
     (case acc of (ids, ww) \<Rightarrow>
        let amount = (if dp_Currency d = TonSymbol then tonWithdrawAmount else jettonWithdrawAmount) in
        bindA (liftW (addr_String lib (dp_Address d))) (\<lambda>a.
        bindA (SendWithdrawal lib ou client url (dp_Currency d) a amount) (\<lambda>(i, u).
        bindA (gaugeA (PredictedTonLoss (dp_Currency d))) (\<lambda>_.
        bindA (gaugeA (ProcessedAdd (dp_Currency d) amount)) (\<lambda>_.
        retA (ids @ [i], ww @ [\<lparr>pw_To = dp_Address d, pw_Amount = amount, pw_UUID = u\<rparr>]))))))"

definition withdrawToDeposits ::
  "tonlib \<Rightarrow> 'w outside \<Rightarrow> PayerProcessor \<Rightarrow> PaymentSide \<Rightarrow> ('w, int list \<times> withdrawal list) wact" where
  "withdrawToDeposits lib ou p fromSide =
     (if fromSide = SideA then forA (withdraw_deposit lib ou (pp_client p) (tc_urlA (pp_client p))) (pp_depositsB p) ([], [])
      else if fromSide = SideB then forA (withdraw_deposit lib ou (pp_client p) (tc_urlB (pp_client p))) (pp_depositsA p) ([], [])
      else failA (Errorf ''invalid side''))"

text \<open>One pass over the identifiers: the first withdrawal that is not processed ends it.\<close>

fun wait_pass :: "'w outside \<Rightarrow> test_Client \<Rightarrow> string \<Rightarrow> int list \<Rightarrow> int list \<Rightarrow> ('w, int list) wact" where
  "wait_pass ou s url [] completed = retA completed"
| "wait_pass ou s url (i # ids) completed =
     (if i \<in> set completed then wait_pass ou s url ids completed
      else
        bindA (GetWithdrawalStatus ou s url i) (\<lambda>status.
        if status = WithdrawalStatus_string ProcessedStatus then wait_pass ou s url ids (completed @ [i])
        else retA completed))"

partial_function (option) wait_loop ::
  "'w outside \<Rightarrow> test_Client \<Rightarrow> string \<Rightarrow> int list \<Rightarrow> int list \<Rightarrow> 'w \<Rightarrow> ('w \<times> (error + unit)) option" where
  "wait_loop ou s url ids completed w =
     (case wait_pass ou s url ids completed w of
        (w1, g, Inl e) \<Rightarrow> Some (w1, Inl e)
      | (w1, g, Inr completed1) \<Rightarrow>
          if length completed1 = length ids then Some (w1, Inr ())
          else wait_loop ou s url ids completed1 w1)"

definition waitWithdrawals ::
  "'w outside \<Rightarrow> PayerProcessor \<Rightarrow> PaymentSide \<Rightarrow> int list \<Rightarrow> 'w \<Rightarrow> ('w \<times> (error + unit)) option" where
  "waitWithdrawals ou p fromSide ids w =
     (if fromSide = SideA then wait_loop ou (pp_client p) (tc_urlA (pp_client p)) ids [] w
      else if fromSide = SideB then wait_loop ou (pp_client p) (tc_urlB (pp_client p)) ids [] w
      else Some (w, Inl (Errorf ''invalid side'')))"

section \<open>Validation\<close>

text \<open>The transactions of one answer, newest first, up to the known one; whether that was met.\<close>

fun take_new :: "byte list \<Rightarrow> account_tx list \<Rightarrow> account_tx list \<times> bool" where
  "take_new known [] = ([], False)"
| "take_new known (t # ts) =
     (if tx_Hash t = known then ([], True) else (case take_new known ts of (new, met) \<Rightarrow> (t # new, met)))"

partial_function (option) load_loop ::
  "'w outside \<Rightarrow> taddress option \<Rightarrow> TxID \<Rightarrow> TxID \<Rightarrow> account_tx list \<Rightarrow> 'w \<Rightarrow> ('w \<times> (error + account_tx list)) option" where
  "load_loop ou addr lastTxID currentTxID txs w =
     (if ti_Lt currentTxID = 0 then Some (w, Inl (Errorf ''can not get txs''))
      else
        (case o_ListTransactions ou addr 3 (ti_Lt currentTxID) (ti_Hash currentTxID) w of
           (w1, Inl e) \<Rightarrow> Some (w1, Inl e)
         | (w1, Inr list) \<Rightarrow>
             (case take_new (ti_Hash lastTxID) (rev list) of
                (new, met) \<Rightarrow>
                  if met then Some (w1, Inr (txs @ new))
                  else if list = [] then Some (w1, Inl (Panicf ''index out of range''))
                  else load_loop ou addr lastTxID
                         \<lparr>ti_Lt = tx_PrevTxLT (list ! 0), ti_Hash = tx_PrevTxHash (list ! 0)\<rparr> (txs @ new) w1)))"

definition loadTXs ::
  "'w outside \<Rightarrow> TxID \<Rightarrow> taddress option \<Rightarrow> 'w \<Rightarrow> ('w \<times> (error + account_tx list)) option" where
  "loadTXs ou lastTxID addr w =
     (case getLastTxID ou addr w of
        (w1, g, Inl e) \<Rightarrow> Some (w1, Inl e)
      | (w1, g, Inr newTxID) \<Rightarrow> load_loop ou addr lastTxID newTxID [] w1)"

definition parse_internal ::
  "tonlib \<Rightarrow> (cell \<Rightarrow> nat) \<Rightarrow> InternalMessage \<Rightarrow> error + withdrawal option" where
  "parse_internal lib bitsSize msg =
     (case DecodeJettonTransfer lib msg of
        Inr jt \<Rightarrow>
          andThenR (lib_UuidFromString lib (jt_Comment jt)) (\<lambda>u.
          Inr (Some \<lparr>pw_To = jt_Destination jt, pw_Amount = Int64 (lib_BigInt lib (jt_Amount jt)), pw_UUID = u\<rparr>))
      | Inl e \<Rightarrow>
          (case im_Payload msg of
             None \<Rightarrow> Inl nil_pointer
           | Some body \<Rightarrow>
               if bitsSize body > 32 then
                 andThenR (lib_UuidFromString lib (LoadComment lib (Some body))) (\<lambda>u.
                 Inr (Some \<lparr>pw_To = im_DstAddr msg, pw_Amount = Int64 (im_Amount msg), pw_UUID = u\<rparr>))
               else Inr None))"

fun parse_messages :: "tonlib \<Rightarrow> (cell \<Rightarrow> nat) \<Rightarrow> Message list \<Rightarrow> error + withdrawal list" where
  "parse_messages lib bitsSize [] = Inr []"
| "parse_messages lib bitsSize (m # ms) =
     (case m of
        MsgInternal msg \<Rightarrow>
          andThenR (parse_internal lib bitsSize msg) (\<lambda>r.
          andThenR (parse_messages lib bitsSize ms) (\<lambda>ww.
          Inr (case r of None \<Rightarrow> ww | Some w \<Rightarrow> w # ww)))
      | _ \<Rightarrow> parse_messages lib bitsSize ms)"

definition parseTX :: "tonlib \<Rightarrow> (cell \<Rightarrow> nat) \<Rightarrow> account_tx \<Rightarrow> error + (withdrawal list \<times> uuid list)" where
  "parseTX lib bitsSize tx =
     andThenR (if tx_OutMsgCount tx > 0 then tx_OutToSlice tx else Inr []) (\<lambda>msgList.
     andThenR (parse_messages lib bitsSize msgList) (\<lambda>ww.
     Inr (ww, map pw_UUID ww)))"

definition compareWithdrawals :: "withdrawal list \<Rightarrow> withdrawal list \<Rightarrow> withdrawal list" where
  "compareWithdrawals all_ww target = filter (\<lambda>t. \<not> list_ex (\<lambda>a. pw_UUID t = pw_UUID a) all_ww) target"

text \<open>The loop over the transactions: the identifiers seen and the withdrawals still to be found.\<close>

fun match_txs ::
  "tonlib \<Rightarrow> (cell \<Rightarrow> nat) \<Rightarrow> account_tx list \<Rightarrow> uuid list \<Rightarrow> withdrawal list \<Rightarrow> error + (uuid list \<times> withdrawal list)" where
  "match_txs lib bitsSize [] newUUIDs remainingTXs = Inr (newUUIDs, remainingTXs)"
| "match_txs lib bitsSize (tx # txs) newUUIDs remainingTXs =
     andThenR (parseTX lib bitsSize tx) (\<lambda>(ww, uuids).
     match_txs lib bitsSize txs (newUUIDs @ uuids) (compareWithdrawals ww remainingTXs))"

fun checkDoubleSpending :: "uuid list \<Rightarrow> uuid list \<Rightarrow> uuid list \<times> (error + unit)" where
  "checkDoubleSpending [] knownUUIDs = (knownUUIDs, Inr ())"
| "checkDoubleSpending (u # us) knownUUIDs =
     (if u \<in> set knownUUIDs then (knownUUIDs, Inl (Errorf ''double spending''))
      else checkDoubleSpending us (knownUUIDs @ [u]))"

definition validate_side :: "PayerProcessor \<Rightarrow> PaymentSide \<Rightarrow> TxID \<Rightarrow> uuid list \<Rightarrow> PayerProcessor \<times> (error + unit)" where
  "validate_side p fromSide lastTxID newUUIDs =
     (if fromSide = SideA then
        case checkDoubleSpending newUUIDs (pp_knownUUIDsA p) of
          (known, r) \<Rightarrow> (p\<lparr>pp_lastTxIDA := lastTxID, pp_knownUUIDsA := known\<rparr>, r)
      else
        case checkDoubleSpending newUUIDs (pp_knownUUIDsB p) of
          (known, r) \<Rightarrow> (p\<lparr>pp_lastTxIDB := lastTxID, pp_knownUUIDsB := known\<rparr>, r))"

definition validateWithdrawals ::
  "tonlib \<Rightarrow> 'w outside \<Rightarrow> PaymentSide \<Rightarrow> withdrawal list \<Rightarrow> 'w \<times> PayerProcessor
    \<Rightarrow> (('w \<times> PayerProcessor) \<times> (error + unit)) option" where
  "validateWithdrawals lib ou fromSide withdrawals s =
     (case s of (w, p) \<Rightarrow>
        if fromSide \<noteq> SideA \<and> fromSide \<noteq> SideB then Some (s, Inl (Errorf ''invalid side''))
        else
          let addr = (if fromSide = SideA then pp_hotWalletsAddrA p else pp_hotWalletsAddrB p) TonSymbol;
              lastTxID = (if fromSide = SideA then pp_lastTxIDA p else pp_lastTxIDB p)
          in (case loadTXs ou lastTxID addr w of
                None \<Rightarrow> None
              | Some (w1, Inl e) \<Rightarrow> Some ((w1, p), Inl e)
              | Some (w1, Inr txs) \<Rightarrow>
                  let lastTxID' = (case txs of [] \<Rightarrow> lastTxID | t # ts \<Rightarrow> \<lparr>ti_Lt = tx_LT t, ti_Hash = tx_Hash t\<rparr>) in
                  (case match_txs lib (o_BitsSize ou) txs [] withdrawals of
                     Inl e \<Rightarrow> Some ((w1, p), Inl e)
                   | Inr (newUUIDs, remainingTXs) \<Rightarrow>
                       if remainingTXs \<noteq> [] then Some ((w1, p), Inl (Errorf ''can not find withdrawals''))
                       else (case validate_side p fromSide lastTxID' newUUIDs of
                               (p', r) \<Rightarrow> Some ((w1, p'), r)))))"

section \<open>A round of payments\<close>

definition fatal_error :: "string \<Rightarrow> error \<Rightarrow> error" where
  "fatal_error msg e = (if crashes e then e else Fatalf msg)"

text \<open>One round of \<open>startPayments\<close>: whether it paid.\<close>

definition startPayments_round ::
  "tonlib \<Rightarrow> 'w outside \<Rightarrow> string list \<Rightarrow> PaymentSide \<Rightarrow> 'w \<times> PayerProcessor \<Rightarrow> (('w \<times> PayerProcessor) \<times> (error + bool)) option" where
  "startPayments_round lib ou jettons side s =
     (case s of (w, p) \<Rightarrow>
        (case checkBalances side (pp_balances p) jettons of
           Inl e \<Rightarrow> Some (s, Inl e)
         | Inr False \<Rightarrow> Some (s, Inr False)
         | Inr True \<Rightarrow>
             (case withdrawToDeposits lib ou p side w of
                (w1, g, Inl e) \<Rightarrow> Some ((w1, p), Inl (fatal_error ''withdraw to deposit error'' e))
              | (w1, g, Inr (ids, ww)) \<Rightarrow>
                  (case waitWithdrawals ou p side ids w1 of
                     None \<Rightarrow> None
                   | Some (w2, Inl e) \<Rightarrow> Some ((w2, p), Inl (fatal_error ''wait withdrawals error'' e))
                   | Some (w2, Inr _) \<Rightarrow>
                       (case validateWithdrawals lib ou side ww (w2, p) of
                          None \<Rightarrow> None
                        | Some (s3, Inl e) \<Rightarrow> Some (s3, Inl (fatal_error ''validate withdrawals error'' e))
                        | Some (s3, Inr _) \<Rightarrow> Some (s3, Inr True))))))"

section \<open>Start\<close>

datatype payer_goroutine = BalanceMonitor | Payments PaymentSide

definition payer_Start :: "bool \<Rightarrow> payer_goroutine list" where
  "payer_Start onlyMonitoring = BalanceMonitor # (if onlyMonitoring then [] else [Payments SideA, Payments SideB])"

text \<open>\<open>getenv\<close> is \<open>os.Getenv\<close>, \<open>newConnection\<close> the outcome of \<open>blockchain.NewConnection\<close>.\<close>

definition testutil_main ::
  "tonlib \<Rightarrow> 'w outside \<Rightarrow> (string \<Rightarrow> string) \<Rightarrow> config \<Rightarrow> (string \<times> Jetton) list \<Rightarrow> error + unit
    \<Rightarrow> ('w, PayerProcessor \<times> payer_goroutine list) wact" where
  "testutil_main lib ou getenv cfg jettons newConnection =
     (let onlyMonitoring = (getenv ''CIRCULATION'' \<noteq> ''true''); urlA = getenv ''HOST_A''; urlB = getenv ''HOST_B'' in
      if urlA = [] then failA (Fatalf ''empty HOST_A env var'')
      else if urlB = [] then failA (Fatalf ''empty HOST_B env var'')
      else
        bindA (orFatalA ''invalid HOT_WALLET_A env var'' (liftW (lib_ParseAddr lib (getenv ''HOT_WALLET_A'')))) (\<lambda>hotWalletA.
        bindA (orFatalA ''invalid HOT_WALLET_B env var'' (liftW (lib_ParseAddr lib (getenv ''HOT_WALLET_B'')))) (\<lambda>hotWalletB.
        bindA (orFatalA ''blockchain connection error'' (liftW newConnection)) (\<lambda>_.
        let httpClient = NewClient urlA urlB (cfg_APIToken cfg) ''TestClient'' in
        bindA (orFatalA ''can not init deposits'' (InitDeposits ou httpClient (map fst jettons) urlA)) (\<lambda>depositsA.
        bindA (orFatalA ''can not init deposits'' (InitDeposits ou httpClient (map fst jettons) urlB)) (\<lambda>depositsB.
        bindA (NewPayerProcessor lib ou jettons httpClient depositsA depositsB hotWalletA hotWalletB) (\<lambda>p.
        retA (p, payer_Start onlyMonitoring))))))))"

end
