(* ===== verification/Payer_Props.thy ===== *)
theory Payer_Props
  imports Payer "HOL-Library.Sublist" "HOL-Library.Multiset"
begin

text \<open>
  What a validated round of the payment test proves: \<open>loadTXs\<close> reads exactly the transactions since the
  last validated one, so over all rounds of a side no transaction is left out or counted twice, every
  requested withdrawal was paid, and no identifier was paid twice.
\<close>

section \<open>The history of an account\<close>

text \<open>The transactions of an account, newest first: each refers to the one before it, the first of all
  to the logical time 0.\<close>

fun tx_chain :: "account_tx list \<Rightarrow> bool" where
  "tx_chain [] \<longleftrightarrow> True"
| "tx_chain [t] \<longleftrightarrow> tx_LT t \<noteq> 0 \<and> tx_PrevTxLT t = 0"
| "tx_chain (t # u # ts) \<longleftrightarrow> tx_LT t \<noteq> 0 \<and> tx_PrevTxLT t = tx_LT u \<and> tx_PrevTxHash t = tx_Hash u \<and> tx_chain (u # ts)"

definition points_to :: "TxID \<Rightarrow> account_tx list \<Rightarrow> bool" where
  "points_to i hist \<longleftrightarrow> (case hist of [] \<Rightarrow> ti_Lt i = 0 | t # ts \<Rightarrow> ti_Lt i = tx_LT t \<and> ti_Hash i = tx_Hash t)"

text \<open>A node that serves this history: the account refers to the newest transaction, and a list ends
  with the transaction it was asked for, oldest first.\<close>

definition history_served :: "'w outside \<Rightarrow> taddress option \<Rightarrow> account_tx list \<Rightarrow> bool" where
  "history_served ou addr hist \<longleftrightarrow>
     tx_chain hist \<and> distinct (map tx_Hash hist)
     \<and> (\<forall>w. \<exists>w1 b w2 i. o_GetMasterchainInfo ou w = (w1, Inr b) \<and> o_GetAccount ou b addr w1 = (w2, Inr i) \<and> points_to i hist)
     \<and> (\<forall>pre t ts w. hist = pre @ t # ts \<longrightarrow>
          (\<exists>w'. o_ListTransactions ou addr 3 (tx_LT t) (tx_Hash t) w = (w', Inr (rev (take 3 (t # ts))))))"

lemma tx_chain_drop: "tx_chain (pre @ suf) \<Longrightarrow> tx_chain suf"
proof (induction pre)
  case (Cons t pre)
  then show ?case by (cases "pre @ suf") auto
qed simp

lemma tx_chain_next:
  "tx_chain ts \<Longrightarrow> ts \<noteq> [] \<Longrightarrow> n < length ts \<Longrightarrow>
     points_to \<lparr>ti_Lt = tx_PrevTxLT (ts ! n), ti_Hash = tx_PrevTxHash (ts ! n)\<rparr> (drop (Suc n) ts)"
proof (induction n arbitrary: ts)
  case 0
  then show ?case by (cases ts rule: tx_chain.cases) (auto simp: points_to_def)
next
  case (Suc n)
  then obtain t u us where "ts = t # u # us" by (cases ts rule: tx_chain.cases) auto
  with Suc.IH[of "u # us"] Suc.prems show ?case by simp
qed

lemma take_new_eq: "take_new known ts = (takeWhile (\<lambda>t. tx_Hash t \<noteq> known) ts, \<exists>t\<in>set ts. tx_Hash t = known)"
  by (induction ts) auto

abbreviation since :: "byte list \<Rightarrow> account_tx list \<Rightarrow> account_tx list" where
  "since known \<equiv> takeWhile (\<lambda>t. tx_Hash t \<noteq> known)"

abbreviation knows :: "byte list \<Rightarrow> account_tx list \<Rightarrow> bool" where
  "knows known ts \<equiv> \<exists>t\<in>set ts. tx_Hash t = known"

lemma since_append:
  "knows h xs \<Longrightarrow> since h (xs @ ys) = since h xs"
  "\<not> knows h xs \<Longrightarrow> since h (xs @ ys) = xs @ since h ys"
  by (auto simp: takeWhile_append1 takeWhile_append2)

lemma since_none: "\<not> knows h xs \<Longrightarrow> since h xs = xs"
  using since_append(2)[of xs h "[]"] by simp

lemma load_loop_suffix:
  assumes "history_served ou addr hist" "hist = pre @ suf" "points_to cur suf"
  shows "\<exists>w'. load_loop ou addr lastTx cur txs w =
    Some (w', if knows (ti_Hash lastTx) suf then Inr (txs @ since (ti_Hash lastTx) suf) else Inl (Errorf ''can not get txs''))"
  using assms(2,3)
proof (induction "length suf" arbitrary: pre suf cur txs w rule: less_induct)
  case less
  show ?case
  proof (cases suf)
    case Nil
    with less.prems(2) show ?thesis by (subst load_loop.simps) (simp add: points_to_def)
  next
    case (Cons t ts)
    let ?h = "ti_Hash lastTx"
    have chain: "tx_chain suf" using assms(1) less.prems(1) tx_chain_drop by (auto simp: history_served_def)
    then have lt: "ti_Lt cur = tx_LT t" "ti_Hash cur = tx_Hash t" "tx_LT t \<noteq> 0"
      using Cons less.prems(2) by (auto simp: points_to_def elim: tx_chain.elims)
    obtain w1 where list: "o_ListTransactions ou addr 3 (tx_LT t) (tx_Hash t) w = (w1, Inr (rev (take 3 suf)))"
      using assms(1) less.prems(1) Cons unfolding history_served_def by blast
    define n where "n = min 2 (length ts)"
    have n: "n < length suf" "take 3 suf = take (Suc n) suf" "rev (take 3 suf) \<noteq> []"
      using Cons by (auto simp: n_def min_def)
    have oldest: "rev (take 3 suf) ! 0 = suf ! n" using n by (simp add: rev_nth)
    define newer where "newer = take (Suc n) suf"
    define older where "older = drop (Suc n) suf"
    have suf: "suf = newer @ older" "take 3 suf = newer" by (simp_all add: newer_def older_def n(2))
    show ?thesis
    proof (cases "knows ?h newer")
      case True
      then have "since ?h suf = since ?h newer" "knows ?h suf" by (simp add: suf(1) since_append, unfold suf(1), auto)
      with True lt list suf(2) show ?thesis by (subst load_loop.simps) (simp add: take_new_eq)
    next
      case False
      let ?cur = "\<lparr>ti_Lt = tx_PrevTxLT (suf ! n), ti_Hash = tx_PrevTxHash (suf ! n)\<rparr>"
      have step: "load_loop ou addr lastTx cur txs w = load_loop ou addr lastTx ?cur (txs @ newer) w1"
        using lt list False suf(2) n(3) oldest by (subst load_loop.simps) (simp add: take_new_eq since_none)
      have "points_to ?cur older" using tx_chain_next[OF chain _ n(1)] Cons by (simp add: older_def)
      moreover have "length older < length suf" using Cons by (simp add: older_def)
      moreover have "hist = (pre @ newer) @ older" using less.prems(1) suf(1) by (metis append.assoc)
      ultimately obtain w' where IH: "load_loop ou addr lastTx ?cur (txs @ newer) w1 =
          Some (w', if knows ?h older then Inr ((txs @ newer) @ since ?h older) else Inl (Errorf ''can not get txs''))"
        using less.hyps by blast
      have "since ?h suf = newer @ since ?h older" "knows ?h suf \<longleftrightarrow> knows ?h older"
        unfolding suf(1) using False by (auto simp: since_append)
      with step IH show ?thesis by auto
    qed
  qed
qed

lemma loadTXs_exact:
  assumes "history_served ou addr hist"
  shows "\<exists>w'. loadTXs ou lastTx addr w =
    Some (w', if knows (ti_Hash lastTx) hist then Inr (since (ti_Hash lastTx) hist) else Inl (Errorf ''can not get txs''))"
proof -
  obtain w1 b w2 i where "o_GetMasterchainInfo ou w = (w1, Inr b)" "o_GetAccount ou b addr w1 = (w2, Inr i)" and i: "points_to i hist"
    using assms unfolding history_served_def by blast
  then have "loadTXs ou lastTx addr w = load_loop ou addr lastTx i [] w2"
    by (simp add: loadTXs_def getLastTxID_def bindA_def callA_def)
  with load_loop_suffix[OF assms, of "[]" hist i lastTx "[]" w2] i show ?thesis by auto
qed

section \<open>One validated round\<close>

lemma checkDoubleSpending_ok:
  "checkDoubleSpending us known = (known', Inr ()) \<longleftrightarrow> known' = known @ us \<and> distinct us \<and> set us \<inter> set known = {}"
  by (induction us arbitrary: known) auto

lemma compareWithdrawals_ids: "set (map pw_UUID ww) \<subseteq> set us \<union> set (map pw_UUID (compareWithdrawals all_ww ww))"
  if "set (map pw_UUID all_ww) \<subseteq> set us"
  using that by (fastforce simp: compareWithdrawals_def list_ex_iff)

text \<open>The identifiers a transaction pays.\<close>

definition paid_ids :: "tonlib \<Rightarrow> (cell \<Rightarrow> nat) \<Rightarrow> account_tx \<Rightarrow> uuid list" where
  "paid_ids lib bits tx = (case parseTX lib bits tx of Inl e \<Rightarrow> [] | Inr (ww, us) \<Rightarrow> us)"

lemma parseTX_ids: "parseTX lib bits tx = Inr (ww, us) \<Longrightarrow> us = map pw_UUID ww \<and> paid_ids lib bits tx = us"
  by (auto simp: parseTX_def andThenR_def paid_ids_def split: sum.splits)

lemma match_txs_ok:
  assumes "match_txs lib bits txs us rem = Inr (us', rem')"
  shows "us' = us @ concat (map (paid_ids lib bits) txs)
    \<and> set (map pw_UUID rem) \<subseteq> set (concat (map (paid_ids lib bits) txs)) \<union> set (map pw_UUID rem')"
  using assms
proof (induction txs arbitrary: us rem)
  case (Cons tx txs)
  then obtain ww ids where p: "parseTX lib bits tx = Inr (ww, ids)"
    and m: "match_txs lib bits txs (us @ ids) (compareWithdrawals ww rem) = Inr (us', rem')"
    by (auto simp: andThenR_def split: sum.splits)
  note ids = parseTX_ids[OF p]
  have "set (map pw_UUID rem) \<subseteq> set ids \<union> set (map pw_UUID (compareWithdrawals ww rem))"
    using compareWithdrawals_ids[of ww ids rem] ids by simp
  also have "\<dots> \<subseteq> set ids \<union> (set (concat (map (paid_ids lib bits) txs)) \<union> set (map pw_UUID rem'))"
    using Cons.IH[OF m] by blast
  finally show ?case using Cons.IH[OF m] ids by (simp add: Un_assoc)
qed simp

definition knownUUIDs :: "PaymentSide \<Rightarrow> PayerProcessor \<Rightarrow> uuid list" where
  "knownUUIDs side p = (if side = SideA then pp_knownUUIDsA p else pp_knownUUIDsB p)"

definition lastTxID :: "PaymentSide \<Rightarrow> PayerProcessor \<Rightarrow> TxID" where
  "lastTxID side p = (if side = SideA then pp_lastTxIDA p else pp_lastTxIDB p)"

definition hotWallet :: "PaymentSide \<Rightarrow> PayerProcessor \<Rightarrow> taddress option" where
  "hotWallet side p = (if side = SideA then pp_hotWalletsAddrA p else pp_hotWalletsAddrB p) TonSymbol"

lemma sides [simp]: "SideA \<noteq> SideB" "SideB \<noteq> SideA"
  by (simp_all add: SideA_def SideB_def)

lemma validated_round:
  assumes "validateWithdrawals lib ou side ww (w, p) = Some ((w', p'), Inr ())" "history_served ou (hotWallet side p) hist"
  shows "let new = since (ti_Hash (lastTxID side p)) hist; us = concat (map (paid_ids lib (o_BitsSize ou)) new) in
    knows (ti_Hash (lastTxID side p)) hist \<and> ti_Hash (lastTxID side p') = tx_Hash (hd hist)
    \<and> knownUUIDs side p' = knownUUIDs side p @ us \<and> distinct us \<and> set us \<inter> set (knownUUIDs side p) = {}
    \<and> set (map pw_UUID ww) \<subseteq> set us \<and> hotWallet side p' = hotWallet side p"
proof -
  let ?h = "ti_Hash (lastTxID side p)"
  let ?new = "since ?h hist"
  have side: "side = SideA \<or> side = SideB" using assms(1) by (auto simp: validateWithdrawals_def split: if_splits)
  obtain w1 where load: "loadTXs ou (lastTxID side p) (hotWallet side p) w =
      Some (w1, if knows ?h hist then Inr ?new else Inl (Errorf ''can not get txs''))"
    using loadTXs_exact[OF assms(2)] by blast
  have known: "knows ?h hist"
    using assms(1) side load unfolding validateWithdrawals_def lastTxID_def hotWallet_def by (auto split: if_splits)
  define l where "l = (case ?new of [] \<Rightarrow> lastTxID side p | t # ts \<Rightarrow> \<lparr>ti_Lt = tx_LT t, ti_Hash = tx_Hash t\<rparr>)"
  have v: "validateWithdrawals lib ou side ww (w, p) =
      (case match_txs lib (o_BitsSize ou) ?new [] ww of
         Inl e \<Rightarrow> Some ((w1, p), Inl e)
       | Inr (newUUIDs, remainingTXs) \<Rightarrow>
           if remainingTXs \<noteq> [] then Some ((w1, p), Inl (Errorf ''can not find withdrawals''))
           else (case validate_side p side l newUUIDs of (p', r) \<Rightarrow> Some ((w1, p'), r)))"
    using side load known unfolding validateWithdrawals_def l_def lastTxID_def hotWallet_def Let_def by auto
  then obtain us where m: "match_txs lib (o_BitsSize ou) ?new [] ww = Inr (us, [])"
    and vs: "validate_side p side l us = (p', Inr ())"
    using assms(1) by (auto split: sum.splits prod.splits if_splits)
  have us: "us = concat (map (paid_ids lib (o_BitsSize ou)) ?new)" "set (map pw_UUID ww) \<subseteq> set us"
    using match_txs_ok[OF m] by auto
  have vs': "checkDoubleSpending us (knownUUIDs side p) = (knownUUIDs side p', Inr ())" "lastTxID side p' = l"
    "hotWallet side p' = hotWallet side p"
    using vs side by (auto simp: validate_side_def knownUUIDs_def lastTxID_def hotWallet_def split: prod.splits)
  have "ti_Hash l = tx_Hash (hd hist)" using known by (cases hist) (auto simp: l_def)
  with vs' us known show ?thesis unfolding Let_def checkDoubleSpending_ok by simp
qed

section \<open>All rounds of a side\<close>

text \<open>Rounds of one side over a growing history (\<open>now\<close> is the world of a round), between which the other goroutines may have changed
  everything but what belongs to this side.\<close>

inductive audited ::
  "tonlib \<Rightarrow> 'w outside \<Rightarrow> PaymentSide \<Rightarrow> PayerProcessor \<Rightarrow> (account_tx list \<times> withdrawal list) list \<Rightarrow> PayerProcessor \<Rightarrow> bool"
  for lib and ou :: "'w outside" and side p0 where
  audited_none: "audited lib ou side p0 [] p0"
| audited_other: "audited lib ou side p0 rs p \<Longrightarrow> knownUUIDs side p' = knownUUIDs side p \<Longrightarrow> lastTxID side p' = lastTxID side p \<Longrightarrow>
    hotWallet side p' = hotWallet side p \<Longrightarrow> audited lib ou side p0 rs p'"
| audited_round: "audited lib ou side p0 rs p \<Longrightarrow> o_BitsSize (now :: 'w outside) = o_BitsSize ou \<Longrightarrow> history_served now (hotWallet side p) hist \<Longrightarrow>
    (rs \<noteq> [] \<Longrightarrow> suffix (fst (last rs)) hist) \<Longrightarrow>
    validateWithdrawals lib now side ww (w, p) = Some ((w', p'), Inr ()) \<Longrightarrow>
    audited lib ou side p0 (rs @ [(hist, ww)]) p'"

definition paid_since :: "tonlib \<Rightarrow> (cell \<Rightarrow> nat) \<Rightarrow> byte list \<Rightarrow> account_tx list \<Rightarrow> uuid list" where
  "paid_since lib bits known hist = concat (map (paid_ids lib bits) (since known hist))"

lemma since_extended:
  assumes "distinct (map tx_Hash hist')" "suffix hist hist'" "knows k hist" "hist \<noteq> []"
  shows "knows k hist'" "since k hist' = since (tx_Hash (hd hist)) hist' @ since k hist"
proof -
  obtain pre where pre: "hist' = pre @ hist" using assms(2) by (auto simp: suffix_def)
  have "\<not> knows k pre" "\<not> knows (tx_Hash (hd hist)) pre" using assms(1,3,4) pre by (auto simp: disjoint_iff image_iff)
  moreover have "since (tx_Hash (hd hist)) hist = []" using assms(4) by (cases hist) auto
  ultimately show "since k hist' = since (tx_Hash (hd hist)) hist' @ since k hist" by (simp add: pre since_append)
  show "knows k hist'" using assms(3) pre by auto
qed

lemma audited_inv:
  assumes "audited lib ou side p0 rs p" "knownUUIDs side p0 = []"
  defines "k \<equiv> ti_Hash (lastTxID side p0)"
  shows "distinct (knownUUIDs side p) \<and> (\<forall>(h, ww)\<in>set rs. set (map pw_UUID ww) \<subseteq> set (knownUUIDs side p))
    \<and> (if rs = [] then ti_Hash (lastTxID side p) = k \<and> knownUUIDs side p = []
       else fst (last rs) \<noteq> [] \<and> ti_Hash (lastTxID side p) = tx_Hash (hd (fst (last rs))) \<and> knows k (fst (last rs))
         \<and> mset (knownUUIDs side p) = mset (paid_since lib (o_BitsSize ou) k (fst (last rs))))"
  using assms(1)
proof (induction rule: audited.induct)
  case audited_none
  then show ?case using assms(2) by (simp add: k_def)
next
  case (audited_other rs p p')
  then show ?case by simp
next
  case (audited_round rs p now hist ww w w' p')
  note v = validated_round[OF audited_round(5,3), unfolded Let_def audited_round(2)]
  have d: "distinct (map tx_Hash hist)" using audited_round(3) by (simp add: history_served_def)
  let ?us = "concat (map (paid_ids lib (o_BitsSize ou)) (since (ti_Hash (lastTxID side p)) hist))"
  have known: "distinct (knownUUIDs side p')" "knownUUIDs side p' = knownUUIDs side p @ ?us"
    "set (map pw_UUID ww) \<subseteq> set (knownUUIDs side p')" "hist \<noteq> []"
    using v audited_round.IH by auto
  have "knows k hist \<and> mset (knownUUIDs side p') = mset (paid_since lib (o_BitsSize ou) k hist)"
  proof (cases "rs = []")
    case True
    with audited_round.IH v show ?thesis by (simp add: paid_since_def)
  next
    case False
    with audited_round.IH since_extended[OF d audited_round(4)] show ?thesis
      using known(2) by (auto simp: paid_since_def)
  qed
  moreover have "\<forall>(h, ww)\<in>set rs. set (map pw_UUID ww) \<subseteq> set (knownUUIDs side p')"
    using audited_round.IH known(2) by fastforce
  ultimately show ?case using known(1,3,4) v by simp
qed

text \<open>
  C39.  The payment test proves what it claims.  Over any number of validated rounds of a side, with
  the hot wallet's history growing between them and the other goroutines running, the identifiers
  paid by all transactions since the test began are pairwise different, and every withdrawal that was
  requested in a round is paid exactly once among them.
\<close>

theorem payments_audited:
  assumes "audited lib ou side p0 rs p" "rs \<noteq> []" "knownUUIDs side p0 = []"
  shows "distinct (paid_since lib (o_BitsSize ou) (ti_Hash (lastTxID side p0)) (fst (last rs)))
    \<and> (\<forall>(hist, ww)\<in>set rs. \<forall>x\<in>set ww. count_list (paid_since lib (o_BitsSize ou) (ti_Hash (lastTxID side p0)) (fst (last rs))) (pw_UUID x) = 1)"
proof -
  let ?paid = "paid_since lib (o_BitsSize ou) (ti_Hash (lastTxID side p0)) (fst (last rs))"
  have inv: "distinct (knownUUIDs side p)" "mset (knownUUIDs side p) = mset ?paid"
    "\<forall>(h, ww)\<in>set rs. set (map pw_UUID ww) \<subseteq> set (knownUUIDs side p)"
    using audited_inv[OF assms(1,3)] assms(2) by auto
  then have d: "distinct ?paid" "set (knownUUIDs side p) = set ?paid"
    by (metis mset_eq_imp_distinct_iff, metis mset_eq_setD)
  have "count_list ?paid u = 1" if "u \<in> set ?paid" for u
    using d(1) that by (simp add: distinct_count_atmost_1 flip: count_mset)
  with inv(3) d show ?thesis by fastforce
qed

text \<open>A hot wallet with two transactions, the newer of which pays one withdrawal.\<close>

definition sample_tx0 :: account_tx where
  "sample_tx0 = \<lparr>tx_Hash = [1], tx_Now = 0, tx_LT = 1, tx_OutMsgCount = 0, tx_In = None, tx_OutToSlice = Inr [], tx_Description = 0,
     tx_PrevTxLT = 0, tx_PrevTxHash = []\<rparr>"

definition sample_tx1 :: account_tx where
  "sample_tx1 = \<lparr>tx_Hash = [2], tx_Now = 0, tx_LT = 2, tx_OutMsgCount = 1, tx_In = None,
     tx_OutToSlice = Inr [MsgInternal (sample_internal\<lparr>im_Payload := Some 4\<rparr>)], tx_Description = 0,
     tx_PrevTxLT = 1, tx_PrevTxHash = [1]\<rparr>"

definition sample_chain :: "unit outside" where
  "sample_chain =
     \<lparr>o_validURL = (\<lambda>_. Inr ()), o_Do = (\<lambda>host req c. (c, Inl (LibError ''refused''))), o_NewV4 = (\<lambda>c. (c, Inr 0)),
      o_GetAccountCurrentState = (\<lambda>a c. (c, Inr (0, AccountStatusActive))), o_GetLastJettonBalance = (\<lambda>a c. (c, Inr 0)),
      o_GetJettonWalletAddress = (\<lambda>a m c. (c, Inr (sample_taddress 9))), o_GetMasterchainInfo = (\<lambda>c. (c, Inr (sample_block_id 0))),
      o_GetAccount = (\<lambda>b a c. (c, Inr \<lparr>ti_Lt = 2, ti_Hash = [2]\<rparr>)),
      o_ListTransactions = (\<lambda>a n lt h c. (c, Inr (if lt = 2 then [sample_tx0, sample_tx1] else [sample_tx0]))),
      o_BitsSize = (\<lambda>c. 64), o_WithTimeout = id, o_cancel = id\<rparr>"

definition sample_auditor :: PayerProcessor where
  "sample_auditor =
     \<lparr>pp_client = NewClient ''a:8081'' ''b:8081'' ''token'' ''u'', pp_depositsA = [], pp_depositsB = [],
      pp_hotWalletsAddrA = [TonSymbol \<mapsto> sample_taddress 1], pp_hotWalletsAddrB = [TonSymbol \<mapsto> sample_taddress 2],
      pp_lastTxIDA = \<lparr>ti_Lt = 1, ti_Hash = [1]\<rparr>, pp_lastTxIDB = \<lparr>ti_Lt = 1, ti_Hash = [1]\<rparr>, pp_balances = newHotBalances,
      pp_knownUUIDsA = [], pp_knownUUIDsB = []\<rparr>"

definition sample_payments :: "withdrawal list" where
  "sample_payments = [\<lparr>pw_To = None, pw_Amount = 0, pw_UUID = 0\<rparr>]"

lemma sample_served_history: "history_served sample_chain addr [sample_tx1, sample_tx0]"
proof -
  have "o_ListTransactions sample_chain addr 3 (tx_LT t) (tx_Hash t) w = (w, Inr (rev (take 3 (t # ts))))"
    if "[sample_tx1, sample_tx0] = pre @ t # ts" for pre t ts w
  proof -
    from that have "t = sample_tx1 \<and> ts = [sample_tx0] \<or> t = sample_tx0 \<and> ts = []"
      by (auto simp: Cons_eq_append_conv append_eq_Cons_conv)
    then show ?thesis by (auto simp: sample_chain_def sample_tx0_def sample_tx1_def)
  qed
  then show ?thesis unfolding history_served_def
    by (auto simp: sample_chain_def[THEN arg_cong[of _ _ o_GetMasterchainInfo]] sample_chain_def[THEN arg_cong[of _ _ o_GetAccount]]
        points_to_def sample_tx0_def sample_tx1_def)
qed

lemma sample_validated:
  obtains p' where "validateWithdrawals sample_lib sample_chain SideA sample_payments ((), sample_auditor) = Some (((), p'), Inr ())"
proof -
  have load: "loadTXs sample_chain \<lparr>ti_Lt = 1, ti_Hash = [1]\<rparr> addr () = Some ((), Inr [sample_tx1])" for addr
    using loadTXs_exact[OF sample_served_history, of "\<lparr>ti_Lt = 1, ti_Hash = [1]\<rparr>" addr "()"] by (simp add: sample_tx0_def sample_tx1_def)
  have m: "match_txs sample_lib (o_BitsSize sample_chain) [sample_tx1] [] sample_payments = Inr ([0], [])"
    by (simp add: sample_tx1_def parseTX_def parse_internal_def DecodeJettonTransfer_def sample_lib_def LoadComment_def sample_chain_def
        sample_payments_def compareWithdrawals_def)
  show thesis
    by (rule that) (simp add: validateWithdrawals_def sample_auditor_def load m validate_side_def Let_def del: match_txs.simps)
qed

theorem payments_audited_witness:
  "count_list (paid_since sample_lib (o_BitsSize sample_chain) [1] [sample_tx1, sample_tx0]) 0 = 1"
proof -
  obtain p' where v: "validateWithdrawals sample_lib sample_chain SideA sample_payments ((), sample_auditor) = Some (((), p'), Inr ())"
    by (rule sample_validated)
  have "audited sample_lib sample_chain SideA sample_auditor ([] @ [([sample_tx1, sample_tx0], sample_payments)]) p'"
    by (rule audited_round[OF audited_none refl sample_served_history _ v]) simp
  from payments_audited[OF this] show ?thesis
    by (simp add: knownUUIDs_def lastTxID_def sample_auditor_def sample_payments_def)
qed

end
