(* ===== verification/Payer_Service.thy ===== *)
theory Payer_Service
  imports Payer_Props Notification_Json
begin

text \<open>
  The payment test against the service: the host the client talks to runs the modelled service, which
  may go on between and during the calls.  A withdrawal the client was told about is stored with the
  data it was given, and when \<open>waitWithdrawals\<close> returns, the service has recorded the transaction that
  paid each of them.
\<close>

section \<open>The service behind a host\<close>

text \<open>\<open>conn w\<close> is the connection of the service in the world \<open>w\<close>, \<open>api w\<close> the outside values its handlers
  see.  The service works before it handles the request and after it.\<close>

definition service_world ::
  "tonlib \<Rightarrow> config \<Rightarrow> 'w outside \<Rightarrow> string \<Rightarrow> ('w \<Rightarrow> api) \<Rightarrow> ('w \<Rightarrow> Connection) \<Rightarrow> bool" where
  "service_world lib cfg ou host api conn \<longleftrightarrow>
     (\<forall>w w' r. o_NewV4 ou w = (w', r) \<longrightarrow> service_reach lib cfg (conn w) (conn w'))
     \<and> (\<forall>req w w' r. o_Do ou host req w = (w', Inr r) \<longrightarrow>
          (\<exists>c0 c logs b. service_reach lib cfg (conn w) c0 \<and> serve (api w) req c0 = (c, logs, Inr (rp_StatusCode r, b))
             \<and> service_reach lib cfg c (conn w') \<and> (\<forall>b'. rp_Body r = Inr b' \<longrightarrow> b' = b)))"

lemma client_Do_served:
  assumes "runs (client_Do ou url req) w w' b" "service_world lib cfg ou (url_Host url) api conn"
  obtains c0 c st where "service_reach lib cfg (conn w) c0" "runs (serve (api w) req) c0 c (st, b)" "st < 300"
    "service_reach lib cfg c (conn w')"
proof -
  from assms(1) obtain r where "o_Do ou (url_Host url) req w = (w', Inr r)" "reply_body r = Inr b"
    by (auto simp: client_Do_def runs_bindA)
  then show thesis using assms(2) that unfolding service_world_def reply_body_def runs_def
    by (fastforce split: if_splits)
qed

section \<open>Addresses\<close>

lemma url_parts:
  assumes "CHR ''/'' \<notin> set host"
  shows "url_Host (''http://'' @ host @ CHR ''/'' # rest) = host" "url_RequestURI (''http://'' @ host @ CHR ''/'' # rest) = CHR ''/'' # rest"
proof -
  have "\<forall>c\<in>set host. c \<noteq> CHR ''/''" using assms by auto
  then show "url_Host (''http://'' @ host @ CHR ''/'' # rest) = host"
    "url_RequestURI (''http://'' @ host @ CHR ''/'' # rest) = CHR ''/'' # rest"
    by (simp_all add: url_Host_def url_RequestURI_def takeWhile_append2 dropWhile_append2)
qed

lemma ParseInt_printed: "ParseInt (show_int n) = Inr j \<Longrightarrow> j = n"
proof -
  assume p: "ParseInt (show_int n) = Inr j"
  note d = show_nat_digits[of "nat \<bar>n\<bar>"]
  obtain c cs where s: "show_nat (nat \<bar>n\<bar>) = c # cs" using d by (cases "show_nat (nat \<bar>n\<bar>)") auto
  have "is_digit c" using d s by simp
  then have "c \<noteq> CHR ''-''" "c \<noteq> CHR ''+''" by (auto simp: is_digit_def)
  with d s p show "j = n" by (cases "n < 0") (auto simp: ParseInt_def show_int_def Let_def split: if_splits)
qed

lemma show_int_chars: "c \<in> set (show_int n) \<Longrightarrow> is_digit c \<or> c = CHR ''-''"
  using show_nat_digits[of "nat n"] show_nat_digits[of "nat (- n)"] by (auto simp: show_int_def list_all_iff split: if_splits)

lemma status_url:
  fixes host :: string and i :: int
  assumes "CHR ''/'' \<notin> set host"
  defines "url \<equiv> ''http://'' @ host @ ''/v1/withdrawal/status?id='' @ show_int i"
  shows "url_Host url = host" "url_Path url = ''/v1/withdrawal/status''" "url_Query url ''id'' = show_int i"
proof -
  have no: "CHR ''&'' \<notin> set (show_int i)" using show_int_chars[of "CHR ''&''" i] by (auto simp: is_digit_def)
  have u: "url = ''http://'' @ host @ CHR ''/'' # (''v1/withdrawal/status?id='' @ show_int i)" by (simp add: url_def)
  show "url_Host url = host" "url_Path url = ''/v1/withdrawal/status''"
    unfolding u url_Path_def url_parts[OF assms(1)] by simp_all
  have "strings_Split (''id='' @ show_int i) (CHR ''&'') = [''id='' @ show_int i]" by (rule strings_Split_single) (use no in simp)
  then show "url_Query url ''id'' = show_int i" unfolding u url_Query_def url_parts[OF assms(1)] by simp
qed

lemma send_url:
  fixes host :: string
  assumes "CHR ''/'' \<notin> set host"
  defines "url \<equiv> ''http://'' @ host @ ''/v1/withdrawal/send''"
  shows "url_Host url = host" "url_Path url = ''/v1/withdrawal/send''"
proof -
  have u: "url = ''http://'' @ host @ CHR ''/'' # ''v1/withdrawal/send''" by (simp add: url_def)
  show "url_Host url = host" "url_Path url = ''/v1/withdrawal/send''" unfolding u url_Path_def url_parts[OF assms(1)] by simp_all
qed

section \<open>One request\<close>

lemma served_route:
  assumes "runs (serve h req) c c' (st, b)" "st < 300" "map_of RegisterHandlers (req_Path req) = Some (recoverMiddleware (authMiddleware f))"
  shows "runs (f h req) c c' (st, b)"
  using assms by (auto simp: serve_def runs_def recoverMiddleware_def authMiddleware_def retA_def ok_def
      split: prod.splits sum.splits error.splits if_splits)

lemma sendWithdrawal_accepted: "runs (handle_sendWithdrawal h req) c c' (st, b) \<Longrightarrow> st < 300 \<Longrightarrow> st = 200"
  by (auto simp: handle_sendWithdrawal_def split: sum.splits if_splits) (metis old.sum.exhaust)

text \<open>A request stored for a deposit.\<close>

definition stored :: "tonlib \<Rightarrow> test_Client \<Rightarrow> string \<Rightarrow> int64 \<Rightarrow> int \<Rightarrow> uuid \<Rightarrow> Connection \<Rightarrow> bool" where
  "stored lib s currency amount i u c \<longleftrightarrow>
     (\<exists>r\<in>set (withdrawal_requests (conn_db c)). rq_query_id r = i \<and> rq_user_id r = tc_userID s
        \<and> rq_user_query_id r = lib_UuidString lib u \<and> rq_currency r = currency \<and> rq_amount r = of_int (sint amount)
        \<and> \<not> rq_is_internal r)"

lemma service_reach_grows: "service_reach lib cfg c c' \<Longrightarrow> grows (\<lambda>_. True) (conn_db c) (conn_db c')"
  using sys_reach_grows[of lib cfg "\<lparr>sys_conn = c, sys_picked = []\<rparr>" "\<lparr>sys_conn = c', sys_picked = []\<rparr>"] service_reach_conn
  by (simp add: reach_conn_def)

lemma stored_stays:
  assumes "service_reach lib cfg c c'" "stored l s cur a i u c"
  shows "stored l s cur a i u c'"
proof -
  from assms(2) obtain r where r: "r \<in> set (withdrawal_requests (conn_db c))" "rq_query_id r = i" "rq_user_id r = tc_userID s"
    "rq_user_query_id r = lib_UuidString l u" "rq_currency r = cur" "rq_amount r = of_int (sint a)" "\<not> rq_is_internal r"
    unfolding stored_def by blast
  obtain r' where "r' \<in> set (withdrawal_requests (conn_db c'))" "same_or_done r r'"
    using grows_member[OF service_reach_grows[OF assms(1)] r(1)] .
  with r(2-) show ?thesis unfolding stored_def by (intro bexI[of _ r']) (simp_all add: same_or_done_fields)
qed

lemma SendWithdrawal_stored:
  assumes "runs (SendWithdrawal l ou s host cur dest amount) w w' (i, u)"
    and "service_world lib cfg ou host api conn" "CHR ''/'' \<notin> set host"
  shows "stored l s cur amount i u (conn w')" "service_reach lib cfg (conn w) (conn w')"
proof -
  define url where "url = ''http://'' @ host @ ''/v1/withdrawal/send''"
  define body where "body = \<lparr>wb_UserID = tc_userID s, wb_QueryID = lib_UuidString l u, wb_Currency = cur,
    wb_Amount = of_int (sint amount), wb_Destination = dest, wb_Comment = lib_UuidString l u, wb_BinaryComment = []\<rparr>"
  let ?req = "post_request url (tc_token s) body"
  note url = send_url[OF assms(3), folded url_def]
  from assms(1) obtain w1 b where v4: "o_NewV4 ou w = (w1, Inr u)" and d: "runs (client_Do ou url ?req) w1 w' b"
    and i: "Unmarshal_body 0 id_of b = Inr i"
    by (auto simp: SendWithdrawal_def Let_def runs_bindA url_def body_def)
  have r1: "service_reach lib cfg (conn w) (conn w1)" using assms(2) v4 by (auto simp: service_world_def)
  obtain c0 c st where c: "service_reach lib cfg (conn w1) c0" "runs (serve (api w1) ?req) c0 c (st, b)" "st < 300"
    "service_reach lib cfg c (conn w')"
    by (rule client_Do_served[OF d]) (use assms(2) url in auto)
  have "map_of RegisterHandlers (req_Path ?req) = Some (recoverMiddleware (authMiddleware (post_only handle_sendWithdrawal)))"
    by (simp add: post_request_def url RegisterHandlers_def)
  from served_route[OF c(2,3) this] have h: "runs (handle_sendWithdrawal (api w1) ?req) c0 c (st, b)"
    by (simp add: post_only_def post_request_def)
  with c(3) have "st = 200" using sendWithdrawal_accepted by blast
  with sendWithdrawal_effect[OF h] obtain a bo where
    "b = WithdrawalResponse (query_id_seq (conn_db c0))"
    "withdrawal_requests (conn_db c) = withdrawal_requests (conn_db c0) @ [request_row (query_id_seq (conn_db c0)) body a bo]"
    by (auto simp: post_request_def)
  with i have "stored l s cur amount i u c"
    by (simp add: Unmarshal_body_def no_json_def id_of_def stored_def request_row_def body_def)
  with c(4) show "stored l s cur amount i u (conn w')" by (rule stored_stays)
  have "service_step lib cfg c0 c" using c(2) http[of lib cfg c0 "api w1" ?req] by (simp add: runs_def)
  then show "service_reach lib cfg (conn w) (conn w')"
    using service_reach_trans[OF r1 service_reach_trans[OF further[OF c(1)] c(4)]] by blast
qed

section \<open>The status of a withdrawal\<close>

definition service_ok :: "Connection \<Rightarrow> bool" where
  "service_ok c \<longleftrightarrow> sys_inv \<lparr>sys_conn = c, sys_picked = []\<rparr>"

text \<open>The service has recorded the transaction that paid the request.\<close>

definition recorded_paid :: "int \<Rightarrow> Connection \<Rightarrow> bool" where
  "recorded_paid i c \<longleftrightarrow> (\<exists>x\<in>set (external_withdrawals (conn_db c)). xw_query_id x = i \<and> xw_tx_hash x \<noteq> None)"

lemma recorded_paid_iff: "recorded_paid i c \<longleftrightarrow> i \<in> snd ` paid (conn_db c)"
  by (auto simp: recorded_paid_def paid_def settled_def image_iff)

lemma service_reach_ok:
  assumes "service_reach lib cfg c c'" "service_ok c"
  shows "service_ok c'" "recorded_paid i c \<Longrightarrow> recorded_paid i c'"
  using service_reach_conn[OF assms(1)] sys_reach_inv assms(2) unfolding service_ok_def recorded_paid_iff reach_conn_def by fastforce+

lemma processed_recorded:
  assumes "GetExternalWithdrawalStatus i (conn_db c) = Inr d" "wdt_Status d = ProcessedStatus" "service_ok c"
  shows "recorded_paid i c"
proof -
  let ?P = "\<lambda>x. xw_query_id x = i \<and> (xw_tx_hash x \<noteq> None \<or> xw_processed_lt x \<noteq> None)"
  obtain x where "find ?P (external_withdrawals (conn_db c)) = Some x"
    using assms(1,2) by (auto simp: GetExternalWithdrawalStatus_def Let_def split: option.splits if_splits)
  then have x: "x \<in> set (external_withdrawals (conn_db c))" "?P x" by (auto dest: find_SomeD)
  with assms(3) have "xw_tx_hash x \<noteq> None" by (auto simp: service_ok_def sys_inv_def wd_inv_def row_ok_def settled_def)
  with x show ?thesis by (auto simp: recorded_paid_def)
qed

lemma getWithdrawalStatus_answer:
  assumes "runs (handle_getWithdrawalStatus h req) c c' (st, b)" "st < 300"
  shows "\<exists>i d tx. ParseInt (req_Query req ''id'') = Inr i \<and> GetExternalWithdrawalStatus i (conn_db c) = Inr d
    \<and> b = StatusBody (wdt_UserID d) (wdt_QueryID d) (wdt_Status d) tx"
  using assms by (auto simp: handle_getWithdrawalStatus_def Let_def split: sum.splits if_splits)

lemma GetWithdrawalStatus_paid:
  assumes "runs (GetWithdrawalStatus ou s host i) w w' (WithdrawalStatus_string ProcessedStatus)"
    and "service_world lib cfg ou host api conn" "CHR ''/'' \<notin> set host" "service_ok (conn w)"
  shows "recorded_paid i (conn w')"
proof -
  define url where "url = ''http://'' @ host @ ''/v1/withdrawal/status?id='' @ show_int i"
  let ?req = "get_request url (tc_token s)"
  note url = status_url[OF assms(3), of i, folded url_def]
  from assms(1) obtain b where d: "runs (client_Do ou url ?req) w w' b"
    and b: "Unmarshal_body [] status_of b = Inr (WithdrawalStatus_string ProcessedStatus)"
    by (auto simp: GetWithdrawalStatus_def Let_def runs_bindA url_def)
  obtain c0 c st where c: "service_reach lib cfg (conn w) c0" "runs (serve (api w) ?req) c0 c (st, b)" "st < 300"
    "service_reach lib cfg c (conn w')"
    by (rule client_Do_served[OF d]) (use assms(2) url in auto)
  have "map_of RegisterHandlers (req_Path ?req) = Some (recoverMiddleware (authMiddleware (get_only handle_getWithdrawalStatus)))"
    by (simp add: get_request_def url RegisterHandlers_def)
  from served_route[OF c(2,3) this] have "runs (handle_getWithdrawalStatus (api w) ?req) c0 c (st, b)"
    by (simp add: get_only_def get_request_def)
  from getWithdrawalStatus_answer[OF this c(3)] obtain j d tx where j: "ParseInt (show_int i) = Inr j"
    "GetExternalWithdrawalStatus j (conn_db c0) = Inr d" "b = StatusBody (wdt_UserID d) (wdt_QueryID d) (wdt_Status d) tx"
    by (auto simp: get_request_def url)
  have "wdt_Status d = ProcessedStatus"
    using b j(3) by (cases "wdt_Status d") (simp_all add: Unmarshal_body_def no_json_def status_of_def)
  moreover have "service_ok c0" using service_reach_ok(1)[OF c(1) assms(4)] .
  ultimately have p: "recorded_paid i c0" using processed_recorded j(2) ParseInt_printed[OF j(1)] by blast
  have "service_step lib cfg c0 c" using c(2) http[of lib cfg c0 "api w" ?req] by (simp add: runs_def)
  then have "service_reach lib cfg c0 (conn w')" using service_reach_trans[OF one_service_step c(4)] by blast
  from service_reach_ok(2)[OF this \<open>service_ok c0\<close> p] show ?thesis .
qed

lemma GetWithdrawalStatus_reach:
  assumes "runs (GetWithdrawalStatus ou s host i) w w' r" "service_world lib cfg ou host api conn" "CHR ''/'' \<notin> set host"
  shows "service_reach lib cfg (conn w) (conn w')"
proof -
  define url where "url = ''http://'' @ host @ ''/v1/withdrawal/status?id='' @ show_int i"
  from assms(1) obtain b where d: "runs (client_Do ou url (get_request url (tc_token s))) w w' b"
    by (auto simp: GetWithdrawalStatus_def Let_def runs_bindA url_def)
  obtain c0 c st where c: "service_reach lib cfg (conn w) c0" "runs (serve (api w) (get_request url (tc_token s))) c0 c (st, b)"
    "service_reach lib cfg c (conn w')"
    by (rule client_Do_served[OF d]) (use assms(2) status_url(1)[OF assms(3), of i, folded url_def] in auto)
  have "service_step lib cfg c0 c" using c(2) http[of lib cfg c0 "api w"] by (auto simp: runs_def)
  then show ?thesis using service_reach_trans[OF further[OF c(1)] c(3)] by blast
qed

section \<open>Waiting\<close>

definition waiting_ok :: "tonlib \<Rightarrow> config \<Rightarrow> Connection \<Rightarrow> int list \<Rightarrow> int list \<Rightarrow> Connection \<Rightarrow> bool" where
  "waiting_ok lib cfg c1 ids completed c \<longleftrightarrow>
     service_reach lib cfg c1 c \<and> service_ok c \<and> distinct completed \<and> set completed \<subseteq> set ids \<and> (\<forall>i\<in>set completed. recorded_paid i c)"

lemma wait_pass_ok:
  assumes "runs (wait_pass ou s host is completed) w w' completed'" "set is \<subseteq> set ids" "waiting_ok lib cfg c1 ids completed (conn w)"
    and "service_world lib cfg ou host api conn" "CHR ''/'' \<notin> set host"
  shows "waiting_ok lib cfg c1 ids completed' (conn w')"
  using assms(1-3)
proof (induction "is" arbitrary: completed w)
  case (Cons i "is")
  show ?case
  proof (cases "i \<in> set completed")
    case True
    with Cons show ?thesis by simp
  next
    case False
    with Cons.prems(1) obtain w1 status where st: "runs (GetWithdrawalStatus ou s host i) w w1 status"
      and rest: "if status = WithdrawalStatus_string ProcessedStatus
        then runs (wait_pass ou s host is (completed @ [i])) w1 w' completed' else w' = w1 \<and> completed' = completed"
      by (auto simp: runs_bindA split: if_splits)
    have ok: "service_ok (conn w)" using Cons.prems(3) by (simp add: waiting_ok_def)
    note reach = GetWithdrawalStatus_reach[OF st assms(4,5)]
    have w1: "waiting_ok lib cfg c1 ids completed (conn w1)"
      using Cons.prems(3) service_reach_ok[OF reach ok] service_reach_trans[OF _ reach] by (auto simp: waiting_ok_def)
    show ?thesis
    proof (cases "status = WithdrawalStatus_string ProcessedStatus")
      case True
      then have "recorded_paid i (conn w1)" using GetWithdrawalStatus_paid[OF _ assms(4,5) ok] st by blast
      then have "waiting_ok lib cfg c1 ids (completed @ [i]) (conn w1)" using w1 False Cons.prems(2) by (auto simp: waiting_ok_def)
      with Cons.IH rest True Cons.prems(2) show ?thesis by auto
    qed (use rest w1 in simp)
  qed
qed simp

lemma wait_loop_ok:
  "wait_loop ou s host ids completed w = Some y \<Longrightarrow> y = (w', Inr ()) \<Longrightarrow> waiting_ok lib cfg c1 ids completed (conn w)
    \<Longrightarrow> service_world lib cfg ou host api conn \<Longrightarrow> CHR ''/'' \<notin> set host
    \<Longrightarrow> service_reach lib cfg c1 (conn w') \<and> (\<forall>i\<in>set ids. recorded_paid i (conn w'))"
proof (induction rule: wait_loop.raw_induct[rotated, consumes 1, case_names step])
  case (step rec ou s host ids completed w y)
  obtain w1 g r where p: "wait_pass ou s host ids completed w = (w1, g, r)" by (metis prod_cases3)
  with step(2,3) obtain completed1 where r: "r = Inr completed1" by (cases r) auto
  have ok: "waiting_ok lib cfg c1 ids completed1 (conn w1)"
    by (rule wait_pass_ok[where s = s, OF _ subset_refl step(4,5,6)]) (simp add: runs_def p r)
  show ?case
  proof (cases "length completed1 = length ids")
    case True
    then have "w' = w1" using step(2,3) p r by simp
    moreover have "card (set ids) \<le> card (set completed1)"
      using ok True card_length[of ids] by (simp add: waiting_ok_def distinct_card)
    then have "set completed1 = set ids" using ok by (intro card_seteq) (simp_all add: waiting_ok_def)
    ultimately show ?thesis using ok by (auto simp: waiting_ok_def)
  next
    case False
    then have "rec ou s host ids completed1 w1 = Some y" using step(2) p r by simp
    from step(1)[OF this step(3) ok step(5,6)] show ?thesis .
  qed
qed

section \<open>A round\<close>

text \<open>The host a side pays from and the deposits it pays to.\<close>

definition side_host :: "PaymentSide \<Rightarrow> PayerProcessor \<Rightarrow> string" where
  "side_host side p = (if side = SideA then tc_urlA (pp_client p) else tc_urlB (pp_client p))"

definition side_deposits :: "PaymentSide \<Rightarrow> PayerProcessor \<Rightarrow> Deposit list" where
  "side_deposits side p = (if side = SideA then pp_depositsB p else pp_depositsA p)"

definition deposit_amount :: "Deposit \<Rightarrow> int64" where
  "deposit_amount d = (if dp_Currency d = TonSymbol then tonWithdrawAmount else jettonWithdrawAmount)"

definition requested :: "tonlib \<Rightarrow> test_Client \<Rightarrow> Connection \<Rightarrow> Deposit \<Rightarrow> int \<Rightarrow> withdrawal \<Rightarrow> bool" where
  "requested lib s c d i x \<longleftrightarrow> pw_To x = dp_Address d \<and> pw_Amount x = deposit_amount d
     \<and> stored lib s (dp_Currency d) (deposit_amount d) i (pw_UUID x) c"

text \<open>The deposits, the numbers and the withdrawals correspond one by one.\<close>

definition all_requested ::
  "tonlib \<Rightarrow> test_Client \<Rightarrow> Connection \<Rightarrow> Deposit list \<Rightarrow> int list \<Rightarrow> withdrawal list \<Rightarrow> bool" where
  "all_requested lib s c ds ids ww \<longleftrightarrow> length ids = length ds \<and> length ww = length ds
     \<and> (\<forall>k<length ds. requested lib s c (ds ! k) (ids ! k) (ww ! k))"

lemma all_requested_stays: "service_reach lib cfg c c' \<Longrightarrow> all_requested l s c ds ids ww \<Longrightarrow> all_requested l s c' ds ids ww"
  using stored_stays by (auto simp: all_requested_def requested_def)

lemma all_requested_snoc:
  "all_requested l s c ds ids ww \<Longrightarrow> requested l s c d i x \<Longrightarrow> all_requested l s c (ds @ [d]) (ids @ [i]) (ww @ [x])"
  by (auto simp: all_requested_def nth_append less_Suc_eq)

lemma runs_withdraw_deposit:
  "runs (withdraw_deposit l ou s host d (ids, ww)) w w' r \<longleftrightarrow>
     (\<exists>a i u. addr_String l (dp_Address d) = Inr a
        \<and> runs (SendWithdrawal l ou s host (dp_Currency d) a (deposit_amount d)) w w' (i, u)
        \<and> r = (ids @ [i], ww @ [\<lparr>pw_To = dp_Address d, pw_Amount = deposit_amount d, pw_UUID = u\<rparr>]))"
  by (auto simp: withdraw_deposit_def runs_bindA Let_def deposit_amount_def)

lemma withdraw_loop_requested:
  assumes "runs (forA (withdraw_deposit l ou s host) ds (ids, ww)) w w' (ids', ww')" "all_requested l s (conn w) before ids ww"
    and "service_world lib cfg ou host api conn" "CHR ''/'' \<notin> set host"
  shows "all_requested l s (conn w') (before @ ds) ids' ww' \<and> service_reach lib cfg (conn w) (conn w')"
  using assms(1,2)
proof (induction ds arbitrary: ids ww w before)
  case Nil
  then show ?case by (simp add: here)
next
  case (Cons d ds)
  then obtain w1 i u a where sent: "runs (SendWithdrawal l ou s host (dp_Currency d) a (deposit_amount d)) w w1 (i, u)"
    and rest: "runs (forA (withdraw_deposit l ou s host) ds
      (ids @ [i], ww @ [\<lparr>pw_To = dp_Address d, pw_Amount = deposit_amount d, pw_UUID = u\<rparr>])) w1 w' (ids', ww')"
    unfolding runs_forA_Cons runs_withdraw_deposit by blast
  note st = SendWithdrawal_stored[OF sent assms(3,4)]
  have "requested l s (conn w1) d i \<lparr>pw_To = dp_Address d, pw_Amount = deposit_amount d, pw_UUID = u\<rparr>"
    using st(1) by (simp add: requested_def)
  from Cons.IH[OF rest all_requested_snoc[OF all_requested_stays[OF st(2) Cons.prems(2)] this]] st(2)
  show ?case using service_reach_trans by auto
qed


text \<open>A service that answers every request at once.\<close>

definition sample_outside :: "Connection outside" where
  "sample_outside =
     \<lparr>o_validURL = (\<lambda>_. Inr ()),
      o_Do = (\<lambda>host req c. case serve sample_api req c of
                (c', logs, Inl e) \<Rightarrow> (c', Inl e)
              | (c', logs, Inr (st, b)) \<Rightarrow> (c', Inr \<lparr>rp_StatusCode = st, rp_Body = Inr b, rp_closes = True\<rparr>)),
      o_NewV4 = (\<lambda>c. (c, Inr 3)), o_GetAccountCurrentState = (\<lambda>a c. (c, Inr (0, AccountStatusActive))),
      o_GetLastJettonBalance = (\<lambda>a c. (c, Inr 0)), o_GetJettonWalletAddress = (\<lambda>a m c. (c, Inr (sample_taddress 9))),
      o_GetMasterchainInfo = (\<lambda>c. (c, Inr (sample_block_id 0))), o_GetAccount = (\<lambda>b a c. (c, Inr \<lparr>ti_Lt = 0, ti_Hash = []\<rparr>)),
      o_ListTransactions = (\<lambda>a n lt h c. (c, Inr [])), o_BitsSize = (\<lambda>c. 64), o_WithTimeout = id, o_cancel = id\<rparr>"

lemma sample_Do:
  "o_Do sample_outside host req w = (w', Inr r) \<longleftrightarrow>
     (\<exists>logs st b. serve sample_api req w = (w', logs, Inr (st, b)) \<and> r = \<lparr>rp_StatusCode = st, rp_Body = Inr b, rp_closes = True\<rparr>)"
  by (auto simp: sample_outside_def split: prod.splits sum.splits)

lemma sample_outside_service: "service_world lib cfg sample_outside host (\<lambda>_. sample_api) id"
  unfolding service_world_def
proof (intro conjI allI impI)
  show "service_reach lib cfg (id w) (id w')" if "o_NewV4 sample_outside w = (w', r)" for w w' r
    using that by (simp add: sample_outside_def here)
  show "\<exists>c0 c logs b. service_reach lib cfg (id w) c0 \<and> serve sample_api req c0 = (c, logs, Inr (rp_StatusCode r, b))
      \<and> service_reach lib cfg c (id w') \<and> (\<forall>b'. rp_Body r = Inr b' \<longrightarrow> b' = b)"
    if "o_Do sample_outside host req w = (w', Inr r)" for req w w' r
    using that here[of lib cfg] unfolding sample_Do by fastforce
qed

lemma sample_client_Do:
  "runs (serve sample_api req) c c' (200, b) \<Longrightarrow> runs (client_Do sample_outside url req) c c' b"
  by (cases "serve sample_api req c") (auto simp: client_Do_def runs_bindA sample_Do runs_def[of "serve sample_api req"] reply_body_def sample_outside_def[THEN arg_cong[of _ _ o_validURL]])

definition sample_payer :: PayerProcessor where
  "sample_payer =
     \<lparr>pp_client = NewClient ''a:8081'' ''b:8081'' ''token'' ''u'', pp_depositsA = [],
      pp_depositsB = [\<lparr>dp_Address = Some (sample_taddress 7), dp_JettonWallet = None, dp_Currency = TonSymbol\<rparr>],
      pp_hotWalletsAddrA = [TonSymbol \<mapsto> sample_taddress 1], pp_hotWalletsAddrB = [TonSymbol \<mapsto> sample_taddress 2],
      pp_lastTxIDA = \<lparr>ti_Lt = 1, ti_Hash = [1]\<rparr>, pp_lastTxIDB = \<lparr>ti_Lt = 1, ti_Hash = [1]\<rparr>, pp_balances = newHotBalances,
      pp_knownUUIDsA = [], pp_knownUUIDsB = []\<rparr>"

definition sample_client_lib :: tonlib where
  "sample_client_lib = sample_lib\<lparr>lib_AddrString := (\<lambda>_. ''destination'')\<rparr>"

definition sample_payment_body :: WithdrawalBody where
  "sample_payment_body = \<lparr>wb_UserID = ''u'', wb_QueryID = ''xxx'', wb_Currency = TonSymbol, wb_Amount = 550000000,
     wb_Destination = ''destination'', wb_Comment = ''xxx'', wb_BinaryComment = []\<rparr>"

lemma sample_payment_served:
  assumes "url_Path url = ''/v1/withdrawal/send''"
  shows "\<exists>c'. runs (serve sample_api (post_request url ''token'' sample_payment_body)) sample_conn0 c' (200, WithdrawalResponse 1)"
proof -
  have "snd (snd (handle_sendWithdrawal sample_api (post_request url ''token'' sample_payment_body) sample_conn0))
      = Inr (200, WithdrawalResponse 1)"
    by (simp add: handle_sendWithdrawal_def orError_def post_request_def sample_payment_body_def sample_api_def liftE_def liftA_def
      lift_res_def convertWithdrawal_def isValidCurrency_def sample_config_def validateAddress_def sample_lib_def sample_taddress_def
      AddressFromTonutilsAddress_def AddressFromBytes_def DefaultWorkchain_def isValidCommentLen_def MaxCommentLength_def
      bindA_def read_db_def read_book_def IsWithdrawalRequestUnique_def sample_conn0_def empty_tables_def
      GetWalletType_def addressBook_get_def write_db_res_def SaveWithdrawalRequest_def retA_def ok_def Let_def)
  then obtain c' logs where h: "handle_sendWithdrawal sample_api (post_request url ''token'' sample_payment_body) sample_conn0
      = (c', logs, Inr (200, WithdrawalResponse 1))" by (metis prod.collapse)
  have token: "checkToken (''Bearer '' @ ''token'') (cfg_APIToken (h_cfg sample_api))"
    by (simp add: checkToken_exact sample_api_def sample_config_def)
  have "serve sample_api (post_request url ''token'' sample_payment_body) =
      recoverMiddleware (authMiddleware (post_only handle_sendWithdrawal)) sample_api (post_request url ''token'' sample_payment_body)"
    using assms by (simp add: serve_def RegisterHandlers_def post_request_def)
  moreover have "authMiddleware (post_only handle_sendWithdrawal) sample_api (post_request url ''token'' sample_payment_body)
      = handle_sendWithdrawal sample_api (post_request url ''token'' sample_payment_body)"
    using token by (simp add: authMiddleware_def post_only_def post_request_def)
  ultimately show ?thesis using h by (simp add: runs_def recoverMiddleware_def)
qed

lemma sample_payment_sent:
  "\<exists>c' ww. runs (withdrawToDeposits sample_client_lib sample_outside sample_payer SideA) sample_conn0 c' ([1], ww)"
proof -
  let ?url = "''http://'' @ ''a:8081'' @ ''/v1/withdrawal/send''"
  have amount: "(of_int (sint tonWithdrawAmount) :: rat) = 550000000" by (simp add: tonWithdrawAmount_def)
  have "replicate 3 (CHR ''x'') = ''xxx''" by (simp add: numeral_3_eq_3)
  then have id: "lib_UuidString sample_client_lib 3 = ''xxx''" by (simp add: sample_client_lib_def sample_lib_def)
  obtain c' where "runs (serve sample_api (post_request ?url ''token'' sample_payment_body)) sample_conn0 c' (200, WithdrawalResponse 1)"
    using sample_payment_served[OF send_url(2)[of "''a:8081''"]] by auto
  note do = sample_client_Do[OF this, of ?url]
  have um: "Unmarshal_body 0 id_of (WithdrawalResponse 1) = Inr 1" by (simp add: Unmarshal_body_def no_json_def id_of_def)
  have v4: "o_NewV4 sample_outside c = (c, Inr 3)" for c by (simp add: sample_outside_def)
  have "runs (SendWithdrawal sample_client_lib sample_outside (pp_client sample_payer) ''a:8081'' TonSymbol ''destination'' tonWithdrawAmount)
      sample_conn0 c' (1, 3)"
    unfolding SendWithdrawal_def Let_def runs_bindA runs_callA runs_liftW v4 id amount
    by (intro exI[of _ sample_conn0] exI[of _ "3 :: uuid"] conjI exI[of _ c'] exI[of _ "WithdrawalResponse 1"] exI[of _ "1 :: int"])
      (use do um id amount in \<open>simp_all add: sample_payer_def NewClient_def sample_payment_body_def\<close>)
  then show ?thesis
    by (auto simp: withdrawToDeposits_def sample_payer_def NewClient_def runs_bindA runs_withdraw_deposit deposit_amount_def
        addr_String_def sample_client_lib_def)
qed


end
