(* ===== verification/Payer_Loops.thy ===== *)
theory Payer_Loops
  imports Payer_Service
begin

text \<open>
  The loops and the arithmetic of the payment test: waiting ends when the service eventually
  processes what it was asked for, a round is started exactly when the hot wallet can pay for it, and
  the monitor's total leaves out every deposit it could not read.
\<close>

section \<open>Waiting ends\<close>

text \<open>\<open>answering\<close>: every status request is answered and takes time, and from the time \<open>N\<close> on the answer is
  that the withdrawal was processed.\<close>

definition answering :: "'w outside \<Rightarrow> test_Client \<Rightarrow> string \<Rightarrow> int list \<Rightarrow> ('w \<Rightarrow> nat) \<Rightarrow> nat \<Rightarrow> bool" where
  "answering ou s host ids clock N \<longleftrightarrow>
     (\<forall>i\<in>set ids. \<forall>w. \<exists>w' st. runs (GetWithdrawalStatus ou s host i) w w' st \<and> clock w < clock w'
        \<and> (N \<le> clock w \<longrightarrow> st = WithdrawalStatus_string ProcessedStatus))"

lemma wait_pass_progress:
  assumes "answering ou s host ids clock N" "set is \<subseteq> set ids" "distinct completed"
  shows "\<exists>w' completed'. runs (wait_pass ou s host is completed) w w' completed' \<and> distinct completed'
    \<and> set completed \<subseteq> set completed' \<and> set completed' \<subseteq> set completed \<union> set is \<and> clock w \<le> clock w'
    \<and> (set is \<subseteq> set completed' \<or> clock w < clock w' \<and> clock w < N)"
  using assms(2,3)
proof (induction "is" arbitrary: completed w)
  case Nil
  then show ?case by auto
next
  case (Cons i "is")
  show ?case
  proof (cases "i \<in> set completed")
    case True
    obtain w' completed' where "runs (wait_pass ou s host is completed) w w' completed'" "distinct completed'"
      "set completed \<subseteq> set completed'" "set completed' \<subseteq> set completed \<union> set is" "clock w \<le> clock w'"
      "set is \<subseteq> set completed' \<or> clock w < clock w' \<and> clock w < N"
      using Cons.IH[of completed w] Cons.prems by auto
    with True show ?thesis by (intro exI[of _ w'] exI[of _ completed']) auto
  next
    case False
    obtain w1 st where st: "runs (GetWithdrawalStatus ou s host i) w w1 st" "clock w < clock w1"
      "N \<le> clock w \<longrightarrow> st = WithdrawalStatus_string ProcessedStatus"
      using assms(1) Cons.prems(1) unfolding answering_def by (metis list.set_intros(1) subsetD)
    show ?thesis
    proof (cases "st = WithdrawalStatus_string ProcessedStatus")
      case True
      obtain w' completed' where IH: "runs (wait_pass ou s host is (completed @ [i])) w1 w' completed'" "distinct completed'"
        "set (completed @ [i]) \<subseteq> set completed'" "set completed' \<subseteq> set (completed @ [i]) \<union> set is" "clock w1 \<le> clock w'"
        "set is \<subseteq> set completed' \<or> clock w1 < clock w' \<and> clock w1 < N"
        using Cons.IH[of "completed @ [i]" w1] Cons.prems False by auto
      moreover have "runs (wait_pass ou s host (i # is) completed) w w' completed'"
        using IH(1) st(1) True False by (auto simp: runs_bindA)
      ultimately show ?thesis using st(2) by (intro exI[of _ w'] exI[of _ completed']) auto
    next
      case stop: False
      have "runs (wait_pass ou s host (i # is) completed) w w1 completed"
        using st(1) stop False by (auto simp: runs_bindA)
      then show ?thesis using st(2,3) stop Cons.prems(2) by (intro exI[of _ w1] exI[of _ completed]) auto
    qed
  qed
qed

lemma wait_loop_returns:
  assumes "answering ou s host ids clock N" "distinct ids"
  shows "distinct completed \<Longrightarrow> set completed \<subseteq> set ids \<Longrightarrow> \<exists>w'. wait_loop ou s host ids completed w = Some (w', Inr ())"
proof (induction "N - clock w" arbitrary: completed w rule: less_induct)
  case less
  obtain w1 completed1 where p: "runs (wait_pass ou s host ids completed) w w1 completed1" "distinct completed1"
    "set completed1 \<subseteq> set ids" "set ids \<subseteq> set completed1 \<or> clock w < clock w1 \<and> clock w < N"
    using wait_pass_progress[OF assms(1) subset_refl less.prems(1), of w] less.prems(2) by (metis Un_absorb1)
  then obtain g where run: "wait_pass ou s host ids completed w = (w1, g, Inr completed1)"
    unfolding runs_def by (metis prod.collapse)
  show ?case
  proof (cases "set ids \<subseteq> set completed1")
    case True
    then have "length completed1 = length ids" using p(2,3) assms(2) by (metis distinct_card subset_antisym)
    then show ?thesis using run by (subst wait_loop.simps) simp
  next
    case False
    then have "length completed1 \<noteq> length ids"
      using p(2,3) assms(2) by (metis List.finite_set card_seteq distinct_card order_refl)
    moreover have "N - clock w1 < N - clock w" using p(4) False by auto
    from less.hyps[OF this p(2,3)] obtain w' where "wait_loop ou s host ids completed1 w1 = Some (w', Inr ())" by blast
    ultimately show ?thesis using run by (subst wait_loop.simps) simp
  qed
qed

text \<open>
  Waiting for the withdrawals ends.  If the numbers are different, every status request is
  answered and the service eventually reports each of them as processed, \<open>waitWithdrawals\<close> returns
  without an error.
\<close>

theorem waitWithdrawals_returns:
  assumes "side = SideA \<or> side = SideB" "distinct ids" "answering ou (pp_client p) (side_host side p) ids clock N"
  shows "\<exists>w'. waitWithdrawals ou p side ids w = Some (w', Inr ())"
  using wait_loop_returns[OF assms(3,2), of "[]" w] assms(1) by (auto simp: waitWithdrawals_def side_host_def)

text \<open>A service that reports the withdrawals as processed from the third request on.\<close>

definition sample_slow :: "nat outside" where
  "sample_slow =
     \<lparr>o_validURL = (\<lambda>_. Inr ()),
      o_Do = (\<lambda>host req n. (Suc n, Inr \<lparr>rp_StatusCode = 200,
                rp_Body = Inr (StatusBody [] [] (if n < 2 then PendingStatus else ProcessedStatus) []), rp_closes = True\<rparr>)),
      o_NewV4 = (\<lambda>c. (c, Inr 0)), o_GetAccountCurrentState = (\<lambda>a c. (c, Inr (0, AccountStatusActive))),
      o_GetLastJettonBalance = (\<lambda>a c. (c, Inr 0)), o_GetJettonWalletAddress = (\<lambda>a m c. (c, Inr (sample_taddress 9))),
      o_GetMasterchainInfo = (\<lambda>c. (c, Inr (sample_block_id 0))), o_GetAccount = (\<lambda>b a c. (c, Inr \<lparr>ti_Lt = 0, ti_Hash = []\<rparr>)),
      o_ListTransactions = (\<lambda>a n lt h c. (c, Inr [])), o_BitsSize = (\<lambda>c. 64), o_WithTimeout = id, o_cancel = id\<rparr>"

lemma sample_slow_answering: "answering sample_slow s host ids id 2"
  by (auto simp: answering_def GetWithdrawalStatus_def Let_def runs_bindA client_Do_def sample_slow_def reply_body_def Unmarshal_body_def
      no_json_def status_of_def)

theorem waitWithdrawals_returns_witness: "\<exists>n. waitWithdrawals sample_slow sample_payer SideA [1, 2] 0 = Some (n, Inr ())"
  by (rule waitWithdrawals_returns[OF _ _ sample_slow_answering]) simp_all

section \<open>Covered payments\<close>

lemma sint_diff:
  fixes a b :: int64
  assumes "- (2 ^ 63) \<le> sint a - sint b" "sint a - sint b < 2 ^ 63"
  shows "sint (a - b) = sint a - sint b"
  using assms by (simp add: sint_word_diff signed_take_bit_int_eq_self)

definition balance_on :: "PaymentSide \<Rightarrow> hotBalances \<Rightarrow> string \<Rightarrow> int" where
  "balance_on side h cur = (case (if side = SideA then hb_A h else hb_B h) cur of Some b \<Rightarrow> sint b | None \<Rightarrow> 0)"

lemma ReadBalance_on:
  "side = SideA \<or> side = SideB \<Longrightarrow> \<exists>b. ReadBalance side cur h = Inr b \<and> sint b = balance_on side h cur"
  by (auto simp: ReadBalance_def balance_on_def split: option.splits)

lemma payment_constants:
  "sint (tonWithdrawAmount * of_nat depositsQty) = 5500000000" "sint (jettonWithdrawAmount * of_nat depositsQty) = 5500000000"
  "sint (of_nat depositsQty * Int64 JettonTransferTonAmount) = 1000000000" "sint tonMinCutoff = 10000000000"
  by (simp_all add: tonWithdrawAmount_def jettonWithdrawAmount_def depositsQty_def Int64_def JettonTransferTonAmount_def tonMinCutoff_def)

lemma check_jettons_exact:
  assumes "side = SideA \<or> side = SideB" "\<forall>cur\<in>set js. 0 \<le> balance_on side h cur"
  shows "0 \<le> sint t \<Longrightarrow> check_jettons side h js t =
    Inr ((\<forall>cur\<in>set js. 5500000000 \<le> balance_on side h cur) \<and> (js \<noteq> [] \<longrightarrow> 10000000000 + 1000000000 * int (length js) \<le> sint t))"
  using assms(2)
proof (induction js arbitrary: t)
  case (Cons cur js)
  obtain b where b: "ReadBalance side cur h = Inr b" "sint b = balance_on side h cur" using ReadBalance_on[OF assms(1)] by blast
  let ?t = "t - of_nat depositsQty * Int64 JettonTransferTonAmount" and ?b = "b - jettonWithdrawAmount * of_nat depositsQty"
  have "sint x < 2 ^ 63" for x :: int64 using sint_lt[of x] by simp
  from this[of t] this[of b] have s: "sint ?t = sint t - 1000000000" "sint ?b = balance_on side h cur - 5500000000"
    using Cons.prems b(2) sint_diff[of t] sint_diff[of b] by (simp_all add: payment_constants)
  show ?case
  proof (cases "sint ?b < 0 \<or> sint ?t < 10000000000")
    case True
    then show ?thesis using b(1) s Cons.prems by (auto simp: Let_def payment_constants)
  next
    case False
    then show ?thesis using b(1) s Cons.IH[of ?t] Cons.prems by (auto simp: Let_def payment_constants)
  qed
qed simp

text \<open>
  A round of payments is covered.  On balances that are not negative, the 64-bit computation of
  \<open>checkBalances\<close> starts a round exactly when the hot wallet holds ten withdrawals of every jetton and,
  in TON, ten withdrawals, the reserve and the transfer costs of all jetton withdrawals.
\<close>

theorem checkBalances_exact:
  assumes "side = SideA \<or> side = SideB" "\<forall>cur\<in>insert TonSymbol (set js). 0 \<le> balance_on side h cur"
  shows "checkBalances side h js =
    Inr ((\<forall>cur\<in>set js. 5500000000 \<le> balance_on side h cur)
         \<and> 5500000000 + 10000000000 + 1000000000 * int (length js) \<le> balance_on side h TonSymbol)"
proof -
  obtain b where b: "ReadBalance side TonSymbol h = Inr b" "sint b = balance_on side h TonSymbol" using ReadBalance_on[OF assms(1)] by blast
  let ?t = "b - tonWithdrawAmount * of_nat depositsQty"
  have "sint b < 2 ^ 63" using sint_lt[of b] by simp
  then have t: "sint ?t = balance_on side h TonSymbol - 5500000000"
    using assms(2) b(2) sint_diff[of b] by (simp add: payment_constants)
  show ?thesis
  proof (cases "sint ?t < 10000000000")
    case True
    then show ?thesis using b(1) t by (auto simp: checkBalances_def Let_def payment_constants)
  next
    case False
    then show ?thesis using b(1) t check_jettons_exact[OF assms(1), of js h ?t] assms(2)
      by (auto simp: checkBalances_def Let_def payment_constants)
  qed
qed

theorem checkBalances_exact_witness:
  "checkBalances SideB \<lparr>hb_A = Map.empty, hb_B = [TonSymbol \<mapsto> 16500000000, ''SCALE'' \<mapsto> 5500000000]\<rparr> [''SCALE''] = Inr True"
  using checkBalances_exact[of SideB "[''SCALE'']" "\<lparr>hb_A = Map.empty, hb_B = [TonSymbol \<mapsto> 16500000000, ''SCALE'' \<mapsto> 5500000000]\<rparr>"]
  by (simp add: balance_on_def TonSymbol_def)

section \<open>The monitored total\<close>

text \<open>The balance of a deposit while the chain stands still.\<close>

definition deposit_reading :: "'w outside \<Rightarrow> 'w \<Rightarrow> Deposit \<Rightarrow> error + int64" where
  "deposit_reading ou w d = snd (snd (getDepositBalance ou d w))"

definition standing_still :: "'w outside \<Rightarrow> bool" where
  "standing_still ou \<longleftrightarrow>
     (\<forall>d w w'. deposit_reading ou w d = deposit_reading ou w' d)
     \<and> (\<forall>d w e. deposit_reading ou w d = Inl e \<longrightarrow> \<not> crashes e)"

definition readable_sum :: "'w outside \<Rightarrow> 'w \<Rightarrow> Deposit list \<Rightarrow> string \<Rightarrow> int64" where
  "readable_sum ou w ds cur =
     (\<Sum>d\<leftarrow>filter (\<lambda>d. dp_Currency d = cur) ds. case deposit_reading ou w d of Inl e \<Rightarrow> 0 | Inr b \<Rightarrow> b)"

lemma total_of_update: "total_of (AList.update c v tot) cur = (if cur = c then v else total_of tot cur)"
  by (simp add: total_of_def update_conv')

lemma monitor_deposit_total:
  assumes "standing_still ou" "dp_Address d \<noteq> None"
  shows "\<exists>s' tot'. runs (monitor_deposit lib ou side d tot) s s' tot'
    \<and> (\<forall>cur. total_of tot' cur = total_of tot cur + readable_sum ou w [d] cur)"
proof -
  obtain w1 g r where g: "getDepositBalance ou d (fst s) = (w1, g, r)" by (metis prod_cases3)
  then have r: "deposit_reading ou w d = r" using assms(1) by (simp add: standing_still_def deposit_reading_def) (metis snd_conv)
  obtain a where a: "addr_String lib (dp_Address d) = Inr a" using assms(2) by (auto simp: addr_String_def)
  show ?thesis
  proof (cases r)
    case (Inl e)
    then have "\<not> crashes e" using assms(1) r by (auto simp: standing_still_def)
    with Inl g r show ?thesis
      by (auto simp: monitor_deposit_def bindA_def runs_def tryA_def onWorld_def worldA_def retA_def ok_def readable_sum_def)
  next
    case (Inr b)
    with g r a show ?thesis
      by (auto simp: monitor_deposit_def bindA_def runs_def tryA_def onWorld_def worldA_def retA_def ok_def readable_sum_def
          liftW_def gaugeA_def total_of_update)
  qed
qed

text \<open>The total is the sum over the deposits that could be read: a deposit that could not be read is
  counted as empty, and its balance shows up as a loss.\<close>

lemma monitored_deposits:
  assumes "standing_still ou" "\<forall>d\<in>set ds. dp_Address d \<noteq> None"
  shows "\<exists>s' tot'. runs (forA (monitor_deposit lib ou side) ds tot) s s' tot'
    \<and> (\<forall>cur. total_of tot' cur = total_of tot cur + readable_sum ou w ds cur)"
  using assms(2)
proof (induction ds arbitrary: tot s)
  case Nil
  then show ?case by (simp add: readable_sum_def)
next
  case (Cons d ds)
  obtain s1 tot1 where d: "runs (monitor_deposit lib ou side d tot) s s1 tot1"
    "\<forall>cur. total_of tot1 cur = total_of tot cur + readable_sum ou w [d] cur"
    using monitor_deposit_total[OF assms(1), of d lib side tot s w] Cons.prems by auto
  obtain s2 tot2 where ds: "runs (forA (monitor_deposit lib ou side) ds tot1) s1 s2 tot2"
    "\<forall>cur. total_of tot2 cur = total_of tot1 cur + readable_sum ou w ds cur"
    using Cons.IH[of tot1 s1] Cons.prems by auto
  have "runs (forA (monitor_deposit lib ou side) (d # ds) tot) s s2 tot2"
    unfolding runs_forA_Cons using d(1) ds(1) by blast
  moreover have "total_of tot2 cur = total_of tot cur + readable_sum ou w (d # ds) cur" for cur
    using d(2) ds(2) by (simp add: readable_sum_def)
  ultimately show ?case by blast
qed

end
